(* ===== verification/IM_Prelude.thy ===== *)
theory IM_Prelude
  imports Main "HOL-Library.Char_ord" "HOL-Library.List_Lexorder"
begin

text \<open>
  Shared ground of the development: the results a Go function can have (a value, an error, a
  panic, or no return at all), Go's error values with the gRPC status they carry, 32- and 64-bit
  wrap-around, and the lemma collections the component theories extend.
\<close>

section \<open>Lemma collections\<close>

named_theorems go_simps \<open>definitions of the Go runtime and library model\<close>
named_theorems port_simps \<open>facts on port ranges\<close>
named_theorems rpc_simps \<open>definitions of the gRPC handlers\<close>

section \<open>gRPC status codes and Go errors\<close>

text \<open>
  \<open>grpc_code\<close> is \<^verbatim>\<open>google.golang.org/grpc/codes\<close>; a Go error is a status error
  (\<^verbatim>\<open>grpcstatus.Error(code, msg)\<close>), a plain error (\<^verbatim>\<open>fmt.Errorf\<close>) or an error wrapped
  with a message (\<^verbatim>\<open>errors.Wrap(err, msg)\<close>).
\<close>

datatype grpc_code =
    OK | Canceled | Unknown | InvalidArgument | DeadlineExceeded | NotFound | AlreadyExists
  | PermissionDenied | ResourceExhausted | FailedPrecondition | Aborted | OutOfRange
  | Unimplemented | Internal | Unavailable | DataLoss | Unauthenticated

fun code_string :: "grpc_code \<Rightarrow> string" where
  "code_string OK = ''OK''"
| "code_string Canceled = ''Canceled''"
| "code_string Unknown = ''Unknown''"
| "code_string InvalidArgument = ''InvalidArgument''"
| "code_string DeadlineExceeded = ''DeadlineExceeded''"
| "code_string NotFound = ''NotFound''"
| "code_string AlreadyExists = ''AlreadyExists''"
| "code_string PermissionDenied = ''PermissionDenied''"
| "code_string ResourceExhausted = ''ResourceExhausted''"
| "code_string FailedPrecondition = ''FailedPrecondition''"
| "code_string Aborted = ''Aborted''"
| "code_string OutOfRange = ''OutOfRange''"
| "code_string Unimplemented = ''Unimplemented''"
| "code_string Internal = ''Internal''"
| "code_string Unavailable = ''Unavailable''"
| "code_string DataLoss = ''DataLoss''"
| "code_string Unauthenticated = ''Unauthenticated''"

datatype go_error =
    StatusError grpc_code string
  | PlainError string
  | WrapError string go_error

text \<open>The method \<^verbatim>\<open>err.Error()\<close>.\<close>

fun error_string :: "go_error \<Rightarrow> string" where
  "error_string (StatusError c m) = ''rpc error: code = '' @ code_string c @ '' desc = '' @ m"
| "error_string (PlainError m) = m"
| "error_string (WrapError m e) = m @ '': '' @ error_string e"

text \<open>
  \<^verbatim>\<open>grpcstatus.FromError\<close> finds the status of the first status error of the chain, with the
  message of the whole error; \<^verbatim>\<open>ok\<close> is false, and the code is Unknown, when there is none.
  \<^verbatim>\<open>grpcstatus.Code\<close> is its code and \<^verbatim>\<open>errors.UnwrapAll\<close> the innermost error.
\<close>

fun chain_code :: "go_error \<Rightarrow> grpc_code option" where
  "chain_code (StatusError c m) = Some c"
| "chain_code (PlainError m) = None"
| "chain_code (WrapError m e) = chain_code e"

definition FromError :: "go_error \<Rightarrow> (grpc_code \<times> string) \<times> bool" where
  "FromError e = (case chain_code e of
      Some c \<Rightarrow> ((c, case e of StatusError _ m \<Rightarrow> m | _ \<Rightarrow> error_string e), True)
    | None \<Rightarrow> ((Unknown, error_string e), False))"

definition status_code :: "go_error \<Rightarrow> grpc_code" where
  "status_code e = fst (fst (FromError e))"

fun UnwrapAll :: "go_error \<Rightarrow> go_error" where
  "UnwrapAll (WrapError m e) = UnwrapAll e"
| "UnwrapAll e = e"

lemma chain_code_UnwrapAll [simp]: "chain_code (UnwrapAll e) = chain_code e"
  by (induction e rule: UnwrapAll.induct) simp_all

lemma status_code_simps [simp]:
  "status_code (StatusError c m) = c"
  "status_code (PlainError m) = Unknown"
  "status_code (WrapError m e) = status_code e"
  by (simp_all add: status_code_def FromError_def split: option.splits)

lemma FromError_UnwrapAll:
  "snd (FromError (UnwrapAll e)) = snd (FromError e)"
  "fst (fst (FromError (UnwrapAll e))) = fst (fst (FromError e))"
  by (simp_all add: FromError_def split: option.splits)

text \<open>
  \<^verbatim>\<open>errors.Wrap(err, msg)\<close> returns nil when \<^verbatim>\<open>err\<close> is nil: an error variable of Go is a
  \<open>go_error option\<close>.
\<close>

definition errors_Wrap :: "go_error option \<Rightarrow> string \<Rightarrow> go_error option" where
  "errors_Wrap err m = map_option (WrapError m) err"

section \<open>Results of Go functions\<close>

text \<open>
  \<open>Panic\<close> is a run-time panic (a nil dereference, a slice bound out of range); \<open>Diverge\<close> is a
  call that never returns.
\<close>

datatype 'a go_result = Ok 'a | Err go_error | Panic | Diverge

primrec go_bind :: "'a go_result \<Rightarrow> ('a \<Rightarrow> 'b go_result) \<Rightarrow> 'b go_result" where
  "go_bind (Ok x) f = f x"
| "go_bind (Err e) f = Err e"
| "go_bind Panic f = Panic"
| "go_bind Diverge f = Diverge"

primrec map_err :: "(go_error \<Rightarrow> go_error) \<Rightarrow> 'a go_result \<Rightarrow> 'a go_result" where
  "map_err f (Ok x) = Ok x"
| "map_err f (Err e) = Err (f e)"
| "map_err f Panic = Panic"
| "map_err f Diverge = Diverge"

lemma go_bind_assoc: "go_bind (go_bind m f) g = go_bind m (\<lambda>x. go_bind (f x) g)"
  by (cases m) simp_all

lemma go_bind_Ok_iff: "go_bind m f = Ok y \<longleftrightarrow> (\<exists>x. m = Ok x \<and> f x = Ok y)"
  by (cases m) auto

lemma go_bind_Err_iff:
  "go_bind m f = Err e \<longleftrightarrow> m = Err e \<or> (\<exists>x. m = Ok x \<and> f x = Err e)"
  by (cases m) auto

lemma go_bind_Panic_iff:
  "go_bind m f = Panic \<longleftrightarrow> m = Panic \<or> (\<exists>x. m = Ok x \<and> f x = Panic)"
  by (cases m) auto

lemma map_err_map_err: "map_err f (map_err g m) = map_err (\<lambda>e. f (g e)) m"
  by (cases m) simp_all

lemma map_err_Ok_iff [simp]: "map_err f m = Ok x \<longleftrightarrow> m = Ok x"
  by (cases m) auto

lemma map_err_Panic_iff [simp]: "map_err f m = Panic \<longleftrightarrow> m = Panic"
  by (cases m) auto

lemma map_err_Err_iff: "map_err f m = Err e \<longleftrightarrow> (\<exists>e'. m = Err e' \<and> e = f e')"
  by (cases m) auto

text \<open>An error return (nil or an error) as a result.\<close>

definition ret_err :: "go_error option \<Rightarrow> unit go_result" where
  "ret_err e = (case e of None \<Rightarrow> Ok () | Some x \<Rightarrow> Err x)"

lemma ret_err_simps [simp]: "ret_err None = Ok ()" "ret_err (Some x) = Err x"
  by (simp_all add: ret_err_def)

text \<open>A pair \<^verbatim>\<open>(value, err)\<close> a library call returns, as a result: it neither panics nor hangs.\<close>

primrec of_sum :: "go_error + 'a \<Rightarrow> 'a go_result" where
  "of_sum (Inl e) = Err e"
| "of_sum (Inr x) = Ok x"

lemma of_sum_returns [simp]: "of_sum s \<noteq> Panic" "of_sum s \<noteq> Diverge"
  by (cases s; simp)+

section \<open>Signed machine integers\<close>

text \<open>
  Go's \<open>int32\<close> and \<open>int\<close>/\<open>int64\<close> values are kept as \<open>int\<close>; a conversion or an
  operation that can leave the width is followed by the wrap-around written here.
\<close>

definition wrap32 :: "int \<Rightarrow> int" where
  "wrap32 x = (x + 2147483648) mod 4294967296 - 2147483648"

definition wrap64 :: "int \<Rightarrow> int" where
  "wrap64 x = (x + 9223372036854775808) mod 18446744073709551616 - 9223372036854775808"

definition is_int32 :: "int \<Rightarrow> bool" where
  "is_int32 x \<longleftrightarrow> -2147483648 \<le> x \<and> x \<le> 2147483647"

definition is_int64 :: "int \<Rightarrow> bool" where
  "is_int64 x \<longleftrightarrow> -9223372036854775808 \<le> x \<and> x \<le> 9223372036854775807"

lemma wrap32_id [simp]: "is_int32 x \<Longrightarrow> wrap32 x = x"
  by (simp add: wrap32_def is_int32_def)

lemma wrap64_id [simp]: "is_int64 x \<Longrightarrow> wrap64 x = x"
  by (simp add: wrap64_def is_int64_def)

lemma is_int32_wrap32 [simp]: "is_int32 (wrap32 x)"
  unfolding wrap32_def is_int32_def
  using pos_mod_bound[of 4294967296 "x + 2147483648"] pos_mod_sign[of 4294967296 "x + 2147483648"]
  by linarith

lemma is_int64_wrap64 [simp]: "is_int64 (wrap64 x)"
  unfolding wrap64_def is_int64_def
  using pos_mod_bound[of 18446744073709551616 "x + 9223372036854775808"]
    pos_mod_sign[of 18446744073709551616 "x + 9223372036854775808"]
  by linarith

lemma wrap32_eq_id: "-2147483648 \<le> x \<Longrightarrow> x \<le> 2147483647 \<Longrightarrow> wrap32 x = x"
  by (simp add: is_int32_def)

section \<open>Association lists as Go maps\<close>

text \<open>
  A Go map that is only ranged over is its list of entries (distinct keys) in the order the
  range visits them, which is one of the possible orders; the theorems hold for every list.
\<close>

definition go_keys :: "('k \<times> 'v) list \<Rightarrow> 'k list" where
  "go_keys m = map fst m"

lemma map_of_map_Pair:
  "map_of (map (\<lambda>(k, v). (k, f v)) m) = (\<lambda>k. map_option f (map_of m k))"
  by (induction m) auto

section \<open>The first of several options\<close>

definition first_some :: "'a option list \<Rightarrow> 'a option" where
  "first_some xs = (case dropWhile (\<lambda>x. x = None) xs of [] \<Rightarrow> None | x # _ \<Rightarrow> x)"

lemma first_some_simps [simp]:
  "first_some [] = None" "first_some (None # xs) = first_some xs" "first_some (Some x # xs) = Some x"
  by (simp_all add: first_some_def)

lemma first_some_Some_mem: "first_some xs = Some x \<Longrightarrow> Some x \<in> set xs"
  by (induction xs) (auto simp: first_some_def split: if_splits)

lemma first_some_None_iff: "first_some xs = None \<longleftrightarrow> (\<forall>x \<in> set xs. x = None)"
  by (induction xs) (auto simp: first_some_def split: if_splits)

end
