(* ===== verification/Go_Strings.thy ===== *)
theory Go_Strings
  imports IM_Prelude
begin

text \<open>
  The functions of Go's \<^verbatim>\<open>strings\<close>, \<^verbatim>\<open>strconv\<close>, \<^verbatim>\<open>sort\<close> and \<^verbatim>\<open>net\<close> packages that the
  instance manager uses, on byte strings. \<^verbatim>\<open>TrimSpace\<close>, \<^verbatim>\<open>ToLower\<close> and \<^verbatim>\<open>ToUpper\<close> are their
  ASCII parts, and \<^verbatim>\<open>%q\<close> puts quotes around its argument without escaping.
\<close>

section \<open>Splitting, joining, cutting\<close>

fun strings_Split :: "char \<Rightarrow> string \<Rightarrow> string list" where
  "strings_Split c [] = [[]]"
| "strings_Split c (x # xs) =
     (if x = c then [] # strings_Split c xs
      else (case strings_Split c xs of [] \<Rightarrow> [[x]] | p # ps \<Rightarrow> (x # p) # ps))"

fun strings_Join :: "string list \<Rightarrow> string \<Rightarrow> string" where
  "strings_Join [] sep = []"
| "strings_Join [x] sep = x"
| "strings_Join (x # y # ys) sep = x @ sep @ strings_Join (y # ys) sep"

lemma strings_Split_nonempty [simp]: "strings_Split c s \<noteq> []"
  by (induction s) (auto split: list.splits)

lemma strings_Split_length_pos [simp]: "0 < length (strings_Split c s)"
  by simp

lemma strings_Split_no_sep: "p \<in> set (strings_Split c s) \<Longrightarrow> c \<notin> set p"
  by (induction s arbitrary: p) (auto split: list.splits if_splits)

lemma strings_Join_Cons: "xs \<noteq> [] \<Longrightarrow> strings_Join (x # xs) sep = x @ sep @ strings_Join xs sep"
  by (cases xs) auto

lemma strings_Join_hd:
  "strings_Join ((x # p) # ps) sep = x # strings_Join (p # ps) sep"
  by (cases ps) auto

lemma Join_Split [simp]: "strings_Join (strings_Split c s) [c] = s"
proof (induction s)
  case Nil
  then show ?case by simp
next
  case (Cons x xs)
  then show ?case
    by (cases "strings_Split c xs") (auto simp: strings_Join_Cons strings_Join_hd)
qed

lemma strings_Split_none [simp]: "c \<notin> set s \<Longrightarrow> strings_Split c s = [s]"
  by (induction s) auto

lemma strings_Split_append:
  "c \<notin> set a \<Longrightarrow> strings_Split c (a @ c # b) = a # strings_Split c b"
  by (induction a) auto

lemma strings_Split_snoc:
  "c \<notin> set b \<Longrightarrow> strings_Split c (a @ c # b) = strings_Split c a @ [b]"
proof (induction a)
  case Nil
  then show ?case by simp
next
  case (Cons x xs)
  then show ?case by (cases "strings_Split c xs") auto
qed

lemma strings_Join_snoc:
  "xs \<noteq> [] \<Longrightarrow> strings_Join (xs @ [y]) sep = strings_Join xs sep @ sep @ y"
  by (induction xs sep rule: strings_Join.induct) auto

text \<open>\<^verbatim>\<open>strings.Cut(s, sep)\<close> for a one-byte separator: before, after, found.\<close>

fun strings_Cut :: "string \<Rightarrow> char \<Rightarrow> string \<times> string \<times> bool" where
  "strings_Cut [] c = ([], [], False)"
| "strings_Cut (x # xs) c =
     (if x = c then ([], xs, True)
      else (case strings_Cut xs c of (k, v, ok) \<Rightarrow> (x # k, v, ok)))"

lemma strings_Cut_found: "c \<notin> set k \<Longrightarrow> strings_Cut (k @ c # v) c = (k, v, True)"
  by (induction k) auto

lemma strings_Cut_split: "c \<in> set s \<Longrightarrow> \<exists>k v. s = k @ c # v \<and> c \<notin> set k"
  by (rule split_list_first)

lemma strings_Cut_absent: "c \<notin> set s \<Longrightarrow> strings_Cut s c = (s, [], False)"
  by (induction s) auto

lemma strings_Cut_iff:
  "strings_Cut s c = (k, v, True) \<longleftrightarrow> c \<notin> set k \<and> s = k @ c # v"
proof
  assume cut: "strings_Cut s c = (k, v, True)"
  then have "c \<in> set s" using strings_Cut_absent[of c s] by (cases "c \<in> set s") simp_all
  from strings_Cut_split[OF this] obtain k' v' where "s = k' @ c # v'" "c \<notin> set k'" by auto
  with cut show "c \<notin> set k \<and> s = k @ c # v" by (simp add: strings_Cut_found)
next
  assume "c \<notin> set k \<and> s = k @ c # v"
  then show "strings_Cut s c = (k, v, True)" by (simp add: strings_Cut_found)
qed

lemma strings_Cut_ok: "snd (snd (strings_Cut s c)) \<longleftrightarrow> c \<in> set s"
  using strings_Cut_absent strings_Cut_found strings_Cut_split by (metis snd_conv)

text \<open>\<^verbatim>\<open>strings.SplitN(s, sep, 2)\<close>, \<^verbatim>\<open>strings.TrimPrefix\<close>, \<^verbatim>\<open>strings.HasSuffix\<close>.\<close>

definition has_prefix :: "string \<Rightarrow> string \<Rightarrow> bool" where
  "has_prefix s p \<longleftrightarrow> take (length p) s = p"

definition has_suffix :: "string \<Rightarrow> string \<Rightarrow> bool" where
  "has_suffix s p \<longleftrightarrow> has_prefix (rev s) (rev p)"

definition strings_TrimPrefix :: "string \<Rightarrow> string \<Rightarrow> string" where
  "strings_TrimPrefix s p = (if has_prefix s p then drop (length p) s else s)"

fun strings_SplitN2 :: "string \<Rightarrow> string \<Rightarrow> string list" where
  "strings_SplitN2 [] sep = [[]]"
| "strings_SplitN2 (x # xs) sep =
     (if has_prefix (x # xs) sep then [[], drop (length sep) (x # xs)]
      else (case strings_SplitN2 xs sep of [] \<Rightarrow> [] | p # ps \<Rightarrow> (x # p) # ps))"

lemma has_prefix_append [simp]: "has_prefix (p @ s) p"
  by (simp add: has_prefix_def)

lemma has_prefix_iff: "has_prefix s p \<longleftrightarrow> (\<exists>t. s = p @ t)"
  by (metis append_eq_conv_conj append_take_drop_id has_prefix_def)

lemma has_suffix_iff: "has_suffix s p \<longleftrightarrow> (\<exists>t. s = t @ p)"
proof
  assume "has_suffix s p"
  then obtain t where "rev s = rev p @ t" by (auto simp: has_suffix_def has_prefix_iff)
  then have "s = rev t @ p" by (metis rev_append rev_rev_ident)
  then show "\<exists>t. s = t @ p" ..
next
  assume "\<exists>t. s = t @ p"
  then show "has_suffix s p" by (auto simp: has_suffix_def)
qed

lemma strings_TrimPrefix_append [simp]: "strings_TrimPrefix (p @ s) p = s"
  by (simp add: strings_TrimPrefix_def)

lemma strings_SplitN2_nonempty: "strings_SplitN2 s sep \<noteq> []"
  by (induction s) (auto split: list.splits)

definition to_lower :: "char \<Rightarrow> char" where
  "to_lower c = (if 65 \<le> (of_char c :: nat) \<and> (of_char c :: nat) \<le> 90
     then char_of ((of_char c :: nat) + 32) else c)"

definition to_upper :: "char \<Rightarrow> char" where
  "to_upper c = (if 97 \<le> (of_char c :: nat) \<and> (of_char c :: nat) \<le> 122
     then char_of ((of_char c :: nat) - 32) else c)"

definition strings_ToLower :: "string \<Rightarrow> string" where
  "strings_ToLower s = map to_lower s"

definition strings_ToUpper :: "string \<Rightarrow> string" where
  "strings_ToUpper s = map to_upper s"

section \<open>White space\<close>

definition is_space :: "char \<Rightarrow> bool" where
  "is_space c \<longleftrightarrow> c \<in> set [CHR 0x09, CHR 0x0A, CHR 0x0B, CHR 0x0C, CHR 0x0D, CHR '' '']"

definition strings_TrimSpace :: "string \<Rightarrow> string" where
  "strings_TrimSpace s = rev (dropWhile is_space (rev (dropWhile is_space s)))"

lemma TrimSpace_id: "\<forall>c \<in> set s. \<not> is_space c \<Longrightarrow> strings_TrimSpace s = s"
proof -
  assume a: "\<forall>c \<in> set s. \<not> is_space c"
  then have "dropWhile is_space s = s" by (cases s) auto
  moreover have "dropWhile is_space (rev s) = rev s"
    using a by (metis dropWhile_eq_self_iff hd_in_set set_rev)
  ultimately show ?thesis by (simp add: strings_TrimSpace_def)
qed

section \<open>Decimal numbers\<close>

definition digit_char :: "nat \<Rightarrow> char" where
  "digit_char d = char_of (48 + d)"

definition digit_val :: "char \<Rightarrow> nat option" where
  "digit_val c = (let n = (of_char c :: nat) in
     if 48 \<le> n \<and> n \<le> 57 then Some (n - 48) else None)"

fun nat_digits :: "nat \<Rightarrow> string" where
  "nat_digits n = (if n < 10 then [digit_char n]
     else nat_digits (n div 10) @ [digit_char (n mod 10)])"

declare nat_digits.simps [simp del]

definition strconv_Itoa :: "int \<Rightarrow> string" where
  "strconv_Itoa i = (if i < 0 then CHR ''-'' # nat_digits (nat (- i)) else nat_digits (nat i))"

fun parse_digits :: "string \<Rightarrow> nat \<Rightarrow> nat option" where
  "parse_digits [] acc = Some acc"
| "parse_digits (c # cs) acc =
     (case digit_val c of None \<Rightarrow> None | Some d \<Rightarrow> parse_digits cs (10 * acc + d))"

definition quoted :: "string \<Rightarrow> string" where
  "quoted s = [CHR 0x22] @ s @ [CHR 0x22]"

definition atoi_error :: "string \<Rightarrow> string \<Rightarrow> go_error" where
  "atoi_error s why = PlainError (''strconv.Atoi: parsing '' @ quoted s @ '': '' @ why)"

definition strconv_Atoi :: "string \<Rightarrow> int go_result" where
  "strconv_Atoi s =
     (let (neg, ds) = (case s of [] \<Rightarrow> (False, [])
            | c # cs \<Rightarrow> if c = CHR ''-'' then (True, cs)
                       else if c = CHR ''+'' then (False, cs) else (False, s))
      in if ds = [] then Err (atoi_error s ''invalid syntax'')
         else (case parse_digits ds 0 of
             None \<Rightarrow> Err (atoi_error s ''invalid syntax'')
           | Some n \<Rightarrow> (let v = (if neg then - int n else int n) in
               if is_int64 v then Ok v else Err (atoi_error s ''value out of range''))))"

lemma digit_val_char [simp]: "d < 10 \<Longrightarrow> digit_val (digit_char d) = Some d"
  by (simp add: digit_val_def digit_char_def of_char_of)

lemma parse_digits_append:
  "parse_digits (a @ b) acc = (case parse_digits a acc of None \<Rightarrow> None | Some n \<Rightarrow> parse_digits b n)"
  by (induction a arbitrary: acc) (auto split: option.splits)

lemma parse_nat_digits: "parse_digits (nat_digits n) 0 = Some n"
proof (induction n rule: nat_digits.induct)
  case (1 n)
  then show ?case
    by (cases "n < 10") (simp_all add: nat_digits.simps[of n] parse_digits_append)
qed

lemma nat_digits_nonempty [simp]: "nat_digits n \<noteq> []"
  by (simp add: nat_digits.simps[of n])

lemma nat_digits_digit: "c \<in> set (nat_digits n) \<Longrightarrow> \<exists>d < 10. c = digit_char d"
proof (induction n arbitrary: c rule: nat_digits.induct)
  case (1 n)
  have "\<exists>d<10. digit_char (n mod 10) = digit_char d" by (rule exI[of _ "n mod 10"]) simp
  with 1 show ?case by (cases "n < 10") (auto simp: nat_digits.simps[of n])
qed

lemma digit_char_code: "d < 10 \<Longrightarrow> (of_char (digit_char d) :: nat) = 48 + d"
  by (simp add: digit_char_def of_char_of)

lemma nat_digits_no_char:
  "(of_char c :: nat) < 48 \<or> 57 < (of_char c :: nat) \<Longrightarrow> c \<notin> set (nat_digits n)"
  by (auto dest!: nat_digits_digit simp: digit_char_code)

lemma nat_digits_not_sign:
  "CHR ''-'' \<notin> set (nat_digits n)" "CHR ''+'' \<notin> set (nat_digits n)"
  "CHR '':'' \<notin> set (nat_digits n)" "CHR ''['' \<notin> set (nat_digits n)"
  "CHR '']'' \<notin> set (nat_digits n)" "CHR '','' \<notin> set (nat_digits n)"
  by (rule nat_digits_no_char, simp)+

lemma nat_digits_not_space: "c \<in> set (nat_digits n) \<Longrightarrow> \<not> is_space c"
  using nat_digits_digit[of c n] digit_char_code by (fastforce simp: is_space_def)

lemma nat_digits_hd:
  "nat_digits n = c # cs \<Longrightarrow> c \<noteq> CHR ''-'' \<and> c \<noteq> CHR ''+''"
  using nat_digits_not_sign by (metis list.set_intros(1))

text \<open>Printing then parsing a 64-bit integer gives it back.\<close>

lemma Atoi_Itoa: "is_int64 i \<Longrightarrow> strconv_Atoi (strconv_Itoa i) = Ok i"
proof (cases "i < 0")
  case True
  assume "is_int64 i"
  with True show ?thesis
    by (simp add: strconv_Itoa_def strconv_Atoi_def parse_nat_digits)
next
  case False
  assume i: "is_int64 i"
  obtain c cs where d: "nat_digits (nat i) = c # cs"
    using nat_digits_nonempty by (meson list.exhaust)
  with nat_digits_hd[OF d] parse_nat_digits[of "nat i"] False i show ?thesis
    by (simp add: strconv_Itoa_def strconv_Atoi_def)
qed

lemma nat_digits_inj: "nat_digits m = nat_digits n \<Longrightarrow> m = n"
  using parse_nat_digits by (metis option.inject)

lemma Itoa_inj: "strconv_Itoa i = strconv_Itoa j \<Longrightarrow> i = j"
proof -
  assume e: "strconv_Itoa i = strconv_Itoa j"
  show ?thesis
  proof (cases "i < 0"; cases "j < 0")
    assume "i < 0" "j < 0"
    with e show ?thesis by (auto simp: strconv_Itoa_def dest: nat_digits_inj)
  next
    assume "i < 0" "\<not> j < 0"
    with e have "CHR ''-'' \<in> set (nat_digits (nat j))"
      by (metis list.set_intros(1) strconv_Itoa_def)
    then show ?thesis by (simp add: nat_digits_not_sign)
  next
    assume "\<not> i < 0" "j < 0"
    with e have "CHR ''-'' \<in> set (nat_digits (nat i))"
      by (metis list.set_intros(1) strconv_Itoa_def)
    then show ?thesis by (simp add: nat_digits_not_sign)
  next
    assume "\<not> i < 0" "\<not> j < 0"
    with e show ?thesis by (auto simp: strconv_Itoa_def dest: nat_digits_inj)
  qed
qed

section \<open>Host and port\<close>

fun index_byte :: "char \<Rightarrow> string \<Rightarrow> nat option" where
  "index_byte c [] = None"
| "index_byte c (x # xs) = (if x = c then Some 0 else map_option Suc (index_byte c xs))"

definition last_index_byte :: "char \<Rightarrow> string \<Rightarrow> nat option" where
  "last_index_byte c s =
     (case index_byte c (rev s) of None \<Rightarrow> None | Some j \<Rightarrow> Some (length s - 1 - j))"

lemma index_byte_None [simp]: "index_byte c s = None \<longleftrightarrow> c \<notin> set s"
  by (induction s) auto

lemma index_byte_append [simp]: "c \<notin> set a \<Longrightarrow> index_byte c (a @ c # b) = Some (length a)"
  by (induction a) auto

lemma last_index_byte_append [simp]:
  "c \<notin> set b \<Longrightarrow> last_index_byte c (a @ c # b) = Some (length a)"
  by (simp add: last_index_byte_def)

definition net_JoinHostPort :: "string \<Rightarrow> string \<Rightarrow> string" where
  "net_JoinHostPort host port =
     (if CHR '':'' \<in> set host then ''['' @ host @ '']:'' @ port else host @ '':'' @ port)"

definition addr_error :: "string \<Rightarrow> string \<Rightarrow> go_error" where
  "addr_error addr why = PlainError (''address '' @ addr @ '': '' @ why)"

definition check_brackets ::
  "string \<Rightarrow> string \<Rightarrow> nat \<Rightarrow> nat \<Rightarrow> nat \<Rightarrow> (string \<times> string) go_result" where
  "check_brackets hostport host i j k =
     (if CHR ''['' \<in> set (drop j hostport)
        then Err (addr_error hostport ''unexpected '[' in address'')
      else if CHR '']'' \<in> set (drop k hostport)
        then Err (addr_error hostport ''unexpected ']' in address'')
      else Ok (host, drop (Suc i) hostport))"

definition net_SplitHostPort :: "string \<Rightarrow> (string \<times> string) go_result" where
  "net_SplitHostPort hostport =
     (case last_index_byte CHR '':'' hostport of
        None \<Rightarrow> Err (addr_error hostport ''missing port in address'')
      | Some i \<Rightarrow>
          if take 1 hostport = ''['' then
            (case index_byte CHR '']'' hostport of
               None \<Rightarrow> Err (addr_error hostport ''missing ']' in address'')
             | Some en \<Rightarrow>
                 if Suc en = length hostport
                   then Err (addr_error hostport ''missing port in address'')
                 else if Suc en = i
                   then check_brackets hostport (take (en - 1) (drop 1 hostport)) i 1 (Suc en)
                 else if hostport ! Suc en = CHR '':''
                   then Err (addr_error hostport ''too many colons in address'')
                 else Err (addr_error hostport ''missing port in address''))
          else let host = take i hostport in
            if CHR '':'' \<in> set host
              then Err (addr_error hostport ''too many colons in address'')
            else check_brackets hostport host i 0 0)"

definition plain_addr :: "string \<Rightarrow> bool" where
  "plain_addr s \<longleftrightarrow> CHR ''['' \<notin> set s \<and> CHR '']'' \<notin> set s"

text \<open>Splitting a joined address gives the host and the port back.\<close>

lemma Split_Join_bracketed:
  assumes "plain_addr host" "plain_addr port" "CHR '':'' \<notin> set port"
  shows "net_SplitHostPort (''['' @ host @ '']:'' @ port) = Ok (host, port)"
proof -
  let ?a = "(CHR ''['' # host @ [CHR '']''])"
  have l: "last_index_byte CHR '':'' (?a @ CHR '':'' # port) = Some (length host + 2)"
    using assms by (subst last_index_byte_append) auto
  have e: "index_byte CHR '']'' ((CHR ''['' # host) @ CHR '']'' # CHR '':'' # port)
      = Some (Suc (length host))"
    using assms by (subst index_byte_append) (auto simp: plain_addr_def)
  show ?thesis using assms l e
    by (simp add: net_SplitHostPort_def check_brackets_def plain_addr_def)
qed

lemma Split_Join_plain:
  assumes "plain_addr host" "plain_addr port" "CHR '':'' \<notin> set port" "CHR '':'' \<notin> set host"
  shows "net_SplitHostPort (host @ '':'' @ port) = Ok (host, port)"
proof -
  have "take 1 (host @ CHR '':'' # port) \<noteq> ''[''"
    using assms by (cases host) (auto simp: plain_addr_def)
  then show ?thesis using assms
    by (simp add: net_SplitHostPort_def check_brackets_def plain_addr_def Let_def)
qed

lemma SplitHostPort_JoinHostPort:
  assumes "plain_addr host" "plain_addr port" "CHR '':'' \<notin> set port"
  shows "net_SplitHostPort (net_JoinHostPort host port) = Ok (host, port)"
  using assms Split_Join_bracketed Split_Join_plain by (simp add: net_JoinHostPort_def)

lemma Itoa_plain: "plain_addr (strconv_Itoa i)" "CHR '':'' \<notin> set (strconv_Itoa i)"
  by (auto simp: plain_addr_def strconv_Itoa_def nat_digits_not_sign)

section \<open>Sorting strings\<close>

text \<open>\<^verbatim>\<open>sort.Strings\<close>: the byte-wise lexicographic order.\<close>

definition sort_Strings :: "string list \<Rightarrow> string list" where
  "sort_Strings xs = sort xs"

end
