(* ===== verification/IM_Types.thy ===== *)
theory IM_Types
  imports Go_Strings
begin

text \<open>
  \<^verbatim>\<open>pkg/types/types.go\<close> and \<^verbatim>\<open>pkg/meta/version.go\<close>: the constants every service shares and the
  version records. Durations are in nanoseconds, as \<^verbatim>\<open>time.Duration\<close> counts them.
\<close>

section \<open>Constants\<close>

definition ProcessStateRunning :: string where "ProcessStateRunning = ''running''"
definition ProcessStateStarting :: string where "ProcessStateStarting = ''starting''"
definition ProcessStateStopped :: string where "ProcessStateStopped = ''stopped''"
definition ProcessStateStopping :: string where "ProcessStateStopping = ''stopping''"
definition ProcessStateError :: string where "ProcessStateError = ''error''"

definition DiskGrpcService :: string where "DiskGrpcService = ''disk gRPC server''"
definition SpdkGrpcService :: string where "SpdkGrpcService = ''spdk gRPC server''"
definition ProcessManagerGrpcService :: string where
  "ProcessManagerGrpcService = ''process-manager gRPC server''"
definition InstanceGrpcService :: string where "InstanceGrpcService = ''instance gRPC server''"
definition ProxyGRPCService :: string where "ProxyGRPCService = ''proxy gRPC server''"

definition InstanceManagerProcessManagerServiceDefaultPort :: int where
  "InstanceManagerProcessManagerServiceDefaultPort = 8500"
definition InstanceManagerProxyServiceDefaultPort :: int where
  "InstanceManagerProxyServiceDefaultPort = InstanceManagerProcessManagerServiceDefaultPort + 1"
definition InstanceManagerDiskServiceDefaultPort :: int where
  "InstanceManagerDiskServiceDefaultPort = InstanceManagerProcessManagerServiceDefaultPort + 2"
definition InstanceManagerInstanceServiceDefaultPort :: int where
  "InstanceManagerInstanceServiceDefaultPort = InstanceManagerProcessManagerServiceDefaultPort + 3"
definition InstanceManagerSpdkServiceDefaultPort :: int where
  "InstanceManagerSpdkServiceDefaultPort = InstanceManagerProcessManagerServiceDefaultPort + 4"

definition TLSCAFile :: string where "TLSCAFile = ''ca.crt''"
definition TLSCertFile :: string where "TLSCertFile = ''tls.crt''"
definition TLSKeyFile :: string where "TLSKeyFile = ''tls.key''"
definition TLSPeerName :: string where "TLSPeerName = ''longhorn-backend.longhorn-system''"

definition WaitInterval :: int where "WaitInterval = 100000000"
definition WaitCount :: nat where "WaitCount = 600"

definition InstanceTypeEngine :: string where "InstanceTypeEngine = ''engine''"
definition InstanceTypeReplica :: string where "InstanceTypeReplica = ''replica''"
definition InstanceTypeEngineFrontend :: string where
  "InstanceTypeEngineFrontend = ''engine-frontend''"
definition InstanceTypeShard :: string where "InstanceTypeShard = ''shard''"
definition InstanceTypeShardGroup :: string where "InstanceTypeShardGroup = ''shardgroup''"

definition EngineConditionFilesystemReadOnly :: string where
  "EngineConditionFilesystemReadOnly = ''FilesystemReadOnly''"

definition TcpAddressPrefix :: string where "TcpAddressPrefix = ''tcp://''"

definition AddTcpPrefixForAddress :: "string \<Rightarrow> string" where
  "AddTcpPrefixForAddress address = (if address = [] then [] else TcpAddressPrefix @ address)"

lemmas instance_type_defs [rpc_simps] =
  InstanceTypeEngine_def InstanceTypeReplica_def InstanceTypeEngineFrontend_def
  InstanceTypeShard_def InstanceTypeShardGroup_def

lemmas process_state_defs =
  ProcessStateRunning_def ProcessStateStarting_def ProcessStateStopped_def
  ProcessStateStopping_def ProcessStateError_def

lemma AddTcpPrefix_inj: "AddTcpPrefixForAddress a = AddTcpPrefixForAddress b \<longleftrightarrow> a = b"
  by (auto simp: AddTcpPrefixForAddress_def TcpAddressPrefix_def)

lemma TrimPrefix_AddTcpPrefix:
  "strings_TrimPrefix (AddTcpPrefixForAddress a) TcpAddressPrefix = a"
  by (cases "a = []")
    (simp_all add: AddTcpPrefixForAddress_def strings_TrimPrefix_def has_prefix_def TcpAddressPrefix_def)

section \<open>Enumerations of the generated gRPC code\<close>

text \<open>A protobuf enum field can hold any \<^verbatim>\<open>int32\<close>; the values with names are constructors.\<close>

datatype DataEngine = DATA_ENGINE_V1 | DATA_ENGINE_V2 | DATA_ENGINE_OTHER int

datatype BackendStoreDriver = BackendStoreDriver_v1 | BackendStoreDriver_v2

datatype DataLayoutType =
  DATA_LAYOUT_TYPE_REPLICATED | DATA_LAYOUT_TYPE_SHARDED | DATA_LAYOUT_TYPE_OTHER int

fun DataEngine_String :: "DataEngine \<Rightarrow> string" where
  "DataEngine_String DATA_ENGINE_V1 = ''DATA_ENGINE_V1''"
| "DataEngine_String DATA_ENGINE_V2 = ''DATA_ENGINE_V2''"
| "DataEngine_String (DATA_ENGINE_OTHER n) =
     (if n = 2 then ''DATA_ENGINE_LOCAL'' else strconv_Itoa n)"

section \<open>Versions\<close>

definition InstanceManagerAPIVersion :: int where "InstanceManagerAPIVersion = 7"
definition InstanceManagerAPIMinVersion :: int where "InstanceManagerAPIMinVersion = 1"
definition InstanceManagerProxyAPIVersion :: int where "InstanceManagerProxyAPIVersion = 8"
definition InstanceManagerProxyAPIMinVersion :: int where "InstanceManagerProxyAPIMinVersion = 1"
definition InstanceManagerDiskServiceAPIVersion :: int where
  "InstanceManagerDiskServiceAPIVersion = 1"
definition InstanceManagerDiskServiceAPIMinVersion :: int where
  "InstanceManagerDiskServiceAPIMinVersion = 1"

text \<open>The variables the linker fills in: \<^verbatim>\<open>Version\<close>, \<^verbatim>\<open>GitCommit\<close>, \<^verbatim>\<open>BuildDate\<close>.\<close>

record build_vars =
  bvVersion :: string
  bvGitCommit :: string
  bvBuildDate :: string

record VersionOutput =
  voVersion :: string
  voGitCommit :: string
  voBuildDate :: string
  voInstanceManagerAPIVersion :: int
  voInstanceManagerAPIMinVersion :: int
  voInstanceManagerProxyAPIVersion :: int
  voInstanceManagerProxyAPIMinVersion :: int

definition GetVersion :: "build_vars \<Rightarrow> VersionOutput" where
  "GetVersion v =
     \<lparr>voVersion = bvVersion v, voGitCommit = bvGitCommit v, voBuildDate = bvBuildDate v,
      voInstanceManagerAPIVersion = InstanceManagerAPIVersion,
      voInstanceManagerAPIMinVersion = InstanceManagerAPIMinVersion,
      voInstanceManagerProxyAPIVersion = InstanceManagerProxyAPIVersion,
      voInstanceManagerProxyAPIMinVersion = InstanceManagerProxyAPIMinVersion\<rparr>"

record DiskServiceVersionOutput =
  dvVersion :: string
  dvGitCommit :: string
  dvBuildDate :: string
  dvInstanceManagerDiskServiceAPIVersion :: int
  dvInstanceManagerDiskServiceAPIMinVersion :: int

definition GetDiskServiceVersion :: "build_vars \<Rightarrow> DiskServiceVersionOutput" where
  "GetDiskServiceVersion v =
     \<lparr>dvVersion = bvVersion v, dvGitCommit = bvGitCommit v, dvBuildDate = bvBuildDate v,
      dvInstanceManagerDiskServiceAPIVersion = InstanceManagerDiskServiceAPIVersion,
      dvInstanceManagerDiskServiceAPIMinVersion = InstanceManagerDiskServiceAPIMinVersion\<rparr>"

text \<open>
  \<^verbatim>\<open>rpc.VersionResponse\<close> has the fields of \<open>VersionOutput\<close> as \<^verbatim>\<open>int64\<close>; the handlers
  \<^verbatim>\<open>VersionGet\<close> of the process manager and of the instance server both fill it this way, and the
  client turns it back with \<^verbatim>\<open>int(...)\<close>.
\<close>

definition VersionGet :: "build_vars \<Rightarrow> VersionOutput" where
  "VersionGet bv = (let v = GetVersion bv in
     \<lparr>voVersion = voVersion v, voGitCommit = voGitCommit v, voBuildDate = voBuildDate v,
      voInstanceManagerAPIVersion = wrap64 (voInstanceManagerAPIVersion v),
      voInstanceManagerAPIMinVersion = wrap64 (voInstanceManagerAPIMinVersion v),
      voInstanceManagerProxyAPIVersion = wrap64 (voInstanceManagerProxyAPIVersion v),
      voInstanceManagerProxyAPIMinVersion = wrap64 (voInstanceManagerProxyAPIMinVersion v)\<rparr>)"

lemma VersionGet_GetVersion: "VersionGet bv = GetVersion bv"
  by (simp add: VersionGet_def GetVersion_def Let_def wrap64_def InstanceManagerAPIVersion_def
      InstanceManagerAPIMinVersion_def InstanceManagerProxyAPIVersion_def
      InstanceManagerProxyAPIMinVersion_def)

end
