(* ===== verification/Command.thy ===== *)
theory Command
  imports IM_Types
begin

text \<open>
  \<^verbatim>\<open>pkg/process/command.go\<close>: the command a process runs. A \<^verbatim>\<open>BinaryCommand\<close> embeds
  \<^verbatim>\<open>*exec.Cmd\<close>, whose \<^verbatim>\<open>Process\<close> is nil until the program is started and whose
  \<^verbatim>\<open>ProcessState\<close> is nil until it has been waited for; the signals sent to it are recorded.
\<close>

datatype Signal = SIGHUP | SIGINT | SIGKILL

record BinaryCommand =
  bcPath :: string
  bcArgs :: "string list"
  bcPdeathsig :: "Signal option"
  bcStdout :: "string option"
  bcStderr :: "string option"
  bcProcess :: bool
  bcProcessState :: bool
  bcSignals :: "Signal list"

text \<open>\<^verbatim>\<open>exec.LookPath\<close> and \<^verbatim>\<open>filepath.Abs\<close> read the file system: they are arguments.\<close>

definition NewBinaryCommand ::
  "(string \<Rightarrow> string go_result) \<Rightarrow> (string \<Rightarrow> string go_result) \<Rightarrow> string \<Rightarrow> string list
     \<Rightarrow> BinaryCommand go_result" where
  "NewBinaryCommand look_path abs_path binary args =
     go_bind (look_path binary) (\<lambda>b.
     go_bind (abs_path b) (\<lambda>b'.
       Ok \<lparr>bcPath = b', bcArgs = args, bcPdeathsig = Some SIGKILL, bcStdout = None,
           bcStderr = None, bcProcess = False, bcProcessState = False, bcSignals = []\<rparr>))"

definition bc_SetOutput :: "string \<Rightarrow> BinaryCommand \<Rightarrow> BinaryCommand" where
  "bc_SetOutput writer bc = bc\<lparr>bcStdout := Some writer, bcStderr := Some writer\<rparr>"

definition bc_IsRunning :: "BinaryCommand \<Rightarrow> bool" where
  "bc_IsRunning bc \<longleftrightarrow> bcProcess bc \<and> \<not> bcProcessState bc"

definition bc_StopWithSignal :: "Signal \<Rightarrow> BinaryCommand \<Rightarrow> BinaryCommand" where
  "bc_StopWithSignal sig bc =
     (if bcProcess bc then bc\<lparr>bcSignals := bcSignals bc @ [sig]\<rparr> else bc)"

definition bc_Stop :: "BinaryCommand \<Rightarrow> BinaryCommand" where
  "bc_Stop bc = (if bcProcess bc then bc\<lparr>bcSignals := bcSignals bc @ [SIGINT]\<rparr> else bc)"

definition bc_Kill :: "BinaryCommand \<Rightarrow> BinaryCommand" where
  "bc_Kill bc = (if bcProcess bc then bc\<lparr>bcSignals := bcSignals bc @ [SIGKILL]\<rparr> else bc)"

text \<open>
  \<^verbatim>\<open>exec.Cmd.Run\<close> starts the program and waits for it: \<open>bc_started\<close> and \<open>bc_exited\<close> are the two
  moments at which it changes the command.
\<close>

definition bc_started :: "BinaryCommand \<Rightarrow> BinaryCommand" where
  "bc_started bc = bc\<lparr>bcProcess := True\<rparr>"

definition bc_exited :: "BinaryCommand \<Rightarrow> BinaryCommand" where
  "bc_exited bc = bc\<lparr>bcProcessState := True\<rparr>"

lemma bc_Stop_SIGINT: "bc_Stop bc = bc_StopWithSignal SIGINT bc"
  by (simp add: bc_Stop_def bc_StopWithSignal_def)

lemma bc_Kill_SIGKILL: "bc_Kill bc = bc_StopWithSignal SIGKILL bc"
  by (simp add: bc_Kill_def bc_StopWithSignal_def)

section \<open>The mock command\<close>

text \<open>
  The test double: \<^verbatim>\<open>Run\<close> marks it running and waits on \<^verbatim>\<open>stopCh\<close>; \<^verbatim>\<open>Stop\<close> marks it stopped and
  sends nil there. \<open>mc_Run_return\<close> is \<^verbatim>\<open>Run\<close>'s result once something was sent.
\<close>

record MockCommand =
  mcBinary :: string
  mcArgs :: "string list"
  mcStopCh :: "go_error option list"
  mcIsRunning :: bool
  mcStopped :: bool

definition NewMockCommand :: "string \<Rightarrow> string list \<Rightarrow> MockCommand" where
  "NewMockCommand name args =
     \<lparr>mcBinary = name, mcArgs = args, mcStopCh = [], mcIsRunning = False, mcStopped = False\<rparr>"

definition MockExecutor_NewCommand ::
  "(MockCommand \<Rightarrow> MockCommand go_result) option \<Rightarrow> string \<Rightarrow> string list \<Rightarrow> MockCommand go_result" where
  "MockExecutor_NewCommand hook name args =
     (case hook of None \<Rightarrow> Ok (NewMockCommand name args) | Some h \<Rightarrow> h (NewMockCommand name args))"

definition mc_Run_begin :: "MockCommand \<Rightarrow> MockCommand" where
  "mc_Run_begin mc = mc\<lparr>mcIsRunning := True\<rparr>"

definition mc_Run_return :: "MockCommand \<Rightarrow> (MockCommand \<times> go_error option) option" where
  "mc_Run_return mc = (case mcStopCh mc of
     [] \<Rightarrow> None | e # es \<Rightarrow> Some (mc\<lparr>mcStopCh := es\<rparr>, e))"

definition mc_IsRunning :: "MockCommand \<Rightarrow> bool" where
  "mc_IsRunning mc = mcIsRunning mc"

definition mc_Stop :: "MockCommand \<Rightarrow> MockCommand" where
  "mc_Stop mc = mc\<lparr>mcStopped := True, mcStopCh := mcStopCh mc @ [None]\<rparr>"

definition mc_StopWithSignal :: "Signal \<Rightarrow> MockCommand \<Rightarrow> MockCommand" where
  "mc_StopWithSignal sig mc = mc_Stop mc"

definition mc_Kill :: "MockCommand \<Rightarrow> MockCommand" where
  "mc_Kill mc = mc"

end
