(* ===== verification/IM_Util.thy ===== *)
theory IM_Util
  imports IM_Types
begin

text \<open>
  \<^verbatim>\<open>pkg/util/util.go\<close> and the endpoint and TLS parts of \<^verbatim>\<open>pkg/util/grpcutil.go\<close>. What the operating
  system answers (a command's outcome, the mount table, a dial) is an argument.
\<close>

section \<open>Running commands\<close>

text \<open>
  How the \<^verbatim>\<open>select\<close> of \<^verbatim>\<open>ExecuteWithTimeout\<close> ends: the command is done, with its output, its standard
  error and the error of \<^verbatim>\<open>cmd.Run()\<close>; or the timer fires first, and the variable \<^verbatim>\<open>err\<close> shared with
  the goroutine has the value it has at that moment (nil unless \<^verbatim>\<open>Run\<close> has just returned).
\<close>

datatype exec_event =
    ExecDone string string "go_error option"
  | ExecTimeout string string "go_error option"

definition go_list :: "string list \<Rightarrow> string" where
  "go_list xs = ''['' @ strings_Join xs '' '' @ '']''"

definition ExecuteWithTimeout ::
  "exec_event \<Rightarrow> string \<Rightarrow> string list \<Rightarrow> string \<times> go_error option" where
  "ExecuteWithTimeout ev binary args =
     (case ev of
        ExecTimeout out errout err \<Rightarrow>
          ([], errors_Wrap err (''timeout executing: '' @ binary @ '' '' @ go_list args
             @ '', output '' @ out @ '', stderr '' @ errout))
      | ExecDone out errout err \<Rightarrow>
          if err \<noteq> None then
            ([], errors_Wrap err (''failed to execute: '' @ binary @ '' '' @ go_list args
               @ '', output '' @ out @ '', stderr '' @ errout))
          else (out, None))"

definition Execute :: "exec_event \<Rightarrow> string \<Rightarrow> string list \<Rightarrow> string \<times> go_error option" where
  "Execute ev binary args = ExecuteWithTimeout ev binary args"

definition GRPCHealthProbe :: string where
  "GRPCHealthProbe = ''/usr/local/bin/grpc_health_probe''"

definition GRPCServiceReadinessProbe :: "exec_event \<Rightarrow> string \<Rightarrow> bool" where
  "GRPCServiceReadinessProbe ev address =
     (if snd (Execute ev GRPCHealthProbe [''-addr'', address]) \<noteq> None then False else True)"

text \<open>\<^verbatim>\<open>os.Stat\<close>'s answer is whether the file is known not to exist.\<close>

definition RemoveFile :: "bool \<Rightarrow> exec_event \<Rightarrow> string \<Rightarrow> go_error option" where
  "RemoveFile not_exist ev file =
     (if not_exist then None
      else let (_, err) = Execute ev ''rm'' [file] in
        if err \<noteq> None then errors_Wrap err (''failed to remove file '' @ file) else None)"

text \<open>
  \<^verbatim>\<open>IsSPDKTgtReady\<close> dials once a second: \<open>dial i\<close> is whether the attempt of second \<open>i\<close> succeeds.
\<close>

fun IsSPDKTgtReady_loop :: "(nat \<Rightarrow> bool) \<Rightarrow> nat \<Rightarrow> nat \<Rightarrow> bool" where
  "IsSPDKTgtReady_loop dial i 0 = False"
| "IsSPDKTgtReady_loop dial i (Suc n) =
     (if dial i then True else IsSPDKTgtReady_loop dial (Suc i) n)"

definition IsSPDKTgtReady :: "(nat \<Rightarrow> bool) \<Rightarrow> nat \<Rightarrow> bool" where
  "IsSPDKTgtReady dial timeout_seconds = IsSPDKTgtReady_loop dial 0 timeout_seconds"

lemma IsSPDKTgtReady_loop_iff:
  "IsSPDKTgtReady_loop dial i n \<longleftrightarrow> (\<exists>j. i \<le> j \<and> j < i + n \<and> dial j)"
proof (induction n arbitrary: i)
  case (Suc n)
  show ?case
  proof (cases "dial i")
    case True
    then show ?thesis by (auto intro: exI[of _ i])
  next
    case False
    then have "(\<exists>j. i \<le> j \<and> j < i + Suc n \<and> dial j) \<longleftrightarrow> (\<exists>j. Suc i \<le> j \<and> j < Suc i + n \<and> dial j)"
      by (metis Suc_leD add_Suc add_Suc_right le_antisym not_less_eq_eq)
    with False Suc show ?thesis by simp
  qed
qed simp

section \<open>Addresses and port ranges\<close>

definition GetURL :: "string \<Rightarrow> int \<Rightarrow> string" where
  "GetURL host port = net_JoinHostPort host (strconv_Itoa port)"

text \<open>The SPDK service's variant of the port range parser, without a check for the empty string.\<close>

definition util_ParsePortRange :: "string \<Rightarrow> (int \<times> int) go_result" where
  "util_ParsePortRange portRange =
     (case strings_Split CHR ''-'' portRange of
        [a, b] \<Rightarrow>
          go_bind (strconv_Atoi (strings_TrimSpace a)) (\<lambda>portStart.
          go_bind (strconv_Atoi (strings_TrimSpace b)) (\<lambda>portEnd.
            Ok (wrap32 portStart, wrap32 portEnd)))
      | _ \<Rightarrow> Err (PlainError (''invalid format for SPDK port range '' @ portRange)))"

text \<open>
  \<^verbatim>\<open>parseEndpoint\<close>: the protocol and the address of an endpoint, tcp when none is written.
\<close>

definition parseEndpoint :: "string \<Rightarrow> (string \<times> string) go_result" where
  "parseEndpoint ep =
     (case strings_SplitN2 ep ''://'' of
        [] \<Rightarrow> Err (PlainError (''invalid endpoint: '' @ ep))
      | [s0] \<Rightarrow> Ok (''tcp'', s0)
      | s0 # s1 # _ \<Rightarrow>
          if s1 \<noteq> [] then
            if s0 \<noteq> ''unix'' \<and> s0 \<noteq> ''tcp'' then
              Err (PlainError (''invalid endpoint: '' @ ep @ '' unsupported proto: '' @ s0))
            else Ok (s0, s1)
          else Ok (''tcp'', s0))"

section \<open>Mount points and volume names\<close>

record MountPoint =
  mpDevice :: string
  mpPath :: string
  mpType :: string
  mpOpts :: "string list"

text \<open>\<^verbatim>\<open>util.IsMountPointReadOnly\<close> and the newer one of \<^verbatim>\<open>go-common-libs/kubernetes\<close>.\<close>

definition util_IsMountPointReadOnly :: "MountPoint \<Rightarrow> bool" where
  "util_IsMountPointReadOnly mp = list_ex (\<lambda>opt. opt = ''ro'') (mpOpts mp)"

definition lhKubernetes_IsMountPointReadOnly :: "MountPoint \<Rightarrow> bool" where
  "lhKubernetes_IsMountPointReadOnly mp =
     list_ex (\<lambda>opt. opt = ''ro'' \<or> opt = ''emergency_ro'') (mpOpts mp)"

definition GetVolumeNameSHAStrFromPath :: "string \<Rightarrow> string go_result" where
  "GetVolumeNameSHAStrFromPath path =
     (let pathSlices = strings_Split CHR ''/'' path; n = length pathSlices in
      if n < 2 then Panic else Ok (pathSlices ! (n - 2)))"

text \<open>The regular expression \<^verbatim>\<open>.*/globalmount$\<close> matches the paths that end so.\<close>

definition is_globalmount :: "string \<Rightarrow> bool" where
  "is_globalmount path \<longleftrightarrow> has_suffix path ''/globalmount''"

fun collect_mount_points ::
  "(string \<rightharpoonup> MountPoint) \<Rightarrow> MountPoint list \<Rightarrow> (string \<rightharpoonup> MountPoint) go_result" where
  "collect_mount_points m [] = Ok m"
| "collect_mount_points m (mp # mps) =
     (if is_globalmount (mpPath mp) then
        go_bind (GetVolumeNameSHAStrFromPath (mpPath mp))
          (\<lambda>sha. collect_mount_points (m(sha \<mapsto> mp)) mps)
      else collect_mount_points m mps)"

definition GetVolumeMountPointMap ::
  "MountPoint list go_result \<Rightarrow> (string \<rightharpoonup> MountPoint) go_result" where
  "GetVolumeMountPointMap listing = go_bind listing (collect_mount_points Map.empty)"

definition ProcessNameToVolumeName :: "string \<Rightarrow> string go_result" where
  "ProcessNameToVolumeName processName =
     (let nameSlices = strings_Split CHR ''-'' processName; n = length nameSlices in
      if n < 2 then Panic else Ok (strings_Join (take (n - 2) nameSlices) ''-''))"

text \<open>
  \<^verbatim>\<open>lhLonghorn.IsEngineProcess\<close>: the regular expression \<^verbatim>\<open>.+?-e-[^-]*$\<close> matches a name whose last
  two dash-separated parts are \<open>e\<close> and anything, after at least one character that is not a
  line feed.
\<close>

definition IsEngineProcess :: "string \<Rightarrow> bool" where
  "IsEngineProcess processName =
     (let parts = strings_Split CHR ''-'' processName; n = length parts;
          before = strings_Join (take (n - 2) parts) ''-'' in
      3 \<le> n \<and> parts ! (n - 2) = ''e'' \<and> before \<noteq> [] \<and> List.last before \<noteq> CHR 0x0A)"

lemma Split_last_two:
  assumes "2 \<le> length (strings_Split c s)"
  defines "ps \<equiv> strings_Split c s" and "n \<equiv> length (strings_Split c s)"
  shows "ps = take (n - 2) ps @ [ps ! (n - 2), ps ! (n - 1)]"
proof -
  have "drop (n - 2) ps = [ps ! (n - 2), ps ! (n - 1)]"
    using assms by (simp add: Cons_nth_drop_Suc[symmetric] Suc_diff_Suc numeral_2_eq_2)
  then show ?thesis by (metis append_take_drop_id)
qed

lemma GetVolumeNameSHAStrFromPath_globalmount:
  assumes "is_globalmount path"
  shows "\<exists>sha. GetVolumeNameSHAStrFromPath path = Ok sha \<and> CHR ''/'' \<notin> set sha"
proof -
  obtain t where t: "path = t @ CHR ''/'' # ''globalmount''"
    using assms by (auto simp: is_globalmount_def has_suffix_iff)
  have sp: "strings_Split CHR ''/'' path = strings_Split CHR ''/'' t @ [''globalmount'']"
    unfolding t by (rule strings_Split_snoc) simp
  let ?ts = "strings_Split CHR ''/'' t"
  have l: "0 < length ?ts" by simp
  then have "(?ts @ [''globalmount'']) ! (length ?ts - 1) = ?ts ! (length ?ts - 1)"
    by (simp add: nth_append)
  moreover have "CHR ''/'' \<notin> set (?ts ! (length ?ts - 1))"
    using l by (intro strings_Split_no_sep[of _ _ t] nth_mem) simp
  ultimately show ?thesis
    using l by (auto simp: GetVolumeNameSHAStrFromPath_def Let_def sp)
qed

lemma collect_mount_points_total:
  "\<exists>m'. collect_mount_points m mps = Ok m'"
proof (induction mps arbitrary: m)
  case (Cons mp mps)
  then show ?case using GetVolumeNameSHAStrFromPath_globalmount[of "mpPath mp"] by auto
qed simp

lemma IsEngineProcess_volume:
  assumes "IsEngineProcess name"
  shows "\<exists>vol sfx. ProcessNameToVolumeName name = Ok vol \<and> vol \<noteq> []
           \<and> name = vol @ ''-e-'' @ sfx \<and> CHR ''-'' \<notin> set sfx"
proof -
  let ?ps = "strings_Split CHR ''-'' name" and ?n = "length (strings_Split CHR ''-'' name)"
  let ?vol = "strings_Join (take (?n - 2) ?ps) ''-''"
  have h: "3 \<le> ?n" "?ps ! (?n - 2) = ''e''" "?vol \<noteq> []"
    using assms by (auto simp: IsEngineProcess_def Let_def)
  have ps: "?ps = (take (?n - 2) ?ps @ [''e'']) @ [?ps ! (?n - 1)]"
    using Split_last_two[of "CHR ''-''" name] h by simp
  have ne: "take (?n - 2) ?ps \<noteq> []" using h by auto
  have "name = strings_Join ?ps ''-''" by simp
  also have "\<dots> = strings_Join (take (?n - 2) ?ps @ [''e'']) ''-'' @ ''-'' @ ?ps ! (?n - 1)"
    by (subst ps, subst strings_Join_snoc) simp_all
  also have "strings_Join (take (?n - 2) ?ps @ [''e'']) ''-'' = ?vol @ ''-'' @ ''e''"
    using ne by (rule strings_Join_snoc)
  finally have name: "name = ?vol @ ''-e-'' @ ?ps ! (?n - 1)" by simp
  have "CHR ''-'' \<notin> set (?ps ! (?n - 1))"
    using h by (intro strings_Split_no_sep[of _ _ name] nth_mem) simp
  then show ?thesis using h name by (auto simp: ProcessNameToVolumeName_def Let_def)
qed

section \<open>Server-side TLS\<close>

text \<open>
  What \<^verbatim>\<open>serverConfig\<close>'s \<^verbatim>\<open>VerifyPeerCertificate\<close> reads of a verified chain, and the check itself;
  \<open>RequireAndVerifyClientCert\<close> is set exactly when a peer name is configured.
\<close>

record Certificate =
  certDNSNames :: "string list"
  certCommonName :: string

definition VerifyPeerCertificate ::
  "string \<Rightarrow> Certificate list list \<Rightarrow> go_error option" where
  "VerifyPeerCertificate peerName verifiedChains =
     (if peerName = [] then None
      else case verifiedChains of
          [] \<Rightarrow> Some (PlainError ''no valid certificate'')
        | [] # _ \<Rightarrow> Some (PlainError ''no valid certificate'')
        | (leaf # _) # _ \<Rightarrow>
            if list_ex (\<lambda>name. name = peerName) (certDNSNames leaf) then None
            else if certCommonName leaf = peerName then None
            else Some (PlainError (''certificate is not signed for '' @ quoted peerName @ '' hostname'')))"

datatype ClientAuthType = NoClientCert | RequireAndVerifyClientCert

definition serverConfig_ClientAuth :: "string \<Rightarrow> ClientAuthType" where
  "serverConfig_ClientAuth peerName =
     (if peerName \<noteq> [] then RequireAndVerifyClientCert else NoClientCert)"

text \<open>
  \<^verbatim>\<open>loadCertificate\<close>: the key pair is loaded when a certificate or a key file is named, the pool
  when a CA file is; loading, reading and appending are arguments.
\<close>

definition loadCertificate ::
  "(string \<Rightarrow> string \<Rightarrow> 'cert go_result) \<Rightarrow> (string \<Rightarrow> string go_result) \<Rightarrow> (string \<Rightarrow> 'pool option)
     \<Rightarrow> string \<Rightarrow> string \<Rightarrow> string \<Rightarrow> ('pool option \<times> 'cert option) go_result" where
  "loadCertificate load_pair read_file append_certs caFile certFile keyFile =
     go_bind (if certFile \<noteq> [] \<or> keyFile \<noteq> []
              then go_bind (load_pair certFile keyFile) (\<lambda>c. Ok (Some c)) else Ok None) (\<lambda>peerCert.
     go_bind (if caFile \<noteq> []
              then go_bind (read_file caFile) (\<lambda>pem.
                     case append_certs pem of
                       None \<Rightarrow> Err (PlainError (''failed to append certs from '' @ caFile))
                     | Some pool \<Rightarrow> Ok (Some pool))
              else Ok None) (\<lambda>certPool.
       Ok (certPool, peerCert)))"

end
