(* ===== verification/Health_Checker.thy ===== *)
theory Health_Checker
  imports IM_Util
begin

text \<open>
  The \<^verbatim>\<open>GRPCHealthChecker\<close> of the process, instance, disk and proxy packages: four copies of the same
  loop. A round of \<^verbatim>\<open>WaitForRunning\<close>'s \<^verbatim>\<open>select\<close> ends because \<^verbatim>\<open>stopCh\<close> is closed or because the ticker
  fires, and then the readiness probe is run; \<open>ev i\<close> is how round \<open>i\<close> ends.
\<close>

datatype probe_event = StopClosed | Tick exec_event

definition process_IsRunning :: "exec_event \<Rightarrow> string \<Rightarrow> bool" where
  "process_IsRunning ev address = GRPCServiceReadinessProbe ev address"

definition instance_IsRunning :: "exec_event \<Rightarrow> string \<Rightarrow> bool" where
  "instance_IsRunning ev address = GRPCServiceReadinessProbe ev address"

definition disk_IsRunning :: "exec_event \<Rightarrow> string \<Rightarrow> bool" where
  "disk_IsRunning ev address = GRPCServiceReadinessProbe ev address"

definition proxy_IsRunning :: "exec_event \<Rightarrow> string \<Rightarrow> bool" where
  "proxy_IsRunning ev address = GRPCServiceReadinessProbe ev address"

text \<open>The loop over the remaining rounds \<open>n\<close>, at round \<open>i\<close>.\<close>

fun wait_loop ::
  "(exec_event \<Rightarrow> string \<Rightarrow> bool) \<Rightarrow> (nat \<Rightarrow> probe_event) \<Rightarrow> string \<Rightarrow> nat \<Rightarrow> nat \<Rightarrow> bool" where
  "wait_loop isRunning ev address i 0 = False"
| "wait_loop isRunning ev address i (Suc n) =
     (case ev i of
        StopClosed \<Rightarrow> False
      | Tick e \<Rightarrow> if isRunning e address then True
                 else wait_loop isRunning ev address (Suc i) n)"

definition process_WaitForRunning :: "(nat \<Rightarrow> probe_event) \<Rightarrow> string \<Rightarrow> bool" where
  "process_WaitForRunning ev address = wait_loop process_IsRunning ev address 0 WaitCount"

definition instance_WaitForRunning :: "(nat \<Rightarrow> probe_event) \<Rightarrow> string \<Rightarrow> bool" where
  "instance_WaitForRunning ev address = wait_loop instance_IsRunning ev address 0 WaitCount"

definition disk_WaitForRunning :: "(nat \<Rightarrow> probe_event) \<Rightarrow> string \<Rightarrow> bool" where
  "disk_WaitForRunning ev address = wait_loop disk_IsRunning ev address 0 WaitCount"

definition proxy_WaitForRunning :: "(nat \<Rightarrow> probe_event) \<Rightarrow> string \<Rightarrow> bool" where
  "proxy_WaitForRunning ev address = wait_loop proxy_IsRunning ev address 0 WaitCount"

text \<open>The mock of the tests.\<close>

definition mock_IsRunning :: "string \<Rightarrow> bool" where "mock_IsRunning address = True"

definition mock_WaitForRunning :: "string \<Rightarrow> bool" where "mock_WaitForRunning address = True"

section \<open>The interface\<close>

text \<open>
  The contract the process manager relies on: \<open>wait\<close> answers yes exactly when some round below
  \<open>rounds\<close> probes a running service and no earlier round was stopped.
\<close>

definition first_ready :: "(exec_event \<Rightarrow> string \<Rightarrow> bool) \<Rightarrow> (nat \<Rightarrow> probe_event) \<Rightarrow> string \<Rightarrow> nat \<Rightarrow> bool" where
  "first_ready isRunning ev address i \<longleftrightarrow>
     (\<exists>e. ev i = Tick e \<and> isRunning e address) \<and> (\<forall>j < i. ev j \<noteq> StopClosed)"

locale health_checker =
  fixes isRunning :: "exec_event \<Rightarrow> string \<Rightarrow> bool"
    and wait :: "(nat \<Rightarrow> probe_event) \<Rightarrow> string \<Rightarrow> bool"
    and rounds :: nat
  assumes wait_iff: "wait ev address \<longleftrightarrow> (\<exists>i < rounds. first_ready isRunning ev address i)"
begin

lemma stopped_first: "ev 0 = StopClosed \<Longrightarrow> \<not> wait ev address"
  unfolding wait_iff first_ready_def by (metis gr0I probe_event.distinct(1))

lemma never_running: "\<forall>e. \<not> isRunning e address \<Longrightarrow> \<not> wait ev address"
  by (simp add: wait_iff first_ready_def)

lemma ready_now: "0 < rounds \<Longrightarrow> ev 0 = Tick e \<Longrightarrow> isRunning e address \<Longrightarrow> wait ev address"
  by (auto simp: wait_iff first_ready_def intro!: exI[of _ 0])

lemma stop_ends_wait:
  assumes "ev k = StopClosed" "\<forall>i < k. \<forall>e. ev i = Tick e \<longrightarrow> \<not> isRunning e address"
  shows "\<not> wait ev address"
proof
  assume "wait ev address"
  then obtain i where "first_ready isRunning ev address i" unfolding wait_iff by blast
  with assms show False
    by (auto simp: first_ready_def) (metis linorder_neqE_nat probe_event.distinct(1))
qed

end

lemma wait_loop_iff:
  "wait_loop isRunning ev address i n \<longleftrightarrow>
     (\<exists>k < n. (\<exists>e. ev (i + k) = Tick e \<and> isRunning e address) \<and> (\<forall>j < k. ev (i + j) \<noteq> StopClosed))"
proof (induction n arbitrary: i)
  case 0
  then show ?case by simp
next
  case (Suc n)
  let ?P = "\<lambda>i k. (\<exists>e. ev (i + k) = Tick e \<and> isRunning e address) \<and> (\<forall>j < k. ev (i + j) \<noteq> StopClosed)"
  have split: "(\<exists>k < Suc n. ?P i k) \<longleftrightarrow> ?P i 0 \<or> (ev i \<noteq> StopClosed \<and> (\<exists>k < n. ?P (Suc i) k))"
    by (auto simp: Ex_less_Suc2 All_less_Suc2)
  show ?case
  proof (cases "ev i")
    case StopClosed
    then show ?thesis unfolding split by simp
  next
    case (Tick e)
    then show ?thesis unfolding split by (auto simp: Suc)
  qed
qed

lemma wait_loop_first_ready:
  "wait_loop isRunning ev address 0 n \<longleftrightarrow> (\<exists>i < n. first_ready isRunning ev address i)"
  by (simp add: wait_loop_iff first_ready_def)

interpretation process_hc: health_checker process_IsRunning process_WaitForRunning WaitCount
  by unfold_locales (simp add: process_WaitForRunning_def wait_loop_first_ready)

interpretation instance_hc: health_checker instance_IsRunning instance_WaitForRunning WaitCount
  by unfold_locales (simp add: instance_WaitForRunning_def wait_loop_first_ready)

interpretation disk_hc: health_checker disk_IsRunning disk_WaitForRunning WaitCount
  by unfold_locales (simp add: disk_WaitForRunning_def wait_loop_first_ready)

interpretation proxy_hc: health_checker proxy_IsRunning proxy_WaitForRunning WaitCount
  by unfold_locales (simp add: proxy_WaitForRunning_def wait_loop_first_ready)

end
