(* ===== verification/Process.thy ===== *)
theory Process
  imports Command Health_Checker
begin

text \<open>
  \<^verbatim>\<open>pkg/process/process.go\<close>: one managed process. \<^verbatim>\<open>Start\<close> and \<^verbatim>\<open>StopWithSignal\<close> do part of their work
  under the process lock and hand the rest to goroutines; each critical section is a function
  here, and the goroutines are threads of the theory \<open>Manager_Steps\<close>.
\<close>

section \<open>The process record\<close>

datatype State = StateStarting | StateRunning | StateStopping | StateStopped | StateError

fun State_string :: "State \<Rightarrow> string" where
  "State_string StateStarting = ProcessStateStarting"
| "State_string StateRunning = ProcessStateRunning"
| "State_string StateStopping = ProcessStateStopping"
| "State_string StateStopped = ProcessStateStopped"
| "State_string StateError = ProcessStateError"

lemma State_string_inj: "State_string a = State_string b \<longleftrightarrow> a = b"
  by (cases a; cases b) (simp_all add: process_state_defs)

record Process =
  pName :: string
  pBinary :: string
  pArgs :: "string list"
  pPortCount :: int
  pPortArgs :: "string list"
  pUUID :: string
  pState :: State
  pErrorMsg :: string
  pConditions :: "string \<rightharpoonup> bool"
  pPortStart :: int
  pPortEnd :: int
  pDeletionTimestamp :: "int option"
  pcmd :: "BinaryCommand option"
  plogger_open :: bool

section \<open>Responses\<close>

record ProcessSpec =
  psName :: string
  psBinary :: string
  psArgs :: "string list"
  psPortCount :: int
  psPortArgs :: "string list"

record ProcessStatus =
  pstState :: string
  pstErrorMsg :: string
  pstConditions :: "string \<rightharpoonup> bool"
  pstPortStart :: int
  pstPortEnd :: int
  pstUuid :: string

record ProcessResponse =
  prSpec :: ProcessSpec
  prStatus :: ProcessStatus
  prDeleted :: bool

definition RPCResponse :: "Process \<Rightarrow> ProcessResponse" where
  "RPCResponse p =
     \<lparr>prSpec = \<lparr>psName = pName p, psBinary = pBinary p, psArgs = pArgs p,
                psPortCount = pPortCount p, psPortArgs = pPortArgs p\<rparr>,
      prStatus = \<lparr>pstState = State_string (pState p), pstErrorMsg = pErrorMsg p,
                  pstConditions = pConditions p, pstPortStart = pPortStart p,
                  pstPortEnd = pPortEnd p, pstUuid = pUUID p\<rparr>,
      prDeleted = False\<rparr>"

section \<open>Start\<close>

text \<open>
  The part of \<^verbatim>\<open>Start\<close> before the goroutines: \<open>newCommand\<close> is the executor. On success the
  command is kept with its output set to the log writer, and the two goroutines begin.
\<close>

definition Start ::
  "(string \<Rightarrow> string list \<Rightarrow> BinaryCommand go_result) \<Rightarrow> Process \<Rightarrow> Process \<times> unit go_result" where
  "Start newCommand p =
     (case newCommand (pBinary p) (pArgs p) of
        Ok c \<Rightarrow> (p\<lparr>pcmd := Some (bc_SetOutput (pName p) c)\<rparr>, Ok ())
      | Err e \<Rightarrow> (p\<lparr>pState := StateError, pErrorMsg := error_string e\<rparr>, Err e)
      | Panic \<Rightarrow> (p, Panic)
      | Diverge \<Rightarrow> (p, Diverge))"

text \<open>
  The goroutine of \<^verbatim>\<open>cmd.Run()\<close>: the program starts, and when \<^verbatim>\<open>Run\<close> returns the state is set from
  its error.
\<close>

definition run_started :: "Process \<Rightarrow> Process" where
  "run_started p = p\<lparr>pcmd := map_option bc_started (pcmd p)\<rparr>"

definition run_returned :: "go_error option \<Rightarrow> Process \<Rightarrow> Process" where
  "run_returned err p =
     (case err of
        Some e \<Rightarrow> p\<lparr>pState := StateError, pErrorMsg := error_string e\<rparr>
      | None \<Rightarrow> p\<lparr>pState := StateStopped\<rparr>)"

definition run_exited :: "go_error option \<Rightarrow> Process \<Rightarrow> Process" where
  "run_exited err p = run_returned err (p\<lparr>pcmd := map_option bc_exited (pcmd p)\<rparr>)"

text \<open>The goroutine of the health check sets the running state, whatever the state is by then.\<close>

definition set_running :: "Process \<Rightarrow> Process" where
  "set_running p = p\<lparr>pState := StateRunning\<rparr>"

definition IsStopped :: "Process \<Rightarrow> bool" where
  "IsStopped p \<longleftrightarrow> pState p = StateStopped \<or> pState p = StateError"

section \<open>Stop\<close>

text \<open>
  The critical section of \<^verbatim>\<open>StopWithSignal\<close> at time \<open>now\<close>: the new process and the three flags
  \<^verbatim>\<open>needStop\<close>, \<^verbatim>\<open>needTimeoutKill\<close> and \<^verbatim>\<open>needCloseLogger\<close>.
\<close>

definition deleteTimeout :: int where
  "deleteTimeout = WaitInterval * int WaitCount"

definition StopWithSignal_begin :: "int \<Rightarrow> Process \<Rightarrow> Process \<times> bool \<times> bool \<times> bool" where
  "StopWithSignal_begin now p =
     (let needStop = (pState p \<noteq> StateStopping \<and> pState p \<noteq> StateStopped \<and> pState p \<noteq> StateError);
          p1 = (if needStop then p\<lparr>pState := StateStopping, pDeletionTimestamp := Some now\<rparr> else p);
          needTimeoutKill =
            (\<not> needStop \<and> (case pDeletionTimestamp p1 of None \<Rightarrow> False
                            | Some t \<Rightarrow> t + deleteTimeout < now));
          needCloseLogger =
            (\<not> needStop \<and> \<not> needTimeoutKill \<and> pDeletionTimestamp p1 = None
             \<and> (pState p1 = StateStopped \<or> pState p1 = StateError))
      in (p1, needStop, needTimeoutKill, needCloseLogger))"

definition close_logger :: "Process \<Rightarrow> Process" where
  "close_logger p = p\<lparr>plogger_open := False\<rparr>"

text \<open>
  The goroutine of \<^verbatim>\<open>StopWithSignal\<close>. At its start it gives up when there is no running command;
  the deferred function closes the logger whenever it returns.
\<close>

definition stop_not_running :: "Process \<Rightarrow> bool" where
  "stop_not_running p \<longleftrightarrow> (case pcmd p of None \<Rightarrow> True | Some c \<Rightarrow> \<not> bc_IsRunning c)"

definition stop_give_up :: "Process \<Rightarrow> Process" where
  "stop_give_up p = close_logger
     (if pState p \<noteq> StateStopped \<and> pState p \<noteq> StateError then p\<lparr>pState := StateStopped\<rparr> else p)"

definition send_signal :: "Signal \<Rightarrow> Process \<Rightarrow> Process" where
  "send_signal sig p = p\<lparr>pcmd := map_option (bc_StopWithSignal sig) (pcmd p)\<rparr>"

definition kill_cmd :: "Process \<Rightarrow> Process" where
  "kill_cmd p = close_logger (p\<lparr>pcmd := map_option bc_Kill (pcmd p)\<rparr>)"

section \<open>Identity of a process\<close>

text \<open>
  What no step after registration changes: the name, the UUID, the binary and the ports.
\<close>

definition same_identity :: "Process \<Rightarrow> Process \<Rightarrow> bool" where
  "same_identity p q \<longleftrightarrow> pName q = pName p \<and> pUUID q = pUUID p \<and> pBinary q = pBinary p
     \<and> pPortStart q = pPortStart p \<and> pPortEnd q = pPortEnd p \<and> pPortCount q = pPortCount p"

named_theorems identity \<open>process operations keep the identity\<close>

lemma same_identity_refl [simp]: "same_identity p p"
  by (simp add: same_identity_def)

lemma Start_identity [identity]: "same_identity p (fst (Start nc p))"
  by (simp add: Start_def same_identity_def split: go_result.splits)

lemma run_started_identity [identity]: "same_identity p (run_started p)"
  by (simp add: run_started_def same_identity_def)

lemma run_returned_identity [identity]: "same_identity p (run_returned e p)"
  by (simp add: run_returned_def same_identity_def split: option.splits)

lemma run_exited_identity [identity]: "same_identity p (run_exited e p)"
  by (simp add: run_exited_def run_returned_def same_identity_def split: option.splits)

lemma set_running_identity [identity]: "same_identity p (set_running p)"
  by (simp add: set_running_def same_identity_def)

lemma StopWithSignal_begin_identity [identity]: "same_identity p (fst (StopWithSignal_begin now p))"
  by (simp add: StopWithSignal_begin_def same_identity_def Let_def)

lemma close_logger_identity [identity]: "same_identity p (close_logger p)"
  by (simp add: close_logger_def same_identity_def)

lemma stop_give_up_identity [identity]: "same_identity p (stop_give_up p)"
  by (simp add: stop_give_up_def close_logger_def same_identity_def)

lemma send_signal_identity [identity]: "same_identity p (send_signal sig p)"
  by (simp add: send_signal_def same_identity_def)

lemma kill_cmd_identity [identity]: "same_identity p (kill_cmd p)"
  by (simp add: kill_cmd_def close_logger_def same_identity_def)

section \<open>Properties of the critical sections\<close>

lemma StopWithSignal_begin_cases:
  assumes "StopWithSignal_begin now p = (q, ns, nk, nc)"
  shows "(ns \<longleftrightarrow> pState p \<in> {StateStarting, StateRunning})
    \<and> (ns \<longrightarrow> pState q = StateStopping \<and> pDeletionTimestamp q = Some now)
    \<and> (\<not> ns \<longrightarrow> q = p)
    \<and> pState q \<in> {StateStopping, StateStopped, StateError}
    \<and> \<not> (ns \<and> nk) \<and> \<not> (nc \<and> (ns \<or> nk))"
  using assms by (cases "pState p") (auto simp: StopWithSignal_begin_def Let_def)

lemma StopWithSignal_again:
  assumes "StopWithSignal_begin t p = (q, True, nk, nc)" "same_identity q r"
    and "pState r \<in> {StateStopping, StateStopped, StateError}" "pDeletionTimestamp r = Some t"
  shows "StopWithSignal_begin t' r = (r, False, t + deleteTimeout < t', False)"
  using assms(3,4) by (auto simp: StopWithSignal_begin_def Let_def)

end
