(* ===== verification/Port_Bitmap.thy ===== *)
theory Port_Bitmap
  imports Go_Strings
begin

text \<open>
  The port allocator: \<^verbatim>\<open>go-common-libs/bitmap\<close>, which the process manager uses for the ports of
  its processes. The roaring bitmap inside it is a finite set of \<^verbatim>\<open>uint32\<close> values whose
  iterator visits the members in increasing order; here it is the set itself.
\<close>

section \<open>The bitmap and its operations\<close>

record Bitmap =
  base :: int
  bsize :: int
  start :: int
  data :: "nat set"

definition uint32 :: "int \<Rightarrow> nat" where
  "uint32 x = nat (x mod 4294967296)"

definition uint64 :: "int \<Rightarrow> nat" where
  "uint64 x = nat (x mod 18446744073709551616)"

definition u64_range :: "int \<Rightarrow> int \<Rightarrow> nat set" where
  "u64_range a b = {uint64 a ..< uint64 (b mod 18446744073709551616 + 1)}"

definition NewBitmap :: "int \<Rightarrow> int \<Rightarrow> Bitmap go_result" where
  "NewBitmap s e =
     (if e < s then Err (PlainError (''invalid range, end ('' @ strconv_Itoa e
         @ '') cannot be less than start ('' @ strconv_Itoa s @ '')''))
      else let sz = wrap32 (e - s + 1) in
        Ok \<lparr>base = s, bsize = sz, start = 0, data = (if sz > 0 then {0..<nat sz} else {})\<rparr>)"

text \<open>
  The inner loop of \<^verbatim>\<open>findAt\<close>: it reads the iterator into \<^verbatim>\<open>last\<close> while elements are adjacent; an
  element that is not adjacent to the last one ends the loop and has been consumed.
\<close>

fun findAt_inner :: "nat list \<Rightarrow> int \<Rightarrow> int \<Rightarrow> int \<Rightarrow> nat list \<times> int \<times> int" where
  "findAt_inner [] lst remains bStart = ([], remains, bStart)"
| "findAt_inner (x # xs) lst remains bStart =
     (if \<not> remains > 0 then (x # xs, remains, bStart)
      else if lst < 0 then findAt_inner xs (int x) (remains - 1) (int x)
      else if int x - lst > 1 then (xs, remains, bStart)
      else findAt_inner xs (int x) (remains - 1) bStart)"

text \<open>
  The outer loop. It goes round again only after the inner loop consumed an element; were nothing
  consumed (a negative count), it would run forever.
\<close>

function findAt_loop :: "int \<Rightarrow> int \<Rightarrow> nat list \<Rightarrow> int \<Rightarrow> int go_result" where
  "findAt_loop sz count xs bStart =
     (if bStart \<le> sz then
        (case findAt_inner xs (- 1) count bStart of (rest, remains, bStart') \<Rightarrow>
           if remains = 0 then Ok bStart'
           else if rest = [] then Err (PlainError ''cannot find an empty port range'')
           else if length rest < length xs then findAt_loop sz count rest bStart'
           else Diverge)
      else Ok bStart)"
  by pat_completeness auto
termination
  by (relation "measure (\<lambda>(sz, count, xs, bStart). length xs)") auto

declare findAt_loop.simps [simp del]

definition findAt :: "Bitmap \<Rightarrow> int \<Rightarrow> int \<Rightarrow> (int \<times> int) go_result" where
  "findAt b count iStart =
     go_bind (findAt_loop (bsize b) count
                (filter (\<lambda>x. uint32 iStart \<le> x) (sorted_list_of_set (data b))) iStart)
       (\<lambda>bStart. Ok (bStart, wrap32 (bStart + count - 1)))"

definition AllocateRange :: "Bitmap \<Rightarrow> int \<Rightarrow> Bitmap \<times> (int \<times> int) go_result" where
  "AllocateRange b count =
     (if count \<le> 0 then (b, Err (PlainError (''invalid request for non-positive counts: ''
         @ strconv_Itoa count)))
      else case (case findAt b count (start b) of
                   Err _ \<Rightarrow> findAt b count 0
                 | r \<Rightarrow> r) of
          Ok (rStart, rEnd) \<Rightarrow>
            (b\<lparr>data := data b - u64_range rStart rEnd, start := wrap32 (rEnd + 1)\<rparr>,
             Ok (wrap32 (base b + rStart), wrap32 (base b + rEnd)))
        | Err _ \<Rightarrow> (b, Err (PlainError ''cannot find an empty port range''))
        | Panic \<Rightarrow> (b, Panic)
        | Diverge \<Rightarrow> (b, Diverge))"

definition ReleaseRange :: "Bitmap \<Rightarrow> int \<Rightarrow> int \<Rightarrow> Bitmap \<times> unit go_result" where
  "ReleaseRange b s e =
     (if e < s then (b, Err (PlainError (''invalid range: '' @ strconv_Itoa s @ ''-''
         @ strconv_Itoa e)))
      else if s = e \<and> e = 0 then (b, Ok ())
      else let bStart = wrap32 (s - base b); bEnd = wrap32 (e - base b) in
        if bStart < 0 \<or> bEnd \<ge> bsize b then (b, Err (PlainError (''exceed range: ''
          @ strconv_Itoa s @ ''-'' @ strconv_Itoa e @ '' ('' @ strconv_Itoa bStart @ ''-''
          @ strconv_Itoa bEnd @ '')'')))
        else (b\<lparr>data := data b \<union> u64_range bStart bEnd\<rparr>, Ok ()))"

section \<open>Invariant and abstraction\<close>

text \<open>
  A well-formed bitmap covers ports that fit in \<^verbatim>\<open>int32\<close> and has only members of its range. The
  abstraction is the set of free ports.
\<close>

definition bitmap_inv :: "Bitmap \<Rightarrow> bool" where
  "bitmap_inv b \<longleftrightarrow> is_int32 (base b) \<and> 0 < bsize b \<and> bsize b \<le> 2147483647
     \<and> base b + bsize b - 1 \<le> 2147483647 \<and> 0 \<le> start b \<and> start b \<le> bsize b
     \<and> data b \<subseteq> {0..<nat (bsize b)}"

definition bitmap_ports :: "Bitmap \<Rightarrow> int set" where
  "bitmap_ports b = {base b ..< base b + bsize b}"

definition free_ports :: "Bitmap \<Rightarrow> int set" where
  "free_ports b = (\<lambda>x. base b + int x) ` data b"

lemma bitmap_inv_finite: "bitmap_inv b \<Longrightarrow> finite (data b)"
  by (auto simp: bitmap_inv_def intro: finite_subset)

lemma free_ports_subset: "bitmap_inv b \<Longrightarrow> free_ports b \<subseteq> bitmap_ports b"
  by (auto simp: bitmap_inv_def free_ports_def bitmap_ports_def)

lemma uint32_small: "0 \<le> x \<Longrightarrow> x \<le> 2147483647 \<Longrightarrow> uint32 x = nat x"
  by (simp add: uint32_def)

lemma u64_range_small:
  "0 \<le> a \<Longrightarrow> 0 \<le> b \<Longrightarrow> a \<le> 2147483647 \<Longrightarrow> b \<le> 2147483647 \<Longrightarrow> u64_range a b = {nat a ..< Suc (nat b)}"
  by (simp add: u64_range_def uint64_def nat_add_distrib)

section \<open>The inner loop\<close>

text \<open>
  What the inner loop does to a strictly increasing list once it holds an element: it takes the
  \<open>k\<close> elements adjacent to \<open>last\<close>, and stops because it has enough, because the list is at its
  end, or because the next element leaves a gap, in which case that element is dropped too.
\<close>

definition adjacent_prefix :: "nat list \<Rightarrow> int \<Rightarrow> nat \<Rightarrow> bool" where
  "adjacent_prefix xs l k \<longleftrightarrow> k \<le> length xs \<and> (\<forall>i < k. int (xs ! i) = l + 1 + int i)"

lemma adjacent_prefix_0 [simp]: "adjacent_prefix xs l 0"
  by (simp add: adjacent_prefix_def)

lemma adjacent_prefix_Cons:
  "int x = l + 1 \<Longrightarrow> adjacent_prefix xs (int x) k \<Longrightarrow> adjacent_prefix (x # xs) l (Suc k)"
  by (auto simp: adjacent_prefix_def nth_Cons split: nat.splits)

definition inner_stop :: "nat list \<Rightarrow> int \<Rightarrow> int \<Rightarrow> nat \<Rightarrow> nat list \<Rightarrow> bool" where
  "inner_stop xs l r k rest \<longleftrightarrow>
     (r = int k \<and> rest = drop k xs)
     \<or> (int k < r \<and> k = length xs \<and> rest = [])
     \<or> (int k < r \<and> k < length xs \<and> l + int k + 1 < int (xs ! k) \<and> rest = drop (Suc k) xs)"

lemma inner_stop_Cons:
  "inner_stop xs (l + 1) (r - 1) k rest \<Longrightarrow> inner_stop (x # xs) l r (Suc k) rest"
  by (auto simp: inner_stop_def)

lemma findAt_inner_run:
  assumes "sorted_wrt (<) (map int xs)" "\<forall>x \<in> set xs. l < int x" "0 \<le> l" "0 \<le> r"
  shows "\<exists>k rest. findAt_inner xs l r b = (rest, r - int k, b)
           \<and> adjacent_prefix xs l k \<and> inner_stop xs l r k rest"
  using assms
proof (induction xs arbitrary: l r)
  case Nil
  then show ?case by (auto simp: inner_stop_def intro!: exI[of _ 0])
next
  case (Cons x xs)
  consider "r = 0" | "0 < r" "int x - l > 1" | "0 < r" "int x = l + 1"
    using Cons.prems by fastforce
  then show ?case
  proof cases
    case 3
    have "\<exists>k rest. findAt_inner xs (int x) (r - 1) b = (rest, r - 1 - int k, b)
        \<and> adjacent_prefix xs (int x) k \<and> inner_stop xs (int x) (r - 1) k rest"
      using Cons.prems 3 by (intro Cons.IH) auto
    then obtain k rest where k: "findAt_inner xs (int x) (r - 1) b = (rest, r - 1 - int k, b)"
        "adjacent_prefix xs (int x) k" "inner_stop xs (l + 1) (r - 1) k rest"
      using 3 by auto
    show ?thesis
      by (rule exI[of _ "Suc k"], rule exI[of _ rest])
        (use k 3 Cons.prems in \<open>auto intro: adjacent_prefix_Cons inner_stop_Cons\<close>)
  qed (use Cons.prems in \<open>auto simp: inner_stop_def intro!: exI[of _ 0]\<close>)
qed

text \<open>From the start of a round the first element is the candidate start.\<close>

lemma findAt_inner_start:
  assumes "sorted_wrt (<) (map int (x # xs))" "0 < count"
  shows "\<exists>k rest. findAt_inner (x # xs) (- 1) count b = (rest, count - 1 - int k, int x)
           \<and> adjacent_prefix xs (int x) k \<and> inner_stop xs (int x) (count - 1) k rest"
  using findAt_inner_run[of xs "int x" "count - 1" "int x"] assms by auto

lemma inner_stop_rest: "inner_stop xs l r k rest \<Longrightarrow> \<exists>n. rest = drop n xs"
  by (auto simp: inner_stop_def intro: exI[of _ "length xs"])

lemma adjacent_prefix_member:
  "adjacent_prefix xs l k \<Longrightarrow> l < j \<Longrightarrow> j \<le> l + int k \<Longrightarrow> nat j \<in> set xs"
proof -
  assume a: "adjacent_prefix xs l k" "l < j" "j \<le> l + int k"
  then have "int (xs ! nat (j - l - 1)) = j" and "nat (j - l - 1) < length xs"
    by (auto simp: adjacent_prefix_def)
  then show "nat j \<in> set xs" by (metis nat_int nth_mem)
qed

section \<open>Soundness of the search\<close>

lemma findAt_loop_round:
  assumes "findAt_inner xs (- 1) count b = (rest, rm, b')" "b \<le> sz"
  shows "findAt_loop sz count xs b =
     (if rm = 0 then Ok b'
      else if rest = [] then Err (PlainError ''cannot find an empty port range'')
      else if length rest < length xs then findAt_loop sz count rest b' else Diverge)"
  by (subst findAt_loop.simps) (simp add: assms)

lemma findAt_loop_sound:
  assumes "sorted_wrt (<) (map int xs)" "0 < count" "findAt_loop sz count xs b = Ok s"
    and "b \<le> sz" "\<forall>x \<in> set xs. int x \<le> sz"
  shows "0 \<le> s \<and> (\<forall>j. s \<le> j \<and> j < s + count \<longrightarrow> nat j \<in> set xs)"
  using assms
proof (induction "length xs" arbitrary: xs b rule: less_induct)
  case less
  show ?case
  proof (cases xs)
    case Nil
    with less.prems show ?thesis by (simp add: findAt_loop.simps[of sz count "[]"])
  next
    case (Cons x ys)
    obtain k rest where
      i: "findAt_inner xs (- 1) count b = (rest, count - 1 - int k, int x)" and
      a: "adjacent_prefix ys (int x) k" and st: "inner_stop ys (int x) (count - 1) k rest"
      using findAt_inner_start[of x ys count b] less.prems Cons by blast
    show ?thesis
    proof (cases "count - 1 - int k = 0")
      case True
      then have s: "s = int x" using less.prems findAt_loop_round[OF i, of sz] by simp
      have "nat j \<in> set xs" if "s \<le> j" "j < s + count" for j
        using adjacent_prefix_member[OF a, of j] that s True Cons by (cases "j = int x") auto
      with s show ?thesis by auto
    next
      case False
      obtain n where n: "rest = drop n ys" using inner_stop_rest[OF st] by blast
      have l: "findAt_loop sz count rest (int x) = Ok s"
        using False less.prems findAt_loop_round[OF i, of sz] by (simp split: if_splits)
      have "set rest \<subseteq> set xs" using n Cons by (auto dest: in_set_dropD)
      moreover have "sorted_wrt (<) (map int rest)"
        using less.prems n Cons by (simp add: drop_map[symmetric] sorted_wrt_drop)
      moreover have "int x \<le> sz" using less.prems Cons by simp
      moreover have "length rest < length xs" "\<forall>x \<in> set rest. int x \<le> sz"
        using less.prems(5) n Cons calculation(1) by auto
      ultimately have "0 \<le> s \<and> (\<forall>j. s \<le> j \<and> j < s + count \<longrightarrow> nat j \<in> set rest)"
        using less.hyps[of rest "int x"] less.prems(2) l by blast
      with \<open>set rest \<subseteq> set xs\<close> show ?thesis by blast
    qed
  qed
qed

lemma findAt_loop_total:
  "sorted_wrt (<) (map int xs) \<Longrightarrow> 0 < count \<Longrightarrow>
   findAt_loop sz count xs b \<noteq> Diverge \<and> findAt_loop sz count xs b \<noteq> Panic"
proof (induction "length xs" arbitrary: xs b rule: less_induct)
  case less
  show ?case
  proof (cases xs)
    case Nil
    with less.prems show ?thesis by (simp add: findAt_loop.simps[of sz count "[]"])
  next
    case (Cons x ys)
    obtain k rest where
      i: "findAt_inner xs (- 1) count b = (rest, count - 1 - int k, int x)" and
      st: "inner_stop ys (int x) (count - 1) k rest"
      using findAt_inner_start[of x ys count b] less.prems Cons by blast
    obtain n where n: "rest = drop n ys" using inner_stop_rest[OF st] by blast
    then have "length rest < length xs" "sorted_wrt (<) (map int rest)"
      using less.prems Cons by (auto simp: drop_map[symmetric] sorted_wrt_drop)
    with less(1)[of rest] less(3) findAt_loop_round[OF i, of sz] show ?thesis
      by (cases "b \<le> sz") (auto simp: findAt_loop.simps[of sz count xs b])
  qed
qed

abbreviation bitmap_iter :: "Bitmap \<Rightarrow> int \<Rightarrow> nat list" where
  "bitmap_iter b i \<equiv> filter (\<lambda>x. uint32 i \<le> x) (sorted_list_of_set (data b))"

lemma bitmap_iter_sorted: "sorted_wrt (<) (map int (bitmap_iter b i))"
  by (simp add: sorted_wrt_map sorted_wrt_filter strict_sorted_list_of_set)

lemma bitmap_iter_bound:
  "bitmap_inv b \<Longrightarrow> x \<in> set (bitmap_iter b i) \<Longrightarrow> x \<in> data b \<and> int x < bsize b"
  using bitmap_inv_finite[of b] by (auto simp: bitmap_inv_def)

lemma findAt_total:
  "0 < count \<Longrightarrow> findAt b count i \<noteq> Diverge \<and> findAt b count i \<noteq> Panic"
  using findAt_loop_total[OF bitmap_iter_sorted, where count = count and sz = "bsize b" and b = i]
  by (cases "findAt_loop (bsize b) count (bitmap_iter b i) i") (simp_all add: findAt_def)

lemma findAt_sound:
  assumes "bitmap_inv b" "0 < count" "0 \<le> i" "i \<le> bsize b" "findAt b count i = Ok (s, e)"
  shows "0 \<le> s \<and> e = s + count - 1 \<and> e < bsize b \<and> {nat s ..< Suc (nat e)} \<subseteq> data b"
proof -
  from assms(5) have l: "findAt_loop (bsize b) count (bitmap_iter b i) i = Ok s"
    and e: "e = wrap32 (s + count - 1)"
    by (auto simp: findAt_def go_bind_Ok_iff)
  have "\<forall>x \<in> set (bitmap_iter b i). int x \<le> bsize b"
    using bitmap_iter_bound[OF assms(1)] by (meson less_imp_le)
  from findAt_loop_sound[OF bitmap_iter_sorted assms(2) l assms(4) this]
  have s: "0 \<le> s" and m: "\<And>j. s \<le> j \<Longrightarrow> j < s + count \<Longrightarrow> nat j \<in> set (bitmap_iter b i)"
    by auto
  have b: "s + count - 1 < bsize b"
    using bitmap_iter_bound[OF assms(1) m[of "s + count - 1"]] s assms(2) by simp
  with assms(1) s assms(2) have e': "e = s + count - 1"
    using e by (simp add: bitmap_inv_def is_int32_def)
  have "x \<in> data b" if "nat s \<le> x" "x \<le> nat e" for x
  proof -
    have "s \<le> int x" "int x < s + count" using that s e' assms(2) by linarith+
    from bitmap_iter_bound[OF assms(1) m[OF this]] show ?thesis by simp
  qed
  with s b e' show ?thesis by auto
qed

section \<open>The allocator's contract\<close>

lemma port_image_range:
  assumes "0 \<le> s" "s \<le> e"
  shows "(\<lambda>x. p + int x) ` {nat s ..< Suc (nat e)} = {p + s .. p + e}"
proof (rule set_eqI, rule iffI)
  fix y assume y: "y \<in> {p + s .. p + e}"
  then have "y = p + int (nat (y - p))" "nat (y - p) \<in> {nat s ..< Suc (nat e)}"
    using assms by auto
  then show "y \<in> (\<lambda>x. p + int x) ` {nat s ..< Suc (nat e)}" by blast
qed (use assms in auto)

lemma free_ports_diff:
  assumes "0 \<le> s" "s \<le> e"
  shows "free_ports (b\<lparr>data := data b - {nat s ..< Suc (nat e)}, start := t\<rparr>)
           = free_ports b - {base b + s .. base b + e}"
  using port_image_range[OF assms, of "base b"]
  by (simp add: free_ports_def image_set_diff inj_on_def)

lemma free_ports_union:
  assumes "0 \<le> s" "s \<le> e"
  shows "free_ports (b\<lparr>data := data b \<union> {nat s ..< Suc (nat e)}\<rparr>)
           = free_ports b \<union> {base b + s .. base b + e}"
  using port_image_range[OF assms, of "base b"] by (simp add: free_ports_def image_Un)

lemma AllocateRange_Ok_find:
  assumes "bitmap_inv b" "AllocateRange b count = (b', Ok (s, e))"
  shows "0 < count \<and> (\<exists>i rs re. 0 \<le> i \<and> i \<le> bsize b \<and> findAt b count i = Ok (rs, re)
     \<and> b' = b\<lparr>data := data b - u64_range rs re, start := wrap32 (re + 1)\<rparr>
     \<and> s = wrap32 (base b + rs) \<and> e = wrap32 (base b + re))"
  using assms
  by (auto simp: AllocateRange_def bitmap_inv_def split: if_splits go_result.splits prod.splits)

lemma AllocateRange_sound:
  assumes "bitmap_inv b" "AllocateRange b count = (b', Ok (s, e))"
  shows "0 < count \<and> e = s + count - 1 \<and> {s..e} \<subseteq> free_ports b
     \<and> free_ports b' = free_ports b - {s..e} \<and> bitmap_inv b'
     \<and> base b' = base b \<and> bsize b' = bsize b"
proof -
  from AllocateRange_Ok_find[OF assms] obtain i rs re where
    c: "0 < count" and i: "0 \<le> i" "i \<le> bsize b" and f: "findAt b count i = Ok (rs, re)" and
    b': "b' = b\<lparr>data := data b - u64_range rs re, start := wrap32 (re + 1)\<rparr>" and
    se: "s = wrap32 (base b + rs)" "e = wrap32 (base b + re)"
    by blast
  from findAt_sound[OF assms(1) c i f] have
    r: "0 \<le> rs" "re = rs + count - 1" "re < bsize b" "{nat rs ..< Suc (nat re)} \<subseteq> data b"
    by auto
  have u: "u64_range rs re = {nat rs ..< Suc (nat re)}"
    using r c assms(1) by (intro u64_range_small) (auto simp: bitmap_inv_def)
  have w: "s = base b + rs" "e = base b + re" "wrap32 (re + 1) = re + 1"
    using r c assms(1) se by (auto simp: bitmap_inv_def is_int32_def)
  have "{s..e} \<subseteq> free_ports b"
    using image_mono[OF r(4), of "\<lambda>x. base b + int x"] port_image_range[of rs re "base b"] r c w
    by (simp add: free_ports_def)
  moreover have "free_ports b' = free_ports b - {s..e}"
    using free_ports_diff[where s = rs and e = re and b = b and t = "wrap32 (re + 1)"] r c b' u w by simp
  moreover have "bitmap_inv b'"
    using assms(1) r c b' u w by (auto simp: bitmap_inv_def)
  ultimately show ?thesis using c r w b' by simp
qed

lemma AllocateRange_fail:
  "AllocateRange b count = (b', r) \<Longrightarrow> (\<forall>x. r \<noteq> Ok x) \<Longrightarrow> b' = b"
  by (auto simp: AllocateRange_def split: if_splits go_result.splits)

lemma AllocateRange_returns:
  "snd (AllocateRange b count) \<noteq> Diverge \<and> snd (AllocateRange b count) \<noteq> Panic"
proof (cases "0 < count")
  case True
  from findAt_total[OF this, of b "start b"] findAt_total[OF this, of b 0] show ?thesis
    by (auto simp: AllocateRange_def split: go_result.splits)
qed (simp add: AllocateRange_def)

lemma ReleaseRange_sound:
  assumes "bitmap_inv b" "{s..e} \<subseteq> bitmap_ports b" "s \<le> e" "0 < base b"
  shows "\<exists>b'. ReleaseRange b s e = (b', Ok ()) \<and> free_ports b' = free_ports b \<union> {s..e}
     \<and> bitmap_inv b' \<and> base b' = base b \<and> bsize b' = bsize b"
proof -
  have se: "base b \<le> s" "e < base b + bsize b" using assms(2,3) by (auto simp: bitmap_ports_def)
  let ?s = "s - base b" and ?e = "e - base b"
  have w: "wrap32 ?s = ?s" "wrap32 ?e = ?e"
    using se assms by (auto simp: bitmap_inv_def is_int32_def)
  have u: "u64_range ?s ?e = {nat ?s ..< Suc (nat ?e)}"
    using se assms by (intro u64_range_small) (auto simp: bitmap_inv_def)
  let ?b = "b\<lparr>data := data b \<union> {nat ?s ..< Suc (nat ?e)}\<rparr>"
  have "ReleaseRange b s e = (?b, Ok ())"
    using se assms w u by (simp add: ReleaseRange_def Let_def)
  moreover have "free_ports ?b = free_ports b \<union> {s..e}"
    using free_ports_union[where s = ?s and e = ?e and b = b] se assms by simp
  moreover have "bitmap_inv ?b" using assms se by (auto simp: bitmap_inv_def)
  ultimately show ?thesis by auto
qed

lemma ReleaseRange_none [simp]: "ReleaseRange b 0 0 = (b, Ok ())"
  by (simp add: ReleaseRange_def)

lemma NewBitmap_sound:
  assumes "is_int32 s" "is_int32 e" "s \<le> e" "e - s < 2147483647"
  shows "\<exists>b. NewBitmap s e = Ok b \<and> bitmap_inv b \<and> free_ports b = {s..e}
     \<and> bitmap_ports b = {s..e} \<and> base b = s"
proof -
  have w: "wrap32 (e - s + 1) = e - s + 1" using assms by (simp add: is_int32_def)
  have "nat (e - s + 1) = Suc (nat (e - s))" using assms by linarith
  then have "(\<lambda>x. s + int x) ` {0..<nat (e - s + 1)} = {s..e}"
    using port_image_range[of 0 "e - s" s] assms by simp
  with assms w show ?thesis
    by (auto simp: NewBitmap_def Let_def bitmap_inv_def is_int32_def free_ports_def bitmap_ports_def)
qed

section \<open>Completeness of the search\<close>

text \<open>
  A round that fails drops the element after the gap as well as the run before it. A free run one
  longer than the request therefore still has enough members left when its first one is dropped.
  \<open>run_ahead\<close> says that such a run is still in the list, or that its first member was just
  dropped and the rest of it is at the head of the list.
\<close>

definition run_ahead :: "nat list \<Rightarrow> int \<Rightarrow> nat \<Rightarrow> bool" where
  "run_ahead xs count a \<longleftrightarrow>
     (\<forall>j. int a < j \<and> j \<le> int a + count \<longrightarrow> nat j \<in> set xs)
     \<and> (a \<in> set xs \<or> (xs \<noteq> [] \<and> hd xs = Suc a))"

lemma sorted_member_index:
  assumes "sorted_wrt (<) (map int xs)" "x \<in> set xs" "k < length xs" "int x \<le> int (xs ! k)"
  shows "x \<in> set (take (Suc k) xs)"
proof -
  obtain i where i: "i < length xs" "xs ! i = x" using assms(2) by (metis in_set_conv_nth)
  have "i \<le> k"
  proof (rule ccontr)
    assume "\<not> i \<le> k"
    then have "k < i" by simp
    then have "int (xs ! k) < int (xs ! i)"
      using assms(1) i by (auto simp: sorted_wrt_iff_nth_less)
    with assms(4) i show False by simp
  qed
  with i show ?thesis by (metis in_set_conv_nth le_imp_less_Suc length_take min_less_iff_conj nth_take)
qed

lemma member_drop:
  assumes "sorted_wrt (<) (map int xs)" "x \<in> set xs" "k < length xs" "int (xs ! k) < int x"
  shows "x \<in> set (drop (Suc k) xs)"
proof -
  obtain i where i: "i < length xs" "xs ! i = x" using assms(2) by (metis in_set_conv_nth)
  have "k < i"
  proof (rule ccontr)
    assume "\<not> k < i"
    then have "int (xs ! i) \<le> int (xs ! k)"
      using assms(1,3) by (cases "i = k") (simp_all add: sorted_wrt_iff_nth_less less_imp_le)
    with assms(4) i show False by simp
  qed
  then have "xs = take (Suc k) xs @ drop (Suc k) xs" "drop (Suc k) xs ! (i - Suc k) = x"
    using i by simp_all
  with \<open>k < i\<close> i show ?thesis by (metis diff_less_mono length_drop less_eq_Suc_le nth_mem)
qed

text \<open>An adjacent run in the list is consumed to its end, or the round succeeds.\<close>

lemma run_not_broken:
  assumes srt: "sorted_wrt (<) (map int (x # ys))"
    and adj: "adjacent_prefix ys (int x) k" and st: "inner_stop ys (int x) r k rest"
    and run: "\<forall>j. int x < j \<and> j \<le> int x + m \<longrightarrow> nat j \<in> set ys" and "r \<le> m" "0 \<le> r"
  shows "r = int k"
proof (rule ccontr)
  assume n: "r \<noteq> int k"
  with st have k: "int k < r" by (auto simp: inner_stop_def)
  let ?j = "int x + int k + 1"
  have j: "nat ?j \<in> set ys" using run k assms(5) by auto
  from st n consider "k = length ys" | "k < length ys" "int x + int k + 1 < int (ys ! k)"
    by (auto simp: inner_stop_def)
  then show False
  proof cases
    case 1
    obtain i where "i < length ys" "ys ! i = nat ?j" using j by (metis in_set_conv_nth)
    with adj 1 show False by (auto simp: adjacent_prefix_def)
  next
    case 2
    then have "nat ?j \<in> set (take (Suc k) ys)"
      using srt j by (intro sorted_member_index) auto
    then obtain i where i: "i < Suc k" "ys ! i = nat ?j"
      using 2 by (auto simp: in_set_conv_nth)
    show False
    proof (cases "i = k")
      case True
      with i 2 show False by simp
    next
      case False
      then have "i < k" using i by simp
      then have "int (ys ! i) = int x + 1 + int i" using adj by (auto simp: adjacent_prefix_def)
      with i False show False by simp
    qed
  qed
qed

text \<open>A round that does not find the run has stopped before it.\<close>

lemma run_ahead_later:
  assumes srt: "sorted_wrt (<) (map int (x # ys))" and c: "0 < count"
    and ra: "run_ahead (x # ys) count a"
    and adj: "adjacent_prefix ys (int x) k" and st: "inner_stop ys (int x) (count - 1) k rest"
    and n: "count - 1 \<noteq> int k"
  shows "x < a \<and> int x + int k < int a"
proof -
  have xa: "x < a"
  proof (rule ccontr)
    assume "\<not> x < a"
    then have xa: "x = a \<or> x = Suc a" using ra srt by (auto simp: run_ahead_def)
    have run: "\<forall>j. int x < j \<and> j \<le> int x + (count - 1) \<longrightarrow> nat j \<in> set ys"
    proof (intro allI impI)
      fix j assume j: "int x < j \<and> j \<le> int x + (count - 1)"
      then have "int a < j \<and> j \<le> int a + count" using xa by auto
      then have "nat j \<in> set (x # ys)" using ra by (simp add: run_ahead_def del: set_simps)
      moreover have "nat j \<noteq> x" using j by linarith
      ultimately show "nat j \<in> set ys" by simp
    qed
    from run_not_broken[OF srt adj st run] c n show False by simp
  qed
  have mem: "nat j \<in> set ys" if "int a < j" "j \<le> int a + count" for j
    using ra that xa by (auto simp: run_ahead_def)
  have "int x + int k < int a"
  proof (rule ccontr)
    assume "\<not> int x + int k < int a"
    then have "nat j \<in> set ys" if "int x < j" "j \<le> int x + (count - 1)" for j
      using adjacent_prefix_member[OF adj, of j] mem[of j] xa that by (cases "j \<le> int a") auto
    with run_not_broken[OF srt adj st, of "count - 1"] c n show False by auto
  qed
  with xa show ?thesis ..
qed

lemma run_ahead_reach:
  assumes srt: "sorted_wrt (<) (map int ys)" and am: "a \<in> set ys" and later: "int x + int k < int a"
    and adj: "adjacent_prefix ys (int x) k" and st: "inner_stop ys (int x) (count - 1) k rest"
    and n: "count - 1 \<noteq> int k"
  shows "k < length ys \<and> rest = drop (Suc k) ys \<and> ys ! k \<le> a"
proof -
  obtain i where i: "i < length ys" "ys ! i = a" using am by (metis in_set_conv_nth)
  then have "k \<noteq> length ys" using adj later by (auto simp: adjacent_prefix_def)
  with st n have kl: "k < length ys" and rest: "rest = drop (Suc k) ys" by (auto simp: inner_stop_def)
  have "ys ! k \<le> a"
  proof (rule ccontr)
    assume g: "\<not> ys ! k \<le> a"
    then have "a \<in> set (take (Suc k) ys)"
      using srt am kl by (intro sorted_member_index) auto
    then obtain i where "i < Suc k" "ys ! i = a" using kl by (auto simp: in_set_conv_nth)
    with adj later kl g show False by (cases "i = k") (auto simp: adjacent_prefix_def)
  qed
  with kl rest show ?thesis by blast
qed

lemma run_ahead_drop:
  assumes srt: "sorted_wrt (<) (map int ys)" and am: "a \<in> set ys" and c: "0 < count"
    and kl: "k < length ys" and rest: "rest = drop (Suc k) ys" and ge: "ys ! k \<le> a"
    and mem: "\<And>j. int a < j \<Longrightarrow> j \<le> int a + count \<Longrightarrow> nat j \<in> set ys"
  shows "run_ahead rest count a"
proof -
  have "nat j \<in> set rest" if "int a < j" "j \<le> int a + count" for j
    unfolding rest using mem[OF that] ge that by (intro member_drop[OF srt _ kl]) auto
  moreover have "a \<in> set rest \<or> (rest \<noteq> [] \<and> hd rest = Suc a)"
  proof (cases "ys ! k = a")
    case False
    with ge am show ?thesis unfolding rest by (auto intro!: member_drop[OF srt _ kl])
  next
    case True
    have "Suc a \<in> set rest"
      using calculation[of "int a + 1"] c by (simp add: nat_add_distrib)
    moreover then obtain h t where "rest = h # t" by (cases rest) auto
    moreover have "Suc a \<le> h"
      using True srt kl rest calculation(2)
      by (metis Cons_nth_drop_Suc Suc_leI append_take_drop_id list.set_intros(1) list.simps(9)
          map_append of_nat_less_iff sorted_wrt.simps(2) sorted_wrt_append list.set_map image_eqI)
    moreover have "sorted_wrt (<) (map int rest)"
      using srt rest by (simp add: drop_map[symmetric] sorted_wrt_drop)
    ultimately show ?thesis by auto
  qed
  ultimately show ?thesis by (simp add: run_ahead_def)
qed

lemma run_ahead_step:
  assumes srt: "sorted_wrt (<) (map int (x # ys))" and c: "0 < count"
    and ra: "run_ahead (x # ys) count a"
    and adj: "adjacent_prefix ys (int x) k" and st: "inner_stop ys (int x) (count - 1) k rest"
    and n: "count - 1 \<noteq> int k"
  shows "k < length ys \<and> rest = drop (Suc k) ys \<and> run_ahead rest count a"
proof -
  have xa: "x < a" and later: "int x + int k < int a" using run_ahead_later[OF assms] by simp_all
  have srt': "sorted_wrt (<) (map int ys)" and am: "a \<in> set ys" using ra srt xa by (auto simp: run_ahead_def)
  have "nat j \<in> set ys" if "int a < j" "j \<le> int a + count" for j
    using ra that xa by (auto simp: run_ahead_def)
  with run_ahead_reach[OF srt' am later adj st n] show ?thesis using run_ahead_drop[OF srt' am c] by blast
qed

lemma findAt_loop_complete:
  assumes "sorted_wrt (<) (map int xs)" "0 < count" "run_ahead xs count a"
    and "b \<le> sz" "\<forall>x \<in> set xs. int x \<le> sz"
  shows "\<exists>s. findAt_loop sz count xs b = Ok s"
  using assms
proof (induction "length xs" arbitrary: xs b rule: less_induct)
  case less
  obtain x ys where xs: "xs = x # ys" using less.prems by (cases xs) (auto simp: run_ahead_def)
  obtain k rest where
    i: "findAt_inner xs (- 1) count b = (rest, count - 1 - int k, int x)" and
    a: "adjacent_prefix ys (int x) k" and st: "inner_stop ys (int x) (count - 1) k rest"
    using findAt_inner_start[of x ys count b] less.prems xs by blast
  show ?case
  proof (cases "count - 1 - int k = 0")
    case True
    with findAt_loop_round[OF i, of sz] less.prems show ?thesis by simp
  next
    case False
    then have s: "k < length ys" "rest = drop (Suc k) ys" "run_ahead rest count a"
      using run_ahead_step[of x ys count a k rest] less.prems a st xs by auto
    moreover have "rest \<noteq> []" using s(3) less.prems(2) by (auto simp: run_ahead_def)
    moreover have "sorted_wrt (<) (map int rest)" "\<forall>y \<in> set rest. int y \<le> sz"
      using less.prems s(2) xs by (auto simp: drop_map[symmetric] sorted_wrt_drop dest: in_set_dropD)
    ultimately have "\<exists>s. findAt_loop sz count rest (int x) = Ok s"
      using less.hyps[of rest "int x"] less.prems xs by auto
    with findAt_loop_round[OF i, of sz] False \<open>rest \<noteq> []\<close> less.prems s xs show ?thesis by auto
  qed
qed

lemma AllocateRange_complete:
  assumes inv: "bitmap_inv b" and c: "0 < count" and run: "{p .. p + count} \<subseteq> free_ports b"
  shows "\<exists>b' s e. AllocateRange b count = (b', Ok (s, e))"
proof -
  have "p \<in> free_ports b" using run c by auto
  then obtain a where a: "a \<in> data b" "p = base b + int a" by (auto simp: free_ports_def)
  have iter: "set (bitmap_iter b 0) = data b"
    using bitmap_inv_finite[OF inv] by (auto simp: uint32_def)
  have "nat j \<in> data b" if "int a < j" "j \<le> int a + count" for j
  proof -
    have "base b + j \<in> free_ports b" using run a that by auto
    then show ?thesis by (auto simp: free_ports_def)
  qed
  then have "run_ahead (bitmap_iter b 0) count a" using a iter by (simp add: run_ahead_def)
  moreover have "\<forall>x \<in> set (bitmap_iter b 0). int x \<le> bsize b"
    using bitmap_iter_bound[OF inv] by (meson less_imp_le)
  ultimately have "\<exists>s. findAt_loop (bsize b) count (bitmap_iter b 0) 0 = Ok s"
    using inv c by (intro findAt_loop_complete bitmap_iter_sorted) (auto simp: bitmap_inv_def)
  then have "\<exists>r. findAt b count 0 = Ok r" by (auto simp: findAt_def)
  with c findAt_total[OF c, of b "start b"] show ?thesis
    by (auto simp: AllocateRange_def split: go_result.splits)
qed

end
