(* ===== verification/Port_Allocator.thy ===== *)
theory Port_Allocator
  imports Port_Bitmap "HOL-Library.Multiset"
begin

text \<open>
  The contract between the process manager and its port allocator. The manager's side is an
  accounting of owned ranges: every port of the manager's range is free or owned by exactly one
  range, never both and never by two. The lemmas are proved once for any allocator that keeps
  the laws of the locale, and the bitmap of \<open>Port_Bitmap\<close> is shown to keep them.
\<close>

section \<open>Accounting of ranges\<close>

text \<open>A process without ports has the range \<open>(0, 0)\<close>, which owns nothing.\<close>

definition ports_of :: "int \<times> int \<Rightarrow> int set" where
  "ports_of r = (if r = (0, 0) then {} else {fst r .. snd r})"

definition holders :: "int \<Rightarrow> (int \<times> int) multiset \<Rightarrow> nat" where
  "holders p own = size (filter_mset (\<lambda>r. p \<in> ports_of r) own)"

definition conserved :: "int set \<Rightarrow> int set \<Rightarrow> (int \<times> int) multiset \<Rightarrow> bool" where
  "conserved all_ports free own \<longleftrightarrow>
     (\<forall>p. of_bool (p \<in> free) + holders p own = (of_bool (p \<in> all_ports) :: nat))"

text \<open>A range a manager may hold: none, or a non-empty range of positive ports.\<close>

definition valid_range :: "int \<times> int \<Rightarrow> bool" where
  "valid_range r \<longleftrightarrow> r = (0, 0) \<or> (0 < fst r \<and> fst r \<le> snd r)"

lemma ports_of_none [simp]: "ports_of (0, 0) = {}"
  by (simp add: ports_of_def)

lemma ports_of_pos: "0 < s \<Longrightarrow> ports_of (s, e) = {s..e}"
  by (auto simp: ports_of_def)

lemma holders_empty [simp]: "holders p {#} = 0"
  by (simp add: holders_def)

lemma holders_add [simp]: "holders p (add_mset r own) = of_bool (p \<in> ports_of r) + holders p own"
  by (simp add: holders_def)

lemma holders_union [simp]: "holders p (a + b) = holders p a + holders p b"
  by (simp add: holders_def)

lemma holders_pos: "0 < holders p own \<longleftrightarrow> (\<exists>r \<in># own. p \<in> ports_of r)"
  by (induction own) auto

lemma conserved_start: "conserved A A {#}"
  by (simp add: conserved_def)

lemma conserved_none [simp]: "conserved A F (add_mset (0, 0) own) \<longleftrightarrow> conserved A F own"
  by (simp add: conserved_def)

lemma conserved_alloc:
  assumes "conserved A F own" "ports_of r \<subseteq> F"
  shows "conserved A (F - ports_of r) (add_mset r own)"
  unfolding conserved_def
proof
  fix p
  have "of_bool (p \<in> F) + holders p own = (of_bool (p \<in> A) :: nat)"
    using assms(1) by (simp add: conserved_def)
  with assms(2)
  show "of_bool (p \<in> F - ports_of r) + holders p (add_mset r own) = (of_bool (p \<in> A) :: nat)"
    by (cases "p \<in> ports_of r") (auto simp: of_bool_def split: if_splits)
qed

lemma conserved_release:
  assumes "conserved A F (add_mset r own)"
  shows "conserved A (F \<union> ports_of r) own"
  unfolding conserved_def
proof
  fix p
  have "of_bool (p \<in> F) + holders p (add_mset r own) = (of_bool (p \<in> A) :: nat)"
    using assms by (simp add: conserved_def)
  then show "of_bool (p \<in> F \<union> ports_of r) + holders p own = (of_bool (p \<in> A) :: nat)"
    by (cases "p \<in> ports_of r"; cases "p \<in> F") (auto simp: of_bool_def split: if_splits)
qed

lemma conserved_member: "conserved A F (add_mset r own) \<Longrightarrow> ports_of r \<subseteq> A"
  by (force simp: conserved_def of_bool_def split: if_splits)

lemma conserved_free: "conserved A F own \<Longrightarrow> F \<subseteq> A"
  by (force simp: conserved_def of_bool_def split: if_splits)

text \<open>What the accounting means: an owned range is not free, and two owned ranges do not meet.\<close>

lemma conserved_not_free: "conserved A F (add_mset r own) \<Longrightarrow> ports_of r \<inter> F = {}"
  by (force simp: conserved_def of_bool_def split: if_splits)

lemma conserved_disjoint:
  "conserved A F (add_mset r (add_mset r' own)) \<Longrightarrow> ports_of r \<inter> ports_of r' = {}"
proof -
  assume c: "conserved A F (add_mset r (add_mset r' own))"
  have "p \<notin> ports_of r \<or> p \<notin> ports_of r'" for p
    using c unfolding conserved_def by (drule_tac x = p in spec) (auto simp: of_bool_def split: if_splits)
  then show ?thesis by blast
qed

lemma conserved_no_leak: "conserved A F {#} \<Longrightarrow> F = A"
  by (force simp: conserved_def of_bool_def split: if_splits)

section \<open>The interface\<close>

locale port_allocator =
  fixes alloc :: "'b \<Rightarrow> int \<Rightarrow> 'b \<times> (int \<times> int) go_result"
    and release :: "'b \<Rightarrow> int \<Rightarrow> int \<Rightarrow> 'b \<times> unit go_result"
    and inv :: "'b \<Rightarrow> bool"
    and all_ports :: "'b \<Rightarrow> int set"
    and free :: "'b \<Rightarrow> int set"
  assumes alloc_ok:
      "inv b \<Longrightarrow> alloc b n = (b', Ok (s, e)) \<Longrightarrow>
       0 < n \<and> 0 < s \<and> e = s + n - 1 \<and> {s..e} \<subseteq> free b \<and> free b' = free b - {s..e}
       \<and> inv b' \<and> all_ports b' = all_ports b"
    and alloc_fail: "alloc b n = (b', r) \<Longrightarrow> (\<forall>x. r \<noteq> Ok x) \<Longrightarrow> b' = b"
    and alloc_returns: "snd (alloc b n) \<noteq> Diverge \<and> snd (alloc b n) \<noteq> Panic"
    and release_ok:
      "inv b \<Longrightarrow> 0 < s \<Longrightarrow> s \<le> e \<Longrightarrow> {s..e} \<subseteq> all_ports b \<Longrightarrow>
       \<exists>b'. release b s e = (b', Ok ()) \<and> free b' = free b \<union> {s..e}
          \<and> inv b' \<and> all_ports b' = all_ports b"
    and release_none: "release b 0 0 = (b, Ok ())"
    and ports_pos: "inv b \<Longrightarrow> p \<in> all_ports b \<Longrightarrow> 0 < p"
begin

lemma alloc_conserved:
  assumes "inv b" "conserved (all_ports b) (free b) own" "alloc b n = (b', Ok (s, e))"
  shows "inv b' \<and> all_ports b' = all_ports b
     \<and> conserved (all_ports b') (free b') (add_mset (s, e) own) \<and> valid_range (s, e)"
proof -
  from alloc_ok[OF assms(1,3)] have a: "0 < n" "0 < s" "e = s + n - 1" "{s..e} \<subseteq> free b"
    "free b' = free b - {s..e}" "inv b'" "all_ports b' = all_ports b" by auto
  from conserved_alloc[OF assms(2), of "(s, e)"] a show ?thesis
    by (simp add: ports_of_pos valid_range_def)
qed

lemma release_conserved:
  assumes "inv b" "conserved (all_ports b) (free b) (add_mset (s, e) own)" "valid_range (s, e)"
  shows "\<exists>b'. release b s e = (b', Ok ()) \<and> inv b' \<and> all_ports b' = all_ports b
     \<and> conserved (all_ports b') (free b') own"
proof (cases "(s, e) = (0, 0)")
  case True
  with assms show ?thesis by (simp add: release_none)
next
  case False
  then have p: "0 < s" "s \<le> e" using assms(3) by (auto simp: valid_range_def)
  have "{s..e} \<subseteq> all_ports b" using conserved_member[OF assms(2)] p by (simp add: ports_of_pos)
  from release_ok[OF assms(1) p this] obtain b' where
    b': "release b s e = (b', Ok ())" "free b' = free b \<union> {s..e}" "inv b'" "all_ports b' = all_ports b"
    by blast
  with conserved_release[OF assms(2)] p show ?thesis by (simp add: ports_of_pos)
qed

end

section \<open>The bitmap keeps the contract\<close>

definition port_inv :: "Bitmap \<Rightarrow> bool" where
  "port_inv b \<longleftrightarrow> bitmap_inv b \<and> 0 < base b"

lemma AllocateRange_ports:
  assumes "port_inv b" "AllocateRange b n = (b', Ok (s, e))"
  shows "0 < n \<and> 0 < s \<and> e = s + n - 1 \<and> {s..e} \<subseteq> free_ports b \<and> free_ports b' = free_ports b - {s..e}
       \<and> port_inv b' \<and> bitmap_ports b' = bitmap_ports b"
proof -
  from AllocateRange_sound[of b n b' s e] assms have
    a: "0 < n" "e = s + n - 1" "{s..e} \<subseteq> free_ports b" "free_ports b' = free_ports b - {s..e}"
      "bitmap_inv b'" "base b' = base b" "bsize b' = bsize b" by (auto simp: port_inv_def)
  then have "s \<in> bitmap_ports b"
    using free_ports_subset[of b] assms(1) by (force simp: port_inv_def)
  with a assms(1) show ?thesis by (auto simp: port_inv_def bitmap_ports_def)
qed

interpretation bitmap: port_allocator AllocateRange ReleaseRange port_inv bitmap_ports free_ports
proof unfold_locales
  fix b :: Bitmap and s e :: int
  assume a: "port_inv b" "0 < s" "s \<le> e" "{s..e} \<subseteq> bitmap_ports b"
  then show "\<exists>b'. ReleaseRange b s e = (b', Ok ()) \<and> free_ports b' = free_ports b \<union> {s..e}
      \<and> port_inv b' \<and> bitmap_ports b' = bitmap_ports b"
    using ReleaseRange_sound[of b s e] by (auto simp: port_inv_def bitmap_ports_def)
next
  fix b b' :: Bitmap and n :: int and r
  assume "AllocateRange b n = (b', r)" "\<forall>x. r \<noteq> Ok x"
  then show "b' = b" by (rule AllocateRange_fail)
next
  fix b :: Bitmap and p :: int
  assume "port_inv b" "p \<in> bitmap_ports b"
  then show "0 < p" by (simp add: port_inv_def bitmap_ports_def)
qed (rule AllocateRange_ports AllocateRange_returns ReleaseRange_none; assumption)+

section \<open>Properties of the allocator\<close>

text \<open>
  C15: \<^verbatim>\<open>AllocateRange\<close> on a well-formed bitmap always returns. A success is a range of exactly the
  requested length whose ports were all free and are the only ones that stop being free; an error
  changes nothing, and is not returned when a free run one longer than the request exists.
\<close>

theorem allocate_range_correct:
  assumes "port_inv b"
  shows "case AllocateRange b n of
      (b', Ok (s, e)) \<Rightarrow> 0 < n \<and> e = s + n - 1 \<and> {s..e} \<subseteq> free_ports b
        \<and> free_ports b' = free_ports b - {s..e} \<and> port_inv b'
    | (b', Err _) \<Rightarrow> b' = b \<and> \<not> (0 < n \<and> (\<exists>p. {p .. p + n} \<subseteq> free_ports b))
    | _ \<Rightarrow> False"
proof -
  obtain b' r where a: "AllocateRange b n = (b', r)" by fastforce
  show ?thesis
  proof (cases r)
    case (Ok x)
    with a AllocateRange_ports[OF assms, of n b' "fst x" "snd x"] show ?thesis by (cases x) simp
  next
    case (Err e)
    have "b' = b" using AllocateRange_fail[OF a] Err by simp
    moreover have "\<not> (0 < n \<and> {p .. p + n} \<subseteq> free_ports b)" for p
      using AllocateRange_complete[of b n p] assms a Err by (auto simp: port_inv_def)
    ultimately show ?thesis using a Err by auto
  qed (use a AllocateRange_returns[of b n] in auto)
qed

definition w_bitmap :: Bitmap where
  "w_bitmap = \<lparr>base = 10000, bsize = 4, start = 0, data = {0, 2, 3}\<rparr>"

lemma w_bitmap_inv: "port_inv w_bitmap"
  by (simp add: port_inv_def bitmap_inv_def w_bitmap_def is_int32_def)

theorem allocate_range_correct_witness:
  "port_inv w_bitmap \<and> (case AllocateRange w_bitmap 1 of
      (b', Ok (s, e)) \<Rightarrow> {s..e} \<subseteq> free_ports w_bitmap \<and> free_ports b' = free_ports w_bitmap - {s..e}
    | _ \<Rightarrow> True)"
  using allocate_range_correct[OF w_bitmap_inv, of 1] w_bitmap_inv
  by (auto split: prod.splits go_result.splits)

text \<open>Releasing a range right after it was allocated restores the set of free ports.\<close>

theorem release_after_allocate:
  assumes "port_inv b" "AllocateRange b n = (b1, Ok (s, e))"
  shows "\<exists>b2. ReleaseRange b1 s e = (b2, Ok ()) \<and> free_ports b2 = free_ports b \<and> port_inv b2"
proof -
  from AllocateRange_ports[OF assms] have
    a: "0 < n" "0 < s" "e = s + n - 1" "{s..e} \<subseteq> free_ports b" "free_ports b1 = free_ports b - {s..e}"
      "port_inv b1" "bitmap_ports b1 = bitmap_ports b" by auto
  have "{s..e} \<subseteq> bitmap_ports b1"
    using a free_ports_subset[of b] assms(1) by (auto simp: port_inv_def)
  from bitmap.release_ok[OF a(6,2) _ this] a show ?thesis by auto
qed

theorem release_after_allocate_witness:
  "\<exists>b2. ReleaseRange (fst (AllocateRange w_bitmap 1)) 10000 10000 = (b2, Ok ())
     \<and> free_ports b2 = free_ports w_bitmap \<and> port_inv b2"
proof -
  have "snd (AllocateRange w_bitmap 1) = Ok (10000, 10000)" by code_simp
  then have "AllocateRange w_bitmap 1 = (fst (AllocateRange w_bitmap 1), Ok (10000, 10000))"
    by (simp add: prod_eq_iff)
  from release_after_allocate[OF w_bitmap_inv this] show ?thesis by simp
qed


end
