(* ===== verification/Process_Manager.thy ===== *)
theory Process_Manager
  imports Process Port_Allocator "HOL-Library.AList"
begin

text \<open>
  \<^verbatim>\<open>pkg/process/process_manager.go\<close>: the state of the process manager and the critical sections of
  its operations. A \<^verbatim>\<open>*Process\<close> is an index into \<open>heap\<close>, the list of all \<^verbatim>\<open>Process\<close> objects made so
  far, so that the handlers and goroutines that hold the same pointer share the object. The Go
  map \<^verbatim>\<open>processes\<close> is its list of entries.
\<close>

section \<open>The manager\<close>

type_synonym ptr = nat

record Manager =
  portRangeMin :: int
  portRangeMax :: int
  processes :: "(string \<times> ptr) list"
  availablePorts :: Bitmap
  logsDir :: string
  heap :: "Process list"

abbreviation obj :: "Manager \<Rightarrow> ptr \<Rightarrow> Process" where
  "obj pm q \<equiv> heap pm ! q"

definition upd_obj :: "ptr \<Rightarrow> (Process \<Rightarrow> Process) \<Rightarrow> Manager \<Rightarrow> Manager" where
  "upd_obj q f pm = pm\<lparr>heap := (heap pm)[q := f (obj pm q)]\<rparr>"

definition ParsePortRange :: "string \<Rightarrow> (int \<times> int) go_result" where
  "ParsePortRange portRange =
     (if portRange = '''' then Err (PlainError ''empty port range'')
      else case strings_Split (CHR ''-'') portRange of
        [a, b] \<Rightarrow>
          go_bind (map_err (WrapError ''invalid start port for range'') (strconv_Atoi (strings_TrimSpace a)))
            (\<lambda>portStart.
          go_bind (map_err (WrapError ''invalid end port for range'') (strconv_Atoi (strings_TrimSpace b)))
            (\<lambda>portEnd. Ok (wrap32 portStart, wrap32 portEnd)))
      | _ \<Rightarrow> Err (PlainError (''invalid format for range: '' @ portRange)))"

text \<open>\<^verbatim>\<open>subscribed\<close> is the outcome of the subscription that starts the broadcaster.\<close>

definition NewManager :: "go_error option \<Rightarrow> string \<Rightarrow> string \<Rightarrow> Manager go_result" where
  "NewManager subscribed portRange dir =
     go_bind (ParsePortRange portRange) (\<lambda>(s, e).
     go_bind (NewBitmap s e) (\<lambda>b.
     go_bind (ret_err subscribed) (\<lambda>_.
       Ok \<lparr>portRangeMin = s, portRangeMax = e, processes = [], availablePorts = b,
           logsDir = dir, heap = []\<rparr>)))"

definition findProcess :: "Manager \<Rightarrow> string \<Rightarrow> ptr option" where
  "findProcess pm name = map_of (processes pm) name"

section \<open>Ports\<close>

definition allocatePorts :: "Manager \<Rightarrow> int \<Rightarrow> Manager \<times> (int \<times> int) go_result" where
  "allocatePorts pm portCount =
     (if portCount < 0 then
        (pm, Err (PlainError (''invalid port count '' @ strconv_Itoa portCount)))
      else if portCount = 0 then (pm, Ok (0, 0))
      else case AllocateRange (availablePorts pm) portCount of
        (b, r) \<Rightarrow> (pm\<lparr>availablePorts := b\<rparr>,
          map_err (WrapError (''failed to allocate '' @ strconv_Itoa portCount @ '' ports'')) r))"

definition releasePorts :: "Manager \<Rightarrow> int \<Rightarrow> int \<Rightarrow> Manager \<times> unit go_result" where
  "releasePorts pm s e =
     (if s < 0 \<or> e < 0 then
        (pm, Err (PlainError (''invalid start/end port '' @ strconv_Itoa s @ '' '' @ strconv_Itoa e)))
      else case ReleaseRange (availablePorts pm) s e of
        (b, r) \<Rightarrow> (pm\<lparr>availablePorts := b\<rparr>, r))"

text \<open>
  The loop of \<^verbatim>\<open>allocateProcessPorts\<close> over the port arguments, at argument \<open>i\<close>: the arguments of
  the process are extended even when a later port argument does not fit.
\<close>

fun append_port_args ::
  "int \<Rightarrow> int \<Rightarrow> int \<Rightarrow> string list \<Rightarrow> string list \<Rightarrow> string list \<times> unit go_result" where
  "append_port_args ps pe i [] args = (args, Ok ())"
| "append_port_args ps pe i (arg # rest) args =
     (if wrap32 (ps + wrap32 i) > pe then (args, Err (PlainError (''cannot fit port args '' @ arg)))
      else append_port_args ps pe (i + 1) rest
             (args @ strings_Split (CHR '','') (arg @ strconv_Itoa (ps + i))))"

definition too_many_port_args :: "Process \<Rightarrow> go_error" where
  "too_many_port_args p = PlainError (''too many port args '' @ go_list (pPortArgs p)
     @ '' for port count '' @ strconv_Itoa (pPortCount p))"

definition set_ports :: "int \<Rightarrow> int \<Rightarrow> Process \<Rightarrow> Process" where
  "set_ports s e p = p\<lparr>pPortStart := s, pPortEnd := e\<rparr>"

definition allocateProcessPorts :: "Manager \<Rightarrow> ptr \<Rightarrow> Manager \<times> unit go_result" where
  "allocateProcessPorts pm q =
     (let p = obj pm q in
      if int (length (pPortArgs p)) > pPortCount p then (pm, Err (too_many_port_args p))
      else case allocatePorts pm (pPortCount p) of
        (pm1, Ok (s, e)) \<Rightarrow>
          (case append_port_args s e 0 (pPortArgs p) (pArgs p) of
             (args, r) \<Rightarrow> (upd_obj q (\<lambda>p. set_ports s e p\<lparr>pArgs := args\<rparr>) pm1, r))
      | (pm1, Err er) \<Rightarrow>
          (upd_obj q (set_ports 0 0) pm1,
           Err (WrapError (''cannot allocate '' @ strconv_Itoa (pPortCount p) @ '' ports for ''
             @ pName p) er))
      | (pm1, Panic) \<Rightarrow> (pm1, Panic)
      | (pm1, Diverge) \<Rightarrow> (pm1, Diverge))"

definition releaseProcessPorts :: "Manager \<Rightarrow> ptr \<Rightarrow> Manager" where
  "releaseProcessPorts pm q = fst (releasePorts pm (pPortStart (obj pm q)) (pPortEnd (obj pm q)))"

section \<open>The map of processes\<close>

text \<open>
  \<open>uuid n\<close> is the UUID \<^verbatim>\<open>util.UUID()\<close> returns for the \<open>n\<close>-th object.
\<close>

definition new_process :: "string \<Rightarrow> ProcessSpec \<Rightarrow> Process" where
  "new_process u spec =
     \<lparr>pName = psName spec, pBinary = psBinary spec, pArgs = psArgs spec,
      pPortCount = psPortCount spec, pPortArgs = psPortArgs spec, pUUID = u,
      pState = StateStarting, pErrorMsg = '''', pConditions = Map.empty,
      pPortStart = 0, pPortEnd = 0, pDeletionTimestamp = None, pcmd = None, plogger_open = True\<rparr>"

definition alloc_obj :: "Process \<Rightarrow> Manager \<Rightarrow> Manager \<times> ptr" where
  "alloc_obj p pm = (pm\<lparr>heap := heap pm @ [p]\<rparr>, length (heap pm))"

definition registerProcess :: "Manager \<Rightarrow> ptr \<Rightarrow> Manager \<times> unit go_result" where
  "registerProcess pm q =
     (let name = pName (obj pm q) in
      case findProcess pm name of
        Some _ \<Rightarrow> (pm, Err (StatusError AlreadyExists (''process '' @ name @ '' already exists'')))
      | None \<Rightarrow>
          (case allocateProcessPorts pm q of
             (pm1, Ok _) \<Rightarrow> (pm1\<lparr>processes := AList.update name q (processes pm1)\<rparr>, Ok ())
           | (pm1, r) \<Rightarrow> (pm1, r)))"

text \<open>
  The test \<^verbatim>\<open>existingProcess, exists := pm.processes[p.Name]; !exists || existingProcess.UUID != p.UUID\<close>
  of the two critical sections of \<^verbatim>\<open>unregisterProcess\<close>, and the second section.
\<close>

definition is_registered :: "Manager \<Rightarrow> ptr \<Rightarrow> bool" where
  "is_registered pm q = (case findProcess pm (pName (obj pm q)) of
     None \<Rightarrow> False | Some r \<Rightarrow> pUUID (obj pm r) = pUUID (obj pm q))"

definition unregister_commit :: "Manager \<Rightarrow> ptr \<Rightarrow> Manager" where
  "unregister_commit pm q =
     (if is_registered pm q
      then releaseProcessPorts (pm\<lparr>processes := AList.delete (pName (obj pm q)) (processes pm)\<rparr>) q
      else pm)"

definition initProcessReplace :: "Manager \<Rightarrow> ptr \<Rightarrow> Manager \<times> ptr go_result" where
  "initProcessReplace pm q =
     (let name = pName (obj pm q) in
      case findProcess pm name of
        None \<Rightarrow> (pm, Err (StatusError NotFound (''existing process '' @ name @ '' doesn't exists'')))
      | Some old \<Rightarrow>
          (case allocateProcessPorts pm q of
             (pm1, Ok _) \<Rightarrow> (pm1, Ok old)
           | (pm1, Err e) \<Rightarrow> (pm1, Err e)
           | (pm1, Panic) \<Rightarrow> (pm1, Panic)
           | (pm1, Diverge) \<Rightarrow> (pm1, Diverge)))"

text \<open>
  The last critical section of \<^verbatim>\<open>ProcessReplace\<close>: false when the process to replace has been
  replaced by another one in the meantime.
\<close>

definition replace_commit :: "Manager \<Rightarrow> ptr \<Rightarrow> ptr \<Rightarrow> Manager \<times> bool" where
  "replace_commit pm q old =
     (let name = pName (obj pm q) in
      case findProcess pm name of
        None \<Rightarrow> (pm\<lparr>processes := AList.update name q (processes pm)\<rparr>, True)
      | Some r \<Rightarrow>
          if pUUID (obj pm r) = pUUID (obj pm old) then
            ((releaseProcessPorts pm old)\<lparr>processes := AList.update name q (processes pm)\<rparr>, True)
          else (pm, False))"

section \<open>Read-only handlers\<close>

definition ProcessGet :: "Manager \<Rightarrow> string \<Rightarrow> ProcessResponse go_result" where
  "ProcessGet pm name = (case findProcess pm name of
     None \<Rightarrow> Err (StatusError NotFound (''cannot find process '' @ name))
   | Some q \<Rightarrow> Ok (RPCResponse (obj pm q)))"

definition ProcessList :: "Manager \<Rightarrow> string \<rightharpoonup> ProcessResponse" where
  "ProcessList pm =
     foldl (\<lambda>m (k, q). m(pName (obj pm q) \<mapsto> RPCResponse (obj pm q))) Map.empty (processes pm)"

text \<open>One update handled by \<^verbatim>\<open>startMonitoring\<close>: the response sent to the broadcaster.\<close>

definition monitor_response :: "Manager \<Rightarrow> ptr \<Rightarrow> ProcessResponse" where
  "monitor_response pm q = (let resp = RPCResponse (obj pm q) in
     case findProcess pm (pName (obj pm q)) of
       None \<Rightarrow> resp\<lparr>prDeleted := True\<rparr> | Some _ \<Rightarrow> resp)"

text \<open>
  \<^verbatim>\<open>getProcessesToUpdateConditions\<close>: \<open>sha\<close> is SHA-256 in hexadecimal. Engine processes have a
  volume name (the other branch of \<^verbatim>\<open>ProcessNameToVolumeName\<close> would panic).
\<close>

definition set_condition :: "MountPoint \<Rightarrow> Process \<Rightarrow> Process" where
  "set_condition mp p = p\<lparr>pConditions :=
     (pConditions p)(EngineConditionFilesystemReadOnly \<mapsto> lhKubernetes_IsMountPointReadOnly mp)\<rparr>"

definition needs_condition ::
  "(string \<Rightarrow> string) \<Rightarrow> (string \<rightharpoonup> MountPoint) \<Rightarrow> Process \<Rightarrow> MountPoint option go_result" where
  "needs_condition sha mounts p =
     (if IsEngineProcess (pName p) \<and> pState p = StateRunning then
        go_bind (ProcessNameToVolumeName (pName p)) (\<lambda>v. Ok (mounts (sha v)))
      else Ok None)"

fun update_conditions ::
  "(string \<Rightarrow> string) \<Rightarrow> (string \<rightharpoonup> MountPoint) \<Rightarrow> (string \<times> ptr) list \<Rightarrow> Manager \<Rightarrow> ptr list
     \<Rightarrow> Manager \<times> ptr list go_result" where
  "update_conditions sha mounts [] pm acc = (pm, Ok acc)"
| "update_conditions sha mounts ((k, q) # rest) pm acc =
     (case needs_condition sha mounts (obj pm q) of
        Ok None \<Rightarrow> update_conditions sha mounts rest pm acc
      | Ok (Some mp) \<Rightarrow>
          update_conditions sha mounts rest (upd_obj q (set_condition mp) pm) (acc @ [q])
      | Err e \<Rightarrow> (pm, Err e)
      | Panic \<Rightarrow> (pm, Panic)
      | Diverge \<Rightarrow> (pm, Diverge))"

definition getProcessesToUpdateConditions ::
  "(string \<Rightarrow> string) \<Rightarrow> (string \<rightharpoonup> MountPoint) \<Rightarrow> Manager \<Rightarrow> Manager \<times> ptr list go_result" where
  "getProcessesToUpdateConditions sha mounts pm =
     update_conditions sha mounts (processes pm) pm []"

text \<open>\<^verbatim>\<open>checkMountPointStatusForEngine\<close>: a failure to list the mount points leaves a nil map.\<close>

definition checkMountPointStatusForEngine ::
  "(string \<Rightarrow> string) \<Rightarrow> MountPoint list go_result \<Rightarrow> Manager \<Rightarrow> Manager \<times> ptr list go_result" where
  "checkMountPointStatusForEngine sha listing pm =
     (case GetVolumeMountPointMap listing of
        Ok m \<Rightarrow> getProcessesToUpdateConditions sha m pm
      | Err _ \<Rightarrow> getProcessesToUpdateConditions sha Map.empty pm
      | Panic \<Rightarrow> (pm, Panic)
      | Diverge \<Rightarrow> (pm, Diverge))"

section \<open>Port accounting of a manager\<close>

text \<open>
  \<open>pm_ok u A pm own\<close> says that the manager \<open>pm\<close> over the ports \<open>A\<close> is consistent when, besides the
  registered processes, the objects \<open>own\<close> hold ports (replacements not registered yet). Object
  \<open>n\<close> has UUID \<open>u n\<close>.
\<close>

definition range_of :: "Process \<Rightarrow> int \<times> int" where
  "range_of p = (pPortStart p, pPortEnd p)"

definition owners :: "Manager \<Rightarrow> ptr multiset \<Rightarrow> ptr multiset" where
  "owners pm own = mset (map snd (processes pm)) + own"

definition ranges :: "Process list \<Rightarrow> ptr multiset \<Rightarrow> (int \<times> int) multiset" where
  "ranges h qs = image_mset (\<lambda>q. range_of (h ! q)) qs"

definition heap_ok :: "(nat \<Rightarrow> string) \<Rightarrow> Process list \<Rightarrow> bool" where
  "heap_ok u h \<longleftrightarrow> (\<forall>i < length h. pUUID (h ! i) = u i \<and> valid_range (range_of (h ! i)))"

definition map_ok :: "Manager \<Rightarrow> bool" where
  "map_ok pm \<longleftrightarrow> distinct (map fst (processes pm))
     \<and> (\<forall>(k, q) \<in> set (processes pm). q < length (heap pm) \<and> pName (obj pm q) = k)"

definition ports_ok :: "int set \<Rightarrow> Manager \<Rightarrow> ptr multiset \<Rightarrow> bool" where
  "ports_ok A pm own \<longleftrightarrow> port_inv (availablePorts pm) \<and> bitmap_ports (availablePorts pm) = A
     \<and> conserved A (free_ports (availablePorts pm)) (ranges (heap pm) (owners pm own))"

definition pm_ok :: "(nat \<Rightarrow> string) \<Rightarrow> int set \<Rightarrow> Manager \<Rightarrow> ptr multiset \<Rightarrow> bool" where
  "pm_ok u A pm own \<longleftrightarrow> heap_ok u (heap pm) \<and> map_ok pm \<and> ports_ok A pm own
     \<and> (\<forall>q \<in># own. q < length (heap pm))"

lemma range_of_identity: "same_identity p q \<Longrightarrow> range_of q = range_of p"
  by (simp add: same_identity_def range_of_def)

lemma ranges_simps [simp]:
  "ranges h {#} = {#}"
  "ranges h (add_mset q qs) = add_mset (range_of (h ! q)) (ranges h qs)"
  "ranges h (a + b) = ranges h a + ranges h b"
  by (simp_all add: ranges_def)

lemma ranges_cong: "(\<And>q. q \<in># qs \<Longrightarrow> range_of (h' ! q) = range_of (h ! q)) \<Longrightarrow> ranges h' qs = ranges h qs"
  by (auto simp: ranges_def intro: image_mset_cong)

lemma upd_obj_simps [simp]:
  "processes (upd_obj q f pm) = processes pm"
  "availablePorts (upd_obj q f pm) = availablePorts pm"
  "length (heap (upd_obj q f pm)) = length (heap pm)"
  "portRangeMin (upd_obj q f pm) = portRangeMin pm"
  "portRangeMax (upd_obj q f pm) = portRangeMax pm"
  "logsDir (upd_obj q f pm) = logsDir pm"
  by (simp_all add: upd_obj_def)

lemma upd_obj_nth:
  "i < length (heap pm) \<Longrightarrow> obj (upd_obj q f pm) i = (if i = q then f (obj pm q) else obj pm i)"
  by (auto simp: upd_obj_def nth_list_update)

lemma owners_upd_obj [simp]: "owners (upd_obj q f pm) own = owners pm own"
  by (simp add: owners_def)

lemma owners_bound: "pm_ok u A pm own \<Longrightarrow> q \<in># owners pm own \<Longrightarrow> q < length (heap pm)"
  by (force simp: pm_ok_def map_ok_def owners_def)

lemma pm_ok_find:
  "pm_ok u A pm own \<Longrightarrow> findProcess pm name = Some q \<Longrightarrow> q < length (heap pm) \<and> pName (obj pm q) = name"
  by (force simp: pm_ok_def map_ok_def findProcess_def dest: map_of_SomeD)

lemma pm_ok_uuid: "pm_ok u A pm own \<Longrightarrow> q < length (heap pm) \<Longrightarrow> pUUID (obj pm q) = u q"
  by (simp add: pm_ok_def heap_ok_def)

section \<open>Operations on objects\<close>

lemma pm_ok_upd_obj:
  assumes ok: "pm_ok u A pm own" and f: "\<And>p. same_identity p (f p)"
  shows "pm_ok u A (upd_obj q f pm) own"
proof -
  have id: "same_identity (obj pm i) (obj (upd_obj q f pm) i)" if "i < length (heap pm)" for i
    using f that by (simp add: upd_obj_nth)
  have "heap_ok u (heap (upd_obj q f pm))"
    using ok id by (auto simp: pm_ok_def heap_ok_def range_of_def same_identity_def)
  moreover have "map_ok (upd_obj q f pm)"
    using ok id by (force simp: pm_ok_def map_ok_def same_identity_def)
  moreover have "ranges (heap (upd_obj q f pm)) (owners pm own) = ranges (heap pm) (owners pm own)"
    by (intro ranges_cong range_of_identity id owners_bound[OF ok])
  ultimately show ?thesis using ok by (simp add: pm_ok_def ports_ok_def)
qed

lemma new_process_simps [simp]:
  "pUUID (new_process u spec) = u" "range_of (new_process u spec) = (0, 0)"
  "pName (new_process u spec) = psName spec" "pState (new_process u spec) = StateStarting"
  "pBinary (new_process u spec) = psBinary spec" "pcmd (new_process u spec) = None"
  by (simp_all add: new_process_def range_of_def)

lemma alloc_obj_simps [simp]:
  "processes (fst (alloc_obj p pm)) = processes pm"
  "availablePorts (fst (alloc_obj p pm)) = availablePorts pm"
  "snd (alloc_obj p pm) = length (heap pm)"
  "heap (fst (alloc_obj p pm)) = heap pm @ [p]"
  by (simp_all add: alloc_obj_def)

lemma pm_ok_alloc_obj:
  assumes ok: "pm_ok u A pm own" and p: "pUUID p = u (length (heap pm))" "range_of p = (0, 0)"
  shows "pm_ok u A (fst (alloc_obj p pm)) own"
    "length (heap pm) \<notin># owners (fst (alloc_obj p pm)) own"
proof -
  have ow: "owners (fst (alloc_obj p pm)) own = owners pm own" by (simp add: owners_def)
  have "ranges (heap pm @ [p]) (owners pm own) = ranges (heap pm) (owners pm own)"
    using owners_bound[OF ok] by (intro ranges_cong) (simp add: nth_append)
  then have "ports_ok A (fst (alloc_obj p pm)) own"
    using ok by (simp add: ports_ok_def pm_ok_def ow)
  moreover have "heap_ok u (heap pm @ [p])"
    using ok p by (auto simp: pm_ok_def heap_ok_def nth_append valid_range_def less_Suc_eq)
  moreover have "map_ok (fst (alloc_obj p pm))"
    using ok by (fastforce simp: pm_ok_def map_ok_def nth_append)
  ultimately show "pm_ok u A (fst (alloc_obj p pm)) own"
    using ok by (auto simp: pm_ok_def)
  show "length (heap pm) \<notin># owners (fst (alloc_obj p pm)) own"
    using owners_bound[OF ok] ow by (metis less_irrefl)
qed

section \<open>Allocation\<close>

text \<open>The arguments a process gets for its port arguments.\<close>

fun port_args :: "int \<Rightarrow> string list \<Rightarrow> string list" where
  "port_args port [] = []"
| "port_args port (arg # rest) =
     strings_Split (CHR '','') (arg @ strconv_Itoa port) @ port_args (port + 1) rest"

lemma append_port_args_fits:
  assumes "0 < ps" "pe \<le> 2147483647" "0 \<le> i" "ps + i + int (length pas) \<le> pe + 1"
  shows "append_port_args ps pe i pas args = (args @ port_args (ps + i) pas, Ok ())"
  using assms
proof (induction pas arbitrary: i args)
  case (Cons a pas)
  have w: "wrap32 i = i" "wrap32 (ps + i) = ps + i" using Cons.prems by (auto intro!: wrap32_eq_id)
  have "append_port_args ps pe (i + 1) pas (args @ strings_Split (CHR '','') (a @ strconv_Itoa (ps + i)))
      = ((args @ strings_Split (CHR '','') (a @ strconv_Itoa (ps + i))) @ port_args (ps + (i + 1)) pas, Ok ())"
    using Cons.prems by (intro Cons.IH) auto
  then show ?case using w Cons.prems by (simp add: add.assoc)
qed simp

lemma allocatePorts_cases:
  assumes ok: "ports_ok A pm own" and "allocatePorts pm n = (pm', r)"
  shows "(\<exists>s e. r = Ok (s, e) \<and> valid_range (s, e) \<and> pm' = pm\<lparr>availablePorts := availablePorts pm'\<rparr>
            \<and> port_inv (availablePorts pm') \<and> bitmap_ports (availablePorts pm') = A
            \<and> conserved A (free_ports (availablePorts pm')) (add_mset (s, e) (ranges (heap pm) (owners pm own)))
            \<and> ports_of (s, e) \<subseteq> free_ports (availablePorts pm)
            \<and> free_ports (availablePorts pm') = free_ports (availablePorts pm) - ports_of (s, e)
            \<and> (0 < n \<longrightarrow> 0 < s \<and> e = s + n - 1 \<and> e \<le> 2147483647) \<and> (n = 0 \<longrightarrow> s = 0 \<and> e = 0) \<and> 0 \<le> n)
       \<or> (\<exists>e. r = Err e \<and> pm' = pm)"
proof -
  let ?b = "availablePorts pm"
  consider "n < 0" | "n = 0" | "0 < n" by linarith
  then show ?thesis
  proof cases
    case 3
    obtain b a where a: "AllocateRange ?b n = (b, a)" by fastforce
    have nd: "a \<noteq> Diverge" "a \<noteq> Panic" using AllocateRange_returns[of ?b n] a by auto
    show ?thesis
    proof (cases a)
      case (Ok x)
      obtain s e where x: "x = (s, e)" by fastforce
      have inv: "port_inv ?b" "bitmap_ports ?b = A" using ok by (auto simp: ports_ok_def)
      from AllocateRange_ports[OF inv(1)] a Ok x have
        i: "0 < s" "e = s + n - 1" "{s..e} \<subseteq> free_ports ?b" "free_ports b = free_ports ?b - {s..e}"
        by auto
      from bitmap.alloc_conserved[OF inv(1), of "ranges (heap pm) (owners pm own)" n b s e] ok a Ok x inv have
        c: "port_inv b" "bitmap_ports b = A" "valid_range (s, e)"
           "conserved A (free_ports b) (add_mset (s, e) (ranges (heap pm) (owners pm own)))"
        by (auto simp: ports_ok_def)
      have "e \<in> bitmap_ports ?b" using i 3 free_ports_subset[of ?b] inv by (force simp: port_inv_def)
      then have "e \<le> 2147483647" using inv by (auto simp: bitmap_ports_def port_inv_def bitmap_inv_def)
      with c i 3 a Ok x assms(2) show ?thesis by (auto simp: allocatePorts_def ports_of_pos)
    qed (use assms(2) 3 a nd AllocateRange_fail[OF a] in \<open>auto simp: allocatePorts_def\<close>)
  qed (use assms in \<open>auto simp: allocatePorts_def ports_ok_def valid_range_def\<close>)
qed

text \<open>Giving ports to an object that owns none.\<close>

lemma pm_ok_give_ports:
  assumes ok: "pm_ok u A pm own" and q: "q < length (heap pm)" "q \<notin># owners pm own"
    and v: "valid_range (s, e)" and b: "port_inv b" "bitmap_ports b = A"
    and c: "conserved A (free_ports b) (add_mset (s, e) (ranges (heap pm) (owners pm own)))"
    and f: "range_of (f (obj pm q)) = (s, e)" "pName (f (obj pm q)) = pName (obj pm q)"
      "pUUID (f (obj pm q)) = pUUID (obj pm q)"
  shows "pm_ok u A (upd_obj q f (pm\<lparr>availablePorts := b\<rparr>)) (add_mset q own)"
proof -
  let ?pm = "upd_obj q f (pm\<lparr>availablePorts := b\<rparr>)"
  have nth: "obj ?pm i = (if i = q then f (obj pm q) else obj pm i)" if "i < length (heap pm)" for i
    using that by (simp add: upd_obj_nth)
  have "owners ?pm (add_mset q own) = add_mset q (owners pm own)" by (simp add: owners_def)
  moreover have "ranges (heap ?pm) (owners pm own) = ranges (heap pm) (owners pm own)"
    using q owners_bound[OF ok] by (intro ranges_cong) (auto simp: nth)
  ultimately have "ranges (heap ?pm) (owners ?pm (add_mset q own))
      = add_mset (s, e) (ranges (heap pm) (owners pm own))"
    using q f by (simp add: nth)
  moreover have "heap_ok u (heap ?pm)"
    using ok f v by (auto simp: pm_ok_def heap_ok_def nth)
  moreover have "map_ok ?pm"
    using ok f by (fastforce simp: pm_ok_def map_ok_def nth)
  ultimately show ?thesis using ok b c q by (auto simp: pm_ok_def ports_ok_def)
qed

text \<open>The objects other than \<open>q\<close>, and what of \<open>q\<close> is not its ports, are left alone.\<close>

definition frame_obj :: "ptr \<Rightarrow> Manager \<Rightarrow> Manager \<Rightarrow> bool" where
  "frame_obj q pm pm' \<longleftrightarrow> length (heap pm') = length (heap pm) \<and> processes pm' = processes pm
     \<and> (\<forall>i. i \<noteq> q \<longrightarrow> obj pm' i = obj pm i)
     \<and> pName (obj pm' q) = pName (obj pm q) \<and> pUUID (obj pm' q) = pUUID (obj pm q)
     \<and> pBinary (obj pm' q) = pBinary (obj pm q) \<and> pState (obj pm' q) = pState (obj pm q)
     \<and> pcmd (obj pm' q) = pcmd (obj pm q)"

lemma frame_obj_refl [simp]: "frame_obj q pm pm"
  by (simp add: frame_obj_def)

lemma frame_obj_upd:
  "q < length (heap pm) \<Longrightarrow> frame_obj q pm (pm\<lparr>availablePorts := b\<rparr>)"
  "q < length (heap pm) \<Longrightarrow> frame_obj q pm (upd_obj q (set_ports s e) (pm\<lparr>availablePorts := b\<rparr>))"
  "q < length (heap pm) \<Longrightarrow>
   frame_obj q pm (upd_obj q (\<lambda>p. set_ports s e p\<lparr>pArgs := args\<rparr>) (pm\<lparr>availablePorts := b\<rparr>))"
  by (auto simp: frame_obj_def upd_obj_def set_ports_def)

lemma set_ports_none: "range_of p = (0, 0) \<Longrightarrow> set_ports 0 0 p = p"
  by (cases p) (simp add: set_ports_def range_of_def)

lemma allocateProcessPorts_gives:
  assumes ok: "pm_ok u A pm own" and q: "q < length (heap pm)" "q \<notin># owners pm own"
    and r: "allocateProcessPorts pm q = (pm', r)"
    and a: "allocatePorts pm (pPortCount (obj pm q)) = (pm1, Ok (s, e))"
    and n: "int (length (pPortArgs (obj pm q))) \<le> pPortCount (obj pm q)"
  shows "pm_ok u A pm' (add_mset q own) \<and> frame_obj q pm pm' \<and> r = Ok ()
    \<and> pPortCount (obj pm q) = int (card (ports_of (range_of (obj pm' q))))
    \<and> ports_of (range_of (obj pm' q)) \<subseteq> free_ports (availablePorts pm)
    \<and> free_ports (availablePorts pm') = free_ports (availablePorts pm) - ports_of (range_of (obj pm' q))
    \<and> pArgs (obj pm' q) = pArgs (obj pm q) @ port_args (pPortStart (obj pm' q)) (pPortArgs (obj pm q))"
proof -
  let ?p = "obj pm q" and ?n = "pPortCount (obj pm q)"
  let ?f = "\<lambda>p. set_ports s e p\<lparr>pArgs := pArgs ?p @ port_args s (pPortArgs ?p)\<rparr>"
  have pok: "ports_ok A pm own" using ok by (simp add: pm_ok_def)
  from allocatePorts_cases[OF pok a] have
    al: "valid_range (s, e)" "port_inv (availablePorts pm1)" "bitmap_ports (availablePorts pm1) = A"
      "conserved A (free_ports (availablePorts pm1)) (add_mset (s, e) (ranges (heap pm) (owners pm own)))"
      "ports_of (s, e) \<subseteq> free_ports (availablePorts pm)"
      "free_ports (availablePorts pm1) = free_ports (availablePorts pm) - ports_of (s, e)"
      "0 < ?n \<longrightarrow> 0 < s \<and> e = s + ?n - 1 \<and> e \<le> 2147483647" "?n = 0 \<longrightarrow> s = 0 \<and> e = 0" "0 \<le> ?n"
    and pm1: "pm1 = pm\<lparr>availablePorts := availablePorts pm1\<rparr>"
    by auto
  have "append_port_args s e 0 (pPortArgs ?p) (pArgs ?p) = (pArgs ?p @ port_args s (pPortArgs ?p), Ok ())"
    using append_port_args_fits[of s e 0 "pPortArgs ?p"] al n by (cases "?n = 0") auto
  with r a n have res: "pm' = upd_obj q ?f pm1" "r = Ok ()"
    by (auto simp: allocateProcessPorts_def Let_def)
  have "pm_ok u A (upd_obj q ?f (pm\<lparr>availablePorts := availablePorts pm1\<rparr>)) (add_mset q own)"
    by (rule pm_ok_give_ports[OF ok q al(1-4)]) (simp_all add: set_ports_def range_of_def)
  then have "pm_ok u A pm' (add_mset q own)" using pm1 res by simp
  moreover have "frame_obj q pm pm'" using frame_obj_upd(3)[OF q(1)] pm1 res by metis
  moreover have p': "range_of (obj pm' q) = (s, e)" "pArgs (obj pm' q) = pArgs ?p @ port_args s (pPortArgs ?p)"
    using res q arg_cong[OF pm1, of heap] by (simp_all add: upd_obj_def range_of_def set_ports_def)
  moreover have "pPortStart (obj pm' q) = s" using p' by (simp add: range_of_def)
  moreover have "?n = int (card (ports_of (s, e)))"
    using al by (cases "?n = 0") (auto simp: ports_of_pos)
  moreover have "availablePorts pm' = availablePorts pm1" using res by simp
  ultimately show ?thesis using al(5,6) res(2) by simp
qed

lemma allocateProcessPorts_cases:
  assumes ok: "pm_ok u A pm own" and q: "q < length (heap pm)" "q \<notin># owners pm own"
    and z: "range_of (obj pm q) = (0, 0)" and r: "allocateProcessPorts pm q = (pm', r)"
  shows "pm_ok u A pm' (add_mset q own) \<and> frame_obj q pm pm'
     \<and> ((r = Ok () \<and> pPortCount (obj pm q) = int (card (ports_of (range_of (obj pm' q))))
            \<and> ports_of (range_of (obj pm' q)) \<subseteq> free_ports (availablePorts pm)
            \<and> free_ports (availablePorts pm')
               = free_ports (availablePorts pm) - ports_of (range_of (obj pm' q))
            \<and> pArgs (obj pm' q) = pArgs (obj pm q)
               @ port_args (pPortStart (obj pm' q)) (pPortArgs (obj pm q)))
        \<or> (\<exists>e. r = Err e) \<and> pm' = pm \<and> (int (length (pPortArgs (obj pm q))) > pPortCount (obj pm q)
             \<or> (\<forall>x. snd (allocatePorts pm (pPortCount (obj pm q))) \<noteq> Ok x)))"
proof -
  let ?p = "obj pm q" and ?n = "pPortCount (obj pm q)"
  have pok: "ports_ok A pm own" using ok by (simp add: pm_ok_def)
  have own: "pm_ok u A pm (add_mset q own)"
    using ok q z by (simp add: pm_ok_def ports_ok_def owners_def)
  obtain pm1 a where a: "allocatePorts pm ?n = (pm1, a)" by fastforce
  consider "int (length (pPortArgs ?p)) > ?n"
    | e where "int (length (pPortArgs ?p)) \<le> ?n" "a = Err e"
    | s e where "int (length (pPortArgs ?p)) \<le> ?n" "a = Ok (s, e)"
    using allocatePorts_cases[OF pok a] by (metis linorder_not_le)
  then show ?thesis
  proof cases
    case 1
    with r own show ?thesis by (auto simp: allocateProcessPorts_def Let_def)
  next
    case 2
    then have "pm1 = pm" using allocatePorts_cases[OF pok a] by auto
    moreover have "upd_obj q (set_ports 0 0) pm = pm"
      using z by (simp add: upd_obj_def set_ports_none)
    ultimately show ?thesis using r own 2 a by (auto simp: allocateProcessPorts_def Let_def)
  next
    case 3
    with a have "allocatePorts pm ?n = (pm1, Ok (s, e))" by simp
    from allocateProcessPorts_gives[OF ok q r this 3(1)] show ?thesis by simp
  qed
qed

section \<open>Release and registration\<close>

lemma releaseProcessPorts_ok:
  assumes ok: "pm_ok u A pm (add_mset q own)"
  shows "\<exists>b. releaseProcessPorts pm q = pm\<lparr>availablePorts := b\<rparr>
     \<and> free_ports b = free_ports (availablePorts pm) \<union> ports_of (range_of (obj pm q))
     \<and> pm_ok u A (pm\<lparr>availablePorts := b\<rparr>) own"
proof -
  let ?b = "availablePorts pm" and ?s = "pPortStart (obj pm q)" and ?e = "pPortEnd (obj pm q)"
  have inv: "port_inv ?b" "bitmap_ports ?b = A" and
    c: "conserved A (free_ports ?b) (add_mset (?s, ?e) (ranges (heap pm) (owners pm own)))"
    using ok by (auto simp: pm_ok_def ports_ok_def owners_def range_of_def)
  have v: "valid_range (?s, ?e)" using ok by (auto simp: pm_ok_def heap_ok_def range_of_def)
  from bitmap.release_conserved[OF inv(1) c[folded inv(2)] v] inv obtain b where
    b: "ReleaseRange ?b ?s ?e = (b, Ok ())" "port_inv b" "bitmap_ports b = A"
      "conserved A (free_ports b) (ranges (heap pm) (owners pm own))" by auto
  have "free_ports b = free_ports ?b \<union> ports_of (?s, ?e)"
  proof (cases "(?s, ?e) = (0, 0)")
    case False
    then have p: "0 < ?s" "?s \<le> ?e" using v by (auto simp: valid_range_def)
    then have "{?s..?e} \<subseteq> bitmap_ports ?b"
      using conserved_member[OF c] inv by (simp add: ports_of_pos)
    from bitmap.release_ok[OF inv(1) p this] b p show ?thesis by (auto simp: ports_of_pos)
  qed (use b in simp)
  moreover have "releaseProcessPorts pm q = pm\<lparr>availablePorts := b\<rparr>"
    using b v by (auto simp: releaseProcessPorts_def releasePorts_def valid_range_def)
  moreover have "pm_ok u A (pm\<lparr>availablePorts := b\<rparr>) own"
    using ok b by (auto simp: pm_ok_def ports_ok_def owners_def map_ok_def)
  ultimately show ?thesis by (auto simp: range_of_def)
qed

lemma mset_AList_update_new:
  "map_of ps k = None \<Longrightarrow> mset (map snd (AList.update k v ps)) = add_mset v (mset (map snd ps))"
  by (induction ps) (auto split: if_splits)

lemma mset_AList_update_old:
  "map_of ps k = Some w \<Longrightarrow>
   add_mset w (mset (map snd (AList.update k v ps))) = add_mset v (mset (map snd ps))"
  by (induction ps) (auto split: if_splits)

lemma mset_AList_delete:
  "distinct (map fst ps) \<Longrightarrow> map_of ps k = Some w \<Longrightarrow>
   add_mset w (mset (map snd (AList.delete k ps))) = mset (map snd ps)"
proof (induction ps)
  case (Cons p ps)
  have "AList.delete (fst p) ps = ps"
    using Cons.prems by (auto simp: AList.delete_eq filter_id_conv image_iff)
  with Cons show ?case by (auto split: if_splits)
qed simp

lemma map_ok_update:
  assumes "map_ok pm" "q < length (heap pm)"
  shows "map_ok (pm\<lparr>processes := AList.update (pName (obj pm q)) q (processes pm)\<rparr>)"
proof -
  let ?ps = "AList.update (pName (obj pm q)) q (processes pm)"
  have "distinct (map fst ?ps)" using assms by (simp add: map_ok_def distinct_update)
  moreover have "r < length (heap pm) \<and> pName (obj pm r) = k" if "(k, r) \<in> set ?ps" for k r
  proof -
    have "map_of ?ps k = Some r" using calculation that by simp
    then show ?thesis
      using assms by (auto simp: update_Some_unfold map_ok_def dest!: map_of_SomeD)
  qed
  ultimately show ?thesis by (auto simp: map_ok_def)
qed

lemma map_ok_delete:
  "map_ok pm \<Longrightarrow> map_ok (pm\<lparr>processes := AList.delete k (processes pm)\<rparr>)"
  using distinct_delete[of "processes pm" k] by (auto simp: map_ok_def AList.delete_eq)

text \<open>An object moves between the in-flight owners and the map without touching the ports.\<close>

lemma pm_ok_move_in:
  assumes ok: "pm_ok u A pm (add_mset q own)" and f: "findProcess pm (pName (obj pm q)) = None"
  shows "pm_ok u A (pm\<lparr>processes := AList.update (pName (obj pm q)) q (processes pm)\<rparr>) own"
  using assms map_ok_update[of pm q] mset_AList_update_new[of "processes pm" "pName (obj pm q)" q]
  by (auto simp: pm_ok_def ports_ok_def owners_def findProcess_def)

lemma pm_ok_move_out:
  assumes ok: "pm_ok u A pm own" and f: "findProcess pm k = Some w"
  shows "pm_ok u A (pm\<lparr>processes := AList.delete k (processes pm)\<rparr>) (add_mset w own)"
proof -
  have "distinct (map fst (processes pm))" using ok by (simp add: pm_ok_def map_ok_def)
  then have "owners (pm\<lparr>processes := AList.delete k (processes pm)\<rparr>) (add_mset w own) = owners pm own"
    using mset_AList_delete[of "processes pm" k w] f by (simp add: owners_def findProcess_def)
  then show ?thesis
    using ok map_ok_delete[of pm k] pm_ok_find[OF ok f] by (auto simp: pm_ok_def ports_ok_def)
qed

lemma pm_ok_swap:
  assumes ok: "pm_ok u A pm (add_mset q own)" and f: "findProcess pm (pName (obj pm q)) = Some w"
  shows "pm_ok u A (pm\<lparr>processes := AList.update (pName (obj pm q)) q (processes pm)\<rparr>) (add_mset w own)"
proof -
  let ?ps = "AList.update (pName (obj pm q)) q (processes pm)"
  have "owners (pm\<lparr>processes := ?ps\<rparr>) (add_mset w own) = owners pm (add_mset q own)"
    using mset_AList_update_old[of "processes pm" "pName (obj pm q)" w q] f
    by (simp add: owners_def findProcess_def)
  then show ?thesis
    using ok map_ok_update[of pm q] pm_ok_find[OF ok f] by (auto simp: pm_ok_def ports_ok_def)
qed

lemma releaseProcessPorts_simps [simp]:
  "heap (releaseProcessPorts pm q) = heap pm" "processes (releaseProcessPorts pm q) = processes pm"
  by (simp_all add: releaseProcessPorts_def releasePorts_def split: prod.splits)

lemma releaseProcessPorts_processes:
  "(releaseProcessPorts pm q)\<lparr>processes := ps\<rparr> = releaseProcessPorts (pm\<lparr>processes := ps\<rparr>) q"
  by (simp add: releaseProcessPorts_def releasePorts_def split: prod.splits)

lemma registerProcess_cases:
  assumes ok: "pm_ok u A pm own" and q: "q < length (heap pm)" "q \<notin># owners pm own"
    and z: "range_of (obj pm q) = (0, 0)" and r: "registerProcess pm q = (pm', r)"
  shows "pm_ok u A pm' own \<and> ((r = Ok () \<and> findProcess pm (pName (obj pm q)) = None
             \<and> findProcess pm' = (findProcess pm)(pName (obj pm q) \<mapsto> q))
          \<or> (\<exists>e. r = Err e) \<and> pm' = pm)"
proof (cases "findProcess pm (pName (obj pm q))")
  case (Some w)
  with r ok show ?thesis by (auto simp: registerProcess_def Let_def)
next
  case None
  obtain pm1 a where a: "allocateProcessPorts pm q = (pm1, a)" by fastforce
  have ok1: "pm_ok u A pm1 (add_mset q own)" and fr: "frame_obj q pm pm1"
    and c: "a = Ok () \<or> (\<exists>e. a = Err e) \<and> pm1 = pm"
    using allocateProcessPorts_cases[OF ok q z a] by blast+
  have n: "pName (obj pm1 q) = pName (obj pm q)" "processes pm1 = processes pm"
    using fr by (auto simp: frame_obj_def)
  from c show ?thesis
  proof
    assume "a = Ok ()"
    then have "(pm', r) = (pm1\<lparr>processes := AList.update (pName (obj pm1 q)) q (processes pm1)\<rparr>, Ok ())"
      by (simp add: r[symmetric] registerProcess_def Let_def a None n)
    then have "r = Ok ()"
      and pm': "pm' = pm1\<lparr>processes := AList.update (pName (obj pm1 q)) q (processes pm1)\<rparr>"
      by simp_all
    moreover have "pm_ok u A pm' own"
      unfolding pm' using pm_ok_move_in[OF ok1] None n by (simp add: findProcess_def)
    moreover have "findProcess pm' = (findProcess pm)(pName (obj pm q) \<mapsto> q)"
      unfolding pm' by (rule ext) (simp add: findProcess_def update_conv' n)
    ultimately show ?thesis using None by simp
  qed (use r a None ok in \<open>auto simp: registerProcess_def Let_def\<close>)
qed

text \<open>Registered under its own name means, when UUIDs differ, being the registered object.\<close>

lemma is_registered_iff:
  assumes "inj u" "pm_ok u A pm own" "q < length (heap pm)"
  shows "is_registered pm q \<longleftrightarrow> findProcess pm (pName (obj pm q)) = Some q"
proof -
  have "pUUID (obj pm r) = pUUID (obj pm q) \<longleftrightarrow> r = q"
    if "findProcess pm (pName (obj pm q)) = Some r" for r
    using assms that pm_ok_uuid[OF assms(2)] pm_ok_find[OF assms(2) that] by (auto dest: injD)
  then show ?thesis by (auto simp: is_registered_def split: option.splits)
qed

lemma unregister_commit_cases:
  assumes u: "inj u" and ok: "pm_ok u A pm own" and q: "q < length (heap pm)"
  shows "pm_ok u A (unregister_commit pm q) own \<and> heap (unregister_commit pm q) = heap pm
    \<and> findProcess (unregister_commit pm q) =
       (if findProcess pm (pName (obj pm q)) = Some q
        then (findProcess pm)(pName (obj pm q) := None) else findProcess pm)"
proof (cases "findProcess pm (pName (obj pm q)) = Some q")
  case True
  let ?pm = "pm\<lparr>processes := AList.delete (pName (obj pm q)) (processes pm)\<rparr>"
  have "is_registered pm q" using is_registered_iff[OF u ok q] True by simp
  then have c: "unregister_commit pm q = releaseProcessPorts ?pm q" by (simp add: unregister_commit_def)
  from releaseProcessPorts_ok[OF pm_ok_move_out[OF ok True]] obtain b where
    "releaseProcessPorts ?pm q = ?pm\<lparr>availablePorts := b\<rparr>" "pm_ok u A (?pm\<lparr>availablePorts := b\<rparr>) own"
    by auto
  with c True show ?thesis by (auto simp: findProcess_def delete_conv')
qed (use assms is_registered_iff[OF assms] in \<open>auto simp: unregister_commit_def\<close>)

lemma replace_commit_cases:
  assumes u: "inj u" and ok: "pm_ok u A pm (add_mset q own)" and old: "old < length (heap pm)"
    and r: "replace_commit pm q old = (pm', done)"
  shows "heap pm' = heap pm \<and> (if done then pm_ok u A pm' own
            \<and> findProcess pm' = (findProcess pm)(pName (obj pm q) \<mapsto> q)
            \<and> findProcess pm (pName (obj pm q)) \<in> {None, Some old}
          else pm' = pm \<and> findProcess pm (pName (obj pm q)) \<notin> {None, Some old})"
proof -
  let ?n = "pName (obj pm q)"
  let ?pm = "pm\<lparr>processes := AList.update ?n q (processes pm)\<rparr>"
  have upd: "findProcess ?pm = (findProcess pm)(?n \<mapsto> q)"
    by (rule ext) (simp add: findProcess_def update_conv')
  consider "findProcess pm ?n = None" | "findProcess pm ?n = Some old"
    | w where "findProcess pm ?n = Some w" "w \<noteq> old" by (cases "findProcess pm ?n") auto
  then show ?thesis
  proof cases
    case 1
    with r pm_ok_move_in[OF ok 1] upd show ?thesis by (auto simp: replace_commit_def Let_def)
  next
    case 2
    from releaseProcessPorts_ok[OF pm_ok_swap[OF ok 2]] obtain b where
      b: "releaseProcessPorts ?pm old = ?pm\<lparr>availablePorts := b\<rparr>" "pm_ok u A (?pm\<lparr>availablePorts := b\<rparr>) own"
      by auto
    have "findProcess (?pm\<lparr>availablePorts := b\<rparr>) = findProcess ?pm" by (simp add: findProcess_def fun_eq_iff)
    with 2 r b upd show ?thesis
      by (auto simp: replace_commit_def Let_def releaseProcessPorts_processes)
  next
    case 3
    then have "pUUID (obj pm w) \<noteq> pUUID (obj pm old)"
      using pm_ok_uuid[OF ok] pm_ok_find[OF ok 3(1)] old u by (auto dest: injD)
    with 3 r show ?thesis by (auto simp: replace_commit_def Let_def)
  qed
qed

lemma initProcessReplace_cases:
  assumes ok: "pm_ok u A pm own" and q: "q < length (heap pm)" "q \<notin># owners pm own"
    and z: "range_of (obj pm q) = (0, 0)" and r: "initProcessReplace pm q = (pm', r)"
  shows "(\<exists>old. r = Ok old \<and> findProcess pm (pName (obj pm q)) = Some old
            \<and> pm_ok u A pm' (add_mset q own) \<and> frame_obj q pm pm')
       \<or> ((\<exists>e. r = Err e) \<and> pm' = pm)"
proof (cases "findProcess pm (pName (obj pm q))")
  case None
  with r show ?thesis by (auto simp: initProcessReplace_def Let_def)
next
  case (Some old)
  obtain pm1 a where a: "allocateProcessPorts pm q = (pm1, a)" by fastforce
  have "pm_ok u A pm1 (add_mset q own)" "frame_obj q pm pm1"
    and c: "a = Ok () \<or> (\<exists>e. a = Err e) \<and> pm1 = pm"
    using allocateProcessPorts_cases[OF ok q z a] by blast+
  moreover have "(pm', r) = (pm1, Ok old)" if "a = Ok ()"
    using that by (simp add: r[symmetric] initProcessReplace_def Let_def a Some)
  moreover have "(pm', r) = (pm1, Err e)" if "a = Err e" for e
    using that by (simp add: r[symmetric] initProcessReplace_def Let_def a Some)
  ultimately show ?thesis using Some by auto
qed

lemma initProcessReplace_ports:
  assumes ok: "pm_ok u A pm own" and q: "q < length (heap pm)" "q \<notin># owners pm own"
    and z: "range_of (obj pm q) = (0, 0)" and r: "initProcessReplace pm q = (pm', Ok old)"
  shows "free_ports (availablePorts pm') \<union> ports_of (range_of (obj pm' q)) = free_ports (availablePorts pm)"
proof -
  obtain pm1 a where a: "allocateProcessPorts pm q = (pm1, a)" by fastforce
  with r have e: "a = Ok ()" "pm' = pm1"
    by (auto simp: initProcessReplace_def Let_def split: option.splits go_result.splits)
  then have "ports_of (range_of (obj pm' q)) \<subseteq> free_ports (availablePorts pm)"
    "free_ports (availablePorts pm') = free_ports (availablePorts pm) - ports_of (range_of (obj pm' q))"
    using allocateProcessPorts_cases[OF ok q z a] by blast+
  then show ?thesis by blast
qed

lemma replace_commit_ports:
  assumes ok: "pm_ok u A pm (add_mset q own)" and r: "replace_commit pm q old = (pm', True)"
  shows "findProcess pm (pName (obj pm q)) = None \<longrightarrow> availablePorts pm' = availablePorts pm"
    "findProcess pm (pName (obj pm q)) = Some old \<longrightarrow> free_ports (availablePorts pm')
       = free_ports (availablePorts pm) \<union> ports_of (range_of (obj pm old))"
proof -
  show "findProcess pm (pName (obj pm q)) = None \<longrightarrow> availablePorts pm' = availablePorts pm"
    using r by (auto simp: replace_commit_def Let_def)
  let ?pm = "pm\<lparr>processes := AList.update (pName (obj pm q)) q (processes pm)\<rparr>"
  show "findProcess pm (pName (obj pm q)) = Some old \<longrightarrow> free_ports (availablePorts pm')
       = free_ports (availablePorts pm) \<union> ports_of (range_of (obj pm old))"
  proof
    assume f: "findProcess pm (pName (obj pm q)) = Some old"
    then have "pm' = releaseProcessPorts ?pm old"
      using r by (auto simp: replace_commit_def Let_def releaseProcessPorts_processes)
    with releaseProcessPorts_ok[OF pm_ok_swap[OF ok f]] show
      "free_ports (availablePorts pm') = free_ports (availablePorts pm) \<union> ports_of (range_of (obj pm old))"
      by auto
  qed
qed

section \<open>Creation of the manager\<close>

lemma ParsePortRange_Itoa:
  assumes "is_int32 s" "is_int32 e" "0 \<le> s" "0 \<le> e"
  shows "ParsePortRange (strconv_Itoa s @ ''-'' @ strconv_Itoa e) = Ok (s, e)"
proof -
  have d: "CHR ''-'' \<notin> set (strconv_Itoa i)" if "0 \<le> i" for i
    using that nat_digits_no_char[of "CHR ''-''"] by (simp add: strconv_Itoa_def)
  have t: "strings_TrimSpace (strconv_Itoa i) = strconv_Itoa i" if "0 \<le> i" for i
    using that nat_digits_not_space by (intro TrimSpace_id) (auto simp: strconv_Itoa_def)
  have "strings_Split (CHR ''-'') (strconv_Itoa s @ ''-'' @ strconv_Itoa e) = [strconv_Itoa s, strconv_Itoa e]"
    using d assms strings_Split_append[of "CHR ''-''" "strconv_Itoa s" "strconv_Itoa e"] by simp
  with assms t show ?thesis
    by (simp add: ParsePortRange_def Atoi_Itoa is_int32_def is_int64_def wrap32_eq_id)
qed

lemma NewManager_ok:
  assumes "NewManager None portRange dir = Ok pm" "0 < portRangeMin pm"
  shows "pm_ok u {portRangeMin pm .. portRangeMax pm} pm {#} \<and> heap pm = [] \<and> processes pm = []
     \<and> free_ports (availablePorts pm) = {portRangeMin pm .. portRangeMax pm}"
proof -
  from assms obtain s e b where
    p: "ParsePortRange portRange = Ok (s, e)" and b: "NewBitmap s e = Ok b" and
    pm: "pm = \<lparr>portRangeMin = s, portRangeMax = e, processes = [], availablePorts = b,
           logsDir = dir, heap = []\<rparr>"
    by (auto simp: NewManager_def go_bind_Ok_iff)
  have i: "is_int32 s" "is_int32 e"
    using p by (auto simp: ParsePortRange_def go_bind_Ok_iff split: if_splits list.splits)
  have se: "s \<le> e" using b by (auto simp: NewBitmap_def split: if_splits)
  with i assms(2) pm have "e - s < 2147483647" by (auto simp: is_int32_def)
  with NewBitmap_sound[OF i se] b have
    "bitmap_inv b" "free_ports b = {s..e}" "bitmap_ports b = {s..e}" "base b = s" by auto
  with pm assms(2) show ?thesis
    by (simp add: pm_ok_def heap_ok_def map_ok_def ports_ok_def port_inv_def owners_def conserved_start)
qed

text \<open>Objects are only added, and an existing object keeps its identity.\<close>

definition heap_ext :: "Process list \<Rightarrow> Process list \<Rightarrow> bool" where
  "heap_ext h h' \<longleftrightarrow> length h \<le> length h' \<and> (\<forall>i < length h. same_identity (h ! i) (h' ! i))"

lemma heap_ext_refl [simp]: "heap_ext h h"
  by (simp add: heap_ext_def)

lemma heap_ext_trans: "heap_ext a b \<Longrightarrow> heap_ext b c \<Longrightarrow> heap_ext a c"
  by (auto simp: heap_ext_def same_identity_def)

lemma heap_ext_upd: "(\<And>p. same_identity p (f p)) \<Longrightarrow> heap_ext (heap pm) (heap (upd_obj q f pm))"
  by (simp add: heap_ext_def upd_obj_nth)

section \<open>Conditions and listing\<close>

lemma needs_condition_returns:
  "\<exists>r. needs_condition sha mounts p = Ok r"
  using IsEngineProcess_volume[of "pName p"] by (auto simp: needs_condition_def)

lemma set_condition_identity [identity]: "same_identity p (set_condition mp p)"
  by (simp add: set_condition_def same_identity_def)

lemma update_conditions_ok:
  "pm_ok u A pm own \<Longrightarrow> update_conditions sha mounts ps pm acc = (pm', r) \<Longrightarrow>
   pm_ok u A pm' own \<and> length (heap pm') = length (heap pm) \<and> processes pm' = processes pm
   \<and> (\<exists>qs. r = Ok (acc @ qs) \<and> set qs \<subseteq> snd ` set ps)"
proof (induction sha mounts ps pm acc arbitrary: pm' r rule: update_conditions.induct)
  case (2 sha mounts k q rest pm acc)
  obtain c where c: "needs_condition sha mounts (obj pm q) = Ok c" using needs_condition_returns by blast
  show ?case
  proof (cases c)
    case None
    with 2 c show ?thesis by fastforce
  next
    case (Some mp)
    let ?pm = "upd_obj q (set_condition mp) pm"
    have "pm_ok u A ?pm own" using 2(3) by (intro pm_ok_upd_obj set_condition_identity)
    with 2(2)[OF c Some, of pm' r] 2(4) c Some show ?thesis by fastforce
  qed
qed auto

lemma checkMountPoint_ok:
  assumes "pm_ok u A pm own" "checkMountPointStatusForEngine sha listing pm = (pm', r)"
    "listing \<noteq> Panic" "listing \<noteq> Diverge"
  shows "pm_ok u A pm' own \<and> length (heap pm') = length (heap pm) \<and> processes pm' = processes pm
   \<and> (\<exists>qs. r = Ok qs \<and> set qs \<subseteq> snd ` set (processes pm))"
proof -
  have "GetVolumeMountPointMap listing \<noteq> Panic" "GetVolumeMountPointMap listing \<noteq> Diverge"
    using assms(3,4) collect_mount_points_total
    by (cases listing; metis GetVolumeMountPointMap_def go_bind.simps go_result.distinct)+
  then obtain m where "update_conditions sha m (processes pm) pm [] = (pm', r)"
    using assms(2)
    by (cases "GetVolumeMountPointMap listing")
      (auto simp: checkMountPointStatusForEngine_def getProcessesToUpdateConditions_def)
  from update_conditions_ok[OF assms(1) this] show ?thesis by simp
qed

lemma update_conditions_heap:
  "update_conditions sha mounts ps pm acc = (pm', r) \<Longrightarrow> heap_ext (heap pm) (heap pm')"
proof (induction sha mounts ps pm acc arbitrary: pm' r rule: update_conditions.induct)
  case (2 sha mounts k q rest pm acc)
  obtain c where c: "needs_condition sha mounts (obj pm q) = Ok c" using needs_condition_returns by blast
  show ?case
  proof (cases c)
    case None
    with 2 c show ?thesis by simp
  next
    case (Some mp)
    with 2 c have "heap_ext (heap (upd_obj q (set_condition mp) pm)) (heap pm')" by simp
    with heap_ext_upd[OF set_condition_identity] show ?thesis by (rule heap_ext_trans)
  qed
qed simp

lemma checkMountPoint_heap:
  "checkMountPointStatusForEngine sha listing pm = (pm', r) \<Longrightarrow> heap_ext (heap pm) (heap pm')"
  by (auto simp: checkMountPointStatusForEngine_def getProcessesToUpdateConditions_def
      intro: update_conditions_heap split: go_result.splits)

lemma map_ok_distinct: "map_ok pm \<Longrightarrow> distinct (map snd (processes pm))"
proof -
  assume ok: "map_ok pm"
  then have "map fst (processes pm) = map (\<lambda>q. pName (obj pm q)) (map snd (processes pm))"
    by (auto simp: map_ok_def)
  with ok show ?thesis unfolding map_ok_def by (metis distinct_map)
qed

text \<open>The effect of the loop on the objects, each of which it visits at most once.\<close>

definition condition_of ::
  "(string \<Rightarrow> string) \<Rightarrow> (string \<rightharpoonup> MountPoint) \<Rightarrow> Process \<Rightarrow> MountPoint option" where
  "condition_of sha mounts p = (case needs_condition sha mounts p of Ok c \<Rightarrow> c | _ \<Rightarrow> None)"

lemma update_conditions_Cons:
  "update_conditions sha mounts ((k, q) # rest) pm acc =
     (case condition_of sha mounts (obj pm q) of
        None \<Rightarrow> update_conditions sha mounts rest pm acc
      | Some mp \<Rightarrow> update_conditions sha mounts rest (upd_obj q (set_condition mp) pm) (acc @ [q]))"
  using needs_condition_returns[of sha mounts "obj pm q"] by (auto simp: condition_of_def split: option.splits)

lemma update_conditions_other:
  "update_conditions sha mounts ps pm acc = (pm', Ok qs) \<Longrightarrow> i \<notin> snd ` set ps \<Longrightarrow>
   obj pm' i = obj pm i \<and> (i \<in> set qs \<longleftrightarrow> i \<in> set acc)"
proof (induction ps arbitrary: pm acc)
  case (Cons kq ps)
  obtain k q where [simp]: "kq = (k, q)" by fastforce
  show ?case
  proof (cases "condition_of sha mounts (obj pm q)")
    case None
    with Cons show ?thesis by (simp add: update_conditions_Cons del: update_conditions.simps(2))
  next
    case (Some mp)
    let ?pm = "upd_obj q (set_condition mp) pm"
    have "update_conditions sha mounts ps ?pm (acc @ [q]) = (pm', Ok qs)"
      using Cons.prems(1) Some by (simp add: update_conditions_Cons del: update_conditions.simps(2))
    from Cons.IH[OF this] Cons.prems(2) show ?thesis by (simp add: upd_obj_def)
  qed
qed simp

lemma update_conditions_effect:
  assumes "update_conditions sha mounts ps pm acc = (pm', Ok qs)" "distinct (map snd ps)"
    "\<forall>q \<in> snd ` set ps. q < length (heap pm)" "i \<in> snd ` set ps" "i \<notin> set acc"
  shows "(i \<in> set qs \<longleftrightarrow> condition_of sha mounts (obj pm i) \<noteq> None)
    \<and> obj pm' i = (case condition_of sha mounts (obj pm i) of None \<Rightarrow> obj pm i
                   | Some mp \<Rightarrow> set_condition mp (obj pm i))"
  using assms
proof (induction ps arbitrary: pm acc)
  case (Cons kq ps)
  obtain k q where [simp]: "kq = (k, q)" by fastforce
  let ?c = "condition_of sha mounts (obj pm q)"
  let ?pm = "case ?c of None \<Rightarrow> pm | Some mp \<Rightarrow> upd_obj q (set_condition mp) pm"
  let ?acc = "case ?c of None \<Rightarrow> acc | Some mp \<Rightarrow> acc @ [q]"
  have u: "update_conditions sha mounts ps ?pm ?acc = (pm', Ok qs)"
    using Cons.prems(1) by (simp add: update_conditions_Cons del: update_conditions.simps(2) split: option.splits)
  show ?case
  proof (cases "i = q")
    case True
    then have "i \<notin> snd ` set ps" using Cons.prems(2) by auto
    from update_conditions_other[OF u this] Cons.prems(3,5) True show ?thesis
      by (auto simp: upd_obj_def split: option.splits)
  next
    case False
    have o: "obj ?pm i = obj pm i" using False by (simp add: upd_obj_def split: option.splits)
    have "i \<notin> set ?acc" using False Cons.prems(5) by (auto split: option.splits)
    moreover have "\<forall>q \<in> snd ` set ps. q < length (heap ?pm)"
      using Cons.prems(3) by (auto split: option.splits)
    ultimately show ?thesis using Cons.IH[OF u, unfolded o] Cons.prems(2,4) False by simp
  qed
qed simp

text \<open>\<^verbatim>\<open>ProcessList\<close> is keyed like the map it ranges over.\<close>

lemma fold_response:
  "distinct (map fst ps) \<Longrightarrow> \<forall>(k, q) \<in> set ps. pName (obj pm q) = k \<Longrightarrow>
   foldl (\<lambda>m (k, q). m(pName (obj pm q) \<mapsto> RPCResponse (obj pm q))) m ps
     = m ++ (\<lambda>n. map_option (\<lambda>q. RPCResponse (obj pm q)) (map_of ps n))"
proof (induction ps arbitrary: m)
  case (Cons kq ps)
  obtain k q where [simp]: "kq = (k, q)" by fastforce
  have "map_of ps k = None" using Cons.prems by (simp add: map_of_eq_None_iff)
  with Cons show ?case by (auto simp: fun_eq_iff map_add_def split: option.splits)
qed (simp add: map_add_def)

lemma ProcessList_eq:
  "map_ok pm \<Longrightarrow> ProcessList pm n = map_option (\<lambda>q. RPCResponse (obj pm q)) (findProcess pm n)"
  using fold_response[of "processes pm" pm Map.empty]
  by (force simp: ProcessList_def map_ok_def findProcess_def)

end
