(* ===== verification/Manager_Steps.thy ===== *)
theory Manager_Steps
  imports Process_Manager
begin

text \<open>
  The process manager at work: its gRPC handlers and the goroutines they start, as threads that
  interleave. Each thread is at one of its control points; a step runs it through one critical
  section (or one local computation) to its next control points. The update channel is
  unbuffered: a thread that sends an update waits until the monitor is ready to receive.
\<close>

section \<open>Threads\<close>

text \<open>
  The control points, with the rest of the thread (\<open>thread\<close>) where a method is called from several
  places. \<open>Send\<close> is \<^verbatim>\<open>p.UpdateCh <- p\<close>, \<open>CallStop\<close> the call of \<^verbatim>\<open>p.StopWithSignal(sig)\<close>,
  \<open>StopSpawn\<close> its point after the update, where \<^verbatim>\<open>p.cmd\<close> is read, and \<open>StopGo\<close> the goroutine it
  starts with what it read. \<open>Wait\<close> points carry the rounds left.
\<close>

datatype thread =
    Finished
  | Send ptr thread
  | CallStop ptr Signal thread
  | StopSpawn ptr Signal bool thread
  | StopGo ptr bool Signal bool
  | StopWait ptr nat
  | StopKill ptr
  | Create ProcessSpec
  | CreateStart ptr
  | Reply ptr
  | RunCmd ptr
  | RunWait ptr
  | RunReturn ptr "go_error option"
  | Probe ptr
  | ProbeStop ptr
  | Delete string string
  | DeleteResp ptr
  | Unregister ptr ProcessResponse
  | UnregWait ptr nat
  | UnregCheck ptr
  | UnregCommit ptr
  | Replace ProcessSpec string
  | ReplaceCheck ptr ptr
  | ReplaceStart ptr ptr
  | ReplaceWait ptr ptr nat
  | ReplaceCommit ptr ptr
  | Cleanup ptr go_error
  | ConditionTick

text \<open>
  \<open>receiving\<close> is the process the monitor has received and not broadcast yet, \<open>broadcasts\<close> what it
  has broadcast, \<open>replies\<close> what the handlers have returned.
\<close>

record System =
  mgr :: Manager
  receiving :: "ptr option"
  broadcasts :: "ProcessResponse list"
  replies :: "ProcessResponse go_result list"

text \<open>
  What the world outside answers in one step: the time, the outcome of opening the log file,
  of looking up the program, of starting it, of its run, of the health probe, and the mounts.
\<close>

record env =
  e_now :: int
  e_logger :: "go_error option"
  e_command :: "string \<Rightarrow> string list \<Rightarrow> go_error + BinaryCommand"
  e_start :: "go_error option"
  e_exit :: "go_error option"
  e_probe :: "nat \<Rightarrow> probe_event"
  e_mounts :: "go_error + MountPoint list"

definition executor :: "env \<Rightarrow> string \<Rightarrow> string list \<Rightarrow> BinaryCommand go_result" where
  "executor e binary args = of_sum (e_command e binary args)"

definition on_mgr :: "(Manager \<Rightarrow> Manager) \<Rightarrow> System \<Rightarrow> System" where
  "on_mgr f S = S\<lparr>mgr := f (mgr S)\<rparr>"

definition reply :: "ProcessResponse go_result \<Rightarrow> System \<Rightarrow> System" where
  "reply r S = S\<lparr>replies := replies S @ [r]\<rparr>"

section \<open>The methods of a process as threads\<close>

definition StopWithSignal ::
  "env \<Rightarrow> ptr \<Rightarrow> Signal \<Rightarrow> thread \<Rightarrow> System \<Rightarrow> System \<times> thread list" where
  "StopWithSignal e q sig k S =
     (case StopWithSignal_begin (e_now e) (obj (mgr S) q) of
        (_, needStop, needTimeoutKill, needCloseLogger) \<Rightarrow>
          if \<not> needStop \<and> \<not> needTimeoutKill then
            (if needCloseLogger then on_mgr (upd_obj q close_logger) S else S, [k])
          else (on_mgr (upd_obj q (\<lambda>p. fst (StopWithSignal_begin (e_now e) p))) S,
                [Send q (StopSpawn q sig needStop k)]))"

definition stop_goroutine ::
  "ptr \<Rightarrow> bool \<Rightarrow> Signal \<Rightarrow> bool \<Rightarrow> System \<Rightarrow> System \<times> thread list" where
  "stop_goroutine q has_cmd sig needStop S =
     (if \<not> has_cmd \<or> stop_not_running (obj (mgr S) q) then (on_mgr (upd_obj q stop_give_up) S, [Finished])
      else if needStop then (on_mgr (upd_obj q (send_signal sig)) S, [StopWait q WaitCount])
      else (S, [StopKill q]))"

fun stop_wait :: "ptr \<Rightarrow> nat \<Rightarrow> System \<Rightarrow> System \<times> thread list" where
  "stop_wait q 0 S = (S, [StopKill q])"
| "stop_wait q (Suc n) S =
     (if IsStopped (obj (mgr S) q) then (on_mgr (upd_obj q close_logger) S, [Finished])
      else (S, [StopWait q n]))"

text \<open>
  The two goroutines of \<^verbatim>\<open>Start\<close>: \<^verbatim>\<open>cmd.Run\<close> starts the program (or fails), the program exits, and
  the state is set; the probe waits for the service when the process has ports.
\<close>

definition run_cmd :: "env \<Rightarrow> ptr \<Rightarrow> System \<Rightarrow> System \<times> thread list" where
  "run_cmd e q S = (case e_start e of
     Some er \<Rightarrow> (S, [RunReturn q (Some er)])
   | None \<Rightarrow> (on_mgr (upd_obj q run_started) S, [RunWait q]))"

definition run_wait :: "env \<Rightarrow> ptr \<Rightarrow> System \<Rightarrow> System \<times> thread list" where
  "run_wait e q S =
     (on_mgr (upd_obj q (\<lambda>p. p\<lparr>pcmd := map_option bc_exited (pcmd p)\<rparr>)) S, [RunReturn q (e_exit e)])"

definition run_return :: "ptr \<Rightarrow> go_error option \<Rightarrow> System \<Rightarrow> System \<times> thread list" where
  "run_return q er S = (on_mgr (upd_obj q (run_returned er)) S, [Send q Finished])"

definition probe :: "env \<Rightarrow> ptr \<Rightarrow> System \<Rightarrow> System \<times> thread list" where
  "probe e q S =
     (let p = obj (mgr S) q in
      if pPortStart p \<noteq> 0 then
        if process_WaitForRunning (e_probe e) (GetURL ''localhost'' (pPortStart p))
        then (on_mgr (upd_obj q set_running) S, [Send q Finished])
        else (S, [ProbeStop q])
      else (on_mgr (upd_obj q set_running) S, [Send q Finished]))"

definition probe_stop :: "ptr \<Rightarrow> System \<Rightarrow> System \<times> thread list" where
  "probe_stop q S =
     (if IsStopped (obj (mgr S) q) then (S, [Finished]) else (S, [CallStop q SIGINT Finished]))"

section \<open>ProcessCreate\<close>

definition missing_argument :: "ProcessResponse go_result" where
  "missing_argument = Err (StatusError InvalidArgument ''missing required argument'')"

definition ProcessCreate ::
  "(nat \<Rightarrow> string) \<Rightarrow> env \<Rightarrow> ProcessSpec \<Rightarrow> System \<Rightarrow> System \<times> thread list" where
  "ProcessCreate u e spec S =
     (if psName spec = '''' \<or> psBinary spec = '''' then (reply missing_argument S, [Finished])
      else case e_logger e of
        Some er \<Rightarrow> (reply (Err er) S, [Finished])
      | None \<Rightarrow>
          (case alloc_obj (new_process (u (length (heap (mgr S)))) spec) (mgr S) of (pm0, q) \<Rightarrow>
            (case registerProcess pm0 q of
               (pm1, Ok _) \<Rightarrow> (S\<lparr>mgr := pm1\<rparr>, [Send q (CreateStart q)])
             | (pm1, Err er) \<Rightarrow> (reply (Err er) (S\<lparr>mgr := upd_obj q close_logger pm1\<rparr>), [Finished])
             | (pm1, Panic) \<Rightarrow> (reply Panic (S\<lparr>mgr := pm1\<rparr>), [Finished])
             | (pm1, Diverge) \<Rightarrow> (S\<lparr>mgr := pm1\<rparr>, [Finished]))))"

text \<open>\<^verbatim>\<open>p.Start()\<close>: on success its two goroutines run beside the handler.\<close>

definition start_process ::
  "env \<Rightarrow> ptr \<Rightarrow> thread list \<Rightarrow> thread list \<Rightarrow> System \<Rightarrow> System \<times> thread list" where
  "start_process e q ok_threads err_threads S =
     (on_mgr (upd_obj q (\<lambda>p. fst (Start (executor e) p))) S,
      case snd (Start (executor e) (obj (mgr S) q)) of
        Ok _ \<Rightarrow> RunCmd q # Probe q # ok_threads
      | _ \<Rightarrow> err_threads)"

definition reply_process :: "ptr \<Rightarrow> System \<Rightarrow> System \<times> thread list" where
  "reply_process q S = (reply (Ok (RPCResponse (obj (mgr S) q))) S, [Finished])"

section \<open>ProcessDelete\<close>

definition ProcessDelete :: "string \<Rightarrow> string \<Rightarrow> System \<Rightarrow> System \<times> thread list" where
  "ProcessDelete name uid S =
     (case findProcess (mgr S) name of
        None \<Rightarrow> (reply (Err (StatusError NotFound (''cannot find process '' @ name))) S, [Finished])
      | Some q \<Rightarrow>
          if uid \<noteq> '''' \<and> pUUID (obj (mgr S) q) \<noteq> uid then
            (reply (Err (StatusError NotFound (''cannot find process '' @ name @ '' with UUID '' @ uid))) S,
             [Finished])
          else (S, [CallStop q SIGINT (DeleteResp q)]))"

definition delete_response :: "ptr \<Rightarrow> System \<Rightarrow> System \<times> thread list" where
  "delete_response q S = (S, [Unregister q ((RPCResponse (obj (mgr S) q))\<lparr>prDeleted := True\<rparr>)])"

definition unregisterProcess :: "ptr \<Rightarrow> ProcessResponse \<Rightarrow> System \<Rightarrow> System \<times> thread list" where
  "unregisterProcess q resp S =
     (reply (Ok resp) S,
      if is_registered (mgr S) q then [Finished, UnregWait q WaitCount] else [Finished])"

fun unregister_wait :: "ptr \<Rightarrow> nat \<Rightarrow> System \<Rightarrow> System \<times> thread list" where
  "unregister_wait q 0 S = (S, [UnregCheck q])"
| "unregister_wait q (Suc n) S =
     (if IsStopped (obj (mgr S) q) then (S, [UnregCheck q]) else (S, [UnregWait q n]))"

definition unregister_check :: "ptr \<Rightarrow> System \<Rightarrow> System \<times> thread list" where
  "unregister_check q S =
     (if IsStopped (obj (mgr S) q) then (S, [UnregCommit q]) else (S, [Finished]))"

section \<open>ProcessReplace\<close>

definition ProcessReplace ::
  "(nat \<Rightarrow> string) \<Rightarrow> env \<Rightarrow> ProcessSpec \<Rightarrow> string \<Rightarrow> System \<Rightarrow> System \<times> thread list" where
  "ProcessReplace u e spec sig S =
     (if psName spec = '''' \<or> psBinary spec = '''' then (reply missing_argument S, [Finished])
      else if sig \<noteq> ''SIGHUP'' then
        (reply (Err (StatusError InvalidArgument (''doesn't support terminate signal '' @ sig))) S, [Finished])
      else case e_logger e of
        Some er \<Rightarrow> (reply (Err er) S, [Finished])
      | None \<Rightarrow>
          (case alloc_obj (new_process (u (length (heap (mgr S)))) spec) (mgr S) of (pm0, q) \<Rightarrow>
            (case initProcessReplace pm0 q of
               (pm1, Ok old) \<Rightarrow> (S\<lparr>mgr := pm1\<rparr>, [ReplaceCheck q old])
             | (pm1, Err er) \<Rightarrow> (reply (Err er) (S\<lparr>mgr := upd_obj q close_logger pm1\<rparr>), [Finished])
             | (pm1, Panic) \<Rightarrow> (reply Panic (S\<lparr>mgr := pm1\<rparr>), [Finished])
             | (pm1, Diverge) \<Rightarrow> (S\<lparr>mgr := pm1\<rparr>, [Finished]))))"

definition replace_check :: "ptr \<Rightarrow> ptr \<Rightarrow> System \<Rightarrow> System \<times> thread list" where
  "replace_check q old S =
     (if pBinary (obj (mgr S) old) = pBinary (obj (mgr S) q)
      then (on_mgr (\<lambda>pm. releaseProcessPorts (upd_obj q close_logger pm) q) S, [Reply old])
      else (S, [ReplaceStart q old]))"

definition init_failed :: "Process \<Rightarrow> go_error" where
  "init_failed p = PlainError (''failed to init replacement process '' @ pName p)"

definition start_failed :: "Process \<Rightarrow> go_error" where
  "start_failed p = PlainError (''failed to start replacement process '' @ pName p)"

definition replace_changed :: "Process \<Rightarrow> go_error" where
  "replace_changed p = StatusError AlreadyExists (''process '' @ pName p @ '' to replace has changed in the meantime'')"

definition replaceWaitCount :: nat where "replaceWaitCount = 30"

definition replace_stop_old :: "ptr \<Rightarrow> ptr \<Rightarrow> thread" where
  "replace_stop_old q old = CallStop old SIGHUP (ReplaceCommit q old)"

fun replace_wait :: "ptr \<Rightarrow> ptr \<Rightarrow> nat \<Rightarrow> System \<Rightarrow> System \<times> thread list" where
  "replace_wait q old 0 S = (S, [replace_stop_old q old])"
| "replace_wait q old (Suc n) S =
     (let p = obj (mgr S) q in
      if pState p = StateRunning then (S, [replace_stop_old q old])
      else if pState p \<noteq> StateStarting then (S, [CallStop q SIGINT (Cleanup q (start_failed p))])
      else (S, [ReplaceWait q old n]))"

definition replace_finish :: "ptr \<Rightarrow> ptr \<Rightarrow> System \<Rightarrow> System \<times> thread list" where
  "replace_finish q old S =
     (case replace_commit (mgr S) q old of
        (pm1, True) \<Rightarrow> (S\<lparr>mgr := pm1\<rparr>, [Send q (Reply q)])
      | (pm1, False) \<Rightarrow>
          (S\<lparr>mgr := pm1\<rparr>, [CallStop q SIGINT (Cleanup q (replace_changed (obj (mgr S) q)))]))"

definition cleanup_replacement :: "ptr \<Rightarrow> go_error \<Rightarrow> System \<Rightarrow> System \<times> thread list" where
  "cleanup_replacement q er S = (reply (Err er) (on_mgr (\<lambda>pm. releaseProcessPorts pm q) S), [Finished])"

section \<open>The condition check\<close>

fun send_all :: "ptr list \<Rightarrow> thread" where
  "send_all [] = Finished"
| "send_all (q # qs) = Send q (send_all qs)"

definition condition_tick :: "(string \<Rightarrow> string) \<Rightarrow> env \<Rightarrow> System \<Rightarrow> System \<times> thread list" where
  "condition_tick sha e S =
     (case checkMountPointStatusForEngine sha (of_sum (e_mounts e)) (mgr S) of
        (pm, Ok qs) \<Rightarrow> (S\<lparr>mgr := pm\<rparr>, [send_all qs])
      | (pm, _) \<Rightarrow> (S\<lparr>mgr := pm\<rparr>, [Finished]))"

section \<open>One step of a thread\<close>

text \<open>A thread that cannot move yet (the monitor is busy) or has ended has no step.\<close>

fun thread_step ::
  "(nat \<Rightarrow> string) \<Rightarrow> (string \<Rightarrow> string) \<Rightarrow> env \<Rightarrow> thread \<Rightarrow> System \<Rightarrow> (System \<times> thread list) option" where
  "thread_step u sha e Finished S = None"
| "thread_step u sha e (Send q k) S =
     (if receiving S = None then Some (S\<lparr>receiving := Some q\<rparr>, [k]) else None)"
| "thread_step u sha e (CallStop q sig k) S = Some (StopWithSignal e q sig k S)"
| "thread_step u sha e (StopSpawn q sig needStop k) S =
     Some (S, [k, StopGo q (pcmd (obj (mgr S) q) \<noteq> None) sig needStop])"
| "thread_step u sha e (StopGo q has_cmd sig needStop) S = Some (stop_goroutine q has_cmd sig needStop S)"
| "thread_step u sha e (StopWait q n) S = Some (stop_wait q n S)"
| "thread_step u sha e (StopKill q) S = Some (on_mgr (upd_obj q kill_cmd) S, [Finished])"
| "thread_step u sha e (Create spec) S = Some (ProcessCreate u e spec S)"
| "thread_step u sha e (CreateStart q) S = Some (start_process e q [Reply q] [Send q (Reply q)] S)"
| "thread_step u sha e (Reply q) S = Some (reply_process q S)"
| "thread_step u sha e (RunCmd q) S = Some (run_cmd e q S)"
| "thread_step u sha e (RunWait q) S = Some (run_wait e q S)"
| "thread_step u sha e (RunReturn q er) S = Some (run_return q er S)"
| "thread_step u sha e (Probe q) S = Some (probe e q S)"
| "thread_step u sha e (ProbeStop q) S = Some (probe_stop q S)"
| "thread_step u sha e (Delete name uid) S = Some (ProcessDelete name uid S)"
| "thread_step u sha e (DeleteResp q) S = Some (delete_response q S)"
| "thread_step u sha e (Unregister q resp) S = Some (unregisterProcess q resp S)"
| "thread_step u sha e (UnregWait q n) S = Some (unregister_wait q n S)"
| "thread_step u sha e (UnregCheck q) S = Some (unregister_check q S)"
| "thread_step u sha e (UnregCommit q) S =
     Some (on_mgr (\<lambda>pm. unregister_commit pm q) S, [Send q Finished])"
| "thread_step u sha e (Replace spec sig) S = Some (ProcessReplace u e spec sig S)"
| "thread_step u sha e (ReplaceCheck q old) S = Some (replace_check q old S)"
| "thread_step u sha e (ReplaceStart q old) S =
     Some (start_process e q [ReplaceWait q old replaceWaitCount]
             [CallStop q SIGINT (Cleanup q (init_failed (obj (mgr S) q)))] S)"
| "thread_step u sha e (ReplaceWait q old n) S = Some (replace_wait q old n S)"
| "thread_step u sha e (ReplaceCommit q old) S = Some (replace_finish q old S)"
| "thread_step u sha e (Cleanup q er) S = Some (cleanup_replacement q er S)"
| "thread_step u sha e ConditionTick S = Some (condition_tick sha e S)"

definition monitor_step :: "System \<Rightarrow> System option" where
  "monitor_step S = (case receiving S of
     None \<Rightarrow> None
   | Some q \<Rightarrow> Some (S\<lparr>receiving := None, broadcasts := broadcasts S @ [monitor_response (mgr S) q]\<rparr>))"

section \<open>Runs of the whole system\<close>

text \<open>
  A configuration is the system and its threads. Requests and ticks of the condition check
  arrive at any time.
\<close>

fun is_request :: "thread \<Rightarrow> bool" where
  "is_request (Create spec) = True"
| "is_request (Delete name uid) = True"
| "is_request (Replace spec sig) = True"
| "is_request ConditionTick = True"
| "is_request _ = False"

inductive pm_step ::
  "(nat \<Rightarrow> string) \<Rightarrow> (string \<Rightarrow> string) \<Rightarrow> System \<times> thread list \<Rightarrow> System \<times> thread list \<Rightarrow> bool"
  for u :: "nat \<Rightarrow> string" and sha :: "string \<Rightarrow> string" where
  request: "is_request t \<Longrightarrow> pm_step u sha (S, ts) (S, ts @ [t])"
| thread: "thread_step u sha e t S = Some (S', new) \<Longrightarrow>
     pm_step u sha (S, ts1 @ t # ts2) (S', ts1 @ new @ ts2)"
| monitor: "monitor_step S = Some S' \<Longrightarrow> pm_step u sha (S, ts) (S', ts)"

inductive_cases pm_stepE: "pm_step u sha C C'"

definition init_system :: "Manager \<Rightarrow> System" where
  "init_system pm = \<lparr>mgr = pm, receiving = None, broadcasts = [], replies = []\<rparr>"

inductive pm_reach ::
  "(nat \<Rightarrow> string) \<Rightarrow> (string \<Rightarrow> string) \<Rightarrow> Manager \<Rightarrow> System \<times> thread list \<Rightarrow> bool"
  for u :: "nat \<Rightarrow> string" and sha :: "string \<Rightarrow> string" and pm0 :: Manager where
  init: "pm_reach u sha pm0 (init_system pm0, [])"
| step: "pm_reach u sha pm0 C \<Longrightarrow> pm_step u sha C C' \<Longrightarrow> pm_reach u sha pm0 C'"

section \<open>What a thread holds\<close>

text \<open>The objects a thread owns the ports of, and all the objects it points to.\<close>

fun thread_owned :: "thread \<Rightarrow> ptr multiset" where
  "thread_owned (Send q k) = thread_owned k"
| "thread_owned (CallStop q sig k) = thread_owned k"
| "thread_owned (StopSpawn q sig b k) = thread_owned k"
| "thread_owned (ReplaceCheck q old) = {#q#}"
| "thread_owned (ReplaceStart q old) = {#q#}"
| "thread_owned (ReplaceWait q old n) = {#q#}"
| "thread_owned (ReplaceCommit q old) = {#q#}"
| "thread_owned (Cleanup q er) = {#q#}"
| "thread_owned _ = {#}"

fun thread_ptrs :: "thread \<Rightarrow> ptr set" where
  "thread_ptrs (Send q k) = insert q (thread_ptrs k)"
| "thread_ptrs (CallStop q sig k) = insert q (thread_ptrs k)"
| "thread_ptrs (StopSpawn q sig b k) = insert q (thread_ptrs k)"
| "thread_ptrs (StopGo q c sig b) = {q}"
| "thread_ptrs (StopWait q n) = {q}"
| "thread_ptrs (StopKill q) = {q}"
| "thread_ptrs (CreateStart q) = {q}"
| "thread_ptrs (Reply q) = {q}"
| "thread_ptrs (RunCmd q) = {q}"
| "thread_ptrs (RunWait q) = {q}"
| "thread_ptrs (RunReturn q er) = {q}"
| "thread_ptrs (Probe q) = {q}"
| "thread_ptrs (ProbeStop q) = {q}"
| "thread_ptrs (DeleteResp q) = {q}"
| "thread_ptrs (Unregister q r) = {q}"
| "thread_ptrs (UnregWait q n) = {q}"
| "thread_ptrs (UnregCheck q) = {q}"
| "thread_ptrs (UnregCommit q) = {q}"
| "thread_ptrs (ReplaceCheck q old) = {q, old}"
| "thread_ptrs (ReplaceStart q old) = {q, old}"
| "thread_ptrs (ReplaceWait q old n) = {q, old}"
| "thread_ptrs (ReplaceCommit q old) = {q, old}"
| "thread_ptrs (Cleanup q er) = {q}"
| "thread_ptrs _ = {}"

definition threads_owned :: "thread list \<Rightarrow> ptr multiset" where
  "threads_owned ts = sum_list (map thread_owned ts)"

definition threads_ptrs :: "thread list \<Rightarrow> ptr set" where
  "threads_ptrs ts = \<Union> (thread_ptrs ` set ts)"

lemma threads_simps [simp]:
  "threads_owned [] = {#}" "threads_owned (t # ts) = thread_owned t + threads_owned ts"
  "threads_owned (ts @ ts') = threads_owned ts + threads_owned ts'"
  "threads_ptrs [] = {}" "threads_ptrs (t # ts) = thread_ptrs t \<union> threads_ptrs ts"
  "threads_ptrs (ts @ ts') = threads_ptrs ts \<union> threads_ptrs ts'"
  by (auto simp: threads_owned_def threads_ptrs_def)

lemma send_all_simps [simp]: "thread_owned (send_all qs) = {#}" "thread_ptrs (send_all qs) = set qs"
  by (induction qs) auto

lemma request_simps: "is_request t \<Longrightarrow> thread_owned t = {#} \<and> thread_ptrs t = {}"
  by (cases t) auto

section \<open>The invariant\<close>

text \<open>
  \<open>step_ok\<close> is what one step of a thread that owns \<open>own_t\<close> must do to the system, whatever the
  other threads own.
\<close>

definition sys_ok :: "(nat \<Rightarrow> string) \<Rightarrow> int set \<Rightarrow> System \<Rightarrow> thread list \<Rightarrow> bool" where
  "sys_ok u A S ts \<longleftrightarrow> pm_ok u A (mgr S) (threads_owned ts)
     \<and> threads_ptrs ts \<subseteq> {..<length (heap (mgr S))}
     \<and> set_option (receiving S) \<subseteq> {..<length (heap (mgr S))}"

definition step_ok ::
  "(nat \<Rightarrow> string) \<Rightarrow> int set \<Rightarrow> ptr multiset \<Rightarrow> System \<Rightarrow> System \<times> thread list \<Rightarrow> bool" where
  "step_ok u A own S r \<longleftrightarrow> (case r of (S', new) \<Rightarrow>
     pm_ok u A (mgr S') (threads_owned new + own) \<and> heap_ext (heap (mgr S)) (heap (mgr S'))
     \<and> threads_ptrs new \<subseteq> {..<length (heap (mgr S'))}
     \<and> set_option (receiving S') \<subseteq> {..<length (heap (mgr S'))})"

lemma system_simps [simp]:
  "mgr (reply r S) = mgr S" "receiving (reply r S) = receiving S"
  "mgr (on_mgr f S) = f (mgr S)" "receiving (on_mgr f S) = receiving S"
  by (simp_all add: reply_def on_mgr_def)

text \<open>A step that only updates one object, and one that changes nothing of the manager.\<close>

lemma step_ok_upd:
  assumes "pm_ok u A (mgr S) (threads_owned new + own)" "\<And>p. same_identity p (f p)"
    "threads_ptrs new \<subseteq> {..<length (heap (mgr S))}" "set_option (receiving S) \<subseteq> {..<length (heap (mgr S))}"
  shows "step_ok u A own S (on_mgr (upd_obj q f) S, new)"
  using assms by (simp add: step_ok_def pm_ok_upd_obj heap_ext_upd)

lemma step_ok_same:
  assumes "pm_ok u A (mgr S) (threads_owned new + own)" "mgr S' = mgr S"
    "threads_ptrs new \<subseteq> {..<length (heap (mgr S))}" "set_option (receiving S') \<subseteq> {..<length (heap (mgr S))}"
  shows "step_ok u A own S (S', new)"
  using assms by (simp add: step_ok_def)

text \<open>The premises every thread step starts from.\<close>

definition pre_ok :: "(nat \<Rightarrow> string) \<Rightarrow> int set \<Rightarrow> ptr multiset \<Rightarrow> thread \<Rightarrow> System \<Rightarrow> bool" where
  "pre_ok u A own t S \<longleftrightarrow> pm_ok u A (mgr S) (thread_owned t + own)
     \<and> thread_ptrs t \<subseteq> {..<length (heap (mgr S))}
     \<and> set_option (receiving S) \<subseteq> {..<length (heap (mgr S))}"

lemma exited_identity [identity]: "same_identity p (p\<lparr>pcmd := c\<rparr>)"
  by (simp add: same_identity_def)

lemma StopWithSignal_step:
  assumes "pre_ok u A own (CallStop q sig k) S"
  shows "step_ok u A own S (StopWithSignal e q sig k S)"
  using assms unfolding StopWithSignal_def pre_ok_def
  by (auto simp: step_ok_def pm_ok_upd_obj heap_ext_upd identity split: prod.splits)

lemma start_process_step:
  assumes "pm_ok u A (mgr S) (threads_owned a + own)" "threads_owned b = threads_owned a"
    "insert q (threads_ptrs a \<union> threads_ptrs b) \<subseteq> {..<length (heap (mgr S))}"
    "set_option (receiving S) \<subseteq> {..<length (heap (mgr S))}"
  shows "step_ok u A own S (start_process e q a b S)"
  unfolding start_process_def
  using assms by (auto split: go_result.splits intro!: step_ok_upd identity)

lemma heap_ext_frame:
  assumes "frame_obj (length (heap pm)) (fst (alloc_obj p pm)) pm'"
  shows "heap_ext (heap pm) (heap pm')"
  using assms by (auto simp: heap_ext_def frame_obj_def nth_append)

lemma new_object:
  assumes "pm_ok u A pm own" "alloc_obj (new_process (u (length (heap pm))) spec) pm = (pm0, q)"
  shows "pm_ok u A pm0 own" "q < length (heap pm0)" "q \<notin># owners pm0 own"
    "range_of (obj pm0 q) = (0, 0)" "q = length (heap pm)" "heap_ext (heap pm) (heap pm0)"
    "pName (obj pm0 q) = psName spec" "findProcess pm0 = findProcess pm"
    "availablePorts pm0 = availablePorts pm"
proof -
  let ?p = "new_process (u (length (heap pm))) spec"
  have e: "pm0 = fst (alloc_obj ?p pm)" "q = length (heap pm)" using assms(2) by (auto simp: alloc_obj_def)
  show "pm_ok u A pm0 own" "q \<notin># owners pm0 own"
    unfolding e using pm_ok_alloc_obj[OF assms(1), of ?p] by simp_all
  show "q < length (heap pm0)" "range_of (obj pm0 q) = (0, 0)" "q = length (heap pm)"
    "pName (obj pm0 q) = psName spec" "availablePorts pm0 = availablePorts pm"
    "findProcess pm0 = findProcess pm" "heap_ext (heap pm) (heap pm0)"
    using heap_ext_frame[of pm ?p pm0] by (simp_all add: e findProcess_def fun_eq_iff)
qed

lemma registerProcess_heap:
  assumes "registerProcess pm q = (pm', r)" "pm_ok u A pm own" "q < length (heap pm)"
    "q \<notin># owners pm own" "range_of (obj pm q) = (0, 0)"
  shows "length (heap pm') = length (heap pm) \<and> (\<forall>i. i \<noteq> q \<longrightarrow> obj pm' i = obj pm i)"
proof (cases "findProcess pm (pName (obj pm q))")
  case None
  obtain pm1 a where a: "allocateProcessPorts pm q = (pm1, a)" by fastforce
  have "frame_obj q pm pm1" using allocateProcessPorts_cases[OF assms(2-5) a] by blast
  moreover have "heap pm' = heap pm1"
    using assms(1) a None by (auto simp: registerProcess_def Let_def split: go_result.splits)
  ultimately show ?thesis by (auto simp: frame_obj_def)
qed (use assms in \<open>auto simp: registerProcess_def Let_def\<close>)

lemma ProcessCreate_step:
  assumes "pre_ok u A own (Create spec) S"
  shows "step_ok u A own S (ProcessCreate u e spec S)"
proof (cases "psName spec = '''' \<or> psBinary spec = '''' \<or> e_logger e \<noteq> None")
  case False
  let ?pm = "mgr S"
  obtain pm0 q where n: "alloc_obj (new_process (u (length (heap ?pm))) spec) ?pm = (pm0, q)" by fastforce
  have ok: "pm_ok u A ?pm own" using assms by (simp add: pre_ok_def)
  note o = new_object[OF ok n]
  obtain pm1 r where r: "registerProcess pm0 q = (pm1, r)" by fastforce
  have c: "pm_ok u A pm1 own" "r = Ok () \<or> (\<exists>e. r = Err e)"
    using registerProcess_cases[OF o(1-4) r] by auto
  have h: "heap_ext (heap ?pm) (heap pm1)"
    using registerProcess_heap[OF r o(1-4)] o(5,6) by (auto simp: heap_ext_def)
  have l: "q < length (heap pm1)" using registerProcess_heap[OF r o(1-4)] o(2) by simp
  have rc: "set_option (receiving S) \<subseteq> {..<length (heap pm1)}"
    using assms h by (auto simp: pre_ok_def heap_ext_def)
  have "ProcessCreate u e spec S = (case r of
      Ok _ \<Rightarrow> (S\<lparr>mgr := pm1\<rparr>, [Send q (CreateStart q)])
    | Err er \<Rightarrow> (reply (Err er) (S\<lparr>mgr := upd_obj q close_logger pm1\<rparr>), [Finished])
    | Panic \<Rightarrow> (reply Panic (S\<lparr>mgr := pm1\<rparr>), [Finished])
    | Diverge \<Rightarrow> (S\<lparr>mgr := pm1\<rparr>, [Finished]))"
    using False by (simp add: ProcessCreate_def n r)
  moreover have "heap_ext (heap ?pm) (heap (upd_obj q close_logger pm1))"
    using h heap_ext_upd[OF close_logger_identity] by (rule heap_ext_trans)
  ultimately show ?thesis using c h l rc by (auto simp: step_ok_def pm_ok_upd_obj identity)
qed (use assms in \<open>auto simp: ProcessCreate_def pre_ok_def intro!: step_ok_same\<close>)

lemma ProcessReplace_step:
  assumes "pre_ok u A own (Replace spec sig) S"
  shows "step_ok u A own S (ProcessReplace u e spec sig S)"
proof (cases "psName spec = '''' \<or> psBinary spec = '''' \<or> sig \<noteq> ''SIGHUP'' \<or> e_logger e \<noteq> None")
  case False
  let ?pm = "mgr S"
  obtain pm0 q where n: "alloc_obj (new_process (u (length (heap ?pm))) spec) ?pm = (pm0, q)" by fastforce
  have ok: "pm_ok u A ?pm own" using assms by (simp add: pre_ok_def)
  note o = new_object[OF ok n]
  obtain pm1 r where r: "initProcessReplace pm0 q = (pm1, r)" by fastforce
  have e: "ProcessReplace u e spec sig S = (case r of
      Ok old \<Rightarrow> (S\<lparr>mgr := pm1\<rparr>, [ReplaceCheck q old])
    | Err er \<Rightarrow> (reply (Err er) (S\<lparr>mgr := upd_obj q close_logger pm1\<rparr>), [Finished])
    | Panic \<Rightarrow> (reply Panic (S\<lparr>mgr := pm1\<rparr>), [Finished])
    | Diverge \<Rightarrow> (S\<lparr>mgr := pm1\<rparr>, [Finished]))"
    using False by (simp add: ProcessReplace_def n r)
  from initProcessReplace_cases[OF o(1-4) r] show ?thesis
  proof
    assume "\<exists>old. r = Ok old \<and> findProcess pm0 (pName (obj pm0 q)) = Some old
      \<and> pm_ok u A pm1 (add_mset q own) \<and> frame_obj q pm0 pm1"
    then obtain old where old: "r = Ok old" "findProcess pm0 (pName (obj pm0 q)) = Some old"
      "pm_ok u A pm1 (add_mset q own)" "frame_obj q pm0 pm1" by auto
    have "heap_ext (heap ?pm) (heap pm1)"
      using old(4) o(5,6) by (auto simp: heap_ext_def frame_obj_def)
    moreover have "{q, old} \<subseteq> {..<length (heap pm1)}"
      using old(4) o(2) pm_ok_find[OF o(1) old(2)] by (auto simp: frame_obj_def)
    ultimately show ?thesis
      using e old assms by (auto simp: step_ok_def pre_ok_def heap_ext_def)
  next
    assume "(\<exists>e. r = Err e) \<and> pm1 = pm0"
    then show ?thesis using e o assms
      by (auto simp: step_ok_def pre_ok_def pm_ok_upd_obj identity heap_ext_def upd_obj_nth same_identity_def close_logger_def)
  qed
qed (use assms in \<open>auto simp: ProcessReplace_def pre_ok_def intro!: step_ok_same\<close>)

lemma replace_check_step:
  assumes "pre_ok u A own (ReplaceCheck q old) S"
  shows "step_ok u A own S (replace_check q old S)"
proof (cases "pBinary (obj (mgr S) old) = pBinary (obj (mgr S) q)")
  case True
  let ?pm = "upd_obj q close_logger (mgr S)"
  have "pm_ok u A ?pm (add_mset q own)"
    using assms by (auto simp: pre_ok_def pm_ok_upd_obj identity)
  from releaseProcessPorts_ok[OF this] have "pm_ok u A (releaseProcessPorts ?pm q) own" by auto
  with True assms show ?thesis
    by (auto simp: replace_check_def step_ok_def pre_ok_def heap_ext_upd identity)
qed (use assms in \<open>auto simp: replace_check_def pre_ok_def intro!: step_ok_same\<close>)

lemma replace_finish_step:
  assumes u: "inj u" and pre: "pre_ok u A own (ReplaceCommit q old) S"
  shows "step_ok u A own S (replace_finish q old S)"
proof -
  obtain pm1 d where r: "replace_commit (mgr S) q old = (pm1, d)" by fastforce
  have "pm_ok u A (mgr S) (add_mset q own)" "old < length (heap (mgr S))" "q < length (heap (mgr S))"
    using pre by (auto simp: pre_ok_def)
  with replace_commit_cases[OF u _ _ r, of A own] pre show ?thesis
    by (cases d) (auto simp: replace_finish_def r step_ok_def pre_ok_def)
qed

lemma cleanup_step:
  assumes "pre_ok u A own (Cleanup q er) S"
  shows "step_ok u A own S (cleanup_replacement q er S)"
proof -
  have "pm_ok u A (mgr S) (add_mset q own)" using assms by (simp add: pre_ok_def)
  from releaseProcessPorts_ok[OF this] have "pm_ok u A (releaseProcessPorts (mgr S) q) own" by auto
  with assms show ?thesis by (auto simp: cleanup_replacement_def step_ok_def pre_ok_def)
qed

lemma unregister_step:
  assumes "inj u" "pre_ok u A own (UnregCommit q) S"
  shows "step_ok u A own S (on_mgr (\<lambda>pm. unregister_commit pm q) S, [Send q Finished])"
  using assms unregister_commit_cases[of u A "mgr S" own q] by (auto simp: step_ok_def pre_ok_def)

lemma condition_tick_step:
  assumes "pre_ok u A own ConditionTick S"
  shows "step_ok u A own S (condition_tick sha e S)"
proof -
  obtain pm r where r: "checkMountPointStatusForEngine sha (of_sum (e_mounts e)) (mgr S) = (pm, r)"
    by fastforce
  have ok: "pm_ok u A (mgr S) own" using assms by (simp add: pre_ok_def)
  from checkMountPoint_ok[OF ok r] obtain qs where
    c: "pm_ok u A pm own" "length (heap pm) = length (heap (mgr S))" "r = Ok qs"
      "set qs \<subseteq> snd ` set (processes (mgr S))" by auto
  have "set qs \<subseteq> {..<length (heap (mgr S))}"
    using c(4) owners_bound[OF ok] by (fastforce simp: owners_def)
  moreover have "heap_ext (heap (mgr S)) (heap pm)" using r by (rule checkMountPoint_heap)
  ultimately show ?thesis
    using c assms by (auto simp: condition_tick_def r step_ok_def pre_ok_def)
qed

lemma thread_step_ok:
  assumes u: "inj u" and pre: "pre_ok u A own t S" and st: "thread_step u sha e t S = Some r"
  shows "step_ok u A own S r"
proof (cases t)
  case (StopWait q n)
  with pre st show ?thesis
    by (cases n) (auto simp: step_ok_def pre_ok_def pm_ok_upd_obj heap_ext_upd identity split: if_splits)
next
  case (UnregWait q n)
  with pre st show ?thesis by (cases n) (auto simp: step_ok_def pre_ok_def split: if_splits)
next
  case (ReplaceWait q old n)
  with pre st show ?thesis
    by (cases n) (auto simp: step_ok_def pre_ok_def replace_stop_old_def Let_def split: if_splits)
next
  case (CallStop q sig k)
  with pre st StopWithSignal_step show ?thesis by auto
next
  case (Create spec)
  with pre st ProcessCreate_step show ?thesis by auto
next
  case (Replace spec sig)
  with pre st ProcessReplace_step show ?thesis by auto
next
  case (CreateStart q)
  with pre st show ?thesis by (auto simp: pre_ok_def intro!: start_process_step)
next
  case (ReplaceStart q old)
  with pre st show ?thesis by (auto simp: pre_ok_def intro!: start_process_step)
next
  case (ReplaceCheck q old)
  with pre st replace_check_step show ?thesis by auto
next
  case (ReplaceCommit q old)
  with pre st replace_finish_step[OF u] show ?thesis by auto
next
  case (Cleanup q er)
  with pre st cleanup_step show ?thesis by auto
next
  case (UnregCommit q)
  with pre st unregister_step[OF u] show ?thesis by auto
next
  case ConditionTick
  with pre st condition_tick_step show ?thesis by auto
next
  case (Delete name uid)
  with pre st show ?thesis
    by (auto simp: ProcessDelete_def step_ok_def pre_ok_def dest: pm_ok_find split: option.splits if_splits)
qed (use pre st in \<open>auto simp: step_ok_def pre_ok_def stop_goroutine_def run_cmd_def run_wait_def
       run_return_def probe_def probe_stop_def reply_process_def delete_response_def
       unregisterProcess_def unregister_check_def Let_def pm_ok_upd_obj heap_ext_upd identity
       split: if_splits option.splits\<close>)

section \<open>Every reachable configuration\<close>

lemma sys_ok_request: "is_request t \<Longrightarrow> sys_ok u A S ts \<Longrightarrow> sys_ok u A S (ts @ [t])"
  using request_simps[of t] by (simp add: sys_ok_def)

lemma sys_ok_thread:
  assumes u: "inj u" and ok: "sys_ok u A S (ts1 @ t # ts2)" and st: "thread_step u sha e t S = Some (S', new)"
  shows "sys_ok u A S' (ts1 @ new @ ts2) \<and> heap_ext (heap (mgr S)) (heap (mgr S'))"
proof -
  let ?own = "threads_owned ts1 + threads_owned ts2"
  have "pre_ok u A ?own t S" using ok by (simp add: sys_ok_def pre_ok_def ac_simps)
  from thread_step_ok[OF u this st] have
    s: "pm_ok u A (mgr S') (threads_owned new + ?own)" "heap_ext (heap (mgr S)) (heap (mgr S'))"
      "threads_ptrs new \<subseteq> {..<length (heap (mgr S'))}" "set_option (receiving S') \<subseteq> {..<length (heap (mgr S'))}"
    by (auto simp: step_ok_def)
  moreover have "threads_ptrs ts1 \<union> threads_ptrs ts2 \<subseteq> {..<length (heap (mgr S'))}"
    using ok s(2) by (auto simp: sys_ok_def heap_ext_def)
  ultimately show ?thesis by (simp add: sys_ok_def ac_simps)
qed

lemma sys_ok_step:
  assumes "inj u" "pm_step u sha (S, ts) (S', ts')" "sys_ok u A S ts"
  shows "sys_ok u A S' ts' \<and> heap_ext (heap (mgr S)) (heap (mgr S'))"
  using assms(2)
proof cases
  case (request t)
  with assms(3) show ?thesis by (simp add: sys_ok_request)
next
  case (thread e t new ts1 ts2)
  with sys_ok_thread[OF assms(1)] assms(3) show ?thesis by blast
next
  case monitor
  with assms(3) show ?thesis by (auto simp: monitor_step_def sys_ok_def split: option.splits)
qed

lemma pm_reach_ok:
  assumes "inj u" "pm_reach u sha pm0 (S, ts)" "pm_ok u A pm0 {#}"
  shows "sys_ok u A S ts"
  using assms(2)
proof (induction "(S, ts)" arbitrary: S ts rule: pm_reach.induct)
  case init
  with assms(3) show ?case by (simp add: sys_ok_def init_system_def)
next
  case (step C)
  then show ?case using sys_ok_step[OF assms(1)] by (cases C) blast
qed

section \<open>Running a schedule\<close>

text \<open>A schedule names each step; running it gives a reachable configuration.\<close>

datatype event = Arrive thread | Run nat env | Monitor

fun exec_event_step ::
  "(nat \<Rightarrow> string) \<Rightarrow> (string \<Rightarrow> string) \<Rightarrow> event \<Rightarrow> System \<times> thread list \<Rightarrow> (System \<times> thread list) option" where
  "exec_event_step u sha (Arrive t) (S, ts) = (if is_request t then Some (S, ts @ [t]) else None)"
| "exec_event_step u sha (Run i e) (S, ts) =
     (if i < length ts then
        (case thread_step u sha e (ts ! i) S of
           None \<Rightarrow> None | Some (S', new) \<Rightarrow> Some (S', take i ts @ new @ drop (Suc i) ts))
      else None)"
| "exec_event_step u sha Monitor (S, ts) = map_option (\<lambda>S'. (S', ts)) (monitor_step S)"

fun exec ::
  "(nat \<Rightarrow> string) \<Rightarrow> (string \<Rightarrow> string) \<Rightarrow> event list \<Rightarrow> System \<times> thread list \<Rightarrow> (System \<times> thread list) option" where
  "exec u sha [] C = Some C"
| "exec u sha (ev # evs) C = Option.bind (exec_event_step u sha ev C) (exec u sha evs)"

lemma exec_event_pm_step: "exec_event_step u sha ev C = Some C' \<Longrightarrow> pm_step u sha C C'"
proof (induction u sha ev C rule: exec_event_step.induct)
  case (2 u sha i e S ts)
  then obtain S' new where s: "i < length ts" "thread_step u sha e (ts ! i) S = Some (S', new)"
    "C' = (S', take i ts @ new @ drop (Suc i) ts)" by (auto split: if_splits option.splits)
  have "pm_step u sha (S, take i ts @ ts ! i # drop (Suc i) ts) C'"
    unfolding s(3) by (rule pm_step.thread[OF s(2)])
  with s(1) show ?case by (simp add: id_take_nth_drop[symmetric])
qed (auto intro: pm_step.intros split: if_splits)

lemma exec_reach:
  "pm_reach u sha pm0 C \<Longrightarrow> exec u sha evs C = Some C' \<Longrightarrow> pm_reach u sha pm0 C'"
proof (induction evs arbitrary: C)
  case (Cons ev evs)
  then obtain D where "exec_event_step u sha ev C = Some D" "exec u sha evs D = Some C'"
    by (auto simp: bind_eq_Some_conv)
  with Cons show ?case using exec_event_pm_step pm_reach.step by blast
qed simp

lemma exec_init_reach:
  "exec u sha evs (init_system pm0, []) = Some C \<Longrightarrow> pm_reach u sha pm0 C"
  by (rule exec_reach[OF pm_reach.init])

end
