(* ===== verification/Manager_Properties.thy ===== *)
theory Manager_Properties
  imports Manager_Steps
begin

text \<open>
  What the process manager guarantees in every run: its ports are neither shared nor leaked, its
  handlers have the effect they document, and a request that fails leaves no trace. The last
  section has two runs in which the goroutines of a process overtake each other.
\<close>

section \<open>Runs of a manager\<close>

definition started ::
  "(nat \<Rightarrow> string) \<Rightarrow> (string \<Rightarrow> string) \<Rightarrow> Manager \<Rightarrow> System \<Rightarrow> thread list \<Rightarrow> bool" where
  "started u sha pm0 S ts \<longleftrightarrow> inj u \<and> (\<exists>portRange dir. NewManager None portRange dir = Ok pm0)
     \<and> 0 < portRangeMin pm0 \<and> pm_reach u sha pm0 (S, ts)"

abbreviation all_ports_of :: "Manager \<Rightarrow> int set" where
  "all_ports_of pm0 \<equiv> {portRangeMin pm0 .. portRangeMax pm0}"

abbreviation free_of :: "System \<Rightarrow> int set" where
  "free_of S \<equiv> free_ports (availablePorts (mgr S))"

abbreviation ports_at :: "System \<Rightarrow> ptr \<Rightarrow> int set" where
  "ports_at S q \<equiv> ports_of (range_of (obj (mgr S) q))"

lemma started_ok: "started u sha pm0 S ts \<Longrightarrow> sys_ok u (all_ports_of pm0) S ts"
  unfolding started_def using pm_reach_ok NewManager_ok by blast

lemma started_pm_ok: "started u sha pm0 S ts \<Longrightarrow> pm_ok u (all_ports_of pm0) (mgr S) (threads_owned ts)"
  using started_ok by (auto simp: sys_ok_def)

lemma owners_find:
  assumes "pm_ok u A pm own" "findProcess pm n = Some q"
  shows "\<exists>rest. owners pm own = add_mset q rest"
  using assms mset_AList_delete[of "processes pm" n q]
  by (metis findProcess_def map_ok_def owners_def pm_ok_def union_mset_add_mset_left)

lemma owners_find_two:
  assumes ok: "pm_ok u A pm own" and n: "findProcess pm n = Some q" "findProcess pm m = Some r" "n \<noteq> m"
  shows "\<exists>rest. owners pm own = add_mset q (add_mset r rest)"
proof -
  let ?ps = "AList.delete n (processes pm)"
  have d: "distinct (map fst (processes pm))" using ok by (simp add: pm_ok_def map_ok_def)
  have "mset (map snd (processes pm)) = add_mset q (mset (map snd ?ps))"
    using mset_AList_delete[OF d, of n q] n by (simp add: findProcess_def)
  moreover have "mset (map snd ?ps) = add_mset r (mset (map snd (AList.delete m ?ps)))"
    using mset_AList_delete[OF distinct_delete[OF d], of n m r] n
    by (simp add: findProcess_def delete_conv')
  ultimately show ?thesis by (auto simp: owners_def)
qed

section \<open>Well-formed states\<close>

text \<open>
  C5: The state of the process manager is well formed in every run, whatever requests, programs and goroutines do:
  the names of its map are distinct and each leads to an existing object that has this name, no handler or goroutine
  holds a dangling pointer, and no two objects, registered or not, have the same UUID.
\<close>

theorem manager_well_formed:
  assumes "started u sha pm0 S ts"
  shows "distinct (map fst (processes (mgr S)))
    \<and> (\<forall>n q. findProcess (mgr S) n = Some q \<longrightarrow> q < length (heap (mgr S)) \<and> pName (obj (mgr S) q) = n)
    \<and> threads_ptrs ts \<subseteq> {..<length (heap (mgr S))}
    \<and> (\<forall>i j. i < length (heap (mgr S)) \<longrightarrow> j < length (heap (mgr S)) \<longrightarrow> pUUID (obj (mgr S) i) = pUUID (obj (mgr S) j) \<longrightarrow> i = j)"
proof -
  have m: "map_ok (mgr S)" and h: "heap_ok u (heap (mgr S))" using started_pm_ok[OF assms] by (simp_all add: pm_ok_def)
  have "inj u" using assms by (simp add: started_def)
  then have "\<forall>i j. i < length (heap (mgr S)) \<longrightarrow> j < length (heap (mgr S)) \<longrightarrow> pUUID (obj (mgr S) i) = pUUID (obj (mgr S) j) \<longrightarrow> i = j"
    using h by (simp add: heap_ok_def inj_eq)
  then show ?thesis using m started_ok[OF assms] by (auto simp: map_ok_def sys_ok_def findProcess_def dest: map_of_SomeD)
qed

section \<open>Ports\<close>

text \<open>
  C1: In every run, two processes registered under different names never have a port in common,
  no port of a registered process is free for allocation, and every such port is in the
  manager's range.
\<close>

theorem ports_exclusive:
  assumes "started u sha pm0 S ts" "findProcess (mgr S) n = Some q" "findProcess (mgr S) m = Some r" "n \<noteq> m"
  shows "ports_at S q \<inter> ports_at S r = {} \<and> ports_at S q \<inter> free_of S = {}
     \<and> ports_at S q \<subseteq> all_ports_of pm0"
proof -
  let ?A = "all_ports_of pm0"
  note ok = started_pm_ok[OF assms(1)]
  from owners_find_two[OF ok assms(2-4)] obtain rest where
    "owners (mgr S) (threads_owned ts) = add_mset q (add_mset r rest)" by blast
  with ok have c: "conserved ?A (free_of S) (add_mset (range_of (obj (mgr S) q))
      (add_mset (range_of (obj (mgr S) r)) (ranges (heap (mgr S)) rest)))"
    by (simp add: pm_ok_def ports_ok_def)
  from conserved_disjoint[OF c] conserved_not_free[OF c] conserved_member[OF c] show ?thesis by blast
qed

lemma ports_accounted:
  assumes "pm_ok u A pm {#}"
  shows "free_ports (availablePorts pm) \<union> (\<Union>(k, q) \<in> set (processes pm). ports_of (range_of (obj pm q))) = A"
proof (rule set_eqI)
  fix p
  let ?own = "ranges (heap pm) (mset (map snd (processes pm)))"
  have "conserved A (free_ports (availablePorts pm)) ?own"
    using assms by (simp add: pm_ok_def ports_ok_def owners_def)
  then have "of_bool (p \<in> free_ports (availablePorts pm)) + holders p ?own = (of_bool (p \<in> A) :: nat)"
    unfolding conserved_def by blast
  moreover have "holders p ?own > 0 \<longleftrightarrow> p \<in> (\<Union>(k, q) \<in> set (processes pm). ports_of (range_of (obj pm q)))"
    unfolding holders_pos by (force simp: ranges_def)
  ultimately show "p \<in> free_ports (availablePorts pm) \<union> (\<Union>(k, q) \<in> set (processes pm). ports_of (range_of (obj pm q)))
      \<longleftrightarrow> p \<in> A"
    by (auto simp: of_bool_def split: if_splits)
qed

text \<open>
  C2: No port leaks. Whenever no replacement is in flight, every port of the manager's range is
  free or belongs to a registered process.
\<close>

theorem ports_not_leaked:
  assumes "started u sha pm0 S ts" "threads_owned ts = {#}"
  shows "free_of S \<union> (\<Union>(k, q) \<in> set (processes (mgr S)). ports_at S q) = all_ports_of pm0"
  using ports_accounted[of u "all_ports_of pm0" "mgr S"] started_pm_ok[OF assms(1)] assms(2) by simp

section \<open>Handlers\<close>

text \<open>
  C3: Deleting a process removes that process only. When the goroutine of a deletion commits, the
  entry it removes is the object it was started for; a process that has taken over the name
  (through a replacement) stays, and so do all others.
\<close>

theorem unregister_only_itself:
  assumes "started u sha pm0 S ts" "UnregCommit q \<in> set ts"
    "thread_step u sha e (UnregCommit q) S = Some (S', new)"
  shows "findProcess (mgr S') m = (if findProcess (mgr S) m = Some q then None else findProcess (mgr S) m)"
proof -
  have u: "inj u" using assms(1) by (simp add: started_def)
  have ok: "pm_ok u (all_ports_of pm0) (mgr S) (threads_owned ts)" by (rule started_pm_ok[OF assms(1)])
  have q: "q < length (heap (mgr S))"
    using started_ok[OF assms(1)] assms(2) by (force simp: sys_ok_def threads_ptrs_def)
  from unregister_commit_cases[OF u ok q] have
    c: "findProcess (unregister_commit (mgr S) q) m = (if findProcess (mgr S) (pName (obj (mgr S) q)) = Some q
      then ((findProcess (mgr S))(pName (obj (mgr S) q) := None)) m else findProcess (mgr S) m)"
    by presburger
  have "S' = on_mgr (\<lambda>pm. unregister_commit pm q) S" using assms(3) by simp
  then have m: "mgr S' = unregister_commit (mgr S) q" by simp
  show ?thesis
  proof (cases "findProcess (mgr S) m = Some q")
    case True
    then have "pName (obj (mgr S) q) = m" using pm_ok_find[OF ok] by blast
    with True show ?thesis by (simp only: m c fun_upd_same if_True refl)
  next
    case False
    then show ?thesis by (cases "pName (obj (mgr S) q) = m") (simp_all only: m c fun_upd_other if_False split: if_split, simp_all)
  qed
qed

text \<open>The allocation that a request asks for is possible.\<close>

definition can_allocate :: "System \<Rightarrow> ProcessSpec \<Rightarrow> bool" where
  "can_allocate S spec \<longleftrightarrow> int (length (psPortArgs spec)) \<le> psPortCount spec
     \<and> (0 < psPortCount spec \<longrightarrow> (\<exists>p. {p .. p + psPortCount spec} \<subseteq> free_of S))"

lemma allocatePorts_succeeds:
  assumes "port_inv (availablePorts pm)" "0 \<le> n"
    and "0 < n \<longrightarrow> (\<exists>p. {p .. p + n} \<subseteq> free_ports (availablePorts pm))"
  shows "\<exists>r. snd (allocatePorts pm n) = Ok r"
proof (cases "n = 0")
  case False
  with assms obtain p where "{p .. p + n} \<subseteq> free_ports (availablePorts pm)" by auto
  with AllocateRange_complete[of "availablePorts pm" n p] assms(1,2) False show ?thesis
    by (fastforce simp: port_inv_def allocatePorts_def)
qed (simp add: allocatePorts_def)

lemma new_process_ports [simp]:
  "pPortCount (new_process u spec) = psPortCount spec" "pPortArgs (new_process u spec) = psPortArgs spec"
  "pArgs (new_process u spec) = psArgs spec"
  by (simp_all add: new_process_def)

lemma alloc_obj_last:
  "alloc_obj p pm = (pm0, q) \<Longrightarrow> obj pm0 q = p \<and> availablePorts pm0 = availablePorts pm \<and> processes pm0 = processes pm"
  by (auto simp: alloc_obj_def)

text \<open>What a successful registration of \<open>spec\<close> as object \<open>q\<close> does to the manager.\<close>

definition registered_as :: "System \<Rightarrow> ProcessSpec \<Rightarrow> ptr \<Rightarrow> System \<Rightarrow> bool" where
  "registered_as S spec q S' \<longleftrightarrow>
     findProcess (mgr S') = (findProcess (mgr S))(psName spec \<mapsto> q)
     \<and> ports_at S' q \<subseteq> free_of S \<and> free_of S' = free_of S - ports_at S' q
     \<and> int (card (ports_at S' q)) = psPortCount spec
     \<and> pArgs (obj (mgr S') q) = psArgs spec @ port_args (pPortStart (obj (mgr S') q)) (psPortArgs spec)"

text \<open>
  C6: Creating a process succeeds when the name is new and the ports are there: the process is
  registered under its name with exactly the number of ports it asked for, all of them free
  before and none of them free afterwards, and its arguments carry those ports; the handler goes
  on to announce and start it. (The search needs a free run one longer than the request.)
\<close>

theorem create_succeeds:
  assumes "started u sha pm0 S ts" "findProcess (mgr S) (psName spec) = None" "can_allocate S spec"
    "psName spec \<noteq> ''''" "psBinary spec \<noteq> ''''" "e_logger e = None"
  shows "\<exists>S' q. ProcessCreate u e spec S = (S', [Send q (CreateStart q)]) \<and> registered_as S spec q S'"
proof -
  let ?pm = "mgr S" and ?own = "threads_owned ts"
  obtain pm0' q where n: "alloc_obj (new_process (u (length (heap ?pm))) spec) ?pm = (pm0', q)" by fastforce
  note ok = started_pm_ok[OF assms(1)]
  note o = new_object[OF ok n]
  have p: "obj pm0' q = new_process (u (length (heap ?pm))) spec" "availablePorts pm0' = availablePorts ?pm"
    "processes pm0' = processes ?pm" using alloc_obj_last[OF n] by auto
  obtain pm1 r where r: "allocateProcessPorts pm0' q = (pm1, r)" by fastforce
  have inv: "port_inv (availablePorts pm0')" using o(1) by (simp add: pm_ok_def ports_ok_def)
  have "\<exists>x. snd (allocatePorts pm0' (psPortCount spec)) = Ok x"
    using assms(3) p by (intro allocatePorts_succeeds[OF inv]) (auto simp: can_allocate_def)
  with assms(3) have nf: "\<not> (int (length (psPortArgs spec)) > psPortCount spec
      \<or> (\<forall>x. snd (allocatePorts pm0' (psPortCount spec)) \<noteq> Ok x))" by (auto simp: can_allocate_def)
  from allocateProcessPorts_cases[OF o(1-4) r] nf have
    fr: "frame_obj q pm0' pm1" and rok: "r = Ok ()" and
    x: "psPortCount spec = int (card (ports_of (range_of (obj pm1 q))))"
       "ports_of (range_of (obj pm1 q)) \<subseteq> free_ports (availablePorts ?pm)"
       "free_ports (availablePorts pm1) = free_ports (availablePorts ?pm) - ports_of (range_of (obj pm1 q))"
       "pArgs (obj pm1 q) = psArgs spec @ port_args (pPortStart (obj pm1 q)) (psPortArgs spec)"
    unfolding p new_process_ports by blast+
  let ?S' = "S\<lparr>mgr := pm1\<lparr>processes := AList.update (psName spec) q (processes pm1)\<rparr>\<rparr>"
  have "findProcess pm0' (psName spec) = None" using assms(2) p by (simp add: findProcess_def)
  then have "registerProcess pm0' q = (mgr ?S', Ok ())"
    by (simp add: registerProcess_def Let_def r rok p)
  then have "ProcessCreate u e spec S = (?S', [Send q (CreateStart q)])"
    using assms(4-6) by (simp add: ProcessCreate_def n)
  moreover have "findProcess (mgr ?S') = (findProcess ?pm)(psName spec \<mapsto> q)"
    using fr p by (intro ext) (simp add: findProcess_def update_conv' frame_obj_def)
  then have "registered_as S spec q ?S'" using x by (simp add: registered_as_def)
  ultimately show ?thesis by blast
qed

text \<open>
  C14: A failing creation leaves no trace: when the handler answers with an error, the map of
  processes and the free ports are as before. A name in use is answered with AlreadyExists, an
  empty name or binary with InvalidArgument.
\<close>

theorem create_fails:
  assumes "started u sha pm0 S ts" "ProcessCreate u e spec S = (S', new)" "replies S' \<noteq> replies S"
  shows "processes (mgr S') = processes (mgr S) \<and> free_of S' = free_of S \<and> new = [Finished]
     \<and> (\<exists>er. replies S' = replies S @ [Err er]
          \<and> (psName spec = '''' \<or> psBinary spec = '''' \<longrightarrow> status_code er = InvalidArgument)
          \<and> (psName spec \<noteq> '''' \<and> psBinary spec \<noteq> '''' \<and> e_logger e = None
               \<and> findProcess (mgr S) (psName spec) \<noteq> None \<longrightarrow> status_code er = AlreadyExists))"
proof (cases "psName spec = '''' \<or> psBinary spec = '''' \<or> e_logger e \<noteq> None")
  case True
  then show ?thesis using assms(2)
    by (cases "psName spec = '''' \<or> psBinary spec = ''''"; cases "e_logger e")
      (auto simp: ProcessCreate_def missing_argument_def reply_def)
next
  case False
  let ?pm = "mgr S"
  obtain pm0' q where n: "alloc_obj (new_process (u (length (heap ?pm))) spec) ?pm = (pm0', q)" by fastforce
  note ok = started_pm_ok[OF assms(1)]
  note o = new_object[OF ok n]
  have p: "obj pm0' q = new_process (u (length (heap ?pm))) spec" "availablePorts pm0' = availablePorts ?pm"
    "processes pm0' = processes ?pm" using alloc_obj_last[OF n] by auto
  obtain pm1 r where r: "registerProcess pm0' q = (pm1, r)" by fastforce
  from registerProcess_cases[OF o(1-4) r] obtain er where
    er: "r = Err er" "pm1 = pm0'"
    using assms(2,3) False n r by (auto simp: ProcessCreate_def)
  then have S': "S' = reply (Err er) (S\<lparr>mgr := upd_obj q close_logger pm0'\<rparr>)" "new = [Finished]"
    using assms(2) False n r by (auto simp: ProcessCreate_def)
  have "status_code er = AlreadyExists" if "findProcess ?pm (psName spec) \<noteq> None"
    using that r er p by (auto simp: registerProcess_def Let_def findProcess_def)
  with S' p False show ?thesis by (auto simp: reply_def)
qed

text \<open>
  Replacing a process by one with the same binary changes nothing: the ports taken for the
  replacement are given back, the map stays, and the answer describes the existing process.
\<close>

theorem replace_same_binary:
  assumes "started u sha pm0 S ts" "ProcessReplace u e spec sig S = (S1, [ReplaceCheck q old])"
    "pBinary (obj (mgr S) old) = psBinary spec"
  shows "\<exists>S2. replace_check q old S1 = (S2, [Reply old]) \<and> findProcess (mgr S) (psName spec) = Some old
     \<and> processes (mgr S2) = processes (mgr S) \<and> free_of S2 = free_of S
     \<and> obj (mgr S2) old = obj (mgr S) old"
proof -
  let ?pm = "mgr S" and ?own = "threads_owned ts"
  obtain pm0' q' where n: "alloc_obj (new_process (u (length (heap ?pm))) spec) ?pm = (pm0', q')" by fastforce
  note ok = started_pm_ok[OF assms(1)]
  note o = new_object[OF ok n]
  have p: "obj pm0' q' = new_process (u (length (heap ?pm))) spec" "availablePorts pm0' = availablePorts ?pm"
    "processes pm0' = processes ?pm" using alloc_obj_last[OF n] by auto
  obtain pm1 r where r: "initProcessReplace pm0' q' = (pm1, r)" by fastforce
  have e: "r = Ok old \<and> q = q' \<and> S1 = S\<lparr>mgr := pm1\<rparr>"
    using assms(2) n r by (auto simp: ProcessReplace_def split: if_splits option.splits go_result.splits)
  with initProcessReplace_cases[OF o(1-4) r] have
    f: "findProcess pm0' (pName (obj pm0' q)) = Some old" and ok1: "pm_ok u (all_ports_of pm0) pm1 (add_mset q ?own)"
    and fr: "frame_obj q pm0' pm1" by auto
  have fm: "findProcess ?pm (psName spec) = Some old" using f o(7,8) e by simp
  have old: "old < length (heap ?pm)" using pm_ok_find[OF ok fm] by simp
  have ne: "old \<noteq> q" using old o(5) e by simp
  have same: "obj pm1 old = obj ?pm old" "pBinary (obj pm1 q) = psBinary spec"
    using fr ne p n old e o(5) by (auto simp: frame_obj_def alloc_obj_def nth_append)
  let ?pm2 = "upd_obj q close_logger pm1"
  have ok2: "pm_ok u (all_ports_of pm0) ?pm2 (add_mset q ?own)" by (intro pm_ok_upd_obj ok1 identity)
  from releaseProcessPorts_ok[OF ok2] obtain b where
    b: "releaseProcessPorts ?pm2 q = ?pm2\<lparr>availablePorts := b\<rparr>"
       "free_ports b = free_ports (availablePorts pm1) \<union> ports_of (range_of (obj ?pm2 q))" by auto
  have "q < length (heap pm1)" using fr o(2) e by (auto simp: frame_obj_def)
  then have rg: "range_of (obj ?pm2 q) = range_of (obj pm1 q)"
    by (simp add: upd_obj_nth close_logger_def range_of_def)
  have "free_ports b = free_of S"
    using initProcessReplace_ports[OF o(1-4), of pm1 old] r e b(2) rg p(2) by auto
  moreover have "obj ?pm2 old = obj ?pm old"
    using same ne by (simp add: upd_obj_def)
  ultimately show ?thesis
    using e b fm same assms(3) fr p(3) by (auto simp: replace_check_def frame_obj_def)
qed

text \<open>
  C7: The last step of a replacement decides between concurrent replacements. When the process to
  replace is still registered, or was deleted, the replacement takes its name, and the ports of
  the process it replaced become free; when another replacement came first, nothing changes and
  the handler goes on to clean up and answer AlreadyExists.
\<close>

theorem replace_decides:
  assumes "started u sha pm0 S ts" "ReplaceCommit q old \<in> set ts"
    "thread_step u sha e (ReplaceCommit q old) S = Some (S', new)"
  shows "let name = pName (obj (mgr S) q); now = findProcess (mgr S) name in
     if now = None \<or> now = Some old then
       findProcess (mgr S') = (findProcess (mgr S))(name \<mapsto> q) \<and> new = [Send q (Reply q)]
       \<and> free_of S' = free_of S \<union> (if now = Some old then ports_at S old else {})
     else mgr S' = mgr S \<and> new = [CallStop q SIGINT (Cleanup q (replace_changed (obj (mgr S) q)))]
       \<and> status_code (replace_changed (obj (mgr S) q)) = AlreadyExists"
proof -
  obtain ts1 ts2 where ts: "ts = ts1 @ ReplaceCommit q old # ts2" using assms(2) by (meson split_list)
  let ?n = "pName (obj (mgr S) q)" and ?own = "threads_owned ts1 + threads_owned ts2"
  have u: "inj u" using assms(1) by (simp add: started_def)
  have ok: "pm_ok u (all_ports_of pm0) (mgr S) (add_mset q ?own)"
    using started_pm_ok[OF assms(1)] by (simp add: ts)
  have old: "old < length (heap (mgr S))"
    using started_ok[OF assms(1)] by (simp add: sys_ok_def ts)
  obtain pm1 d where r: "replace_commit (mgr S) q old = (pm1, d)" by fastforce
  note c = replace_commit_cases[OF u ok old r]
  have st: "S' = S\<lparr>mgr := pm1\<rparr>" "new = (if d then [Send q (Reply q)]
      else [CallStop q SIGINT (Cleanup q (replace_changed (obj (mgr S) q)))])"
    using assms(3) by (auto simp: replace_finish_def r split: bool.splits)
  have free: "free_ports (availablePorts pm1) = free_of S
      \<union> (if findProcess (mgr S) ?n = Some old then ports_at S old else {})" if d
    using replace_commit_ports[OF ok, of old pm1] r c that by auto
  show ?thesis
  proof (cases d)
    case True
    with c st free show ?thesis by (auto simp: Let_def)
  next
    case False
    with c st show ?thesis by (auto simp: Let_def replace_changed_def)
  qed
qed


section \<open>Progress\<close>

text \<open>
  An upper bound of the steps a thread can still take, itself and the threads it starts. (A tick
  of the condition check sends one update per registered process and is not bounded beforehand.)
\<close>

fun work :: "thread \<Rightarrow> nat" where
  "work Finished = 0"
| "work (Send q k) = 1 + work k"
| "work (CallStop q sig k) = WaitCount + 8 + work k"
| "work (StopSpawn q sig b k) = WaitCount + 5 + work k"
| "work (StopGo q c sig b) = WaitCount + 4"
| "work (StopWait q n) = n + 2"
| "work (StopKill q) = 1"
| "work (Create spec) = WaitCount + 20"
| "work (CreateStart q) = WaitCount + 18"
| "work (Reply q) = 1"
| "work (RunCmd q) = 4"
| "work (RunWait q) = 3"
| "work (RunReturn q er) = 2"
| "work (Probe q) = WaitCount + 10"
| "work (ProbeStop q) = WaitCount + 9"
| "work (Delete name uid) = 2 * WaitCount + 16"
| "work (DeleteResp q) = WaitCount + 6"
| "work (Unregister q resp) = WaitCount + 5"
| "work (UnregWait q n) = n + 4"
| "work (UnregCheck q) = 3"
| "work (UnregCommit q) = 2"
| "work (Replace spec sig) = 3 * WaitCount + 68"
| "work (ReplaceCheck q old) = 3 * WaitCount + 67"
| "work (ReplaceStart q old) = 3 * WaitCount + 66"
| "work (ReplaceWait q old n) = 2 * WaitCount + n + 20"
| "work (ReplaceCommit q old) = WaitCount + 11"
| "work (Cleanup q er) = 1"
| "work ConditionTick = 0"

abbreviation total_work :: "thread list \<Rightarrow> nat" where
  "total_work ts \<equiv> sum_list (map work ts)"

lemma work_step:
  assumes "thread_step u sha e t S = Some (S', new)" "t \<noteq> ConditionTick"
  shows "total_work new < work t"
proof (cases t)
  case (StopWait q n)
  with assms show ?thesis by (cases n) (auto split: if_splits)
next
  case (UnregWait q n)
  with assms show ?thesis by (cases n) (auto split: if_splits)
next
  case (ReplaceWait q old n)
  with assms show ?thesis
    by (cases n) (auto simp: Let_def replace_stop_old_def split: if_splits)
qed (use assms in \<open>auto simp: StopWithSignal_def stop_goroutine_def ProcessCreate_def start_process_def
    reply_process_def run_cmd_def run_wait_def run_return_def probe_def probe_stop_def ProcessDelete_def
    delete_response_def unregisterProcess_def unregister_check_def ProcessReplace_def replace_check_def
    replace_finish_def cleanup_replacement_def replaceWaitCount_def Let_def
    split: if_splits option.splits prod.splits go_result.splits bool.splits\<close>)

fun no_tick :: "thread \<Rightarrow> bool" where
  "no_tick (Send q k) = no_tick k"
| "no_tick (CallStop q sig k) = no_tick k"
| "no_tick (StopSpawn q sig b k) = no_tick k"
| "no_tick ConditionTick = False"
| "no_tick _ = True"

lemma no_tick_step:
  assumes "thread_step u sha e t S = Some (S', new)" "no_tick t"
  shows "\<forall>t' \<in> set new. no_tick t'"
proof (cases t)
  case (StopWait q n)
  with assms show ?thesis by (cases n) (auto split: if_splits)
next
  case (UnregWait q n)
  with assms show ?thesis by (cases n) (auto split: if_splits)
next
  case (ReplaceWait q old n)
  with assms show ?thesis
    by (cases n) (auto simp: Let_def replace_stop_old_def split: if_splits)
qed (use assms in \<open>auto simp: StopWithSignal_def stop_goroutine_def ProcessCreate_def start_process_def
    reply_process_def run_cmd_def run_wait_def run_return_def probe_def probe_stop_def ProcessDelete_def
    delete_response_def unregisterProcess_def unregister_check_def ProcessReplace_def replace_check_def
    replace_finish_def cleanup_replacement_def Let_def
    split: if_splits option.splits prod.splits go_result.splits bool.splits\<close>)

fun is_run :: "event \<Rightarrow> bool" where
  "is_run (Run i e) = True"
| "is_run _ = False"

fun is_arrival :: "event \<Rightarrow> bool" where
  "is_arrival (Arrive t) = True"
| "is_arrival _ = False"

lemma exec_step_work:
  assumes "exec_event_step u sha ev (S, ts) = Some (S', ts')" "\<not> is_arrival ev" "\<forall>t \<in> set ts. no_tick t"
  shows "(\<forall>t \<in> set ts'. no_tick t) \<and> total_work ts' + (if is_run ev then 1 else 0) \<le> total_work ts"
proof (cases ev)
  case (Run i e)
  then obtain new where i: "i < length ts" "thread_step u sha e (ts ! i) S = Some (S', new)"
    "ts' = take i ts @ new @ drop (Suc i) ts" using assms(1) by (auto split: if_splits option.splits)
  have ts: "ts = take i ts @ ts ! i # drop (Suc i) ts" using i(1) by (simp add: id_take_nth_drop)
  have nt: "no_tick (ts ! i)" using assms(3) i(1) by simp
  then have "ts ! i \<noteq> ConditionTick" by auto
  from work_step[OF i(2) this] have "total_work new < work (ts ! i)" .
  moreover have "total_work ts = total_work (take i ts) + work (ts ! i) + total_work (drop (Suc i) ts)"
    by (subst ts) simp
  moreover have "\<forall>t \<in> set ts'. no_tick t"
    using no_tick_step[OF i(2) nt] assms(3) i(3) by (auto dest: in_set_takeD in_set_dropD)
  ultimately show ?thesis using i(3) Run by simp
qed (use assms in auto)

lemma exec_work:
  "exec u sha evs (S, ts) = Some (S', ts') \<Longrightarrow> \<forall>ev \<in> set evs. \<not> is_arrival ev \<Longrightarrow> \<forall>t \<in> set ts. no_tick t \<Longrightarrow>
   length (filter is_run evs) + total_work ts' \<le> total_work ts"
proof (induction evs arbitrary: S ts)
  case (Cons ev evs)
  then obtain S1 ts1 where s: "exec_event_step u sha ev (S, ts) = Some (S1, ts1)"
    "exec u sha evs (S1, ts1) = Some (S', ts')" by (auto simp: bind_eq_Some_conv)
  from exec_step_work[OF s(1)] Cons.prems have
    "\<forall>t \<in> set ts1. no_tick t" "total_work ts1 + (if is_run ev then 1 else 0) \<le> total_work ts" by auto
  with Cons.IH[OF s(2)] Cons.prems show ?case by auto
qed simp

text \<open>
  C9: The manager's handlers and goroutines end. A run in which no new request arrives takes at
  most as many thread steps as the bound \<open>work\<close> allows: 20 for a creation beyond one waiting
  period of 600 rounds, 16 for a deletion beyond two, 68 for a replacement beyond three.
\<close>

theorem runs_are_bounded:
  assumes "exec u sha evs (S, ts) = Some C" "\<forall>ev \<in> set evs. \<not> is_arrival ev" "\<forall>t \<in> set ts. no_tick t"
  shows "length (filter is_run evs) \<le> sum_list (map work ts)"
  using exec_work[of u sha evs S ts] assms by (cases C) fastforce


section \<open>Listing and conditions\<close>

text \<open>C16: \<^verbatim>\<open>ProcessGet\<close> and \<^verbatim>\<open>ProcessList\<close> agree on every name.\<close>

theorem list_get_agree:
  assumes "started u sha pm0 S ts"
  shows "ProcessList (mgr S) name = Some r \<longleftrightarrow> ProcessGet (mgr S) name = Ok r"
  using started_pm_ok[OF assms] ProcessList_eq[of "mgr S" name]
  by (auto simp: pm_ok_def ProcessGet_def split: option.splits)

text \<open>
  The condition check cannot crash, and it sets the read-only condition of exactly the running
  engine processes whose volume has a mount point (the ones it announces), from the mount
  options; every other process is left alone.
\<close>

theorem conditions_checked:
  assumes "started u sha pm0 S ts"
  shows "\<exists>pm qs. getProcessesToUpdateConditions sha mounts (mgr S) = (pm, Ok qs)
    \<and> (\<forall>name q. findProcess (mgr S) name = Some q \<longrightarrow>
        (q \<in> set qs \<longleftrightarrow> condition_of sha mounts (obj (mgr S) q) \<noteq> None)
        \<and> obj pm q = (case condition_of sha mounts (obj (mgr S) q) of
             None \<Rightarrow> obj (mgr S) q | Some mp \<Rightarrow> set_condition mp (obj (mgr S) q)))"
proof -
  note ok = started_pm_ok[OF assms]
  let ?ps = "processes (mgr S)"
  have d: "distinct (map snd ?ps)" "\<forall>q \<in> snd ` set ?ps. q < length (heap (mgr S))"
    using ok map_ok_distinct by (auto simp: pm_ok_def map_ok_def)
  obtain pm r where r: "update_conditions sha mounts ?ps (mgr S) [] = (pm, r)" by fastforce
  from update_conditions_ok[OF ok r] obtain qs where qs: "r = Ok qs" by auto
  have "q \<in> snd ` set ?ps" if "findProcess (mgr S) name = Some q" for name q
    using that map_of_SomeD[of ?ps name q] by (force simp: findProcess_def)
  with update_conditions_effect[OF r[unfolded qs] d] show ?thesis
    unfolding getProcessesToUpdateConditions_def r qs by simp
qed

end
