(* ===== verification/Registry.thy ===== *)
theory Registry
  imports IM_Prelude
begin

text \<open>
  What the process manager promises, without its goroutines, pointers and bitmap: a registry of names, each with
  the UUID and the ports of its process, and a set of ports held for replacements that have not taken their name yet.
  An event either happens as a whole or not at all. Theory \<open>Manager_Refinement\<close> shows that the process manager, in any
  interleaving of its goroutines, does nothing else.
\<close>

section \<open>Refinement mappings\<close>

text \<open>
  A detailed system with an invariant, and a function that maps its states to those of an abstract one so that every
  step becomes an abstract step. Runs are mapped to runs, and what every abstract step keeps holds of the detailed system.
\<close>

locale refinement_mapping =
  fixes cstep :: "'c \<Rightarrow> 'c \<Rightarrow> bool" and astep :: "'a \<Rightarrow> 'a \<Rightarrow> bool" and inv :: "'c \<Rightarrow> bool" and abs :: "'c \<Rightarrow> 'a"
  assumes keeps: "inv c \<Longrightarrow> cstep c c' \<Longrightarrow> inv c'"
    and simulates: "inv c \<Longrightarrow> cstep c c' \<Longrightarrow> astep (abs c) (abs c')"
begin

lemma runs: "cstep\<^sup>*\<^sup>* c c' \<Longrightarrow> inv c \<Longrightarrow> inv c' \<and> astep\<^sup>*\<^sup>* (abs c) (abs c')"
proof (induction rule: rtranclp_induct)
  case (step y z)
  then show ?case using keeps[of y z] simulates[of y z] by (auto intro: rtranclp.rtrancl_into_rtrancl)
qed simp

lemma transfers:
  assumes "\<And>a a'. P a \<Longrightarrow> astep a a' \<Longrightarrow> P a'" "cstep\<^sup>*\<^sup>* c c'" "inv c" "P (abs c)"
  shows "P (abs c')"
proof -
  have "astep\<^sup>*\<^sup>* (abs c) (abs c')" using runs assms by blast
  then show ?thesis using assms(4) by (induction rule: rtranclp_induct) (auto intro: assms(1))
qed

end

section \<open>The registry\<close>

record registry =
  rgRange :: "int set"
  rgProcs :: "string \<rightharpoonup> string \<times> int set"
  rgHeld :: "int set"

definition rgPorts :: "registry \<Rightarrow> int set" where
  "rgPorts R = {x. \<exists>n uid P. rgProcs R n = Some (uid, P) \<and> x \<in> P}"

definition rgFree :: "registry \<Rightarrow> int set" where
  "rgFree R = rgRange R - rgPorts R - rgHeld R"

definition rgUnused :: "registry \<Rightarrow> string \<Rightarrow> string \<Rightarrow> bool" where
  "rgUnused R n uid \<longleftrightarrow> (\<forall>m a P. m \<noteq> n \<longrightarrow> rgProcs R m = Some (a, P) \<longrightarrow> a \<noteq> uid)"

text \<open>
  A process is registered with free ports under a new name, or unregistered; a replacement reserves free ports, gives
  them up, or takes over a name with them. What nobody holds is free.
\<close>

datatype registry_event =
    Skip
  | Register string string "int set"
  | Deregister string
  | Reserve "int set"
  | GiveUp "int set"
  | TakeOver string string "int set"

fun registry_do :: "registry_event \<Rightarrow> registry \<Rightarrow> registry option" where
  "registry_do Skip R = Some R"
| "registry_do (Register n uid P) R =
     (if rgProcs R n = None \<and> P \<subseteq> rgFree R \<and> rgUnused R n uid
      then Some (R\<lparr>rgProcs := (rgProcs R)(n \<mapsto> (uid, P))\<rparr>) else None)"
| "registry_do (Deregister n) R =
     (if rgProcs R n = None then None else Some (R\<lparr>rgProcs := (rgProcs R)(n := None)\<rparr>))"
| "registry_do (Reserve P) R =
     (if P \<subseteq> rgFree R then Some (R\<lparr>rgHeld := rgHeld R \<union> P\<rparr>) else None)"
| "registry_do (GiveUp P) R =
     (if P \<subseteq> rgHeld R then Some (R\<lparr>rgHeld := rgHeld R - P\<rparr>) else None)"
| "registry_do (TakeOver n uid P) R =
     (if P \<subseteq> rgHeld R \<and> rgUnused R n uid
      then Some (R\<lparr>rgProcs := (rgProcs R)(n \<mapsto> (uid, P)), rgHeld := rgHeld R - P\<rparr>) else None)"

inductive registry_step :: "registry \<Rightarrow> registry \<Rightarrow> bool" where
  registry_step_do: "registry_do ev R = Some R' \<Longrightarrow> registry_step R R'"

inductive_cases registry_stepE [elim!]: "registry_step R R'"

definition registry_empty :: "int set \<Rightarrow> registry" where
  "registry_empty A = \<lparr>rgRange = A, rgProcs = Map.empty, rgHeld = {}\<rparr>"

section \<open>What holds of every registry\<close>

definition registry_ok :: "registry \<Rightarrow> bool" where
  "registry_ok R \<longleftrightarrow> rgHeld R \<subseteq> rgRange R
     \<and> (\<forall>n a P. rgProcs R n = Some (a, P) \<longrightarrow> P \<subseteq> rgRange R \<and> P \<inter> rgHeld R = {})
     \<and> (\<forall>n m a b P Q. n \<noteq> m \<longrightarrow> rgProcs R n = Some (a, P) \<longrightarrow> rgProcs R m = Some (b, Q) \<longrightarrow> a \<noteq> b \<and> P \<inter> Q = {})"

lemma registry_ok_empty: "registry_ok (registry_empty A)"
  by (simp add: registry_ok_def registry_empty_def)

lemma registry_okI:
  assumes "rgHeld R \<subseteq> rgRange R" "\<And>n a P. rgProcs R n = Some (a, P) \<Longrightarrow> P \<subseteq> rgRange R \<and> P \<inter> rgHeld R = {}"
    and "\<And>n m a b P Q. n \<noteq> m \<Longrightarrow> rgProcs R n = Some (a, P) \<Longrightarrow> rgProcs R m = Some (b, Q) \<Longrightarrow> a \<noteq> b \<and> P \<inter> Q = {}"
  shows "registry_ok R"
  unfolding registry_ok_def by (rule conjI[OF assms(1) conjI]) (intro allI impI, erule assms(2), intro allI impI, erule assms(3))

lemma registry_okD:
  assumes "registry_ok R"
  shows "rgHeld R \<subseteq> rgRange R" "rgProcs R n = Some (a, P) \<Longrightarrow> P \<subseteq> rgRange R \<and> P \<inter> rgHeld R = {}"
    "n \<noteq> m \<Longrightarrow> rgProcs R n = Some (a, P) \<Longrightarrow> rgProcs R m = Some (b, Q) \<Longrightarrow> a \<noteq> b \<and> P \<inter> Q = {}"
  using assms[unfolded registry_ok_def, THEN conjunct1]
    assms[unfolded registry_ok_def, THEN conjunct2, THEN conjunct1, rule_format, of n a P]
    assms[unfolded registry_ok_def, THEN conjunct2, THEN conjunct2, rule_format, of n m a P b Q]
  by simp_all

lemma registry_ok_put:
  assumes ok: "registry_ok R" and P: "P \<subseteq> rgRange R" "P \<inter> H = {}" and H: "H \<subseteq> rgHeld R" and new: "rgUnused R n uid"
    and disj: "\<And>m b Q. m \<noteq> n \<Longrightarrow> rgProcs R m = Some (b, Q) \<Longrightarrow> P \<inter> Q = {}"
  shows "registry_ok (R\<lparr>rgProcs := (rgProcs R)(n \<mapsto> (uid, P)), rgHeld := H\<rparr>)"
proof (rule registry_okI)
  show "rgHeld (R\<lparr>rgProcs := (rgProcs R)(n \<mapsto> (uid, P)), rgHeld := H\<rparr>) \<subseteq> rgRange (R\<lparr>rgProcs := (rgProcs R)(n \<mapsto> (uid, P)), rgHeld := H\<rparr>)"
    using H registry_okD(1)[OF ok] by simp
next
  fix m a Q assume "rgProcs (R\<lparr>rgProcs := (rgProcs R)(n \<mapsto> (uid, P)), rgHeld := H\<rparr>) m = Some (a, Q)"
  then show "Q \<subseteq> rgRange (R\<lparr>rgProcs := (rgProcs R)(n \<mapsto> (uid, P)), rgHeld := H\<rparr>)
      \<and> Q \<inter> rgHeld (R\<lparr>rgProcs := (rgProcs R)(n \<mapsto> (uid, P)), rgHeld := H\<rparr>) = {}"
    using P H registry_okD(2)[OF ok, of m a Q] by (cases "m = n") auto
next
  fix k m a b Q Q' assume "k \<noteq> m"
    "rgProcs (R\<lparr>rgProcs := (rgProcs R)(n \<mapsto> (uid, P)), rgHeld := H\<rparr>) k = Some (a, Q)"
    "rgProcs (R\<lparr>rgProcs := (rgProcs R)(n \<mapsto> (uid, P)), rgHeld := H\<rparr>) m = Some (b, Q')"
  then show "a \<noteq> b \<and> Q \<inter> Q' = {}"
    using new disj registry_okD(3)[OF ok, of k m a Q b Q'] unfolding rgUnused_def
    by (cases "k = n"; cases "m = n") (simp_all, metis, metis Int_commute)
qed

lemma registry_ok_do:
  assumes "registry_do ev R = Some R'" "registry_ok R"
  shows "registry_ok R'"
proof (cases ev)
  case (Register n uid P)
  then have g: "P \<subseteq> rgFree R" "rgUnused R n uid" "R' = R\<lparr>rgProcs := (rgProcs R)(n \<mapsto> (uid, P)), rgHeld := rgHeld R\<rparr>"
    using assms(1) by (auto split: if_splits)
  have "P \<subseteq> rgRange R" "P \<inter> rgHeld R = {}" using g(1) by (auto simp: rgFree_def)
  moreover have "P \<inter> Q = {}" if "rgProcs R m = Some (b, Q)" for m b Q
    using g(1) that by (auto simp: rgFree_def rgPorts_def)
  ultimately show ?thesis unfolding g(3) using g(2) by (intro registry_ok_put[OF assms(2)]) simp_all
next
  case (TakeOver n uid P)
  then have g: "P \<subseteq> rgHeld R" "rgUnused R n uid" "R' = R\<lparr>rgProcs := (rgProcs R)(n \<mapsto> (uid, P)), rgHeld := rgHeld R - P\<rparr>"
    using assms(1) by (auto split: if_splits)
  have "P \<inter> Q = {}" if "rgProcs R m = Some (b, Q)" for m b Q
    using g(1) registry_okD(2)[OF assms(2) that] by blast
  then show ?thesis unfolding g(3) using g(1,2) registry_okD(1)[OF assms(2)] by (intro registry_ok_put[OF assms(2)]) auto
next
  case (Deregister n)
  then have "R' = R\<lparr>rgProcs := (rgProcs R)(n := None)\<rparr>" using assms(1) by (auto split: if_splits)
  then have p: "rgProcs R' m = Some x \<Longrightarrow> rgProcs R m = Some x" "rgHeld R' = rgHeld R" "rgRange R' = rgRange R" for m x
    by (simp_all split: if_splits)
  show ?thesis
    by (rule registry_okI) (simp_all only: not_False_eq_True simp_thms p registry_okD(1)[OF assms(2)] registry_okD(2)[OF assms(2) p(1)]
      registry_okD(3)[OF assms(2) _ p(1) p(1)])
next
  case (Reserve P)
  then have g: "P \<subseteq> rgFree R" "R' = R\<lparr>rgHeld := rgHeld R \<union> P\<rparr>" using assms(1) by (auto split: if_splits)
  have "P \<inter> Q = {}" if "rgProcs R m = Some (b, Q)" for m b Q
    using g(1) that by (auto simp: rgFree_def rgPorts_def)
  moreover have "P \<subseteq> rgRange R" using g(1) by (auto simp: rgFree_def)
  ultimately show ?thesis unfolding g(2) using registry_okD(1)[OF assms(2)]
    by (intro registry_okI) (auto dest: registry_okD(2)[OF assms(2)] registry_okD(3)[OF assms(2)])
next
  case (GiveUp P)
  then have "R' = R\<lparr>rgHeld := rgHeld R - P\<rparr>" using assms(1) by (auto split: if_splits)
  then show ?thesis using registry_okD(1)[OF assms(2)]
    by (intro registry_okI) (auto dest: registry_okD(2)[OF assms(2)] registry_okD(3)[OF assms(2)])
qed (use assms in simp)

lemma registry_step_ok: "registry_ok R \<Longrightarrow> registry_step R R' \<Longrightarrow> registry_ok R'"
  using registry_ok_do by blast

end
