(* ===== verification/Manager_Refinement.thy ===== *)
theory Manager_Refinement
  imports Manager_Properties Registry
begin

text \<open>
  The process manager implements the registry of theory \<open>Registry\<close>. The abstraction forgets the objects on the heap, the
  bitmap and the control points of the goroutines; what remains are the names with their UUIDs and ports, and the ports
  of the replacements in flight. Every step of every goroutine is then one event of the registry, most of them none.
\<close>

section \<open>The abstraction\<close>

definition owned_ports :: "Process list \<Rightarrow> ptr multiset \<Rightarrow> int set" where
  "owned_ports h own = (\<Union>q \<in> set_mset own. ports_of (range_of (h ! q)))"

definition entry :: "Process \<Rightarrow> string \<times> int set" where
  "entry p = (pUUID p, ports_of (range_of p))"

definition pm_view :: "int set \<Rightarrow> Manager \<Rightarrow> ptr multiset \<Rightarrow> registry" where
  "pm_view A pm own = \<lparr>rgRange = A, rgProcs = (\<lambda>n. map_option (\<lambda>q. entry (obj pm q)) (findProcess pm n)),
     rgHeld = owned_ports (heap pm) own\<rparr>"

definition registry_of :: "int set \<Rightarrow> System \<times> thread list \<Rightarrow> registry" where
  "registry_of A C = pm_view A (mgr (fst C)) (threads_owned (snd C))"

lemma owned_ports_simps [simp]:
  "owned_ports h {#} = {}" "owned_ports h (add_mset q own) = ports_of (range_of (h ! q)) \<union> owned_ports h own"
  "owned_ports h (own + own') = owned_ports h own \<union> owned_ports h own'"
  by (auto simp: owned_ports_def)

lemma pm_view_simps [simp]:
  "rgRange (pm_view A pm own) = A" "rgHeld (pm_view A pm own) = owned_ports (heap pm) own"
  "rgProcs (pm_view A pm own) n = map_option (\<lambda>q. entry (obj pm q)) (findProcess pm n)"
  by (simp_all add: pm_view_def)

lemma rgPorts_view:
  "rgPorts (pm_view A pm own) = (\<Union>q \<in> {q. \<exists>n. findProcess pm n = Some q}. ports_of (range_of (obj pm q)))"
  by (auto simp: rgPorts_def entry_def)

section \<open>Who owns which ports\<close>

lemma owners_conserved:
  "pm_ok u A pm own \<Longrightarrow> conserved A (free_ports (availablePorts pm)) (ranges (heap pm) (owners pm own))"
  by (simp add: pm_ok_def ports_ok_def)

lemma owners_disjoint:
  assumes "pm_ok u A pm own" "owners pm own = add_mset q (add_mset r rest)"
  shows "ports_of (range_of (obj pm q)) \<inter> ports_of (range_of (obj pm r)) = {}"
  using owners_conserved[OF assms(1)] conserved_disjoint by (simp add: assms(2))

lemma registered_in_owners:
  assumes "pm_ok u A pm own" "findProcess pm n = Some q"
  shows "\<exists>rest. mset (map snd (processes pm)) = add_mset q rest"
proof -
  have "distinct (map fst (processes pm))" using assms(1) by (simp add: pm_ok_def map_ok_def)
  from mset_AList_delete[OF this] show ?thesis using assms(2) by (metis findProcess_def)
qed

lemma registered_not_owned:
  assumes "pm_ok u A pm own" "findProcess pm n = Some q"
  shows "ports_of (range_of (obj pm q)) \<inter> owned_ports (heap pm) own = {}"
proof -
  have "ports_of (range_of (obj pm q)) \<inter> ports_of (range_of (obj pm r)) = {}" if r: "r \<in># own" for r
  proof -
    obtain rest own' where "mset (map snd (processes pm)) = add_mset q rest" "own = add_mset r own'"
      using registered_in_owners[OF assms] multi_member_split[OF r] by blast
    then have "owners pm own = add_mset q (add_mset r (rest + own'))" by (simp add: owners_def)
    then show ?thesis by (rule owners_disjoint[OF assms(1)])
  qed
  then show ?thesis by (auto simp: owned_ports_def)
qed

lemma owned_once:
  assumes "pm_ok u A pm (add_mset q own)"
  shows "ports_of (range_of (obj pm q)) \<inter> owned_ports (heap pm) own = {}"
    "ports_of (range_of (obj pm q)) \<inter> rgPorts (pm_view A pm own) = {}" "ports_of (range_of (obj pm q)) \<subseteq> A"
proof -
  have "ports_of (range_of (obj pm q)) \<inter> ports_of (range_of (obj pm r)) = {}" if r: "r \<in># own" for r
  proof -
    obtain own' where "own = add_mset r own'" using multi_member_split[OF r] by blast
    then have "owners pm (add_mset q own) = add_mset q (add_mset r (owners pm own'))" by (simp add: owners_def)
    then show ?thesis by (rule owners_disjoint[OF assms])
  qed
  then show "ports_of (range_of (obj pm q)) \<inter> owned_ports (heap pm) own = {}" by (auto simp: owned_ports_def)
  show "ports_of (range_of (obj pm q)) \<inter> rgPorts (pm_view A pm own) = {}"
    using registered_not_owned[OF assms] by (fastforce simp: rgPorts_view)
  show "ports_of (range_of (obj pm q)) \<subseteq> A"
    using owners_conserved[OF assms] conserved_member by (simp add: owners_def)
qed

text \<open>The free ports of the registry are those of the bitmap.\<close>

lemma rgFree_view:
  assumes "pm_ok u A pm own"
  shows "rgFree (pm_view A pm own) = free_ports (availablePorts pm)"
proof (rule set_eqI)
  fix p
  let ?own = "ranges (heap pm) (owners pm own)"
  have "distinct (map fst (processes pm))" using assms by (simp add: pm_ok_def map_ok_def)
  then have "{q. \<exists>n. findProcess pm n = Some q} = snd ` set (processes pm)" by (force simp: findProcess_def)
  then have "holders p ?own > 0 \<longleftrightarrow> p \<in> rgPorts (pm_view A pm own) \<union> owned_ports (heap pm) own"
    unfolding holders_pos rgPorts_view by (fastforce simp: ranges_def owners_def owned_ports_def)
  moreover have "of_bool (p \<in> free_ports (availablePorts pm)) + holders p ?own = (of_bool (p \<in> A) :: nat)"
    using owners_conserved[OF assms] by (simp add: conserved_def)
  ultimately show "p \<in> rgFree (pm_view A pm own) \<longleftrightarrow> p \<in> free_ports (availablePorts pm)"
    by (auto simp: rgFree_def of_bool_def split: if_splits)
qed

section \<open>Steps of the manager as events of the registry\<close>

text \<open>What a step keeps of the objects there are already.\<close>

lemma entry_same_identity: "same_identity p q \<Longrightarrow> entry q = entry p"
  by (simp add: entry_def range_of_def same_identity_def)

lemma heap_ext_entry: "heap_ext h h' \<Longrightarrow> q < length h \<Longrightarrow> entry (h' ! q) = entry (h ! q)"
  by (simp add: heap_ext_def entry_same_identity)

lemma heap_ext_ports: "heap_ext h h' \<Longrightarrow> q < length h \<Longrightarrow> ports_of (range_of (h' ! q)) = ports_of (range_of (h ! q))"
  using heap_ext_entry by (simp add: entry_def)

lemma heap_ext_owned: "heap_ext h h' \<Longrightarrow> (\<forall>q \<in># own. q < length h) \<Longrightarrow> owned_ports h' own = owned_ports h own"
  by (auto simp: owned_ports_def heap_ext_ports)

lemma pm_ok_owned: "pm_ok u A pm own \<Longrightarrow> \<forall>q \<in># own. q < length (heap pm)"
  by (simp add: pm_ok_def)

lemma view_procs:
  assumes "pm_ok u A pm own" "heap_ext (heap pm) (heap pm')"
  shows "map_option (\<lambda>q. entry (obj pm' q)) (findProcess pm n) = map_option (\<lambda>q. entry (obj pm q)) (findProcess pm n)"
  using pm_ok_find[OF assms(1)] heap_ext_entry[OF assms(2)] by (cases "findProcess pm n") auto

lemma view_put:
  assumes "pm_ok u A pm own" "heap_ext (heap pm) (heap pm')" "findProcess pm' = (findProcess pm)(n \<mapsto> q)"
  shows "rgProcs (pm_view A pm' own') = (rgProcs (pm_view A pm own))(n \<mapsto> entry (obj pm' q))"
  using view_procs[OF assms(1,2)] by (rule_tac ext) (simp add: assms(3) pm_view_def)

lemma view_skip:
  assumes "pm_ok u A pm own" "heap_ext (heap pm) (heap pm')" "findProcess pm' = findProcess pm"
  shows "pm_view A pm' own = pm_view A pm own"
  using view_procs[OF assms(1,2)] heap_ext_owned[OF assms(2) pm_ok_owned[OF assms(1)]] assms(3) by (simp add: pm_view_def)

lemma view_unused:
  assumes "inj u" "pm_ok u A pm own" "heap_ext (heap pm) (heap pm')" "pm_ok u A pm' own'"
    and "findProcess pm' = (findProcess pm)(n \<mapsto> q)"
  shows "rgUnused (pm_view A pm own) n (pUUID (obj pm' q))"
  unfolding rgUnused_def
proof (intro allI impI)
  fix m a P assume m: "m \<noteq> n" "rgProcs (pm_view A pm own) m = Some (a, P)"
  then obtain r where r: "findProcess pm m = Some r" "a = pUUID (obj pm r)" by (auto simp: entry_def)
  have "findProcess pm' m = Some r" "findProcess pm' n = Some q" using r m assms(5) by simp_all
  from pm_ok_find[OF assms(4) this(1)] pm_ok_find[OF assms(4) this(2)] have "r \<noteq> q" "q < length (heap pm')" using m(1) by auto
  moreover have "a = u r" using r pm_ok_uuid[OF assms(2)] pm_ok_find[OF assms(2) r(1)] by simp
  ultimately show "a \<noteq> pUUID (obj pm' q)" using pm_ok_uuid[OF assms(4)] assms(1) by (simp add: inj_eq)
qed

lemma view_register:
  assumes u: "inj u" and ok: "pm_ok u A pm own" and ext: "heap_ext (heap pm) (heap pm')" and ok': "pm_ok u A pm' own"
    and new: "findProcess pm n = None" and f: "findProcess pm' = (findProcess pm)(n \<mapsto> q)"
  shows "registry_do (Register n (pUUID (obj pm' q)) (ports_of (range_of (obj pm' q)))) (pm_view A pm own) = Some (pm_view A pm' own)"
proof -
  let ?P = "ports_of (range_of (obj pm' q))"
  have q: "findProcess pm' n = Some q" by (simp add: f)
  have held: "owned_ports (heap pm') own = owned_ports (heap pm) own"
    by (rule heap_ext_owned[OF ext pm_ok_owned[OF ok]])
  obtain rest where o: "owners pm' own = add_mset q rest" using owners_find[OF ok' q] by blast
  have "?P \<subseteq> A" using owners_conserved[OF ok'] conserved_member by (simp add: o)
  moreover have "?P \<inter> owned_ports (heap pm) own = {}" using registered_not_owned[OF ok' q] held by simp
  moreover have "?P \<inter> rgPorts (pm_view A pm own) = {}"
  proof -
    have "?P \<inter> ports_of (range_of (obj pm r)) = {}" if r: "findProcess pm m = Some r" for m r
    proof -
      have "m \<noteq> n" "findProcess pm' m = Some r" using r new by (auto simp: f)
      then have "?P \<inter> ports_of (range_of (obj pm' r)) = {}"
        using owners_find_two[OF ok' q, of m r] owners_disjoint[OF ok'] by blast
      then show ?thesis using heap_ext_ports[OF ext] pm_ok_find[OF ok r] by simp
    qed
    then show ?thesis unfolding rgPorts_view by blast
  qed
  ultimately have "?P \<subseteq> rgFree (pm_view A pm own)" by (auto simp: rgFree_def)
  moreover have "rgUnused (pm_view A pm own) n (pUUID (obj pm' q))" by (rule view_unused[OF u ok ext ok' f])
  ultimately show ?thesis using new view_put[OF ok ext f, of own] held
    by (simp add: pm_view_def entry_def)
qed

lemma view_deregister:
  assumes "pm_ok u A pm own" "heap_ext (heap pm) (heap pm')" "findProcess pm n = Some q" "findProcess pm' = (findProcess pm)(n := None)"
  shows "registry_do (Deregister n) (pm_view A pm own) = Some (pm_view A pm' own)"
  using assms(3,4) view_procs[OF assms(1,2)] heap_ext_owned[OF assms(2) pm_ok_owned[OF assms(1)]]
  by (auto simp: pm_view_def fun_eq_iff)

lemma view_reserve:
  assumes ok: "pm_ok u A pm own" and ext: "heap_ext (heap pm) (heap pm')" and ok': "pm_ok u A pm' (add_mset q own)"
    and f: "findProcess pm' = findProcess pm"
  shows "registry_do (Reserve (ports_of (range_of (obj pm' q)))) (pm_view A pm own) = Some (pm_view A pm' (add_mset q own))"
proof -
  have s: "pm_view A pm' own = pm_view A pm own" by (rule view_skip[OF ok ext f])
  have held: "owned_ports (heap pm') own = owned_ports (heap pm) own" by (rule heap_ext_owned[OF ext pm_ok_owned[OF ok]])
  have "ports_of (range_of (obj pm' q)) \<subseteq> rgFree (pm_view A pm own)"
    using owned_once[OF ok'] by (auto simp: rgFree_def s held)
  moreover have "pm_view A pm' (add_mset q own) = (pm_view A pm' own)\<lparr>rgHeld := owned_ports (heap pm') own \<union> ports_of (range_of (obj pm' q))\<rparr>"
    by (simp add: pm_view_def Un_commute)
  ultimately show ?thesis by (simp add: s held)
qed

lemma view_give_up:
  assumes ok: "pm_ok u A pm (add_mset q own)" and ext: "heap_ext (heap pm) (heap pm')" and f: "findProcess pm' = findProcess pm"
  shows "registry_do (GiveUp (ports_of (range_of (obj pm q)))) (pm_view A pm (add_mset q own)) = Some (pm_view A pm' own)"
proof -
  have "owned_ports (heap pm) (add_mset q own) - ports_of (range_of (obj pm q)) = owned_ports (heap pm) own"
    using owned_once(1)[OF ok] by auto
  moreover have "owned_ports (heap pm') own = owned_ports (heap pm) own"
    using heap_ext_owned[OF ext] pm_ok_owned[OF ok] by simp
  ultimately show ?thesis using view_procs[OF ok ext] f by (simp add: pm_view_def)
qed

lemma view_take_over:
  assumes u: "inj u" and ok: "pm_ok u A pm (add_mset q own)" and ext: "heap_ext (heap pm) (heap pm')" and ok': "pm_ok u A pm' own"
    and f: "findProcess pm' = (findProcess pm)(n \<mapsto> q)"
  shows "registry_do (TakeOver n (pUUID (obj pm' q)) (ports_of (range_of (obj pm' q)))) (pm_view A pm (add_mset q own))
    = Some (pm_view A pm' own)"
proof -
  have "q < length (heap pm)" using pm_ok_owned[OF ok] by simp
  then have P: "ports_of (range_of (obj pm' q)) = ports_of (range_of (obj pm q))" by (rule heap_ext_ports[OF ext])
  have "owned_ports (heap pm) (add_mset q own) - ports_of (range_of (obj pm q)) = owned_ports (heap pm) own"
    using owned_once(1)[OF ok] by auto
  moreover have "owned_ports (heap pm') own = owned_ports (heap pm) own"
    using heap_ext_owned[OF ext] pm_ok_owned[OF ok] by simp
  ultimately show ?thesis using view_unused[OF u ok ext ok' f] view_put[OF ok ext f, of own] P
    by (simp add: pm_view_def entry_def)
qed

section \<open>Every step of a goroutine\<close>

text \<open>The events a goroutine can cause at each of its control points; all others change nothing of the registry.\<close>

fun causes :: "thread \<Rightarrow> registry_event \<Rightarrow> bool" where
  "causes (Create spec) ev = (case ev of Skip \<Rightarrow> True | Register n uid P \<Rightarrow> n = psName spec | _ \<Rightarrow> False)"
| "causes (UnregCommit q) ev = (case ev of Skip \<Rightarrow> True | Deregister n \<Rightarrow> True | _ \<Rightarrow> False)"
| "causes (Replace spec sig) ev = (case ev of Skip \<Rightarrow> True | Reserve P \<Rightarrow> True | _ \<Rightarrow> False)"
| "causes (ReplaceCheck q old) ev = (case ev of Skip \<Rightarrow> True | GiveUp P \<Rightarrow> True | _ \<Rightarrow> False)"
| "causes (Cleanup q er) ev = (case ev of GiveUp P \<Rightarrow> True | _ \<Rightarrow> False)"
| "causes (ReplaceCommit q old) ev = (case ev of Skip \<Rightarrow> True | TakeOver n uid P \<Rightarrow> True | _ \<Rightarrow> False)"
| "causes _ ev = (ev = Skip)"

fun quiet :: "thread \<Rightarrow> bool" where
  "quiet (Create spec) = False"
| "quiet (UnregCommit q) = False"
| "quiet (Replace spec sig) = False"
| "quiet (ReplaceCheck q old) = False"
| "quiet (Cleanup q er) = False"
| "quiet (ReplaceCommit q old) = False"
| "quiet _ = True"

lemma quiet_causes: "causes t Skip" if "quiet t"
  using that by (cases t) simp_all

lemma findProcess_processes: "processes pm' = processes pm \<Longrightarrow> findProcess pm' = findProcess pm"
  by (simp add: findProcess_def fun_eq_iff)

lemma condition_tick_frame:
  assumes "pm_ok u A (mgr S) own" "condition_tick sha e S = (S', new)"
  shows "processes (mgr S') = processes (mgr S) \<and> threads_owned new = {#}"
proof -
  obtain pm r where r: "checkMountPointStatusForEngine sha (of_sum (e_mounts e)) (mgr S) = (pm, r)" by fastforce
  with checkMountPoint_ok[OF assms(1) r] assms(2) show ?thesis by (auto simp: condition_tick_def split: go_result.splits)
qed

lemma quiet_frame:
  assumes "quiet t" "pm_ok u A (mgr S) (thread_owned t + own)" "thread_step u sha e t S = Some (S', new)"
  shows "processes (mgr S') = processes (mgr S) \<and> threads_owned new = thread_owned t"
proof (cases t)
  case (StopWait q n)
  with assms show ?thesis by (cases n) (auto split: if_splits)
next
  case (UnregWait q n)
  with assms show ?thesis by (cases n) (auto split: if_splits)
next
  case (ReplaceWait q old n)
  with assms show ?thesis by (cases n) (auto simp: replace_stop_old_def Let_def split: if_splits)
next
  case ConditionTick
  with assms condition_tick_frame[of u A S own sha e S' new] show ?thesis by simp
next
  case (CallStop q sig k)
  with assms show ?thesis by (auto simp: StopWithSignal_def split: prod.splits if_splits)
qed (use assms in \<open>auto simp: stop_goroutine_def run_cmd_def run_wait_def run_return_def probe_def probe_stop_def
       reply_process_def delete_response_def unregisterProcess_def unregister_check_def start_process_def ProcessDelete_def
       Let_def split: if_splits option.splits go_result.splits\<close>)

lemma create_refines:
  assumes u: "inj u" and ok: "pm_ok u A (mgr S) own" and st: "ProcessCreate u e spec S = (S', new)"
    and ext: "heap_ext (heap (mgr S)) (heap (mgr S'))" and ok': "pm_ok u A (mgr S') (threads_owned new + own)"
  shows "\<exists>ev. causes (Create spec) ev \<and> registry_do ev (pm_view A (mgr S) own) = Some (pm_view A (mgr S') (threads_owned new + own))"
proof (cases "findProcess (mgr S') = findProcess (mgr S) \<and> threads_owned new = {#}")
  case True
  then show ?thesis using view_skip[OF ok ext] by (intro exI[of _ Skip]) simp
next
  case False
  then have n: "psName spec \<noteq> ''''" "psBinary spec \<noteq> ''''" "e_logger e = None"
    using st by (auto simp: ProcessCreate_def split: if_splits option.splits)
  obtain pm0 q where a: "alloc_obj (new_process (u (length (heap (mgr S)))) spec) (mgr S) = (pm0, q)" by fastforce
  note o = new_object[OF ok a]
  obtain pm1 r where r: "registerProcess pm0 q = (pm1, r)" by fastforce
  have "r \<noteq> Err er" for er
  proof
    assume "r = Err er"
    with registerProcess_cases[OF o(1-4) r] have "pm1 = pm0" by auto
    with \<open>r = Err er\<close> st n a r have "mgr S' = upd_obj q close_logger pm0" "new = [Finished]"
      by (auto simp: ProcessCreate_def)
    with False o(8) show False by (simp add: findProcess_def fun_eq_iff)
  qed
  with registerProcess_cases[OF o(1-4) r] o(7,8) have
    f: "r = Ok ()" "findProcess (mgr S) (psName spec) = None" "findProcess pm1 = (findProcess (mgr S))(psName spec \<mapsto> q)" by auto
  with st n a r have S': "mgr S' = pm1" "threads_owned new = {#}" by (auto simp: ProcessCreate_def)
  have "registry_do (Register (psName spec) (pUUID (obj (mgr S') q)) (ports_of (range_of (obj (mgr S') q)))) (pm_view A (mgr S) own)
      = Some (pm_view A (mgr S') own)"
    using view_register[OF u ok ext] ok' f S' by simp
  then show ?thesis using S'(2) by (intro exI) (auto simp del: registry_do.simps)
qed

lemma replace_refines:
  assumes ok: "pm_ok u A (mgr S) own" and st: "ProcessReplace u e spec sig S = (S', new)"
    and ext: "heap_ext (heap (mgr S)) (heap (mgr S'))" and ok': "pm_ok u A (mgr S') (threads_owned new + own)"
  shows "\<exists>ev. causes (Replace spec sig) ev \<and> registry_do ev (pm_view A (mgr S) own) = Some (pm_view A (mgr S') (threads_owned new + own))"
proof (cases "findProcess (mgr S') = findProcess (mgr S) \<and> threads_owned new = {#}")
  case True
  then show ?thesis using view_skip[OF ok ext] by (intro exI[of _ Skip]) simp
next
  case False
  then have n: "psName spec \<noteq> ''''" "psBinary spec \<noteq> ''''" "sig = ''SIGHUP''" "e_logger e = None"
    using st by (auto simp: ProcessReplace_def split: if_splits option.splits)
  obtain pm0 q where a: "alloc_obj (new_process (u (length (heap (mgr S)))) spec) (mgr S) = (pm0, q)" by fastforce
  note o = new_object[OF ok a]
  obtain pm1 r where r: "initProcessReplace pm0 q = (pm1, r)" by fastforce
  have "r \<noteq> Err er" for er
  proof
    assume "r = Err er"
    with initProcessReplace_cases[OF o(1-4) r] have "pm1 = pm0" by auto
    with \<open>r = Err er\<close> st n a r have "mgr S' = upd_obj q close_logger pm0" "new = [Finished]"
      by (auto simp: ProcessReplace_def)
    with False o(8) show False by (simp add: findProcess_def fun_eq_iff)
  qed
  with initProcessReplace_cases[OF o(1-4) r] obtain old where old: "r = Ok old" "frame_obj q pm0 pm1" by auto
  with st n a r have S': "mgr S' = pm1" "threads_owned new = {#q#}" by (auto simp: ProcessReplace_def)
  have "findProcess (mgr S') = findProcess (mgr S)"
    using old(2) o(8) S' findProcess_processes[of pm1 pm0] by (simp add: frame_obj_def)
  with view_reserve[OF ok ext, of q] ok' S'(2) show ?thesis
    by (intro exI[of _ "Reserve (ports_of (range_of (obj (mgr S') q)))"]) simp
qed

lemma check_refines:
  assumes ok: "pm_ok u A (mgr S) (add_mset q own)" and st: "replace_check q old S = (S', new)"
    and ext: "heap_ext (heap (mgr S)) (heap (mgr S'))"
  shows "\<exists>ev. causes (ReplaceCheck q old) ev
    \<and> registry_do ev (pm_view A (mgr S) (add_mset q own)) = Some (pm_view A (mgr S') (threads_owned new + own))"
proof (cases "pBinary (obj (mgr S) old) = pBinary (obj (mgr S) q)")
  case True
  then have "findProcess (mgr S') = findProcess (mgr S)" "threads_owned new = {#}"
    using st by (auto simp: replace_check_def findProcess_def fun_eq_iff)
  then show ?thesis using view_give_up[OF ok ext] by (intro exI[of _ "GiveUp (ports_of (range_of (obj (mgr S) q)))"]) simp
next
  case False
  then show ?thesis using st by (intro exI[of _ Skip]) (auto simp: replace_check_def)
qed

lemma cleanup_refines:
  assumes ok: "pm_ok u A (mgr S) (add_mset q own)" and st: "cleanup_replacement q er S = (S', new)"
    and ext: "heap_ext (heap (mgr S)) (heap (mgr S'))"
  shows "\<exists>ev. causes (Cleanup q er) ev
    \<and> registry_do ev (pm_view A (mgr S) (add_mset q own)) = Some (pm_view A (mgr S') (threads_owned new + own))"
proof -
  have "findProcess (mgr S') = findProcess (mgr S)" "threads_owned new = {#}"
    using st by (auto simp: cleanup_replacement_def findProcess_def fun_eq_iff)
  then show ?thesis using view_give_up[OF ok ext] by (intro exI[of _ "GiveUp (ports_of (range_of (obj (mgr S) q)))"]) simp
qed

lemma commit_refines:
  assumes u: "inj u" and ok: "pm_ok u A (mgr S) (add_mset q own)" and old: "old < length (heap (mgr S))"
    and st: "replace_finish q old S = (S', new)"
  shows "\<exists>ev. causes (ReplaceCommit q old) ev
    \<and> registry_do ev (pm_view A (mgr S) (add_mset q own)) = Some (pm_view A (mgr S') (threads_owned new + own))"
proof -
  obtain pm1 d where r: "replace_commit (mgr S) q old = (pm1, d)" by fastforce
  note c = replace_commit_cases[OF u ok old r]
  show ?thesis
  proof (cases d)
    case True
    let ?n = "pName (obj (mgr S) q)"
    have S': "mgr S' = pm1" "threads_owned new = {#}" using st r True by (auto simp: replace_finish_def)
    have "registry_do (TakeOver ?n (pUUID (obj pm1 q)) (ports_of (range_of (obj pm1 q)))) (pm_view A (mgr S) (add_mset q own))
        = Some (pm_view A pm1 own)"
      using view_take_over[OF u ok, of pm1 ?n] c True by simp
    then show ?thesis using S' by (intro exI) (auto simp del: registry_do.simps)
  next
    case False
    then have "mgr S' = mgr S" "threads_owned new = {#q#}" using st r c by (auto simp: replace_finish_def)
    then show ?thesis by (intro exI[of _ Skip]) simp
  qed
qed

lemma unregister_refines:
  assumes u: "inj u" and ok: "pm_ok u A (mgr S) own" and q: "q < length (heap (mgr S))"
  shows "\<exists>ev. causes (UnregCommit q) ev \<and> registry_do ev (pm_view A (mgr S) own) = Some (pm_view A (unregister_commit (mgr S) q) own)"
proof -
  let ?pm = "mgr S"
  note c = unregister_commit_cases[OF u ok q]
  have ext: "heap_ext (heap ?pm) (heap (unregister_commit ?pm q))" using c by simp
  show ?thesis
  proof (cases "findProcess ?pm (pName (obj ?pm q)) = Some q")
    case True
    with view_deregister[OF ok ext True] c show ?thesis by (intro exI[of _ "Deregister (pName (obj ?pm q))"]) simp
  next
    case False
    with view_skip[OF ok ext] c show ?thesis by (intro exI[of _ Skip]) simp
  qed
qed

lemma thread_refines:
  assumes u: "inj u" and pre: "pre_ok u A own t S" and st: "thread_step u sha e t S = Some (S', new)"
  shows "\<exists>ev. causes t ev
    \<and> registry_do ev (pm_view A (mgr S) (thread_owned t + own)) = Some (pm_view A (mgr S') (threads_owned new + own))"
proof -
  have ok: "pm_ok u A (mgr S) (thread_owned t + own)" and ptrs: "thread_ptrs t \<subseteq> {..<length (heap (mgr S))}"
    using pre by (simp_all add: pre_ok_def)
  have ok': "pm_ok u A (mgr S') (threads_owned new + own)" and ext: "heap_ext (heap (mgr S)) (heap (mgr S'))"
    using thread_step_ok[OF assms] by (auto simp: step_ok_def)
  show ?thesis
  proof (cases "quiet t")
    case True
    then have "findProcess (mgr S') = findProcess (mgr S)" "threads_owned new = thread_owned t"
      using quiet_frame[OF True ok st] findProcess_processes[of "mgr S'" "mgr S"] by simp_all
    then show ?thesis using view_skip[OF ok ext] quiet_causes[OF True] by (intro exI[of _ Skip]) simp
  next
    case False
    show ?thesis
    proof (cases t)
      case (Create spec)
      then show ?thesis using create_refines[OF u _ _ ext ok'] ok st by simp
    next
      case (UnregCommit q)
      then show ?thesis using unregister_refines[OF u, of A S own q] ok st ptrs
        by (auto simp del: causes.simps registry_do.simps)
    next
      case (Replace spec sig)
      then show ?thesis using replace_refines[OF _ _ ext ok'] ok st by simp
    next
      case (ReplaceCheck q old)
      then show ?thesis using check_refines[OF _ _ ext] ok st by simp
    next
      case (Cleanup q er)
      then show ?thesis using cleanup_refines[OF _ _ ext] ok st by simp
    next
      case (ReplaceCommit q old)
      then show ?thesis using commit_refines[OF u, of A S q own old S' new] ok st ptrs by simp
    qed (use False in simp_all)
  qed
qed

section \<open>The process manager implements the registry\<close>

lemma request_view: "is_request t \<Longrightarrow> registry_of A (S, ts @ [t]) = registry_of A (S, ts)"
  using request_simps[of t] by (simp add: registry_of_def)

lemma turn_refines:
  assumes u: "inj u" and ok: "sys_ok u A S (ts1 @ t # ts2)" and st: "thread_step u sha e t S = Some (S', new)"
  shows "\<exists>ev. causes t ev \<and> registry_do ev (registry_of A (S, ts1 @ t # ts2)) = Some (registry_of A (S', ts1 @ new @ ts2))"
proof -
  have "pre_ok u A (threads_owned ts1 + threads_owned ts2) t S" using ok by (simp add: sys_ok_def pre_ok_def ac_simps)
  from thread_refines[OF u this st] show ?thesis by (simp add: registry_of_def ac_simps)
qed

lemma step_refines:
  assumes u: "inj u" and ok: "sys_ok u A S ts" and st: "pm_step u sha (S, ts) (S', ts')"
  shows "\<exists>ev. registry_do ev (registry_of A (S, ts)) = Some (registry_of A (S', ts'))"
  using st
proof cases
  case (request t)
  then show ?thesis using request_view[of t A S ts] by (intro exI[of _ Skip]) simp
next
  case (thread e t new ts1 ts2)
  then show ?thesis using turn_refines[OF u, of A S ts1 t ts2 sha e S' new] ok by auto
next
  case monitor
  then show ?thesis by (intro exI[of _ Skip]) (auto simp: monitor_step_def registry_of_def split: option.splits)
qed

interpretation manager: refinement_mapping "pm_step u sha" registry_step
  "\<lambda>C. inj u \<and> sys_ok u A (fst C) (snd C)" "registry_of A" for u sha A
proof unfold_locales
  fix C C' assume "inj u \<and> sys_ok u A (fst C) (snd C)" "pm_step u sha C C'"
  then show "inj u \<and> sys_ok u A (fst C') (snd C')" using sys_ok_step[of u sha "fst C" "snd C" "fst C'" "snd C'" A] by simp
next
  fix C C' assume "inj u \<and> sys_ok u A (fst C) (snd C)" "pm_step u sha C C'"
  then show "registry_step (registry_of A C) (registry_of A C')"
    using step_refines[of u A "fst C" "snd C" sha "fst C'" "snd C'"] by (auto intro: registry_step_do simp del: registry_do.simps)
qed

lemma pm_reach_run: "pm_reach u sha pm0 C \<Longrightarrow> (pm_step u sha)\<^sup>*\<^sup>* (init_system pm0, []) C"
  by (induction rule: pm_reach.induct) (auto intro: rtranclp.rtrancl_into_rtrancl)

lemma manager_run:
  assumes "started u sha pm0 S ts"
  shows "registry_step\<^sup>*\<^sup>* (registry_empty (all_ports_of pm0)) (registry_of (all_ports_of pm0) (S, ts))"
proof -
  let ?A = "all_ports_of pm0"
  obtain dir range where s: "inj u" "NewManager None range dir = Ok pm0" "0 < portRangeMin pm0" "pm_reach u sha pm0 (S, ts)"
    using assms by (auto simp: started_def)
  have "pm_reach u sha pm0 (init_system pm0, [])" by (rule pm_reach.init)
  then have "started u sha pm0 (init_system pm0) []" using s by (auto simp: started_def)
  from started_ok[OF this] have i: "inj u \<and> sys_ok u ?A (fst (init_system pm0, [])) (snd (init_system pm0, []))"
    using s(1) by simp
  have "findProcess pm0 n = None" for n
    using s(2) by (auto simp: NewManager_def findProcess_def go_bind_Ok_iff split: option.splits go_result.splits)
  then have "registry_of ?A (init_system pm0, []) = registry_empty ?A"
    by (simp add: registry_of_def pm_view_def init_system_def registry_empty_def)
  with manager.runs[OF pm_reach_run[OF s(4)] i] show ?thesis by simp
qed

text \<open>The invariant of the registry, and with it the separation of ports, follows for the manager from the abstract system.\<close>

lemma manager_registry_ok:
  assumes "started u sha pm0 S ts"
  shows "registry_ok (registry_of (all_ports_of pm0) (S, ts))"
  using manager_run[OF assms] by (induction rule: rtranclp_induct) (rule registry_ok_empty, rule registry_step_ok)

text \<open>
  C4: The process manager is a registry. Forget its objects, its bitmap and its goroutines: every run, in any
  interleaving of requests, goroutines and the monitor, is then a run of the abstract registry from the empty one, the
  ports the bitmap has free are those the registry has free, and each step of a goroutine is one event of the registry,
  of the kind its control point allows: \<^verbatim>\<open>ProcessCreate\<close> registers its name with free ports and a UUID no other name has
  or changes nothing, the commit of a deletion removes a name with its ports, a replacement reserves free ports, gives
  them up or takes over its name, and all other steps change nothing.
\<close>

theorem manager_refines_registry:
  assumes "started u sha pm0 S ts"
  shows "registry_step\<^sup>*\<^sup>* (registry_empty (all_ports_of pm0)) (registry_of (all_ports_of pm0) (S, ts))
    \<and> rgFree (registry_of (all_ports_of pm0) (S, ts)) = free_of S
    \<and> (\<forall>ts1 t ts2 e S' new. ts = ts1 @ t # ts2 \<and> thread_step u sha e t S = Some (S', new) \<longrightarrow>
         (\<exists>ev. causes t ev \<and> registry_do ev (registry_of (all_ports_of pm0) (S, ts))
            = Some (registry_of (all_ports_of pm0) (S', ts1 @ new @ ts2))))"
proof (intro conjI allI impI)
  have u: "inj u" using assms by (auto simp: started_def)
  show "rgFree (registry_of (all_ports_of pm0) (S, ts)) = free_of S"
    using rgFree_view[OF started_pm_ok[OF assms]] by (simp add: registry_of_def)
  fix ts1 t ts2 e S' new assume "ts = ts1 @ t # ts2 \<and> thread_step u sha e t S = Some (S', new)"
  then show "\<exists>ev. causes t ev \<and> registry_do ev (registry_of (all_ports_of pm0) (S, ts))
      = Some (registry_of (all_ports_of pm0) (S', ts1 @ new @ ts2))"
    using turn_refines[OF u] started_ok[OF assms] by metis
qed (rule manager_run[OF assms])

end
