(* ===== verification/Manager_Witnesses.thy ===== *)
theory Manager_Witnesses
  imports Manager_Refinement
begin

text \<open>
  Concrete runs of the process manager on the port range 10000-10010: they show that the
  hypotheses of the properties of \<open>Manager_Properties\<close> and \<open>Manager_Refinement\<close> can be met, and the last two are runs
  in which a process ends in a state the code does not intend.
\<close>

section \<open>The runs\<close>

definition w_uuid :: "nat \<Rightarrow> string" where "w_uuid n = strconv_Itoa (int n)"

lemma w_uuid_inj: "inj w_uuid"
  by (auto simp: inj_def w_uuid_def dest: Itoa_inj)

definition w_env :: env where
  "w_env = \<lparr>e_now = 0, e_logger = None,
     e_command = (\<lambda>b a. Inr \<lparr>bcPath = b, bcArgs = a, bcPdeathsig = Some SIGKILL, bcStdout = None,
           bcStderr = None, bcProcess = False, bcProcessState = False, bcSignals = []\<rparr>),
     e_start = None, e_exit = Some (PlainError ''exit status 1''), e_probe = (\<lambda>_. StopClosed), e_mounts = Inr []\<rparr>"

definition w_spec :: "string \<Rightarrow> string \<Rightarrow> int \<Rightarrow> ProcessSpec" where
  "w_spec name binary n = \<lparr>psName = name, psBinary = binary, psArgs = [''--listen''],
     psPortCount = n, psPortArgs = []\<rparr>"

definition w_mgr :: Manager where
  "w_mgr = \<lparr>portRangeMin = 10000, portRangeMax = 10010, processes = [],
     availablePorts = \<lparr>base = 10000, bsize = 11, start = 0, data = {0..<11}\<rparr>,
     logsDir = ''/log'', heap = []\<rparr>"

lemma w_mgr_new: "NewManager None ''10000-10010'' ''/log'' = Ok w_mgr"
  by (simp add: NewManager_def ParsePortRange_def w_mgr_def NewBitmap_def wrap32_def strconv_Atoi_def
     strings_TrimSpace_def is_space_def digit_val_def is_int64_def)

definition w_exec :: "event list \<Rightarrow> (System \<times> thread list) option" where
  "w_exec evs = exec w_uuid id evs (init_system w_mgr, [])"

lemma w_exec_started:
  "\<not> Option.is_none (w_exec evs) \<Longrightarrow> started w_uuid id w_mgr (fst (the (w_exec evs))) (snd (the (w_exec evs)))"
proof -
  assume "\<not> Option.is_none (w_exec evs)"
  then have "exec w_uuid id evs (init_system w_mgr, []) = Some (fst (the (w_exec evs)), snd (the (w_exec evs)))"
    by (cases "w_exec evs") (simp_all add: w_exec_def)
  from exec_init_reach[OF this] show ?thesis
    using w_mgr_new w_uuid_inj by (auto simp: started_def w_mgr_def)
qed

text \<open>Two processes are created.\<close>

definition w_two :: "event list" where
  "w_two = [Arrive (Create (w_spec ''a'' ''bin'' 2)), Run 0 w_env,
            Arrive (Create (w_spec ''b'' ''bin'' 3)), Run 1 w_env]"

abbreviation "S_two \<equiv> fst (the (w_exec w_two))"
abbreviation "T_two \<equiv> snd (the (w_exec w_two))"

lemma two_started: "started w_uuid id w_mgr S_two T_two"
  by (rule w_exec_started) code_simp

lemma two_find: "findProcess (mgr S_two) ''a'' = Some 0" "findProcess (mgr S_two) ''b'' = Some 1"
  by code_simp+

text \<open>A process is created and deleted before its program is started; the deletion is at its commit.\<close>

definition w_delete :: "event list" where
  "w_delete = [Arrive (Create (w_spec ''a'' ''bin'' 2)), Run 0 w_env, Run 0 w_env, Monitor, Run 0 w_env,
     Arrive (Delete ''a'' ''''), Run 3 w_env, Run 3 w_env, Run 3 w_env, Monitor, Run 3 w_env,
     Run 4 w_env, Run 3 w_env, Run 3 w_env, Run 4 w_env, Run 4 w_env]"

abbreviation "S_del \<equiv> fst (the (w_exec w_delete))"
abbreviation "T_del \<equiv> snd (the (w_exec w_delete))"

lemma del_started: "started w_uuid id w_mgr S_del T_del"
  by (rule w_exec_started) code_simp

lemma del_find: "findProcess (mgr S_del) ''a'' = Some 0" "IsStopped (obj (mgr S_del) 0)"
  by code_simp+

text \<open>Control points recognised by evaluation.\<close>

fun is_commit :: "ptr \<Rightarrow> thread \<Rightarrow> bool" where
  "is_commit q (UnregCommit r) = (r = q)"
| "is_commit q _ = False"

fun is_replace :: "ptr \<Rightarrow> ptr \<Rightarrow> thread \<Rightarrow> bool" where
  "is_replace q old (ReplaceCommit r r') = (r = q \<and> r' = old)"
| "is_replace q old _ = False"

fun is_check :: "ptr \<Rightarrow> ptr \<Rightarrow> thread list \<Rightarrow> bool" where
  "is_check q old [ReplaceCheck r r'] = (r = q \<and> r' = old)"
| "is_check q old _ = False"

fun is_finished :: "thread \<Rightarrow> bool" where
  "is_finished Finished = True"
| "is_finished _ = False"

lemma is_finished_iff: "is_finished t \<longleftrightarrow> t = Finished"
  by (cases t) auto

lemma is_commit_iff: "is_commit q t \<longleftrightarrow> t = UnregCommit q"
  by (cases t) auto

lemma is_replace_iff: "is_replace q old t \<longleftrightarrow> t = ReplaceCommit q old"
  by (cases t) auto

lemma is_check_iff: "is_check q old ts \<longleftrightarrow> ts = [ReplaceCheck q old]"
  by (induction q old ts rule: is_check.induct) auto

lemma del_commit: "UnregCommit 0 \<in> set T_del"
proof -
  have "list_ex (is_commit 0) T_del" by code_simp
  then show ?thesis by (auto simp: list_ex_iff is_commit_iff)
qed

text \<open>A process without ports is replaced; the replacement is at its commit.\<close>

definition w_replace :: "event list" where
  "w_replace = [Arrive (Create (w_spec ''a'' ''bin'' 2)), Run 0 w_env,
     Arrive (Replace (w_spec ''a'' ''bin2'' 0) ''SIGHUP''), Run 1 w_env, Run 1 w_env, Run 1 w_env,
     Run 2 w_env, Run 3 w_env, Run 3 w_env, Run 3 w_env, Monitor, Run 3 w_env]"

abbreviation "S_rep \<equiv> fst (the (w_exec w_replace))"
abbreviation "T_rep \<equiv> snd (the (w_exec w_replace))"

lemma rep_started: "started w_uuid id w_mgr S_rep T_rep"
  by (rule w_exec_started) code_simp

lemma rep_commit: "ReplaceCommit 1 0 \<in> set T_rep"
proof -
  have "list_ex (is_replace 1 0) T_rep" by code_simp
  then show ?thesis by (auto simp: list_ex_iff is_replace_iff)
qed

section \<open>The properties on these runs\<close>

theorem manager_refines_registry_witness:
  "started w_uuid id w_mgr S_two T_two
    \<and> registry_step\<^sup>*\<^sup>* (registry_empty (all_ports_of w_mgr)) (registry_of (all_ports_of w_mgr) (S_two, T_two))
    \<and> rgFree (registry_of (all_ports_of w_mgr) (S_two, T_two)) = free_of S_two"
  using manager_refines_registry[OF two_started] two_started by (intro conjI) (rule two_started, simp_all only: simp_thms)

theorem manager_well_formed_witness:
  "threads_ptrs T_two \<subseteq> {..<length (heap (mgr S_two))} \<and> distinct (map fst (processes (mgr S_two)))"
  using manager_well_formed[OF two_started] by simp

theorem ports_exclusive_witness:
  "ports_at S_two 0 \<inter> ports_at S_two 1 = {} \<and> ports_at S_two 0 \<inter> free_of S_two = {}
     \<and> ports_at S_two 0 \<subseteq> all_ports_of w_mgr"
  using ports_exclusive[OF two_started two_find] by simp

theorem ports_not_leaked_witness:
  "free_of S_two \<union> (\<Union>(k, q) \<in> set (processes (mgr S_two)). ports_at S_two q) = all_ports_of w_mgr"
proof -
  have "size (threads_owned T_two) = 0" by code_simp
  then show ?thesis using ports_not_leaked[OF two_started] by simp
qed

theorem unregister_only_itself_witness:
  "findProcess (mgr (fst (the (thread_step w_uuid id w_env (UnregCommit 0) S_del)))) ''a'' = None"
  using unregister_only_itself[OF del_started del_commit, of w_env _ _ "''a''"] del_find(1) by simp

theorem create_succeeds_witness:
  "\<exists>S' q. ProcessCreate w_uuid w_env (w_spec ''c'' ''bin'' 3) S_two = (S', [Send q (CreateStart q)])
     \<and> registered_as S_two (w_spec ''c'' ''bin'' 3) q S'"
proof (rule create_succeeds[OF two_started])
  have "{10005 .. 10005 + 3} \<subseteq> free_of S_two" by code_simp
  then show "can_allocate S_two (w_spec ''c'' ''bin'' 3)"
    unfolding can_allocate_def by (auto simp: w_spec_def intro!: exI[of _ 10005])
qed (code_simp, simp_all add: w_spec_def w_env_def)

theorem create_fails_witness:
  "processes (mgr (fst (ProcessCreate w_uuid w_env (w_spec ''a'' ''bin'' 3) S_two))) = processes (mgr S_two)"
proof -
  have "length (replies (fst (ProcessCreate w_uuid w_env (w_spec ''a'' ''bin'' 3) S_two))) \<noteq> length (replies S_two)"
    by code_simp
  then have "replies (fst (ProcessCreate w_uuid w_env (w_spec ''a'' ''bin'' 3) S_two)) \<noteq> replies S_two" by metis
  from create_fails[OF two_started prod.collapse[symmetric] this] show ?thesis by blast
qed

theorem replace_same_binary_witness:
  "\<exists>S2. replace_check 2 0 (fst (ProcessReplace w_uuid w_env (w_spec ''a'' ''bin'' 1) ''SIGHUP'' S_two))
      = (S2, [Reply 0]) \<and> free_of S2 = free_of S_two"
proof -
  let ?r = "ProcessReplace w_uuid w_env (w_spec ''a'' ''bin'' 1) ''SIGHUP'' S_two"
  have "is_check 2 0 (snd ?r)" by code_simp
  then have r: "?r = (fst ?r, [ReplaceCheck 2 0])" by (simp add: is_check_iff prod_eq_iff)
  have "pBinary (obj (mgr S_two) 0) = psBinary (w_spec ''a'' ''bin'' 1)" by code_simp
  from replace_same_binary[OF two_started r this] show ?thesis by blast
qed

theorem replace_decides_witness:
  "findProcess (mgr (fst (the (thread_step w_uuid id w_env (ReplaceCommit 1 0) S_rep)))) ''a'' = Some 1"
proof -
  have "thread_step w_uuid id w_env (ReplaceCommit 1 0) S_rep = Some (fst (replace_finish 1 0 S_rep), snd (replace_finish 1 0 S_rep))"
    by simp
  from replace_decides[OF rep_started rep_commit this] have
    "let name = pName (obj (mgr S_rep) 1); now = findProcess (mgr S_rep) name in
     if now = None \<or> now = Some 0 then
       findProcess (mgr (fst (replace_finish 1 0 S_rep))) = (findProcess (mgr S_rep))(name \<mapsto> 1) else True"
    by (auto simp: Let_def)
  moreover have "pName (obj (mgr S_rep) 1) = ''a''" "findProcess (mgr S_rep) ''a'' = Some 0" by code_simp+
  ultimately show ?thesis by (simp add: Let_def)
qed


theorem runs_are_bounded_witness:
  "length (filter is_run [Run 0 w_env, Monitor, Run 0 w_env]) \<le> sum_list (map work [Send 0 (CreateStart 0)])"
proof -
  have "\<not> Option.is_none (exec w_uuid id [Run 0 w_env, Monitor, Run 0 w_env] (S_two, [Send 0 (CreateStart 0)]))"
    by code_simp
  then obtain C where "exec w_uuid id [Run 0 w_env, Monitor, Run 0 w_env] (S_two, [Send 0 (CreateStart 0)]) = Some C"
    by (auto simp: Option.is_none_def)
  from runs_are_bounded[OF this] show ?thesis by simp
qed


theorem list_get_agree_witness:
  "ProcessList (mgr S_two) ''a'' = Some (RPCResponse (obj (mgr S_two) 0))"
  using list_get_agree[OF two_started, of "''a''" "RPCResponse (obj (mgr S_two) 0)"] two_find(1)
  by (simp add: ProcessGet_def)

theorem conditions_checked_witness:
  "\<exists>pm qs. getProcessesToUpdateConditions id Map.empty (mgr S_two) = (pm, Ok qs) \<and> 0 \<notin> set qs"
proof -
  have "\<not> IsEngineProcess (pName (obj (mgr S_two) 0))" by code_simp
  then have "condition_of id Map.empty (obj (mgr S_two) 0) = None"
    by (simp add: condition_of_def needs_condition_def)
  with conditions_checked[OF two_started, of Map.empty] two_find(1) show ?thesis by fastforce
qed

section \<open>Two races\<close>

text \<open>
  C36: A process can stay in the running state after its program has failed. The goroutine of the
  health check sets the running state whatever the state is by then: in this run of a process
  without ports the program fails first, the failure is recorded, and the health check then
  overwrites it; all goroutines have ended, so nothing corrects the state.
\<close>

theorem running_after_failure:
  "\<exists>S ts. started w_uuid id w_mgr S ts \<and> ts = replicate 3 Finished
     \<and> findProcess (mgr S) ''a'' = Some 0 \<and> pState (obj (mgr S) 0) = StateRunning
     \<and> pErrorMsg (obj (mgr S) 0) = ''exit status 1''
     \<and> map_option bc_IsRunning (pcmd (obj (mgr S) 0)) = Some False"
proof -
  let ?evs = "[Arrive (Create (w_spec ''a'' ''bin'' 0)), Run 0 w_env, Run 0 w_env, Monitor, Run 0 w_env,
    Run 2 w_env, Run 0 w_env, Run 0 w_env, Run 0 w_env, Run 0 w_env, Monitor, Run 1 w_env, Run 1 w_env]"
  let ?S = "fst (the (w_exec ?evs))" and ?ts = "snd (the (w_exec ?evs))"
  have "started w_uuid id w_mgr ?S ?ts" by (rule w_exec_started) code_simp
  moreover have "list_all is_finished ?ts" "length ?ts = 3" by code_simp+
  then have "?ts = replicate 3 Finished"
    by (intro replicate_eqI) (auto simp: list_all_iff is_finished_iff)
  moreover have "findProcess (mgr ?S) ''a'' = Some 0" "pState (obj (mgr ?S) 0) = StateRunning"
    "pErrorMsg (obj (mgr ?S) 0) = ''exit status 1''"
    "map_option bc_IsRunning (pcmd (obj (mgr ?S) 0)) = Some False" by code_simp+
  ultimately show ?thesis by blast
qed

text \<open>
  C37: A deletion can leave the program running on ports that are free. A process that is deleted
  between the start of its goroutines and the start of its program is marked stopped without a
  signal; it is unregistered and its ports are released, and then its program starts, with no
  goroutine left to stop it.
\<close>

theorem orphan_on_free_ports:
  "\<exists>S ts. started w_uuid id w_mgr S ts \<and> findProcess (mgr S) = Map.empty
     \<and> map_option bc_IsRunning (pcmd (obj (mgr S) 0)) = Some True
     \<and> map_option bcSignals (pcmd (obj (mgr S) 0)) = Some []
     \<and> ports_at S 0 = {10000, 10001} \<and> ports_at S 0 \<subseteq> free_of S"
proof -
  let ?evs = "w_delete @ [Run 4 w_env, Run 0 w_env]"
  let ?S = "fst (the (w_exec ?evs))" and ?ts = "snd (the (w_exec ?evs))"
  have "started w_uuid id w_mgr ?S ?ts" by (rule w_exec_started) code_simp
  moreover have "processes (mgr ?S) = []" by code_simp
  then have "findProcess (mgr ?S) = Map.empty" by (simp add: findProcess_def fun_eq_iff)
  moreover have "map_option bc_IsRunning (pcmd (obj (mgr ?S) 0)) = Some True"
    "map_option bcSignals (pcmd (obj (mgr ?S) 0)) = Some []"
    "ports_at ?S 0 = {10000, 10001}" "ports_at ?S 0 \<subseteq> free_of ?S" by code_simp+
  ultimately show ?thesis by blast
qed

end
