(* ===== verification/Remote.thy ===== *)
theory Remote
  imports IM_Types
begin

text \<open>
  Calls to a service behind a gRPC connection. The service is not part of the program: its state
  is a type variable, and a call is a function from that state to the state afterwards and the
  call's result. Handlers that call services are put together with the combinators below.
\<close>

type_synonym ('s, 'a) remote = "'s \<Rightarrow> 's \<times> 'a go_result"

definition r_ok :: "'a \<Rightarrow> ('s, 'a) remote" where
  "r_ok x = (\<lambda>s. (s, Ok x))"

definition r_err :: "go_error \<Rightarrow> ('s, 'a) remote" where
  "r_err e = (\<lambda>s. (s, Err e))"

definition r_panic :: "('s, 'a) remote" where
  "r_panic = (\<lambda>s. (s, Panic))"

definition r_bind :: "('s, 'a) remote \<Rightarrow> ('a \<Rightarrow> ('s, 'b) remote) \<Rightarrow> ('s, 'b) remote" where
  "r_bind m f = (\<lambda>s. case m s of
      (s', Ok x) \<Rightarrow> f x s'
    | (s', Err e) \<Rightarrow> (s', Err e)
    | (s', Panic) \<Rightarrow> (s', Panic)
    | (s', Diverge) \<Rightarrow> (s', Diverge))"

definition r_map :: "('a \<Rightarrow> 'b) \<Rightarrow> ('s, 'a) remote \<Rightarrow> ('s, 'b) remote" where
  "r_map f m = r_bind m (\<lambda>x. r_ok (f x))"

definition r_map_err :: "(go_error \<Rightarrow> go_error) \<Rightarrow> ('s, 'a) remote \<Rightarrow> ('s, 'a) remote" where
  "r_map_err f m = (\<lambda>s. case m s of (s', r) \<Rightarrow> (s', map_err f r))"

text \<open>\<^verbatim>\<open>grpcstatus.Error(code, errors.Wrapf(err, msg).Error())\<close>.\<close>

definition status_wrap :: "grpc_code \<Rightarrow> string \<Rightarrow> go_error \<Rightarrow> go_error" where
  "status_wrap c m e = StatusError c (error_string (WrapError m e))"

text \<open>An error of a handler reaches the client of the service as a status error.\<close>

definition wire_error :: "go_error \<Rightarrow> go_error" where
  "wire_error e = (case FromError e of ((c, m), _) \<Rightarrow> StatusError c m)"

definition over_wire :: "('s, 'a) remote \<Rightarrow> ('s, 'a) remote" where
  "over_wire m = r_map_err wire_error m"

lemma status_code_wire [simp]: "status_code (wire_error e) = status_code e"
  by (simp add: wire_error_def status_code_def split: prod.splits) (simp add: FromError_def)

lemmas remote_defs = r_ok_def r_err_def r_panic_def r_bind_def r_map_def r_map_err_def

lemma r_simps [simp]:
  "r_ok x s = (s, Ok x)" "r_err e s = (s, Err e)" "r_panic s = (s, Panic)"
  "r_bind (r_ok x) f = f x" "r_bind (r_err e) f = r_err e" "r_bind r_panic f = r_panic"
  by (simp_all add: remote_defs fun_eq_iff)

lemma r_bind_assoc: "r_bind (r_bind m f) g = r_bind m (\<lambda>x. r_bind (f x) g)"
  by (auto simp: r_bind_def fun_eq_iff split: prod.splits go_result.splits)

lemma r_bind_ok [simp]: "r_bind m r_ok = m"
  by (auto simp: r_bind_def r_ok_def fun_eq_iff split: prod.splits go_result.splits)

lemma r_bind_Ok_iff:
  "r_bind m f s = (s', Ok y) \<longleftrightarrow> (\<exists>s1 x. m s = (s1, Ok x) \<and> f x s1 = (s', Ok y))"
  by (auto simp: r_bind_def split: prod.splits go_result.splits)

lemma r_bind_apply:
  "m s = (s1, Ok x) \<Longrightarrow> r_bind m f s = f x s1"
  "m s = (s1, Err e) \<Longrightarrow> r_bind m f s = (s1, Err e)"
  "m s = (s1, Panic) \<Longrightarrow> r_bind m f s = (s1, Panic)"
  by (simp_all add: r_bind_def)

lemma r_map_apply: "r_map f m s = (case m s of (s', r) \<Rightarrow> (s', go_bind r (\<lambda>x. Ok (f x))))"
  by (auto simp: r_map_def r_bind_def r_ok_def split: prod.splits go_result.splits)

lemma r_map_err_apply: "r_map_err f m s = (fst (m s), map_err f (snd (m s)))"
  by (simp add: r_map_err_def split: prod.splits)

text \<open>A call that leaves the service as it is.\<close>

definition no_effect :: "('s, 'a) remote \<Rightarrow> bool" where
  "no_effect m \<longleftrightarrow> (\<forall>s. fst (m s) = s)"

lemma no_effect_simps [simp, intro]:
  "no_effect (r_ok x)" "no_effect (r_err e)" "no_effect r_panic"
  by (simp_all add: no_effect_def)

lemma no_effect_bind [intro]: "no_effect m \<Longrightarrow> (\<And>x. no_effect (f x)) \<Longrightarrow> no_effect (r_bind m f)"
  unfolding no_effect_def r_bind_def
  by (clarsimp split: prod.splits go_result.splits) (metis fst_conv)+

section \<open>Dispatch on the data engine\<close>

text \<open>
  The servers keep one implementation per data engine in a map with the keys V1 and V2; a request
  for another engine is answered with Unimplemented.
\<close>

definition unsupported_engine :: "DataEngine \<Rightarrow> go_error" where
  "unsupported_engine de = StatusError Unimplemented (''unsupported data engine '' @ DataEngine_String de)"

definition dispatch :: "DataEngine \<Rightarrow> ('s, 'a) remote \<Rightarrow> ('s, 'a) remote \<Rightarrow> ('s, 'a) remote" where
  "dispatch de v1 v2 = (case de of
     DATA_ENGINE_V1 \<Rightarrow> v1 | DATA_ENGINE_V2 \<Rightarrow> v2 | DATA_ENGINE_OTHER n \<Rightarrow> r_err (unsupported_engine de))"

lemma dispatch_simps [simp]:
  "dispatch DATA_ENGINE_V1 v1 v2 = v1" "dispatch DATA_ENGINE_V2 v1 v2 = v2"
  "dispatch (DATA_ENGINE_OTHER n) v1 v2 = r_err (unsupported_engine (DATA_ENGINE_OTHER n))"
  by (simp_all add: dispatch_def)

text \<open>
  The contract the handlers of a server share: \<open>handle\<close> takes the engine and the request, \<open>v1\<close> and
  \<open>v2\<close> are the implementations.
\<close>

locale engine_server =
  fixes engine :: "'req \<Rightarrow> DataEngine"
    and handle :: "'req \<Rightarrow> ('s, 'a) remote"
    and v1 :: "'req \<Rightarrow> ('s, 'a) remote"
    and v2 :: "'req \<Rightarrow> ('s, 'a) remote"
  assumes handle_eq: "handle req = dispatch (engine req) (v1 req) (v2 req)"
begin

lemma unsupported:
  "engine req = DATA_ENGINE_OTHER n \<Longrightarrow>
   handle req s = (s, Err (unsupported_engine (DATA_ENGINE_OTHER n)))"
  by (simp add: handle_eq)

lemma supported:
  "handle req s = v1 req s \<or> handle req s = v2 req s
     \<or> (\<exists>n. engine req = DATA_ENGINE_OTHER n \<and> fst (handle req s) = s)"
  by (cases "engine req") (simp_all add: handle_eq)

lemma preserved:
  assumes "\<And>req s. P s \<Longrightarrow> P (fst (v1 req s))" "\<And>req s. P s \<Longrightarrow> P (fst (v2 req s))" "P s"
  shows "P (fst (handle req s))"
  using assms by (cases "engine req") (auto simp: handle_eq)

end

end
