(* ===== verification/Instance_Types.thy ===== *)
theory Instance_Types
  imports Remote Process
begin

text \<open>
  The messages of the instance service, and the client of the process manager
  (\<^verbatim>\<open>pkg/client/process_manager.go\<close>), which checks its arguments before it calls the service.
\<close>

section \<open>Messages\<close>

record ProcessInstanceSpec =
  pisBinary :: string
  pisArgs :: "string list"

record ShardEndpoint =
  seAddress :: string
  seSlotIndex :: int

record ShardGroupSpec =
  sgsDataChunks :: int
  sgsParityChunks :: int
  sgsStripSizeKb :: int
  sgsShards :: "(string \<times> ShardEndpoint) list"
  sgsSalvageRequested :: bool

record SpdkInstanceSpec =
  sisReplicaAddressMap :: "(string \<times> string) list"
  sisDiskName :: string
  sisDiskUuid :: string
  sisSize :: int
  sisExposeRequired :: bool
  sisFrontend :: string
  sisSalvageRequested :: bool
  sisBackingImageName :: string
  sisUblkQueueDepth :: int
  sisUblkNumberOfQueue :: int
  sisNvmeTcpNrIoQueues :: int
  sisSnapshotMaxCount :: int
  sisSlotIndex :: int
  sisLvsName :: string
  sisLvsUuid :: string
  sisShardGroupSpec :: "ShardGroupSpec option"

record InstanceSpec =
  isBackendStoreDriver :: BackendStoreDriver
  isDataEngine :: DataEngine
  isName :: string
  isType :: string
  isVolumeName :: string
  isPortCount :: int
  isPortArgs :: "string list"
  isProcessInstanceSpec :: "ProcessInstanceSpec option"
  isSpdkInstanceSpec :: "SpdkInstanceSpec option"
  isUpgradeRequired :: bool
  isInitiatorAddress :: string
  isTargetAddress :: string
  isEngineName :: string

record EngineFrontendNvmeTcpPath =
  npTargetIp :: string
  npTargetPort :: int
  npEngineName :: string
  npNqn :: string
  npNguid :: string
  npAnaState :: string

record InstanceStatus =
  istState :: string
  istErrorMsg :: string
  istConditions :: "string \<rightharpoonup> bool"
  istPortStart :: int
  istPortEnd :: int
  istTargetPortStart :: int
  istTargetPortEnd :: int
  istStandbyTargetPortStart :: int
  istStandbyTargetPortEnd :: int
  istUblkId :: int
  istUuid :: string
  istEngineName :: string
  istEndpoint :: string
  istFrontend :: string
  istActivePath :: string
  istPreferredPath :: string
  istPaths :: "EngineFrontendNvmeTcpPath option list"

record InstanceResponse =
  irSpec :: InstanceSpec
  irStatus :: InstanceStatus
  irDeleted :: bool

text \<open>The zero values of the two messages, on which the literals of the code are built.\<close>

definition zero_spec :: InstanceSpec where
  "zero_spec = \<lparr>isBackendStoreDriver = BackendStoreDriver_v1, isDataEngine = DATA_ENGINE_V1,
     isName = '''', isType = '''', isVolumeName = '''', isPortCount = 0, isPortArgs = [],
     isProcessInstanceSpec = None, isSpdkInstanceSpec = None, isUpgradeRequired = False,
     isInitiatorAddress = '''', isTargetAddress = '''', isEngineName = ''''\<rparr>"

definition zero_status :: InstanceStatus where
  "zero_status = \<lparr>istState = '''', istErrorMsg = '''', istConditions = Map.empty, istPortStart = 0,
     istPortEnd = 0, istTargetPortStart = 0, istTargetPortEnd = 0, istStandbyTargetPortStart = 0,
     istStandbyTargetPortEnd = 0, istUblkId = 0, istUuid = '''', istEngineName = '''',
     istEndpoint = '''', istFrontend = '''', istActivePath = '''', istPreferredPath = '''', istPaths = []\<rparr>"

text \<open>Requests.\<close>

record InstanceCreateRequest =
  icrSpec :: "InstanceSpec option"
  icrDataLayoutType :: DataLayoutType

record InstanceDeleteRequest =
  idrName :: string
  idrUuid :: string
  idrType :: string
  idrDataEngine :: DataEngine
  idrDiskUuid :: string
  idrCleanupRequired :: bool

text \<open>The requests to get, log, suspend, resume and delete the target of an instance have these fields.\<close>

record InstanceRequest =
  iqName :: string
  iqType :: string
  iqDataEngine :: DataEngine

record InstanceReplaceRequest =
  iprSpec :: "InstanceSpec option"
  iprTerminateSignal :: string

record InstanceSwitchOverTargetRequest =
  isrName :: string
  isrType :: string
  isrDataEngine :: DataEngine
  isrTargetAddress :: string
  isrEngineName :: string
  isrSwitchoverPhase :: string

section \<open>The client of the process manager\<close>

text \<open>The generated stub of the process manager's service, and the connection to it.\<close>

record 's pm_stub =
  stub_connect :: "string \<Rightarrow> ('s, unit) remote"
  stub_ProcessCreate :: "ProcessSpec \<Rightarrow> ('s, ProcessResponse) remote"
  stub_ProcessDelete :: "string \<Rightarrow> string \<Rightarrow> ('s, ProcessResponse) remote"
  stub_ProcessGet :: "string \<Rightarrow> ('s, ProcessResponse) remote"
  stub_ProcessList :: "('s, (string \<times> ProcessResponse) list) remote"
  stub_ProcessReplace :: "ProcessSpec \<Rightarrow> string \<Rightarrow> ('s, ProcessResponse) remote"
  stub_ProcessLog :: "string \<Rightarrow> ('s, (go_error + string) list) remote"

definition NewProcessManagerClient :: "'s pm_stub \<Rightarrow> string \<Rightarrow> ('s, unit) remote" where
  "NewProcessManagerClient c serviceURL =
     r_map_err (WrapError (''cannot connect to ProcessManagerService '' @ serviceURL)) (stub_connect c serviceURL)"

definition pmc_ProcessCreate ::
  "'s pm_stub \<Rightarrow> string \<Rightarrow> string \<Rightarrow> int \<Rightarrow> string list \<Rightarrow> string list \<Rightarrow> ('s, ProcessResponse) remote" where
  "pmc_ProcessCreate c name binary portCount args portArgs =
     (if name = '''' \<or> binary = '''' then
        r_err (PlainError ''failed to start process: missing required parameter'')
      else stub_ProcessCreate c \<lparr>psName = name, psBinary = binary, psArgs = args,
             psPortCount = wrap32 portCount, psPortArgs = portArgs\<rparr>)"

definition pmc_ProcessDelete :: "'s pm_stub \<Rightarrow> string \<Rightarrow> string \<Rightarrow> ('s, ProcessResponse) remote" where
  "pmc_ProcessDelete c name uuid =
     (if name = '''' then
        r_err (PlainError ''failed to delete process: missing required parameter name'')
      else stub_ProcessDelete c name uuid)"

definition pmc_ProcessGet :: "'s pm_stub \<Rightarrow> string \<Rightarrow> ('s, ProcessResponse) remote" where
  "pmc_ProcessGet c name =
     (if name = '''' then r_err (PlainError ''failed to get process: missing required parameter name'')
      else stub_ProcessGet c name)"

definition pmc_ProcessList :: "'s pm_stub \<Rightarrow> ('s, (string \<times> ProcessResponse) list) remote" where
  "pmc_ProcessList c = r_map_err (WrapError ''failed to list processes'') (stub_ProcessList c)"

definition pmc_ProcessLog :: "'s pm_stub \<Rightarrow> string \<Rightarrow> ('s, (go_error + string) list) remote" where
  "pmc_ProcessLog c name =
     (if name = '''' then r_err (PlainError ''failed to get process: missing required parameter name'')
      else r_map_err (WrapError (''failed to get process log of '' @ name)) (stub_ProcessLog c name))"

definition pmc_ProcessReplace ::
  "'s pm_stub \<Rightarrow> string \<Rightarrow> string \<Rightarrow> int \<Rightarrow> string list \<Rightarrow> string list \<Rightarrow> string \<Rightarrow> ('s, ProcessResponse) remote" where
  "pmc_ProcessReplace c name binary portCount args portArgs terminateSignal =
     (if name = '''' \<or> binary = '''' then
        r_err (PlainError ''failed to start process: missing required parameter'')
      else if terminateSignal \<noteq> ''SIGHUP'' then
        r_err (PlainError (''unsupported terminate signal '' @ terminateSignal))
      else stub_ProcessReplace c \<lparr>psName = name, psBinary = binary, psArgs = args,
             psPortCount = wrap32 portCount, psPortArgs = portArgs\<rparr> terminateSignal)"

section \<open>The client of the SPDK service\<close>

text \<open>What the instance service reads of the objects the SPDK client returns.\<close>

record Replica =
  rName :: string
  rState :: string
  rErrorMsg :: string
  rPortStart :: int
  rPortEnd :: int
  rUUID :: string

record Engine =
  eName :: string
  eState :: string
  eErrorMsg :: string
  ePort :: int
  eUUID :: string

record EngineFrontend =
  efName :: string
  efEngineName :: string
  efTargetPort :: int
  efActivePath :: string
  efPreferredPath :: string
  efPaths :: "EngineFrontendNvmeTcpPath option list"
  efFrontend :: string
  efEndpoint :: string
  efUUID :: string
  efUblkID :: int
  efState :: string
  efErrorMsg :: string

record Shard =
  shShardID :: string
  shState :: string
  shErrorMsg :: string
  shPort :: int
  shNvmfNqn :: string
  shUUID :: string

record ShardGroup =
  sgName :: string
  sgVolumeName :: string
  sgProcessState :: string
  sgErrorMsg :: string
  sgPort :: int
  sgNvmfNqn :: string
  sgHeadLvolUuid :: string

text \<open>The arguments of the creating calls.\<close>

record EngineCreateArgs =
  ecName :: string
  ecVolumeName :: string
  ecFrontend :: string
  ecSize :: int
  ecReplicaAddressMap :: "(string \<times> string) list"
  ecPortCount :: int
  ecSalvageRequested :: bool
  ecSnapshotMaxCount :: int
  ecLayout :: DataLayoutType

record EngineFrontendCreateArgs =
  fcName :: string
  fcVolumeName :: string
  fcEngineName :: string
  fcFrontend :: string
  fcSize :: int
  fcTargetAddress :: string
  fcUblkQueueDepth :: int
  fcUblkNumberOfQueue :: int
  fcNvmeTcpNrIoQueues :: int

record ReplicaCreateArgs =
  rcName :: string
  rcDiskName :: string
  rcDiskUuid :: string
  rcSize :: int
  rcPortCount :: int
  rcBackingImageName :: string

record ShardCreateArgs =
  scVolumeName :: string
  scSlotIndex :: int
  scSize :: int
  scLvsName :: string
  scLvsUuid :: string
  scPortCount :: int

record ShardGroupCreateArgs =
  gcName :: string
  gcVolumeName :: string
  gcSize :: int
  gcDataChunks :: int
  gcParityChunks :: int
  gcStripSizeKb :: int
  gcShards :: "(string \<times> ShardEndpoint) list"
  gcPortCount :: int
  gcSalvageRequested :: bool

record 's spdk_client =
  spdk_connect :: "('s, unit) remote"
  spdk_EngineCreate :: "EngineCreateArgs \<Rightarrow> ('s, Engine) remote"
  spdk_EngineDelete :: "string \<Rightarrow> ('s, unit) remote"
  spdk_EngineDeleteTarget :: "string \<Rightarrow> ('s, unit) remote"
  spdk_EngineGet :: "string \<Rightarrow> ('s, Engine) remote"
  spdk_EngineList :: "('s, (string \<times> Engine) list) remote"
  spdk_EngineFrontendCreate :: "EngineFrontendCreateArgs \<Rightarrow> ('s, EngineFrontend) remote"
  spdk_EngineFrontendDelete :: "string \<Rightarrow> ('s, unit) remote"
  spdk_EngineFrontendGet :: "string \<Rightarrow> ('s, EngineFrontend) remote"
  spdk_EngineFrontendList :: "('s, (string \<times> EngineFrontend) list) remote"
  spdk_EngineFrontendSuspend :: "string \<Rightarrow> ('s, unit) remote"
  spdk_EngineFrontendResume :: "string \<Rightarrow> ('s, unit) remote"
  spdk_EngineFrontendSwitchOver :: "string \<Rightarrow> string \<Rightarrow> string \<Rightarrow> string \<Rightarrow> ('s, unit) remote"
  spdk_ReplicaCreate :: "ReplicaCreateArgs \<Rightarrow> ('s, Replica) remote"
  spdk_ReplicaDelete :: "string \<Rightarrow> bool \<Rightarrow> ('s, unit) remote"
  spdk_ReplicaGet :: "string \<Rightarrow> ('s, Replica) remote"
  spdk_ReplicaList :: "('s, (string \<times> Replica) list) remote"
  spdk_ShardCreate :: "ShardCreateArgs \<Rightarrow> ('s, Shard) remote"
  spdk_ShardDelete :: "string \<Rightarrow> bool \<Rightarrow> ('s, unit) remote"
  spdk_ShardGet :: "string \<Rightarrow> ('s, Shard) remote"
  spdk_ShardList :: "('s, (string \<times> Shard) list) remote"
  spdk_ShardGroupCreate :: "ShardGroupCreateArgs \<Rightarrow> ('s, ShardGroup) remote"
  spdk_ShardGroupDelete :: "string \<Rightarrow> bool \<Rightarrow> ('s, unit) remote"
  spdk_ShardGroupGet :: "string \<Rightarrow> ('s, ShardGroup) remote"
  spdk_ShardGroupList :: "('s, (string \<times> ShardGroup) list) remote"
  spdk_LogSetLevel :: "string \<Rightarrow> ('s, unit) remote"
  spdk_LogSetFlags :: "string \<Rightarrow> ('s, unit) remote"
  spdk_LogGetFlags :: "('s, string) remote"

end
