(* ===== verification/Instance.thy ===== *)
theory Instance
  imports Instance_Types
begin

text \<open>
  \<^verbatim>\<open>pkg/instance/instance.go\<close> and \<^verbatim>\<open>pkg/instance/log.go\<close>: the instance service, which serves the
  V1 data engine from the process manager and the V2 data engine from the SPDK service. Closing a
  client only logs its error and is left out.
\<close>

section \<open>Servers\<close>

record 's V1DataEngineInstanceOps =
  v1ProcessManagerServiceAddress :: string
  v1Stub :: "'s pm_stub"

record 's V2DataEngineInstanceOps =
  v2Client :: "'s spdk_client"

record 's Server =
  srvV1 :: "'s V1DataEngineInstanceOps"
  srvV2 :: "'s V2DataEngineInstanceOps"
  srvV2DataEngineEnabled :: bool

text \<open>The client of each engine, with the error the handlers answer when it cannot be made.\<close>

definition newProcessManagerClient :: "'s V1DataEngineInstanceOps \<Rightarrow> ('s, unit) remote" where
  "newProcessManagerClient ops =
     NewProcessManagerClient (v1Stub ops) (''tcp://'' @ v1ProcessManagerServiceAddress ops)"

definition v1_client :: "'s V1DataEngineInstanceOps \<Rightarrow> ('s, 's pm_stub) remote" where
  "v1_client ops = r_map (\<lambda>_. v1Stub ops)
     (r_map_err (status_wrap Internal ''failed to create ProcessManagerClient'') (newProcessManagerClient ops))"

definition v2_client :: "'s V2DataEngineInstanceOps \<Rightarrow> ('s, 's spdk_client) remote" where
  "v2_client ops = r_map (\<lambda>_. v2Client ops)
     (r_map_err (status_wrap Internal ''failed to create SPDK client'') (spdk_connect (v2Client ops)))"

definition toSPDKGRPCError :: "go_error \<Rightarrow> grpc_code \<Rightarrow> string \<Rightarrow> go_error" where
  "toSPDKGRPCError err defaultCode msg =
     (let code = (case FromError (UnwrapAll err) of ((c, _), ok) \<Rightarrow> if ok then c else defaultCode)
      in StatusError code (error_string (WrapError msg err)))"

definition v2_client_status :: "'s V2DataEngineInstanceOps \<Rightarrow> ('s, 's spdk_client) remote" where
  "v2_client_status ops = r_map (\<lambda>_. v2Client ops)
     (r_map_err (\<lambda>e. toSPDKGRPCError e Internal ''failed to create SPDK client'') (spdk_connect (v2Client ops)))"

definition unknown_instance_type :: "string \<Rightarrow> go_error" where
  "unknown_instance_type t = StatusError InvalidArgument (''unknown instance type '' @ t)"

section \<open>Conversions\<close>

definition processResponseToInstanceResponse :: "ProcessResponse \<Rightarrow> string \<Rightarrow> InstanceResponse" where
  "processResponseToInstanceResponse p processType =
     (let isEngine = (processType = InstanceTypeEngine);
          targetPortStart = (if isEngine then pstPortStart (prStatus p) else 0);
          targetPortEnd = (if isEngine then pstPortEnd (prStatus p) else 0)
      in \<lparr>irSpec = zero_spec\<lparr>isName := psName (prSpec p), isType := processType,
            isBackendStoreDriver := BackendStoreDriver_v1, isDataEngine := DATA_ENGINE_V1,
            isProcessInstanceSpec := Some \<lparr>pisBinary = psBinary (prSpec p), pisArgs = psArgs (prSpec p)\<rparr>,
            isPortCount := wrap32 (psPortCount (prSpec p)), isPortArgs := psPortArgs (prSpec p)\<rparr>,
          irStatus = zero_status\<lparr>istState := pstState (prStatus p),
            istPortStart := pstPortStart (prStatus p), istPortEnd := pstPortEnd (prStatus p),
            istTargetPortStart := targetPortStart, istTargetPortEnd := targetPortEnd,
            istErrorMsg := pstErrorMsg (prStatus p), istConditions := pstConditions (prStatus p),
            istUuid := pstUuid (prStatus p)\<rparr>,
          irDeleted = prDeleted p\<rparr>)"

definition v2_spec :: "string \<Rightarrow> string \<Rightarrow> InstanceSpec" where
  "v2_spec name t = zero_spec\<lparr>isName := name, isType := t,
     isBackendStoreDriver := BackendStoreDriver_v2, isDataEngine := DATA_ENGINE_V2\<rparr>"

definition replicaResponseToInstanceResponse :: "Replica \<Rightarrow> InstanceResponse" where
  "replicaResponseToInstanceResponse r =
     \<lparr>irSpec = v2_spec (rName r) InstanceTypeReplica,
      irStatus = zero_status\<lparr>istState := rState r, istErrorMsg := rErrorMsg r,
        istPortStart := rPortStart r, istPortEnd := rPortEnd r, istUuid := rUUID r\<rparr>,
      irDeleted = False\<rparr>"

definition engineResponseToInstanceResponse :: "Engine \<Rightarrow> InstanceResponse" where
  "engineResponseToInstanceResponse e =
     \<lparr>irSpec = v2_spec (eName e) InstanceTypeEngine,
      irStatus = zero_status\<lparr>istState := eState e, istErrorMsg := eErrorMsg e,
        istPortStart := ePort e, istPortEnd := ePort e, istUuid := eUUID e\<rparr>,
      irDeleted = False\<rparr>"

fun skip_nil_paths :: "'a option list \<Rightarrow> 'a list" where
  "skip_nil_paths [] = []"
| "skip_nil_paths (None # ps) = skip_nil_paths ps"
| "skip_nil_paths (Some p # ps) = p # skip_nil_paths ps"

definition engineFrontendResponseToInstanceResponse :: "EngineFrontend \<Rightarrow> InstanceResponse" where
  "engineFrontendResponseToInstanceResponse e =
     \<lparr>irSpec = v2_spec (efName e) InstanceTypeEngineFrontend,
      irStatus = zero_status\<lparr>istState := efState e, istErrorMsg := efErrorMsg e,
        istTargetPortStart := wrap32 (efTargetPort e), istTargetPortEnd := wrap32 (efTargetPort e),
        istUblkId := wrap32 (efUblkID e), istUuid := efUUID e, istEngineName := efEngineName e,
        istEndpoint := efEndpoint e, istFrontend := efFrontend e, istActivePath := efActivePath e,
        istPreferredPath := efPreferredPath e, istPaths := map Some (skip_nil_paths (efPaths e))\<rparr>,
      irDeleted = False\<rparr>"

definition shardResponseToInstanceResponse :: "Shard \<Rightarrow> InstanceResponse" where
  "shardResponseToInstanceResponse s =
     \<lparr>irSpec = v2_spec (shShardID s) InstanceTypeShard,
      irStatus = zero_status\<lparr>istState := shState s, istErrorMsg := shErrorMsg s,
        istPortStart := shPort s, istPortEnd := shPort s, istEndpoint := shNvmfNqn s, istUuid := shUUID s\<rparr>,
      irDeleted = False\<rparr>"

definition shardGroupResponseToInstanceResponse :: "ShardGroup \<Rightarrow> InstanceResponse" where
  "shardGroupResponseToInstanceResponse sg =
     \<lparr>irSpec = (v2_spec (sgName sg) InstanceTypeShardGroup)\<lparr>isVolumeName := sgVolumeName sg\<rparr>,
      irStatus = zero_status\<lparr>istState := sgProcessState sg, istErrorMsg := sgErrorMsg sg,
        istPortStart := sgPort sg, istPortEnd := sgPort sg, istEndpoint := sgNvmfNqn sg,
        istUuid := sgHeadLvolUuid sg\<rparr>,
      irDeleted = False\<rparr>"

fun convertIMDataLayoutTypeToSPDKDataLayoutType :: "DataLayoutType \<Rightarrow> DataLayoutType" where
  "convertIMDataLayoutTypeToSPDKDataLayoutType DATA_LAYOUT_TYPE_SHARDED = DATA_LAYOUT_TYPE_SHARDED"
| "convertIMDataLayoutTypeToSPDKDataLayoutType _ = DATA_LAYOUT_TYPE_REPLICATED"

section \<open>Create\<close>

text \<open>The handler reads \<^verbatim>\<open>req.Spec\<close> before anything else: without it it panics.\<close>

definition V1_InstanceCreate ::
  "'s V1DataEngineInstanceOps \<Rightarrow> InstanceSpec \<Rightarrow> DataLayoutType \<Rightarrow> ('s, InstanceResponse) remote" where
  "V1_InstanceCreate ops spec layout =
     (if layout = DATA_LAYOUT_TYPE_SHARDED then
        r_err (StatusError InvalidArgument ''data_layout_type SHARDED is not supported on the V1 data engine'')
      else case isProcessInstanceSpec spec of
        None \<Rightarrow> r_err (StatusError InvalidArgument ''ProcessInstanceSpec is required for longhorn data engine'')
      | Some ps \<Rightarrow>
          r_bind (v1_client ops) (\<lambda>c.
          r_map (\<lambda>p. processResponseToInstanceResponse p (isType spec))
            (pmc_ProcessCreate c (isName spec) (pisBinary ps) (isPortCount spec) (pisArgs ps) (isPortArgs spec))))"

text \<open>Every kind of V2 instance reads \<^verbatim>\<open>SpdkInstanceSpec\<close>, which may be nil.\<close>

definition with_spdk_spec ::
  "InstanceSpec \<Rightarrow> (SpdkInstanceSpec \<Rightarrow> ('s, 'a) remote) \<Rightarrow> ('s, 'a) remote" where
  "with_spdk_spec spec f = (case isSpdkInstanceSpec spec of None \<Rightarrow> r_panic | Some ss \<Rightarrow> f ss)"

definition shard_derived_name :: "InstanceSpec \<Rightarrow> SpdkInstanceSpec \<Rightarrow> string" where
  "shard_derived_name spec ss = isVolumeName spec @ ''-'' @ strconv_Itoa (sisSlotIndex ss)"

definition create_shard ::
  "'s spdk_client \<Rightarrow> InstanceSpec \<Rightarrow> SpdkInstanceSpec \<Rightarrow> ('s, InstanceResponse) remote" where
  "create_shard c spec ss =
     (let derivedName = shard_derived_name spec ss in
      if isName spec \<noteq> '''' \<and> isName spec \<noteq> derivedName then
        r_err (StatusError InvalidArgument (''shard instance name '' @ quoted (isName spec)
          @ '' does not match derived form '' @ quoted derivedName))
      else r_map shardResponseToInstanceResponse
        (spdk_ShardCreate c \<lparr>scVolumeName = isVolumeName spec, scSlotIndex = sisSlotIndex ss,
           scSize = sisSize ss, scLvsName = sisLvsName ss, scLvsUuid = sisLvsUuid ss,
           scPortCount = isPortCount spec\<rparr>))"

definition create_shard_group ::
  "'s spdk_client \<Rightarrow> InstanceSpec \<Rightarrow> SpdkInstanceSpec \<Rightarrow> ('s, InstanceResponse) remote" where
  "create_shard_group c spec ss =
     (case sisShardGroupSpec ss of
        None \<Rightarrow> r_err (StatusError InvalidArgument
                  (''shard_group_spec is required for shardgroup instance '' @ isName spec))
      | Some g \<Rightarrow>
          if sgsShards g = [] then
            r_err (StatusError InvalidArgument
              (''shard_group_spec.shards is empty for shardgroup instance '' @ isName spec))
          else r_map shardGroupResponseToInstanceResponse
            (spdk_ShardGroupCreate c \<lparr>gcName = isName spec, gcVolumeName = isVolumeName spec,
               gcSize = sisSize ss, gcDataChunks = sgsDataChunks g, gcParityChunks = sgsParityChunks g,
               gcStripSizeKb = sgsStripSizeKb g,
               gcShards = map (\<lambda>(k, v). (k, \<lparr>seAddress = seAddress v, seSlotIndex = seSlotIndex v\<rparr>)) (sgsShards g),
               gcPortCount = isPortCount spec, gcSalvageRequested = sgsSalvageRequested g\<rparr>))"

definition V2_InstanceCreate ::
  "'s V2DataEngineInstanceOps \<Rightarrow> InstanceSpec \<Rightarrow> DataLayoutType \<Rightarrow> ('s, InstanceResponse) remote" where
  "V2_InstanceCreate ops spec layout = r_bind (v2_client ops) (\<lambda>c.
     if isType spec = InstanceTypeEngine then
       with_spdk_spec spec (\<lambda>ss. r_map engineResponseToInstanceResponse
         (spdk_EngineCreate c \<lparr>ecName = isName spec, ecVolumeName = isVolumeName spec,
            ecFrontend = sisFrontend ss, ecSize = sisSize ss,
            ecReplicaAddressMap = sisReplicaAddressMap ss, ecPortCount = isPortCount spec,
            ecSalvageRequested = sisSalvageRequested ss, ecSnapshotMaxCount = sisSnapshotMaxCount ss,
            ecLayout = convertIMDataLayoutTypeToSPDKDataLayoutType layout\<rparr>))
     else if isType spec = InstanceTypeEngineFrontend then
       with_spdk_spec spec (\<lambda>ss. r_map engineFrontendResponseToInstanceResponse
         (spdk_EngineFrontendCreate c \<lparr>fcName = isName spec, fcVolumeName = isVolumeName spec,
            fcEngineName = isEngineName spec, fcFrontend = sisFrontend ss, fcSize = sisSize ss,
            fcTargetAddress = isTargetAddress spec, fcUblkQueueDepth = wrap32 (sisUblkQueueDepth ss),
            fcUblkNumberOfQueue = wrap32 (sisUblkNumberOfQueue ss),
            fcNvmeTcpNrIoQueues = wrap32 (sisNvmeTcpNrIoQueues ss)\<rparr>))
     else if isType spec = InstanceTypeReplica then
       with_spdk_spec spec (\<lambda>ss. r_map replicaResponseToInstanceResponse
         (spdk_ReplicaCreate c \<lparr>rcName = isName spec, rcDiskName = sisDiskName ss,
            rcDiskUuid = sisDiskUuid ss, rcSize = sisSize ss, rcPortCount = isPortCount spec,
            rcBackingImageName = sisBackingImageName ss\<rparr>))
     else if isType spec = InstanceTypeShard then with_spdk_spec spec (create_shard c spec)
     else if isType spec = InstanceTypeShardGroup then with_spdk_spec spec (create_shard_group c spec)
     else r_err (unknown_instance_type (isType spec)))"

definition InstanceCreate :: "'s Server \<Rightarrow> InstanceCreateRequest \<Rightarrow> ('s, InstanceResponse) remote" where
  "InstanceCreate s req = (case icrSpec req of
     None \<Rightarrow> r_panic
   | Some spec \<Rightarrow> dispatch (isDataEngine spec)
       (V1_InstanceCreate (srvV1 s) spec (icrDataLayoutType req))
       (V2_InstanceCreate (srvV2 s) spec (icrDataLayoutType req)))"

section \<open>Delete\<close>

definition V1_InstanceDelete ::
  "'s V1DataEngineInstanceOps \<Rightarrow> InstanceDeleteRequest \<Rightarrow> ('s, InstanceResponse) remote" where
  "V1_InstanceDelete ops req = r_bind (v1_client ops) (\<lambda>c.
     r_map (\<lambda>p. processResponseToInstanceResponse p (idrType req))
       (pmc_ProcessDelete c (idrName req) (idrUuid req)))"

definition deleted_response :: "string \<Rightarrow> InstanceResponse" where
  "deleted_response name = \<lparr>irSpec = zero_spec\<lparr>isName := name\<rparr>,
     irStatus = zero_status\<lparr>istState := ProcessStateStopped\<rparr>, irDeleted = True\<rparr>"

definition V2_InstanceDelete ::
  "'s V2DataEngineInstanceOps \<Rightarrow> InstanceDeleteRequest \<Rightarrow> ('s, InstanceResponse) remote" where
  "V2_InstanceDelete ops req = r_bind (v2_client ops) (\<lambda>c.
     r_map (\<lambda>_. deleted_response (idrName req))
       (if idrType req = InstanceTypeEngine then
          (if idrCleanupRequired req then spdk_EngineDelete c (idrName req) else r_ok ())
        else if idrType req = InstanceTypeEngineFrontend then spdk_EngineFrontendDelete c (idrName req)
        else if idrType req = InstanceTypeReplica then
          spdk_ReplicaDelete c (idrName req) (idrCleanupRequired req)
        else if idrType req = InstanceTypeShard then
          spdk_ShardDelete c (idrName req) (idrCleanupRequired req)
        else if idrType req = InstanceTypeShardGroup then
          spdk_ShardGroupDelete c (idrName req) (idrCleanupRequired req)
        else r_err (unknown_instance_type (idrType req))))"

definition InstanceDelete :: "'s Server \<Rightarrow> InstanceDeleteRequest \<Rightarrow> ('s, InstanceResponse) remote" where
  "InstanceDelete s req =
     dispatch (idrDataEngine req) (V1_InstanceDelete (srvV1 s) req) (V2_InstanceDelete (srvV2 s) req)"

section \<open>Get and list\<close>

definition V1_InstanceGet ::
  "'s V1DataEngineInstanceOps \<Rightarrow> InstanceRequest \<Rightarrow> ('s, InstanceResponse) remote" where
  "V1_InstanceGet ops req = r_bind (v1_client ops) (\<lambda>c.
     r_map (\<lambda>p. processResponseToInstanceResponse p (iqType req)) (pmc_ProcessGet c (iqName req)))"

definition V2_InstanceGet ::
  "'s V2DataEngineInstanceOps \<Rightarrow> InstanceRequest \<Rightarrow> ('s, InstanceResponse) remote" where
  "V2_InstanceGet ops req = r_bind (v2_client ops) (\<lambda>c.
     if iqType req = InstanceTypeEngine then
       r_map engineResponseToInstanceResponse (spdk_EngineGet c (iqName req))
     else if iqType req = InstanceTypeEngineFrontend then
       r_map engineFrontendResponseToInstanceResponse (spdk_EngineFrontendGet c (iqName req))
     else if iqType req = InstanceTypeReplica then
       r_map replicaResponseToInstanceResponse (spdk_ReplicaGet c (iqName req))
     else if iqType req = InstanceTypeShard then
       r_map shardResponseToInstanceResponse (spdk_ShardGet c (iqName req))
     else if iqType req = InstanceTypeShardGroup then
       r_map shardGroupResponseToInstanceResponse (spdk_ShardGroupGet c (iqName req))
     else r_err (unknown_instance_type (iqType req)))"

definition InstanceGet :: "'s Server \<Rightarrow> InstanceRequest \<Rightarrow> ('s, InstanceResponse) remote" where
  "InstanceGet s req =
     dispatch (iqDataEngine req) (V1_InstanceGet (srvV1 s) req) (V2_InstanceGet (srvV2 s) req)"

text \<open>A loop \<^verbatim>\<open>for _, x := range xs { instances[name(x)] = conv(x) }\<close>.\<close>

fun add_all ::
  "('x \<Rightarrow> string) \<Rightarrow> ('x \<Rightarrow> 'r) \<Rightarrow> (string \<times> 'x) list \<Rightarrow> (string \<rightharpoonup> 'r) \<Rightarrow> (string \<rightharpoonup> 'r)" where
  "add_all nm conv [] m = m"
| "add_all nm conv ((k, x) # xs) m = add_all nm conv xs (m(nm x \<mapsto> conv x))"

definition process_type :: "ProcessResponse \<Rightarrow> string" where
  "process_type p = (if IsEngineProcess (psName (prSpec p)) then InstanceTypeEngine else InstanceTypeReplica)"

definition V1_InstanceList ::
  "'s V1DataEngineInstanceOps \<Rightarrow> (string \<rightharpoonup> InstanceResponse) \<Rightarrow> ('s, string \<rightharpoonup> InstanceResponse) remote" where
  "V1_InstanceList ops instances = r_bind (v1_client ops) (\<lambda>c.
     r_map (\<lambda>ps. add_all (\<lambda>p. psName (prSpec p))
               (\<lambda>p. processResponseToInstanceResponse p (process_type p)) ps instances)
       (pmc_ProcessList c))"

definition V2_InstanceList ::
  "'s V2DataEngineInstanceOps \<Rightarrow> (string \<rightharpoonup> InstanceResponse) \<Rightarrow> ('s, string \<rightharpoonup> InstanceResponse) remote" where
  "V2_InstanceList ops instances = r_bind (v2_client ops) (\<lambda>c.
     r_bind (spdk_ReplicaList c) (\<lambda>replicas.
     let m1 = add_all rName replicaResponseToInstanceResponse replicas instances in
     r_bind (spdk_EngineList c) (\<lambda>engines.
     let m2 = add_all eName engineResponseToInstanceResponse engines m1 in
     r_bind (spdk_EngineFrontendList c) (\<lambda>engineFrontends.
     let m3 = add_all efName engineFrontendResponseToInstanceResponse engineFrontends m2 in
     r_bind (spdk_ShardList c) (\<lambda>shards.
     let m4 = add_all shShardID shardResponseToInstanceResponse shards m3 in
     r_bind (spdk_ShardGroupList c) (\<lambda>shardGroups.
     r_ok (add_all sgName shardGroupResponseToInstanceResponse shardGroups m4)))))))"

definition InstanceList :: "'s Server \<Rightarrow> ('s, string \<rightharpoonup> InstanceResponse) remote" where
  "InstanceList s = r_bind (V1_InstanceList (srvV1 s) Map.empty) (\<lambda>m.
     if srvV2DataEngineEnabled s then V2_InstanceList (srvV2 s) m else r_ok m)"

section \<open>Replace and log\<close>

definition V1_InstanceReplace ::
  "'s V1DataEngineInstanceOps \<Rightarrow> InstanceSpec \<Rightarrow> string \<Rightarrow> ('s, InstanceResponse) remote" where
  "V1_InstanceReplace ops spec sig = (case isProcessInstanceSpec spec of
     None \<Rightarrow> r_err (StatusError InvalidArgument ''ProcessInstanceSpec is required for longhorn data engine'')
   | Some ps \<Rightarrow> r_bind (v1_client ops) (\<lambda>c.
       r_map (\<lambda>p. processResponseToInstanceResponse p (isType spec))
         (pmc_ProcessReplace c (isName spec) (pisBinary ps) (isPortCount spec) (pisArgs ps) (isPortArgs spec) sig)))"

definition V2_InstanceReplace ::
  "'s V2DataEngineInstanceOps \<Rightarrow> InstanceSpec \<Rightarrow> string \<Rightarrow> ('s, InstanceResponse) remote" where
  "V2_InstanceReplace ops spec sig =
     r_err (StatusError Unimplemented ''v2 data engine instance replace is not supported'')"

definition InstanceReplace :: "'s Server \<Rightarrow> InstanceReplaceRequest \<Rightarrow> ('s, InstanceResponse) remote" where
  "InstanceReplace s req = (case iprSpec req of
     None \<Rightarrow> r_panic
   | Some spec \<Rightarrow> dispatch (isDataEngine spec)
       (V1_InstanceReplace (srvV1 s) spec (iprTerminateSignal req))
       (V2_InstanceReplace (srvV2 s) spec (iprTerminateSignal req)))"

text \<open>
  The log is relayed line by line until the stream ends; \<open>send i\<close> is the error of the \<open>i\<close>-th send.
  The result is the lines sent and the error returned.
\<close>

fun relay_log ::
  "(nat \<Rightarrow> go_error option) \<Rightarrow> nat \<Rightarrow> (go_error + string) list \<Rightarrow> string list \<times> unit go_result" where
  "relay_log send i [] = ([], Ok ())"
| "relay_log send i (Inl e # rest) = ([], Err e)"
| "relay_log send i (Inr line # rest) =
     (case send i of
        Some e \<Rightarrow> ([], Err e)
      | None \<Rightarrow> (case relay_log send (Suc i) rest of (ls, r) \<Rightarrow> (line # ls, r)))"

definition V1_InstanceLog ::
  "'s V1DataEngineInstanceOps \<Rightarrow> (nat \<Rightarrow> go_error option) \<Rightarrow> InstanceRequest
     \<Rightarrow> ('s, string list \<times> unit go_result) remote" where
  "V1_InstanceLog ops send req = r_bind (v1_client ops) (\<lambda>c.
     r_map (relay_log send 0) (pmc_ProcessLog c (iqName req)))"

definition V2_InstanceLog ::
  "'s V2DataEngineInstanceOps \<Rightarrow> InstanceRequest \<Rightarrow> ('s, string list \<times> unit go_result) remote" where
  "V2_InstanceLog ops req =
     r_err (StatusError Unimplemented ''v2 data engine instance log is not supported'')"

definition InstanceLog ::
  "'s Server \<Rightarrow> (nat \<Rightarrow> go_error option) \<Rightarrow> InstanceRequest \<Rightarrow> ('s, string list \<times> unit go_result) remote" where
  "InstanceLog s send req =
     dispatch (iqDataEngine req) (V1_InstanceLog (srvV1 s) send req) (V2_InstanceLog (srvV2 s) req)"

section \<open>Suspend, resume, switch over, delete target\<close>

definition not_for_type :: "string \<Rightarrow> string \<Rightarrow> go_error" where
  "not_for_type what t = StatusError InvalidArgument (what @ '' is not supported for instance type '' @ t)"

definition is_storage_type :: "string \<Rightarrow> bool" where
  "is_storage_type t \<longleftrightarrow> t = InstanceTypeReplica \<or> t = InstanceTypeShard \<or> t = InstanceTypeShardGroup"

definition V1_InstanceSuspend :: "'s V1DataEngineInstanceOps \<Rightarrow> InstanceRequest \<Rightarrow> ('s, unit) remote" where
  "V1_InstanceSuspend ops req =
     r_err (StatusError Unimplemented ''v1 data engine instance suspend is not supported'')"

definition V2_InstanceSuspend :: "'s V2DataEngineInstanceOps \<Rightarrow> InstanceRequest \<Rightarrow> ('s, unit) remote" where
  "V2_InstanceSuspend ops req = r_bind (v2_client_status ops) (\<lambda>c.
     if iqType req = InstanceTypeEngine then
       r_err (StatusError Unimplemented ''suspend is not supported for instance type engine'')
     else if iqType req = InstanceTypeEngineFrontend then
       r_map_err (\<lambda>e. toSPDKGRPCError e Internal (''failed to suspend engine frontend '' @ iqName req))
         (spdk_EngineFrontendSuspend c (iqName req))
     else if is_storage_type (iqType req) then r_err (not_for_type ''suspend'' (iqType req))
     else r_err (unknown_instance_type (iqType req)))"

definition InstanceSuspend :: "'s Server \<Rightarrow> InstanceRequest \<Rightarrow> ('s, unit) remote" where
  "InstanceSuspend s req =
     dispatch (iqDataEngine req) (V1_InstanceSuspend (srvV1 s) req) (V2_InstanceSuspend (srvV2 s) req)"

definition V1_InstanceResume :: "'s V1DataEngineInstanceOps \<Rightarrow> InstanceRequest \<Rightarrow> ('s, unit) remote" where
  "V1_InstanceResume ops req =
     r_err (StatusError Unimplemented ''v1 data engine instance resume is not supported'')"

definition V2_InstanceResume :: "'s V2DataEngineInstanceOps \<Rightarrow> InstanceRequest \<Rightarrow> ('s, unit) remote" where
  "V2_InstanceResume ops req = r_bind (v2_client_status ops) (\<lambda>c.
     if iqType req = InstanceTypeEngine then
       r_err (StatusError Unimplemented ''resume is not supported for instance type engine'')
     else if iqType req = InstanceTypeEngineFrontend then
       r_map_err (\<lambda>e. toSPDKGRPCError e Internal (''failed to resume engine frontend '' @ iqName req))
         (spdk_EngineFrontendResume c (iqName req))
     else if is_storage_type (iqType req) then r_err (not_for_type ''resume'' (iqType req))
     else r_err (unknown_instance_type (iqType req)))"

definition InstanceResume :: "'s Server \<Rightarrow> InstanceRequest \<Rightarrow> ('s, unit) remote" where
  "InstanceResume s req =
     dispatch (iqDataEngine req) (V1_InstanceResume (srvV1 s) req) (V2_InstanceResume (srvV2 s) req)"

definition V1_InstanceSwitchOverTarget ::
  "'s V1DataEngineInstanceOps \<Rightarrow> InstanceSwitchOverTargetRequest \<Rightarrow> ('s, unit) remote" where
  "V1_InstanceSwitchOverTarget ops req =
     r_err (StatusError Unimplemented ''v1 data engine instance target switch over is not supported'')"

definition V2_InstanceSwitchOverTarget ::
  "'s V2DataEngineInstanceOps \<Rightarrow> InstanceSwitchOverTargetRequest \<Rightarrow> ('s, unit) remote" where
  "V2_InstanceSwitchOverTarget ops req = r_bind (v2_client_status ops) (\<lambda>c.
     if isrType req = InstanceTypeEngine then
       r_err (StatusError Unimplemented
         ''switch over target for engine has been replaced by engine frontend switch over'')
     else if isrType req = InstanceTypeEngineFrontend then
       r_map_err (\<lambda>e. toSPDKGRPCError e Internal
           (''failed to switch over target for engine frontend '' @ isrName req))
         (spdk_EngineFrontendSwitchOver c (isrName req) (isrEngineName req) (isrTargetAddress req)
            (isrSwitchoverPhase req))
     else if is_storage_type (isrType req) then r_err (not_for_type ''target switch over'' (isrType req))
     else r_err (unknown_instance_type (isrType req)))"

definition InstanceSwitchOverTarget ::
  "'s Server \<Rightarrow> InstanceSwitchOverTargetRequest \<Rightarrow> ('s, unit) remote" where
  "InstanceSwitchOverTarget s req = dispatch (isrDataEngine req)
     (V1_InstanceSwitchOverTarget (srvV1 s) req) (V2_InstanceSwitchOverTarget (srvV2 s) req)"

definition V1_InstanceDeleteTarget :: "'s V1DataEngineInstanceOps \<Rightarrow> InstanceRequest \<Rightarrow> ('s, unit) remote" where
  "V1_InstanceDeleteTarget ops req =
     r_err (StatusError Unimplemented ''v1 data engine instance target delete is not supported'')"

definition V2_InstanceDeleteTarget :: "'s V2DataEngineInstanceOps \<Rightarrow> InstanceRequest \<Rightarrow> ('s, unit) remote" where
  "V2_InstanceDeleteTarget ops req = r_bind (v2_client ops) (\<lambda>c.
     if iqType req = InstanceTypeEngine then
       r_map_err (status_wrap Internal (''failed to delete target for engine '' @ iqName req))
         (spdk_EngineDeleteTarget c (iqName req))
     else if is_storage_type (iqType req) then r_err (not_for_type ''target deletion'' (iqType req))
     else r_err (unknown_instance_type (iqType req)))"

definition InstanceDeleteTarget :: "'s Server \<Rightarrow> InstanceRequest \<Rightarrow> ('s, unit) remote" where
  "InstanceDeleteTarget s req =
     dispatch (iqDataEngine req) (V1_InstanceDeleteTarget (srvV1 s) req) (V2_InstanceDeleteTarget (srvV2 s) req)"

end
