(* ===== verification/Instance_Watch.thy ===== *)
theory Instance_Watch
  imports Instance
begin

text \<open>
  The watch loops of \<^verbatim>\<open>pkg/instance/instance.go\<close>, one per kind of object, and \<^verbatim>\<open>handleNotify\<close>, which
  forwards their notifications; then the log handlers of \<^verbatim>\<open>pkg/instance/log.go\<close>.
\<close>

section \<open>Watch loops\<close>

text \<open>
  How one round of a loop ends: the context is done, the stream delivers an item, or receiving
  fails. The result counts the notifications sent and has the error the loop returned, or \<open>None\<close>
  when it is still waiting for the next round after the given ones.
\<close>

datatype watch_event = CtxDone go_error | RecvItem | RecvErr go_error

definition maxMonitorRetryCount :: nat where "maxMonitorRetryCount = 10"

definition is_canceled :: "go_error \<Rightarrow> bool" where
  "is_canceled err = (case FromError err of ((c, _), ok) \<Rightarrow> ok \<and> c = Canceled)"

definition continuous_error :: "string \<Rightarrow> go_error" where
  "continuous_error what = PlainError (''continuously receiving errors for ''
     @ strconv_Itoa (int maxMonitorRetryCount) @ '' times, stopping watching '' @ what)"

fun watch_loop :: "string \<Rightarrow> nat \<Rightarrow> watch_event list \<Rightarrow> nat \<times> go_error option" where
  "watch_loop what failureCount evs =
     (if failureCount \<ge> maxMonitorRetryCount then (0, Some (continuous_error what))
      else case evs of
        [] \<Rightarrow> (0, None)
      | CtxDone e # _ \<Rightarrow> (0, Some e)
      | RecvErr e # rest \<Rightarrow>
          if is_canceled e then (0, Some e) else watch_loop what (Suc failureCount) rest
      | RecvItem # rest \<Rightarrow> (case watch_loop what failureCount rest of (n, r) \<Rightarrow> (Suc n, r)))"

declare watch_loop.simps [simp del]

definition watch_from :: "string \<Rightarrow> string \<Rightarrow> go_error option \<Rightarrow> watch_event list \<Rightarrow> nat \<times> go_error option" where
  "watch_from notifier what opened evs = (case opened of
     Some e \<Rightarrow> (0, Some (WrapError (''failed to create '' @ notifier @ '' watch notifier'') e))
   | None \<Rightarrow> watch_loop what 0 evs)"

definition watchSPDKReplica :: "go_error option \<Rightarrow> watch_event list \<Rightarrow> nat \<times> go_error option" where
  "watchSPDKReplica = watch_from ''SPDK replica'' ''SPDK replicas''"

definition watchSPDKEngine :: "go_error option \<Rightarrow> watch_event list \<Rightarrow> nat \<times> go_error option" where
  "watchSPDKEngine = watch_from ''SPDK engine'' ''SPDK engines''"

definition watchSPDKEngineFrontend :: "go_error option \<Rightarrow> watch_event list \<Rightarrow> nat \<times> go_error option" where
  "watchSPDKEngineFrontend = watch_from ''SPDK engine frontend'' ''SPDK engine frontends''"

definition watchSPDKShard :: "go_error option \<Rightarrow> watch_event list \<Rightarrow> nat \<times> go_error option" where
  "watchSPDKShard = watch_from ''SPDK shard'' ''SPDK shards''"

definition watchSPDKShardGroup :: "go_error option \<Rightarrow> watch_event list \<Rightarrow> nat \<times> go_error option" where
  "watchSPDKShardGroup = watch_from ''SPDK shardgroup'' ''SPDK shardgroups''"

definition watchProcess :: "go_error option \<Rightarrow> watch_event list \<Rightarrow> nat \<times> go_error option" where
  "watchProcess = watch_from ''process'' ''processes''"

section \<open>The contract of a watch loop\<close>

fun harmless :: "watch_event \<Rightarrow> bool" where
  "harmless (CtxDone e) = False"
| "harmless RecvItem = True"
| "harmless (RecvErr e) = (\<not> is_canceled e)"

definition failures :: "watch_event list \<Rightarrow> nat" where
  "failures evs = length (filter (\<lambda>ev. ev \<noteq> RecvItem) evs)"

definition items :: "watch_event list \<Rightarrow> nat" where
  "items evs = length (filter (\<lambda>ev. ev = RecvItem) evs)"

lemma count_simps [simp]:
  "failures [] = 0" "failures (RecvItem # evs) = failures evs" "failures (RecvErr e # evs) = Suc (failures evs)"
  "items [] = 0" "items (RecvItem # evs) = Suc (items evs)" "items (RecvErr e # evs) = items evs"
  by (simp_all add: failures_def items_def)

lemma watch_loop_steps [simp]:
  "k \<ge> maxMonitorRetryCount \<Longrightarrow> watch_loop what k evs = (0, Some (continuous_error what))"
  "k < maxMonitorRetryCount \<Longrightarrow> watch_loop what k [] = (0, None)"
  "k < maxMonitorRetryCount \<Longrightarrow> watch_loop what k (CtxDone e # evs) = (0, Some e)"
  "k < maxMonitorRetryCount \<Longrightarrow> watch_loop what k (RecvErr e # evs) =
     (if is_canceled e then (0, Some e) else watch_loop what (Suc k) evs)"
  "k < maxMonitorRetryCount \<Longrightarrow> watch_loop what k (RecvItem # evs) =
     (case watch_loop what k evs of (n, r) \<Rightarrow> (Suc n, r))"
  by (simp_all add: watch_loop.simps)

lemma watch_loop_harmless:
  "list_all harmless evs \<Longrightarrow> k + failures evs < maxMonitorRetryCount \<Longrightarrow>
   watch_loop what k (evs @ rest) =
     (case watch_loop what (k + failures evs) rest of (n, r) \<Rightarrow> (items evs + n, r))"
proof (induction evs arbitrary: k)
  case (Cons ev evs)
  then show ?case
    by (cases ev) (auto split: prod.splits)
qed simp

text \<open>
  A loop that keeps the contract counts the items while nothing ends it, and ends at the tenth
  failure, at a cancellation or when its context is done.
\<close>

locale watcher =
  fixes watch :: "go_error option \<Rightarrow> watch_event list \<Rightarrow> nat \<times> go_error option"
    and notifier what :: string
  assumes opens: "watch None evs = watch_loop what 0 evs"
    and fails: "watch (Some e) evs = (0, Some (WrapError (''failed to create '' @ notifier @ '' watch notifier'') e))"
begin

lemma waiting:
  assumes "list_all harmless evs" "failures evs < maxMonitorRetryCount"
  shows "watch None evs = (items evs, None)"
  using watch_loop_harmless[of evs 0 what "[]"] assms by (simp add: opens)

lemma gives_up:
  assumes "list_all harmless evs" "Suc (failures evs) = maxMonitorRetryCount" "\<not> is_canceled e"
  shows "watch None (evs @ RecvErr e # rest) = (items evs, Some (continuous_error what))"
  using watch_loop_harmless[of evs 0 what "RecvErr e # rest"] assms
  by (simp add: opens)

lemma canceled:
  assumes "list_all harmless evs" "failures evs < maxMonitorRetryCount" "is_canceled e"
  shows "watch None (evs @ RecvErr e # rest) = (items evs, Some e)"
  using watch_loop_harmless[of evs 0 what "RecvErr e # rest"] assms
  by (simp add: opens)

lemma context_done:
  assumes "list_all harmless evs" "failures evs < maxMonitorRetryCount"
  shows "watch None (evs @ CtxDone e # rest) = (items evs, Some e)"
  using watch_loop_harmless[of evs 0 what "CtxDone e # rest"] assms
  by (simp add: opens)

end

interpretation replica_watch: watcher watchSPDKReplica "''SPDK replica''" "''SPDK replicas''"
  by unfold_locales (simp_all add: watchSPDKReplica_def watch_from_def)

interpretation engine_watch: watcher watchSPDKEngine "''SPDK engine''" "''SPDK engines''"
  by unfold_locales (simp_all add: watchSPDKEngine_def watch_from_def)

interpretation frontend_watch: watcher watchSPDKEngineFrontend "''SPDK engine frontend''" "''SPDK engine frontends''"
  by unfold_locales (simp_all add: watchSPDKEngineFrontend_def watch_from_def)

interpretation shard_watch: watcher watchSPDKShard "''SPDK shard''" "''SPDK shards''"
  by unfold_locales (simp_all add: watchSPDKShard_def watch_from_def)

interpretation shardgroup_watch: watcher watchSPDKShardGroup "''SPDK shardgroup''" "''SPDK shardgroups''"
  by unfold_locales (simp_all add: watchSPDKShardGroup_def watch_from_def)

interpretation process_watch: watcher watchProcess "''process''" "''processes''"
  by unfold_locales (simp_all add: watchProcess_def watch_from_def)

section \<open>Notification\<close>

datatype notify_event = NotifyDone go_error | Notified "go_error option"

text \<open>\<open>Notified e\<close> is a notification whose message was sent with the outcome \<open>e\<close>.\<close>

fun handleNotify :: "notify_event list \<Rightarrow> nat \<times> go_error option" where
  "handleNotify [] = (0, None)"
| "handleNotify (NotifyDone e # _) = (0, Some e)"
| "handleNotify (Notified (Some e) # _) = (0, Some (WrapError ''failed to send instance response'' e))"
| "handleNotify (Notified None # rest) = (case handleNotify rest of (n, r) \<Rightarrow> (Suc n, r))"

section \<open>Log levels and flags\<close>

text \<open>
  The log level of the instance manager is a state of its own beside the SPDK service: the state is
  the pair of the two. \<^verbatim>\<open>logrus.ParseLevel\<close> accepts the names of the levels in any case.
\<close>

datatype Level = PanicLevel | FatalLevel | ErrorLevel | WarnLevel | InfoLevel | DebugLevel | TraceLevel

definition ParseLevel :: "string \<Rightarrow> Level go_result" where
  "ParseLevel lvl = (let l = strings_ToLower lvl in
     if l = ''panic'' then Ok PanicLevel
     else if l = ''fatal'' then Ok FatalLevel
     else if l = ''error'' then Ok ErrorLevel
     else if l = ''warn'' \<or> l = ''warning'' then Ok WarnLevel
     else if l = ''info'' then Ok InfoLevel
     else if l = ''debug'' then Ok DebugLevel
     else if l = ''trace'' then Ok TraceLevel
     else Err (PlainError (''not a valid logrus Level: '' @ quoted lvl)))"

fun Level_String :: "Level \<Rightarrow> string" where
  "Level_String PanicLevel = ''panic''"
| "Level_String FatalLevel = ''fatal''"
| "Level_String ErrorLevel = ''error''"
| "Level_String WarnLevel = ''warning''"
| "Level_String InfoLevel = ''info''"
| "Level_String DebugLevel = ''debug''"
| "Level_String TraceLevel = ''trace''"

lemma Level_String_inj: "Level_String a = Level_String b \<longleftrightarrow> a = b"
  by (cases a; cases b) simp_all

lemma ParseLevel_String: "ParseLevel (Level_String l) = Ok l"
  by (cases l) (simp_all add: ParseLevel_def strings_ToLower_def to_lower_def Let_def)

text \<open>A call of the SPDK service inside that pair.\<close>

definition in_service :: "('s, 'a) remote \<Rightarrow> (Level \<times> 's, 'a) remote" where
  "in_service m = (\<lambda>(l, s). case m s of (s', r) \<Rightarrow> ((l, s'), r))"

definition logSetLevel :: "string \<Rightarrow> (Level \<times> 's, unit) remote" where
  "logSetLevel level = (\<lambda>(oldLevel, s). case ParseLevel level of
      Ok newLevel \<Rightarrow> ((if oldLevel \<noteq> newLevel then newLevel else oldLevel, s), Ok ())
    | Err e \<Rightarrow> ((oldLevel, s), Err e)
    | Panic \<Rightarrow> ((oldLevel, s), Panic)
    | Diverge \<Rightarrow> ((oldLevel, s), Diverge))"

definition V1_LogSetLevel :: "string \<Rightarrow> (Level \<times> 's, unit) remote" where
  "V1_LogSetLevel level = logSetLevel level"

definition V2_LogSetLevel :: "'s V2DataEngineInstanceOps \<Rightarrow> string \<Rightarrow> (Level \<times> 's, unit) remote" where
  "V2_LogSetLevel ops level = in_service (r_bind (v2_client ops) (\<lambda>c.
     r_map_err (status_wrap Internal ''failed to set v2 data engine log level'')
       (spdk_LogSetLevel c (strings_ToUpper level))))"

definition LogSetLevel :: "'s Server \<Rightarrow> DataEngine \<Rightarrow> string \<Rightarrow> (Level \<times> 's, unit) remote" where
  "LogSetLevel s de level = dispatch de (V1_LogSetLevel level) (V2_LogSetLevel (srvV2 s) level)"

definition V1_LogSetFlags :: "string \<Rightarrow> (Level \<times> 's, unit) remote" where
  "V1_LogSetFlags flags = r_ok ()"

definition V2_LogSetFlags :: "'s V2DataEngineInstanceOps \<Rightarrow> string \<Rightarrow> (Level \<times> 's, unit) remote" where
  "V2_LogSetFlags ops flags = in_service (r_bind (v2_client ops) (\<lambda>c.
     r_map_err (status_wrap Internal ''failed to set log flags'') (spdk_LogSetFlags c flags)))"

definition LogSetFlags :: "'s Server \<Rightarrow> DataEngine \<Rightarrow> string \<Rightarrow> (Level \<times> 's, unit) remote" where
  "LogSetFlags s de flags = dispatch de (V1_LogSetFlags flags) (V2_LogSetFlags (srvV2 s) flags)"

definition V1_LogGetLevel :: "(Level \<times> 's, string) remote" where
  "V1_LogGetLevel = (\<lambda>(l, s). ((l, s), Ok (Level_String l)))"

definition V2_LogGetLevel :: "(Level \<times> 's, string) remote" where
  "V2_LogGetLevel = (\<lambda>(l, s). ((l, s), Ok (Level_String l)))"

definition LogGetLevel :: "'s Server \<Rightarrow> DataEngine \<Rightarrow> (Level \<times> 's, string) remote" where
  "LogGetLevel s de = dispatch de V1_LogGetLevel V2_LogGetLevel"

definition V1_LogGetFlags :: "(Level \<times> 's, string) remote" where
  "V1_LogGetFlags = r_ok ''''"

definition V2_LogGetFlags :: "'s V2DataEngineInstanceOps \<Rightarrow> (Level \<times> 's, string) remote" where
  "V2_LogGetFlags ops = in_service (r_bind (v2_client ops) (\<lambda>c.
     r_map_err (status_wrap Internal ''failed to get log flags'') (spdk_LogGetFlags c)))"

definition LogGetFlags :: "'s Server \<Rightarrow> DataEngine \<Rightarrow> (Level \<times> 's, string) remote" where
  "LogGetFlags s de = dispatch de V1_LogGetFlags (V2_LogGetFlags (srvV2 s))"

end
