(* ===== verification/Instance_Client.thy ===== *)
theory Instance_Client
  imports Instance_Watch
begin

text \<open>
  The client of the instance service (\<^verbatim>\<open>pkg/client/instance.go\<close>), its choice of the data engine
  (\<^verbatim>\<open>pkg/client/types.go\<close>) and the conversion of responses (\<^verbatim>\<open>pkg/api\<close>). The generated stub that the
  client calls is a parameter; the properties instantiate it with the server of theory \<open>Instance\<close>.
\<close>

section \<open>Names of engines and clone modes\<close>

definition getDataEngine :: "string \<Rightarrow> string" where
  "getDataEngine dataEngine =
     (if has_suffix (strings_ToLower dataEngine) ''v2'' then ''DATA_ENGINE_V2'' else ''DATA_ENGINE_V1'')"

text \<open>The generated map \<^verbatim>\<open>rpc.DataEngine_value\<close>.\<close>

definition DataEngine_value :: "string \<Rightarrow> DataEngine option" where
  "DataEngine_value n = (if n = ''DATA_ENGINE_V1'' then Some DATA_ENGINE_V1
     else if n = ''DATA_ENGINE_V2'' then Some DATA_ENGINE_V2
     else if n = ''DATA_ENGINE_LOCAL'' then Some (DATA_ENGINE_OTHER 2) else None)"

datatype CloneMode = CLONE_MODE_FULL_COPY | CLONE_MODE_LINKED_CLONE

definition getCloneMode :: "string \<Rightarrow> CloneMode" where
  "getCloneMode cloneMode =
     (if cloneMode = ''linked-clone'' then CLONE_MODE_LINKED_CLONE else CLONE_MODE_FULL_COPY)"

record ReplicaError =
  reAddress :: string
  reMessage :: string

definition ReplicaError_Error :: "ReplicaError \<Rightarrow> string" where
  "ReplicaError_Error e = reAddress e @ '': '' @ reMessage e"

definition TaskError_Error :: "ReplicaError list \<Rightarrow> string" where
  "TaskError_Error es = (if es = [] then ''Unknown'' else strings_Join (map ReplicaError_Error es) ''; '')"

fun driver_of :: "DataEngine \<Rightarrow> BackendStoreDriver" where
  "driver_of DATA_ENGINE_V2 = BackendStoreDriver_v2"
| "driver_of _ = BackendStoreDriver_v1"

text \<open>The lookup every method starts with, and its error.\<close>

definition with_driver ::
  "string \<Rightarrow> string \<Rightarrow> (DataEngine \<Rightarrow> ('s, 'a) remote) \<Rightarrow> ('s, 'a) remote" where
  "with_driver what dataEngine f = (case DataEngine_value (getDataEngine dataEngine) of
     None \<Rightarrow> r_err (PlainError (''failed to '' @ what @ '': invalid data engine '' @ dataEngine))
   | Some d \<Rightarrow> f d)"

lemma DataEngine_value_getDataEngine:
  "DataEngine_value (getDataEngine de) =
     Some (if has_suffix (strings_ToLower de) ''v2'' then DATA_ENGINE_V2 else DATA_ENGINE_V1)"
  by (simp add: getDataEngine_def DataEngine_value_def)

section \<open>Conversion of responses\<close>

record api_InstanceProcessSpec =
  aipBinary :: string
  aipArgs :: "string list"

record api_InstanceStatus =
  aisState :: string
  aisErrorMsg :: string
  aisConditions :: "string \<rightharpoonup> bool"
  aisPortStart :: int
  aisPortEnd :: int
  aisTargetPortStart :: int
  aisTargetPortEnd :: int
  aisStandbyTargetPortStart :: int
  aisStandbyTargetPortEnd :: int
  aisUblkID :: int
  aisUUID :: string
  aisEndpoint :: string
  aisFrontend :: string
  aisActivePath :: string
  aisPreferredPath :: string
  aisPaths :: "EngineFrontendNvmeTcpPath list"

record api_Instance =
  aiName :: string
  aiType :: string
  aiDataEngine :: string
  aiPortCount :: int
  aiPortArgs :: "string list"
  aiInstanceStatus :: api_InstanceStatus
  aiDeleted :: bool
  aiInstanceProccessSpec :: "api_InstanceProcessSpec option"
  aiBackendStoreDriver :: string

definition RPCToInstanceStatus :: "InstanceStatus \<Rightarrow> api_InstanceStatus" where
  "RPCToInstanceStatus obj =
     \<lparr>aisState = istState obj, aisErrorMsg = istErrorMsg obj, aisConditions = istConditions obj,
      aisPortStart = istPortStart obj, aisPortEnd = istPortEnd obj,
      aisTargetPortStart = istTargetPortStart obj, aisTargetPortEnd = istTargetPortEnd obj,
      aisStandbyTargetPortStart = istStandbyTargetPortStart obj,
      aisStandbyTargetPortEnd = istStandbyTargetPortEnd obj, aisUblkID = istUblkId obj,
      aisUUID = istUuid obj, aisEndpoint = istEndpoint obj, aisFrontend = istFrontend obj,
      aisActivePath = istActivePath obj, aisPreferredPath = istPreferredPath obj,
      aisPaths = skip_nil_paths (istPaths obj)\<rparr>"

fun BackendStoreDriver_String :: "BackendStoreDriver \<Rightarrow> string" where
  "BackendStoreDriver_String BackendStoreDriver_v1 = ''v1''"
| "BackendStoreDriver_String BackendStoreDriver_v2 = ''v2''"

text \<open>The map \<^verbatim>\<open>dataEngines\<close>; a missing key gives the empty string.\<close>

definition dataEngines :: "string \<Rightarrow> string" where
  "dataEngines n = (if n = ''DATA_ENGINE_V1'' then ''v1'' else if n = ''DATA_ENGINE_V2'' then ''v2'' else '''')"

definition RPCToInstance :: "InstanceResponse \<Rightarrow> api_Instance" where
  "RPCToInstance obj =
     \<lparr>aiName = isName (irSpec obj), aiType = isType (irSpec obj),
      aiDataEngine = dataEngines (DataEngine_String (isDataEngine (irSpec obj))),
      aiPortCount = isPortCount (irSpec obj), aiPortArgs = isPortArgs (irSpec obj),
      aiInstanceStatus = RPCToInstanceStatus (irStatus obj), aiDeleted = False,
      aiInstanceProccessSpec = map_option (\<lambda>p. \<lparr>aipBinary = pisBinary p, aipArgs = pisArgs p\<rparr>)
        (isProcessInstanceSpec (irSpec obj)),
      aiBackendStoreDriver = BackendStoreDriver_String (isBackendStoreDriver (irSpec obj))\<rparr>"

definition RPCToInstanceList :: "(string \<rightharpoonup> InstanceResponse) \<Rightarrow> (string \<rightharpoonup> api_Instance)" where
  "RPCToInstanceList m = (\<lambda>n. map_option RPCToInstance (m n))"

record api_ProcessStatus =
  apsState :: string
  apsErrorMsg :: string
  apsConditions :: "string \<rightharpoonup> bool"
  apsPortStart :: int
  apsPortEnd :: int
  apsUUID :: string

record api_Process =
  apName :: string
  apBinary :: string
  apArgs :: "string list"
  apPortCount :: int
  apPortArgs :: "string list"
  apProcessStatus :: api_ProcessStatus
  apDeleted :: bool

definition RPCToProcessStatus :: "ProcessStatus \<Rightarrow> api_ProcessStatus" where
  "RPCToProcessStatus obj = \<lparr>apsState = pstState obj, apsErrorMsg = pstErrorMsg obj,
     apsConditions = pstConditions obj, apsPortStart = pstPortStart obj, apsPortEnd = pstPortEnd obj,
     apsUUID = pstUuid obj\<rparr>"

definition RPCToProcess :: "ProcessResponse \<Rightarrow> api_Process" where
  "RPCToProcess obj = \<lparr>apName = psName (prSpec obj), apBinary = psBinary (prSpec obj),
     apArgs = psArgs (prSpec obj), apPortCount = psPortCount (prSpec obj),
     apPortArgs = psPortArgs (prSpec obj), apProcessStatus = RPCToProcessStatus (prStatus obj),
     apDeleted = False\<rparr>"

definition RPCToProcessList :: "(string \<rightharpoonup> ProcessResponse) \<Rightarrow> (string \<rightharpoonup> api_Process)" where
  "RPCToProcessList m = (\<lambda>n. map_option RPCToProcess (m n))"

section \<open>The client\<close>

record 's instance_stub =
  istub_Create :: "InstanceCreateRequest \<Rightarrow> ('s, InstanceResponse) remote"
  istub_Delete :: "InstanceDeleteRequest \<Rightarrow> ('s, InstanceResponse) remote"
  istub_Get :: "InstanceRequest \<Rightarrow> ('s, InstanceResponse) remote"
  istub_List :: "('s, string \<rightharpoonup> InstanceResponse) remote"
  istub_Replace :: "InstanceReplaceRequest \<Rightarrow> ('s, InstanceResponse) remote"
  istub_Suspend :: "InstanceRequest \<Rightarrow> ('s, unit) remote"
  istub_Resume :: "InstanceRequest \<Rightarrow> ('s, unit) remote"
  istub_SwitchOverTarget :: "InstanceSwitchOverTargetRequest \<Rightarrow> ('s, unit) remote"
  istub_DeleteTarget :: "InstanceRequest \<Rightarrow> ('s, unit) remote"

record EngineCreateRequest =
  qeReplicaAddressMap :: "(string \<times> string) list"
  qeFrontend :: string
  qeUblkQueueDepth :: int
  qeUblkNumberOfQueue :: int
  qeInitiatorAddress :: string
  qeTargetAddress :: string
  qeUpgradeRequired :: bool
  qeSalvageRequested :: bool
  qeSnapshotMaxCount :: int

record EngineFrontendCreateRequest =
  qfFrontend :: string
  qfUblkQueueDepth :: int
  qfUblkNumberOfQueue :: int
  qfNvmeTcpNrIoQueues :: int
  qfTargetAddress :: string
  qfEngineName :: string

record ReplicaCreateRequest =
  qrDiskName :: string
  qrDiskUUID :: string
  qrExposeRequired :: bool
  qrBackingImageName :: string

record ShardCreateRequest =
  qsLvsName :: string
  qsLvsUUID :: string
  qsSlotIndex :: int

record client_InstanceCreateRequest =
  qDataEngine :: string
  qName :: string
  qInstanceType :: string
  qVolumeName :: string
  qSize :: int
  qPortCount :: int
  qPortArgs :: "string list"
  qBinary :: string
  qBinaryArgs :: "string list"
  qEngine :: EngineCreateRequest
  qEngineFrontend :: EngineFrontendCreateRequest
  qReplica :: ReplicaCreateRequest
  qShard :: ShardCreateRequest
  qShardGroup :: ShardGroupSpec
  qDataLayoutType :: DataLayoutType

definition zero_spdk_spec :: SpdkInstanceSpec where
  "zero_spdk_spec = \<lparr>sisReplicaAddressMap = [], sisDiskName = '''', sisDiskUuid = '''', sisSize = 0,
     sisExposeRequired = False, sisFrontend = '''', sisSalvageRequested = False, sisBackingImageName = '''',
     sisUblkQueueDepth = 0, sisUblkNumberOfQueue = 0, sisNvmeTcpNrIoQueues = 0, sisSnapshotMaxCount = 0,
     sisSlotIndex = 0, sisLvsName = '''', sisLvsUuid = '''', sisShardGroupSpec = None\<rparr>"

definition client_spdk_spec :: "client_InstanceCreateRequest \<Rightarrow> SpdkInstanceSpec go_result" where
  "client_spdk_spec req =
     (let e = qEngine req; f = qEngineFrontend req; r = qReplica req; s = qShard req;
          z = zero_spdk_spec\<lparr>sisSize := qSize req\<rparr> in
      if qInstanceType req = InstanceTypeEngine then
        Ok (z\<lparr>sisReplicaAddressMap := qeReplicaAddressMap e, sisFrontend := qeFrontend e,
              sisSalvageRequested := qeSalvageRequested e, sisSnapshotMaxCount := wrap32 (qeSnapshotMaxCount e),
              sisUblkQueueDepth := wrap32 (qeUblkQueueDepth e),
              sisUblkNumberOfQueue := wrap32 (qeUblkNumberOfQueue e)\<rparr>)
      else if qInstanceType req = InstanceTypeEngineFrontend then
        Ok (z\<lparr>sisFrontend := qfFrontend f, sisUblkQueueDepth := wrap32 (qfUblkQueueDepth f),
              sisUblkNumberOfQueue := wrap32 (qfUblkNumberOfQueue f),
              sisNvmeTcpNrIoQueues := wrap32 (qfNvmeTcpNrIoQueues f)\<rparr>)
      else if qInstanceType req = InstanceTypeReplica then
        Ok (z\<lparr>sisDiskName := qrDiskName r, sisDiskUuid := qrDiskUUID r,
              sisExposeRequired := qrExposeRequired r, sisBackingImageName := qrBackingImageName r\<rparr>)
      else if qInstanceType req = InstanceTypeShard then
        Ok (z\<lparr>sisLvsName := qsLvsName s, sisLvsUuid := qsLvsUUID s, sisSlotIndex := qsSlotIndex s\<rparr>)
      else if qInstanceType req = InstanceTypeShardGroup then
        Ok (z\<lparr>sisShardGroupSpec := Some (qShardGroup req)\<rparr>)
      else Err (PlainError (''failed to create instance: invalid instance type '' @ qInstanceType req)))"

definition client_create_spec ::
  "client_InstanceCreateRequest \<Rightarrow> DataEngine \<Rightarrow> ProcessInstanceSpec option \<Rightarrow> SpdkInstanceSpec option \<Rightarrow> InstanceSpec" where
  "client_create_spec req d ps ss =
     \<lparr>isBackendStoreDriver = driver_of d, isDataEngine = d, isName = qName req, isType = qInstanceType req,
      isVolumeName = qVolumeName req, isPortCount = wrap32 (qPortCount req), isPortArgs = qPortArgs req,
      isProcessInstanceSpec = ps, isSpdkInstanceSpec = ss,
      isUpgradeRequired = qeUpgradeRequired (qEngine req),
      isInitiatorAddress = qeInitiatorAddress (qEngine req),
      isTargetAddress = (if qInstanceType req = InstanceTypeEngineFrontend
                         then qfTargetAddress (qEngineFrontend req) else qeTargetAddress (qEngine req)),
      isEngineName = (if qInstanceType req = InstanceTypeEngineFrontend
                      then qfEngineName (qEngineFrontend req) else '''')\<rparr>"

definition client_InstanceCreate ::
  "'s instance_stub \<Rightarrow> client_InstanceCreateRequest \<Rightarrow> ('s, api_Instance) remote" where
  "client_InstanceCreate c req =
     (if qName req = '''' \<or> qInstanceType req = '''' then
        r_err (PlainError ''failed to create instance: missing required parameter'')
      else with_driver ''delete instance'' (qDataEngine req) (\<lambda>d.
        let send = (\<lambda>ps ss. r_map RPCToInstance (r_map_err (WrapError ''failed to create instance'')
              (istub_Create c \<lparr>icrSpec = Some (client_create_spec req d ps ss),
                               icrDataLayoutType = qDataLayoutType req\<rparr>))) in
        if d = DATA_ENGINE_V1 then
          send (Some \<lparr>pisBinary = qBinary req, pisArgs = qBinaryArgs req\<rparr>) None
        else case client_spdk_spec req of
          Ok ss \<Rightarrow> send None (Some ss)
        | Err e \<Rightarrow> r_err e
        | Panic \<Rightarrow> r_panic
        | Diverge \<Rightarrow> (\<lambda>s. (s, Diverge))))"

definition client_InstanceDelete ::
  "'s instance_stub \<Rightarrow> string \<Rightarrow> string \<Rightarrow> string \<Rightarrow> string \<Rightarrow> string \<Rightarrow> bool \<Rightarrow> ('s, api_Instance) remote" where
  "client_InstanceDelete c dataEngine name uuid instanceType diskUUID cleanupRequired =
     (if name = '''' then r_err (PlainError ''failed to delete instance: missing required parameter name'')
      else with_driver ''delete instance'' dataEngine (\<lambda>d.
        r_map RPCToInstance (r_map_err (WrapError (''failed to delete instance '' @ name))
          (istub_Delete c \<lparr>idrName = name, idrUuid = uuid, idrType = instanceType, idrDataEngine = d,
             idrDiskUuid = diskUUID, idrCleanupRequired = cleanupRequired\<rparr>))))"

definition client_InstanceGet ::
  "'s instance_stub \<Rightarrow> string \<Rightarrow> string \<Rightarrow> string \<Rightarrow> ('s, api_Instance) remote" where
  "client_InstanceGet c dataEngine name instanceType =
     (if name = '''' then r_err (PlainError ''failed to get instance: missing required parameter name'')
      else with_driver ''get instance'' dataEngine (\<lambda>d.
        r_map RPCToInstance (r_map_err (WrapError (''failed to get instance '' @ name))
          (istub_Get c \<lparr>iqName = name, iqType = instanceType, iqDataEngine = d\<rparr>))))"

definition client_InstanceList :: "'s instance_stub \<Rightarrow> ('s, string \<rightharpoonup> api_Instance) remote" where
  "client_InstanceList c =
     r_map RPCToInstanceList (r_map_err (WrapError ''failed to list instances'') (istub_List c))"

definition client_InstanceReplace ::
  "'s instance_stub \<Rightarrow> string \<Rightarrow> string \<Rightarrow> string \<Rightarrow> string \<Rightarrow> int \<Rightarrow> string list \<Rightarrow> string list \<Rightarrow> string
     \<Rightarrow> ('s, api_Instance) remote" where
  "client_InstanceReplace c dataEngine name instanceType binary portCount args portArgs terminateSignal =
     (if name = '''' \<or> binary = '''' then
        r_err (PlainError ''failed to replace instance: missing required parameter'')
      else with_driver ''replace instance'' dataEngine (\<lambda>d.
        if terminateSignal \<noteq> ''SIGHUP'' then
          r_err (PlainError (''unsupported terminate signal '' @ terminateSignal))
        else r_map RPCToInstance (r_map_err (WrapError ''failed to replace instance'')
          (istub_Replace c \<lparr>iprSpec = Some (zero_spec\<lparr>isName := name, isType := instanceType,
               isBackendStoreDriver := driver_of d, isDataEngine := d,
               isProcessInstanceSpec := Some \<lparr>pisBinary = binary, pisArgs = args\<rparr>,
               isPortCount := wrap32 portCount, isPortArgs := portArgs\<rparr>),
             iprTerminateSignal = terminateSignal\<rparr>))))"

definition simple_call ::
  "string \<Rightarrow> string \<Rightarrow> (InstanceRequest \<Rightarrow> ('s, unit) remote) \<Rightarrow> string \<Rightarrow> string \<Rightarrow> string \<Rightarrow> ('s, unit) remote" where
  "simple_call what what_driver call dataEngine name instanceType =
     (if name = '''' then r_err (PlainError (''failed to '' @ what @ '' instance: missing required parameter name''))
      else with_driver what_driver dataEngine (\<lambda>d.
        r_map_err (WrapError (''failed to '' @ what @ '' instance '' @ name))
          (call \<lparr>iqName = name, iqType = instanceType, iqDataEngine = d\<rparr>)))"

definition client_InstanceSuspend ::
  "'s instance_stub \<Rightarrow> string \<Rightarrow> string \<Rightarrow> string \<Rightarrow> ('s, unit) remote" where
  "client_InstanceSuspend c = simple_call ''suspend'' ''suspend instance'' (istub_Suspend c)"

definition client_InstanceResume ::
  "'s instance_stub \<Rightarrow> string \<Rightarrow> string \<Rightarrow> string \<Rightarrow> ('s, unit) remote" where
  "client_InstanceResume c = simple_call ''resume'' ''resume instance'' (istub_Resume c)"

definition client_InstanceDeleteTarget ::
  "'s instance_stub \<Rightarrow> string \<Rightarrow> string \<Rightarrow> string \<Rightarrow> ('s, unit) remote" where
  "client_InstanceDeleteTarget c =
     simple_call ''delete target for'' ''delete target instance'' (istub_DeleteTarget c)"

definition client_InstanceSwitchOverTarget ::
  "'s instance_stub \<Rightarrow> string \<Rightarrow> string \<Rightarrow> string \<Rightarrow> string \<Rightarrow> string \<Rightarrow> string \<Rightarrow> ('s, unit) remote" where
  "client_InstanceSwitchOverTarget c dataEngine name instanceType targetAddress engineName switchoverPhase =
     (if name = '''' then
        r_err (PlainError ''failed to switch over target for instance: missing required parameter name'')
      else if targetAddress = '''' then
        r_err (PlainError ''failed to switch over target for instance: missing required parameter target address'')
      else with_driver ''switch over target instance'' dataEngine (\<lambda>d.
        r_map_err (WrapError (''failed to switch over target for instance '' @ name))
          (istub_SwitchOverTarget c \<lparr>isrName = name, isrType = instanceType, isrDataEngine = d,
             isrTargetAddress = targetAddress, isrEngineName = engineName, isrSwitchoverPhase = switchoverPhase\<rparr>)))"

text \<open>The server behind the connection: requests and responses arrive as they were sent.\<close>

definition server_stub :: "'s Server \<Rightarrow> 's instance_stub" where
  "server_stub s = \<lparr>istub_Create = (\<lambda>r. over_wire (InstanceCreate s r)),
     istub_Delete = (\<lambda>r. over_wire (InstanceDelete s r)), istub_Get = (\<lambda>r. over_wire (InstanceGet s r)),
     istub_List = over_wire (InstanceList s), istub_Replace = (\<lambda>r. over_wire (InstanceReplace s r)),
     istub_Suspend = (\<lambda>r. over_wire (InstanceSuspend s r)), istub_Resume = (\<lambda>r. over_wire (InstanceResume s r)),
     istub_SwitchOverTarget = (\<lambda>r. over_wire (InstanceSwitchOverTarget s r)),
     istub_DeleteTarget = (\<lambda>r. over_wire (InstanceDeleteTarget s r))\<rparr>"

end
