(* ===== verification/Instance_Properties.thy ===== *)
theory Instance_Properties
  imports Instance_Client Process_Manager
begin

text \<open>
  What the instance service and its client guarantee: requests are dispatched and checked before a
  service is called, what a client sees is what the process manager reports, and the watch loops
  end when they should (and sometimes earlier).
\<close>

section \<open>Dispatch\<close>

interpretation delete_srv: engine_server idrDataEngine "InstanceDelete s"
    "V1_InstanceDelete (srvV1 s)" "V2_InstanceDelete (srvV2 s)" for s
  by unfold_locales (simp add: InstanceDelete_def)

interpretation get_srv: engine_server iqDataEngine "InstanceGet s"
    "V1_InstanceGet (srvV1 s)" "V2_InstanceGet (srvV2 s)" for s
  by unfold_locales (simp add: InstanceGet_def)

interpretation suspend_srv: engine_server iqDataEngine "InstanceSuspend s"
    "V1_InstanceSuspend (srvV1 s)" "V2_InstanceSuspend (srvV2 s)" for s
  by unfold_locales (simp add: InstanceSuspend_def)

interpretation resume_srv: engine_server iqDataEngine "InstanceResume s"
    "V1_InstanceResume (srvV1 s)" "V2_InstanceResume (srvV2 s)" for s
  by unfold_locales (simp add: InstanceResume_def)

interpretation switch_srv: engine_server isrDataEngine "InstanceSwitchOverTarget s"
    "V1_InstanceSwitchOverTarget (srvV1 s)" "V2_InstanceSwitchOverTarget (srvV2 s)" for s
  by unfold_locales (simp add: InstanceSwitchOverTarget_def)

interpretation target_srv: engine_server iqDataEngine "InstanceDeleteTarget s"
    "V1_InstanceDeleteTarget (srvV1 s)" "V2_InstanceDeleteTarget (srvV2 s)" for s
  by unfold_locales (simp add: InstanceDeleteTarget_def)

lemma dispatch_create:
  "icrSpec req = Some spec \<Longrightarrow> isDataEngine spec = DATA_ENGINE_OTHER n \<Longrightarrow>
   InstanceCreate s req st = (st, Err (unsupported_engine (DATA_ENGINE_OTHER n)))"
  by (simp add: InstanceCreate_def)

text \<open>A suspension, resumption or switch-over reaches the SPDK service only for an engine frontend.\<close>

lemma v2_client_status_connected:
  "spdk_connect (v2Client ops) st = (st1, Ok ()) \<Longrightarrow>
   r_bind (v2_client_status ops) f st = f (v2Client ops) st1"
  by (simp add: v2_client_status_def r_bind_def r_map_apply r_map_err_apply)

definition suspend_refusal :: "string \<Rightarrow> go_error" where
  "suspend_refusal t =
     (if t = InstanceTypeEngine then
        StatusError Unimplemented ''suspend is not supported for instance type engine''
      else if is_storage_type t then not_for_type ''suspend'' t else unknown_instance_type t)"

text \<open>
  Only an engine frontend can be suspended, resumed or switched over. For every other type the
  request ends with Unimplemented (engine) or InvalidArgument (all others), and the SPDK service
  is not called beyond opening the connection.
\<close>

theorem only_frontends_suspend:
  assumes "iqDataEngine req = DATA_ENGINE_V2" "iqType req \<noteq> InstanceTypeEngineFrontend"
    and "spdk_connect (v2Client (srvV2 s)) st = (st1, Ok ())"
  shows "\<exists>e. InstanceSuspend s req st = (st1, Err e)
    \<and> status_code e = (if iqType req = InstanceTypeEngine then Unimplemented else InvalidArgument)"
proof -
  have "InstanceSuspend s req st = (st1, Err (suspend_refusal (iqType req)))"
    using assms by (simp add: InstanceSuspend_def V2_InstanceSuspend_def v2_client_status_connected
        suspend_refusal_def)
  then show ?thesis
    by (simp add: suspend_refusal_def not_for_type_def unknown_instance_type_def)
qed

text \<open>
  An error of the SPDK service keeps its gRPC status code on the way to the client, however
  deeply it is wrapped; an error without a status gets the given default code.
\<close>

theorem spdk_error_code:
  "status_code (toSPDKGRPCError err dflt msg) = (case chain_code err of Some c \<Rightarrow> c | None \<Rightarrow> dflt)"
  by (auto simp: toSPDKGRPCError_def FromError_def Let_def split: option.splits)

section \<open>From client to process manager\<close>

text \<open>
  The client's check of the data engine never fails: a name that ends in v2 (in any case) is the
  V2 engine and every other name, however misspelt, is the V1 engine.
\<close>

theorem engine_name_total:
  "with_driver what de f = f (if has_suffix (strings_ToLower de) ''v2'' then DATA_ENGINE_V2 else DATA_ENGINE_V1)"
  by (simp add: with_driver_def DataEngine_value_getDataEngine)

lemma v1_client_connected:
  assumes "stub_connect (v1Stub ops) (''tcp://'' @ v1ProcessManagerServiceAddress ops) st = (st, Ok ())"
  shows "r_bind (v1_client ops) f st = f (v1Stub ops) st"
  using assms by (simp add: v1_client_def newProcessManagerClient_def NewProcessManagerClient_def r_map_def
      r_bind_def r_map_err_def r_ok_def)

text \<open>
  C22: A V1 instance created through the client is the process asked for: the process manager receives
  exactly one creation request, with the name, binary, arguments, port arguments and the (32-bit)
  port count of the client's request, and its answer or error is what the client gets.
\<close>

theorem v1_create_end_to_end:
  fixes srv :: "'s Server" and req :: client_InstanceCreateRequest
  defines "stub \<equiv> v1Stub (srvV1 srv)"
    and "spec \<equiv> \<lparr>psName = qName req, psBinary = qBinary req, psArgs = qBinaryArgs req,
                 psPortCount = wrap32 (qPortCount req), psPortArgs = qPortArgs req\<rparr>"
  assumes "qName req \<noteq> ''''" "qInstanceType req \<noteq> ''''" "qBinary req \<noteq> ''''"
    and "\<not> has_suffix (strings_ToLower (qDataEngine req)) ''v2''"
    and "qDataLayoutType req \<noteq> DATA_LAYOUT_TYPE_SHARDED"
    and "stub_connect stub (''tcp://'' @ v1ProcessManagerServiceAddress (srvV1 srv)) st = (st, Ok ())"
  shows "client_InstanceCreate (server_stub srv) req st =
     (case stub_ProcessCreate stub spec st of
        (st', Ok p) \<Rightarrow> (st', Ok (RPCToInstance (processResponseToInstanceResponse p (qInstanceType req))))
      | (st', Err e) \<Rightarrow> (st', Err (WrapError ''failed to create instance'' (wire_error e)))
      | (st', Panic) \<Rightarrow> (st', Panic)
      | (st', Diverge) \<Rightarrow> (st', Diverge))"
  using assms
  by (simp add: client_InstanceCreate_def with_driver_def DataEngine_value_getDataEngine server_stub_def
      over_wire_def InstanceCreate_def V1_InstanceCreate_def client_create_spec_def v1_client_connected
      pmc_ProcessCreate_def r_map_apply r_map_err_apply Let_def split: prod.splits go_result.splits)

text \<open>
  What the client is told of a process is what the process manager knows: state, error message,
  conditions, UUID, ports, binary and arguments arrive unchanged, and the target ports are those of
  the process exactly for an engine. (The mark of a deleted process does not arrive.)
\<close>

theorem instance_view:
  fixes p :: Process and t :: string and d :: bool
  assumes "is_int32 (pPortCount p)"
  defines "i \<equiv> RPCToInstance (processResponseToInstanceResponse ((RPCResponse p)\<lparr>prDeleted := d\<rparr>) t)"
  shows "aiName i = pName p \<and> aiType i = t \<and> aiDataEngine i = ''v1'' \<and> aiPortCount i = pPortCount p
    \<and> aisState (aiInstanceStatus i) = State_string (pState p)
    \<and> aisErrorMsg (aiInstanceStatus i) = pErrorMsg p \<and> aisUUID (aiInstanceStatus i) = pUUID p
    \<and> aisConditions (aiInstanceStatus i) = pConditions p
    \<and> (aisPortStart (aiInstanceStatus i), aisPortEnd (aiInstanceStatus i)) = (pPortStart p, pPortEnd p)
    \<and> (aisTargetPortStart (aiInstanceStatus i), aisTargetPortEnd (aiInstanceStatus i))
        = (if t = InstanceTypeEngine then (pPortStart p, pPortEnd p) else (0, 0))
    \<and> aiInstanceProccessSpec i = Some \<lparr>aipBinary = pBinary p, aipArgs = pArgs p\<rparr>
    \<and> aiDeleted i = False"
  using assms(1) unfolding i_def
  by (simp add: RPCToInstance_def RPCToInstanceStatus_def processResponseToInstanceResponse_def
      RPCResponse_def zero_spec_def zero_status_def dataEngines_def Let_def)

section \<open>Delete, create, list\<close>

lemma v2_client_connected:
  assumes "spdk_connect (v2Client ops) st = (st1, Ok ())"
  shows "r_bind (v2_client ops) f st = f (v2Client ops) st1"
  using assms by (simp add: v2_client_def r_map_def r_bind_def r_map_err_def r_ok_def)

text \<open>
  C25: Deleting a V2 instance without cleanup never destroys data: the engine is left alone, and the
  replica, shard and shard group services are told that no cleanup is required, so that they are
  called with the flag the caller gave.
\<close>

theorem v2_delete_keeps_data:
  assumes "idrDataEngine req = DATA_ENGINE_V2" "idrCleanupRequired req = False"
    and "spdk_connect (v2Client (srvV2 s)) st = (st1, Ok ())"
  shows "let c = v2Client (srvV2 s); n = idrName req; ok = Ok (deleted_response n) in
     (idrType req = InstanceTypeEngine \<longrightarrow> InstanceDelete s req st = (st1, ok))
     \<and> (idrType req = InstanceTypeReplica \<longrightarrow>
          fst (InstanceDelete s req st) = fst (spdk_ReplicaDelete c n False st1))
     \<and> (idrType req = InstanceTypeShard \<longrightarrow>
          fst (InstanceDelete s req st) = fst (spdk_ShardDelete c n False st1))
     \<and> (idrType req = InstanceTypeShardGroup \<longrightarrow>
          fst (InstanceDelete s req st) = fst (spdk_ShardGroupDelete c n False st1))"
  using assms(1,2)
  by (simp add: v2_client_connected[OF assms(3)] InstanceDelete_def V2_InstanceDelete_def Let_def instance_type_defs r_map_apply
      split: prod.splits)

text \<open>
  A shard is created only under its derived name: a request that names it differently is
  rejected with InvalidArgument before the service is called, and one that leaves the name out or
  gives the derived name reaches the service with the volume and slot it was derived from.
\<close>

theorem shard_name_checked:
  assumes "isType spec = InstanceTypeShard" "isSpdkInstanceSpec spec = Some ss"
    and "spdk_connect (v2Client ops) st = (st1, Ok ())"
  shows "if isName spec = '''' \<or> isName spec = isVolumeName spec @ ''-'' @ strconv_Itoa (sisSlotIndex ss)
     then fst (V2_InstanceCreate ops spec layout st) = fst (spdk_ShardCreate (v2Client ops)
            \<lparr>scVolumeName = isVolumeName spec, scSlotIndex = sisSlotIndex ss, scSize = sisSize ss,
             scLvsName = sisLvsName ss, scLvsUuid = sisLvsUuid ss, scPortCount = isPortCount spec\<rparr> st1)
     else \<exists>e. V2_InstanceCreate ops spec layout st = (st1, Err e) \<and> status_code e = InvalidArgument"
  using assms(1,2)
  by (simp add: v2_client_connected[OF assms(3)] V2_InstanceCreate_def instance_type_defs with_spdk_spec_def create_shard_def
      shard_derived_name_def Let_def r_map_apply split: prod.splits)

text \<open>
  Creating a V2 instance of a known type without its SPDK specification is a nil dereference, while
  the V1 engine answers the same mistake with InvalidArgument.
\<close>

theorem v2_create_without_spec_panics:
  assumes "isSpdkInstanceSpec spec = None" "isProcessInstanceSpec spec = None"
    and "isType spec \<in> {InstanceTypeEngine, InstanceTypeEngineFrontend, InstanceTypeReplica,
           InstanceTypeShard, InstanceTypeShardGroup}"
    and "spdk_connect (v2Client v2) st = (st, Ok ())"
  shows "V2_InstanceCreate v2 spec layout st = (st, Panic)
    \<and> (\<exists>e. V1_InstanceCreate v1 spec layout st = (st, Err e) \<and> status_code e = InvalidArgument)"
  using assms(1-3)
  by (auto simp: v2_client_connected[OF assms(4)] V2_InstanceCreate_def V1_InstanceCreate_def with_spdk_spec_def)

text \<open>The last entry of a list that has the name.\<close>

fun last_named :: "('x \<Rightarrow> string) \<Rightarrow> (string \<times> 'x) list \<Rightarrow> string \<Rightarrow> 'x option" where
  "last_named nm [] n = None"
| "last_named nm ((k, x) # xs) n = (case last_named nm xs n of
     Some y \<Rightarrow> Some y | None \<Rightarrow> if nm x = n then Some x else None)"

lemma add_all_lookup:
  "add_all nm conv xs m n = (case last_named nm xs n of Some x \<Rightarrow> Some (conv x) | None \<Rightarrow> m n)"
  by (induction nm conv xs m arbitrary: n rule: add_all.induct) (auto split: option.splits)

text \<open>
  The list of V2 instances has every object of the five kinds under its own name; where two
  kinds use the same name, the shard group hides the shard, which hides the frontend, then the engine,
  the replica, and last the V1 process.
\<close>

theorem v2_list_lookup:
  assumes "spdk_connect (v2Client ops) st = (st, Ok ())"
    and "spdk_ReplicaList (v2Client ops) = r_ok rs" "spdk_EngineList (v2Client ops) = r_ok es"
    and "spdk_EngineFrontendList (v2Client ops) = r_ok fs" "spdk_ShardList (v2Client ops) = r_ok ss"
    and "spdk_ShardGroupList (v2Client ops) = r_ok gs"
  shows "\<exists>m'. V2_InstanceList ops m st = (st, Ok m') \<and>
    (\<forall>n. m' n = first_some [
       map_option shardGroupResponseToInstanceResponse (last_named sgName gs n),
       map_option shardResponseToInstanceResponse (last_named shShardID ss n),
       map_option engineFrontendResponseToInstanceResponse (last_named efName fs n),
       map_option engineResponseToInstanceResponse (last_named eName es n),
       map_option replicaResponseToInstanceResponse (last_named rName rs n),
       m n])"
  using assms(2-6)
  by (simp add: v2_client_connected[OF assms(1)] V2_InstanceList_def Let_def add_all_lookup first_some_def split: option.splits)

section \<open>Logs and watches\<close>

text \<open>
  The log level of the V2 engine cannot be read back: after a successful change of the level of
  the V2 engine the level reported for that engine is the one reported before, because it is the level
  of the instance manager, which the change does not touch.
\<close>

theorem v2_log_level_not_read_back:
  assumes "LogSetLevel s DATA_ENGINE_V2 level (l, st) = (st', Ok ())"
  shows "snd (LogGetLevel s DATA_ENGINE_V2 st') = Ok (Level_String l)
    \<and> snd (LogGetLevel s DATA_ENGINE_V2 (l, st)) = Ok (Level_String l)"
  using assms
  by (auto simp: LogSetLevel_def V2_LogSetLevel_def LogGetLevel_def V2_LogGetLevel_def in_service_def
      split: prod.splits)

text \<open>
  A watch loop forwards every item, survives nine failures, and ends at the tenth, at a
  cancellation or with its context (stated for the loop over processes; the other five loops are
  instances of the same contract).
\<close>

theorem watch_process_contract:
  assumes "list_all harmless evs" "failures evs < maxMonitorRetryCount"
  shows "watchProcess None evs = (items evs, None)
    \<and> (is_canceled e \<longrightarrow> watchProcess None (evs @ RecvErr e # rest) = (items evs, Some e))
    \<and> watchProcess None (evs @ CtxDone e # rest) = (items evs, Some e)
    \<and> (\<not> is_canceled e \<and> Suc (failures evs) = maxMonitorRetryCount \<longrightarrow>
         watchProcess None (evs @ RecvErr e # rest) = (items evs, Some (continuous_error ''processes'')))"
  using process_watch.waiting[OF assms] process_watch.canceled[OF assms] process_watch.context_done[OF assms]
    process_watch.gives_up[OF assms(1)] by blast

text \<open>
  The loop gives up after ten failures in all, not after ten in a row as its message says: with an
  item received after every failure it still ends.
\<close>

theorem watch_counts_all_failures:
  "watchProcess None (concat (replicate 10 [RecvErr (PlainError ''timeout''), RecvItem])) =
     (9, Some (PlainError ''continuously receiving errors for 10 times, stopping watching processes''))"
  by code_simp

lemma find_Some_mem: "find P xs = Some x \<Longrightarrow> x \<in> set xs"
  by (induction xs) (auto split: if_splits)

lemma relay_log_from:
  "relay_log send k (map Inr lines @ rest) =
     (case find (\<lambda>i. send i \<noteq> None) [k..<k + length lines] of
        Some i \<Rightarrow> (take (i - k) lines, Err (the (send i)))
      | None \<Rightarrow> (case relay_log send (k + length lines) rest of (ls, r) \<Rightarrow> (lines @ ls, r)))"
proof (induction lines arbitrary: k)
  case Nil
  then show ?case by (simp split: prod.splits)
next
  case (Cons l lines)
  have u: "[k..<k + length (l # lines)] = k # [Suc k..<Suc k + length lines]"
    using upt_conv_Cons[of k "k + length (l # lines)"] by simp
  show ?case
  proof (cases "send k")
    case (Some e)
    then show ?thesis unfolding u by simp
  next
    case None
    have "Suc k \<le> i" if "find (\<lambda>i. send i \<noteq> None) [Suc k..<Suc k + length lines] = Some i" for i
      using find_Some_mem[OF that] by auto
    with None Cons[of "Suc k"] show ?thesis
      unfolding u by (auto simp: take_Cons' Suc_diff_le split: option.splits prod.splits)
  qed
qed

text \<open>
  The log of a V1 instance is relayed line by line, in order, up to the first error; when nothing
  fails, all of it arrives.
\<close>

theorem log_relayed:
  "relay_log send 0 (map Inr lines @ rest) =
     (case find (\<lambda>i. send i \<noteq> None) [0..<length lines] of
        Some i \<Rightarrow> (take i lines, Err (the (send i)))
      | None \<Rightarrow> (case relay_log send (length lines) rest of (ls, r) \<Rightarrow> (lines @ ls, r)))"
  using relay_log_from[of send 0 lines rest] unfolding add_0 diff_zero .

end
