(* ===== verification/Instance_Witnesses.thy ===== *)
theory Instance_Witnesses
  imports Instance_Properties
begin

text \<open>
  Services that write down the calls they get, and the properties of the instance service applied
  to requests to them.
\<close>

definition called :: "string \<Rightarrow> 'a \<Rightarrow> (string list, 'a) remote" where
  "called what x = (\<lambda>log. (log @ [what], Ok x))"

definition w_response :: "ProcessSpec \<Rightarrow> ProcessResponse" where
  "w_response spec = \<lparr>prSpec = spec, prStatus = \<lparr>pstState = ''starting'', pstErrorMsg = '''',
     pstConditions = Map.empty, pstPortStart = 10000, pstPortEnd = 10014, pstUuid = ''uuid-1''\<rparr>,
     prDeleted = False\<rparr>"

definition w_named :: "string \<Rightarrow> ProcessSpec" where
  "w_named name = \<lparr>psName = name, psBinary = ''/engine'', psArgs = [], psPortCount = 15, psPortArgs = []\<rparr>"

definition w_stub :: "string list pm_stub" where
  "w_stub = \<lparr>stub_connect = (\<lambda>_. r_ok ()),
     stub_ProcessCreate = (\<lambda>spec. called (''create '' @ psName spec) (w_response spec)),
     stub_ProcessDelete = (\<lambda>name uuid. called (''delete '' @ name) (w_response (w_named name))),
     stub_ProcessGet = (\<lambda>name. called (''get '' @ name) (w_response (w_named name))),
     stub_ProcessList = called ''list'' [],
     stub_ProcessReplace = (\<lambda>spec sig. called (''replace '' @ psName spec) (w_response spec)),
     stub_ProcessLog = (\<lambda>name. called (''log '' @ name) [Inr ''line'']) \<rparr>"

definition w_engine :: "string \<Rightarrow> Engine" where
  "w_engine n = \<lparr>eName = n, eState = ''running'', eErrorMsg = '''', ePort = 20001, eUUID = ''e-uuid''\<rparr>"

definition w_frontend :: "string \<Rightarrow> EngineFrontend" where
  "w_frontend n = \<lparr>efName = n, efEngineName = n, efTargetPort = 20002, efActivePath = '''',
     efPreferredPath = '''', efPaths = [None], efFrontend = ''spdk-tcp-blockdev'', efEndpoint = '''',
     efUUID = ''f-uuid'', efUblkID = 0, efState = ''running'', efErrorMsg = ''''\<rparr>"

definition w_replica :: "string \<Rightarrow> Replica" where
  "w_replica n = \<lparr>rName = n, rState = ''running'', rErrorMsg = '''', rPortStart = 20003, rPortEnd = 20007,
     rUUID = ''r-uuid''\<rparr>"

definition w_shard :: "string \<Rightarrow> Shard" where
  "w_shard n = \<lparr>shShardID = n, shState = ''running'', shErrorMsg = '''', shPort = 20008, shNvmfNqn = ''nqn'',
     shUUID = ''s-uuid''\<rparr>"

definition w_group :: "string \<Rightarrow> ShardGroup" where
  "w_group n = \<lparr>sgName = n, sgVolumeName = ''vol'', sgProcessState = ''running'', sgErrorMsg = '''',
     sgPort = 20009, sgNvmfNqn = ''nqn'', sgHeadLvolUuid = ''g-uuid''\<rparr>"

definition w_spdk :: "string list spdk_client" where
  "w_spdk = \<lparr>spdk_connect = r_ok (),
     spdk_EngineCreate = (\<lambda>a. called (''engine create '' @ ecName a) (w_engine (ecName a))),
     spdk_EngineDelete = (\<lambda>n. called (''engine delete '' @ n) ()),
     spdk_EngineDeleteTarget = (\<lambda>n. called (''engine delete target '' @ n) ()),
     spdk_EngineGet = (\<lambda>n. called (''engine get '' @ n) (w_engine n)),
     spdk_EngineList = r_ok [(''e-1'', w_engine ''e-1''), (''x'', w_engine ''x'')],
     spdk_EngineFrontendCreate = (\<lambda>a. called (''frontend create '' @ fcName a) (w_frontend (fcName a))),
     spdk_EngineFrontendDelete = (\<lambda>n. called (''frontend delete '' @ n) ()),
     spdk_EngineFrontendGet = (\<lambda>n. called (''frontend get '' @ n) (w_frontend n)),
     spdk_EngineFrontendList = r_ok [(''f-1'', w_frontend ''f-1'')],
     spdk_EngineFrontendSuspend = (\<lambda>n. called (''suspend '' @ n) ()),
     spdk_EngineFrontendResume = (\<lambda>n. called (''resume '' @ n) ()),
     spdk_EngineFrontendSwitchOver = (\<lambda>n e t p. called (''switch over '' @ n) ()),
     spdk_ReplicaCreate = (\<lambda>a. called (''replica create '' @ rcName a) (w_replica (rcName a))),
     spdk_ReplicaDelete = (\<lambda>n b. called (''replica delete '' @ n @ (if b then '' with data'' else '''')) ()),
     spdk_ReplicaGet = (\<lambda>n. called (''replica get '' @ n) (w_replica n)),
     spdk_ReplicaList = r_ok [(''x'', w_replica ''x'')],
     spdk_ShardCreate = (\<lambda>a. called (''shard create of '' @ scVolumeName a) (w_shard (scVolumeName a))),
     spdk_ShardDelete = (\<lambda>n b. called (''shard delete '' @ n @ (if b then '' with data'' else '''')) ()),
     spdk_ShardGet = (\<lambda>n. called (''shard get '' @ n) (w_shard n)),
     spdk_ShardList = r_ok [],
     spdk_ShardGroupCreate = (\<lambda>a. called (''group create '' @ gcName a) (w_group (gcName a))),
     spdk_ShardGroupDelete = (\<lambda>n b. called (''group delete '' @ n @ (if b then '' with data'' else '''')) ()),
     spdk_ShardGroupGet = (\<lambda>n. called (''group get '' @ n) (w_group n)),
     spdk_ShardGroupList = r_ok [(''g-1'', w_group ''g-1'')],
     spdk_LogSetLevel = (\<lambda>l. called (''log level '' @ l) ()),
     spdk_LogSetFlags = (\<lambda>f. called (''log flags '' @ f) ()),
     spdk_LogGetFlags = called ''log flags'' ''''\<rparr>"

definition w_server :: "string list Server" where
  "w_server = \<lparr>srvV1 = \<lparr>v1ProcessManagerServiceAddress = ''localhost:8500'', v1Stub = w_stub\<rparr>,
     srvV2 = \<lparr>v2Client = w_spdk\<rparr>, srvV2DataEngineEnabled = True\<rparr>"

lemmas w_service_defs = w_server_def w_spdk_def w_stub_def called_def

definition w_request :: "string \<Rightarrow> InstanceRequest" where
  "w_request t = \<lparr>iqName = ''x'', iqType = t, iqDataEngine = DATA_ENGINE_V2\<rparr>"

theorem only_frontends_suspend_witness:
  "\<exists>e. InstanceSuspend w_server (w_request InstanceTypeShard) [] = ([], Err e)
     \<and> status_code e = InvalidArgument"
  using only_frontends_suspend[of "w_request InstanceTypeShard" w_server "[]" "[]"]
  by (simp add: w_request_def w_service_defs instance_type_defs)

definition w_create :: client_InstanceCreateRequest where
  "w_create = \<lparr>qDataEngine = ''v1'', qName = ''vol-e-0'', qInstanceType = InstanceTypeEngine,
     qVolumeName = ''vol'', qSize = 0, qPortCount = 1, qPortArgs = [''--listen,localhost:''],
     qBinary = ''/engine'', qBinaryArgs = [''controller''],
     qEngine = \<lparr>qeReplicaAddressMap = [], qeFrontend = '''', qeUblkQueueDepth = 0, qeUblkNumberOfQueue = 0,
       qeInitiatorAddress = '''', qeTargetAddress = '''', qeUpgradeRequired = False,
       qeSalvageRequested = False, qeSnapshotMaxCount = 0\<rparr>,
     qEngineFrontend = \<lparr>qfFrontend = '''', qfUblkQueueDepth = 0, qfUblkNumberOfQueue = 0,
       qfNvmeTcpNrIoQueues = 0, qfTargetAddress = '''', qfEngineName = ''''\<rparr>,
     qReplica = \<lparr>qrDiskName = '''', qrDiskUUID = '''', qrExposeRequired = False, qrBackingImageName = ''''\<rparr>,
     qShard = \<lparr>qsLvsName = '''', qsLvsUUID = '''', qsSlotIndex = 0\<rparr>,
     qShardGroup = \<lparr>sgsDataChunks = 0, sgsParityChunks = 0, sgsStripSizeKb = 0, sgsShards = [],
       sgsSalvageRequested = False\<rparr>,
     qDataLayoutType = DATA_LAYOUT_TYPE_REPLICATED\<rparr>"

definition w_create_spec :: ProcessSpec where
  "w_create_spec = \<lparr>psName = ''vol-e-0'', psBinary = ''/engine'', psArgs = [''controller''], psPortCount = 1,
     psPortArgs = [''--listen,localhost:'']\<rparr>"

lemma w_create_v1: "\<not> has_suffix (strings_ToLower (qDataEngine w_create)) ''v2''"
  by code_simp

theorem v1_create_end_to_end_witness:
  "client_InstanceCreate (server_stub w_server) w_create [] =
     ([''create vol-e-0''],
      Ok (RPCToInstance (processResponseToInstanceResponse (w_response w_create_spec) InstanceTypeEngine)))"
  using v1_create_end_to_end[of w_create w_server "[]", OF _ _ _ w_create_v1]
  by (simp add: w_create_def w_create_spec_def w_service_defs instance_type_defs wrap32_id is_int32_def)

definition w_process :: Process where
  "w_process = \<lparr>pName = ''vol-e-0'', pBinary = ''/engine'', pArgs = [], pPortCount = 1, pPortArgs = [],
     pUUID = ''uuid-1'', pState = StateRunning, pErrorMsg = '''', pConditions = Map.empty,
     pPortStart = 10000, pPortEnd = 10000, pDeletionTimestamp = None, pcmd = None, plogger_open = True\<rparr>"

lemma w_process_fields:
  "pPortCount w_process = 1" "pState w_process = StateRunning" "pPortEnd w_process = 10000"
  by (simp_all add: w_process_def)

theorem instance_view_witness:
  "(let i = RPCToInstance (processResponseToInstanceResponse ((RPCResponse w_process)\<lparr>prDeleted := True\<rparr>)
              InstanceTypeEngine) in
    aisState (aiInstanceStatus i) = ''running'' \<and> aisTargetPortEnd (aiInstanceStatus i) = 10000 \<and> \<not> aiDeleted i)"
  using instance_view[of w_process True InstanceTypeEngine] unfolding w_process_fields
  by (simp add: is_int32_def Let_def ProcessStateRunning_def)

definition w_delete :: InstanceDeleteRequest where
  "w_delete = \<lparr>idrName = ''r-1'', idrUuid = '''', idrType = InstanceTypeReplica, idrDataEngine = DATA_ENGINE_V2,
     idrDiskUuid = '''', idrCleanupRequired = False\<rparr>"

theorem v2_delete_keeps_data_witness:
  "fst (InstanceDelete w_server w_delete []) = [''replica delete r-1'']"
  using v2_delete_keeps_data[of w_delete w_server "[]" "[]"]
  by (simp add: w_delete_def w_service_defs Let_def)

definition w_shard_spec :: "string \<Rightarrow> InstanceSpec" where
  "w_shard_spec name = zero_spec\<lparr>isName := name, isType := InstanceTypeShard, isVolumeName := ''vol'',
     isDataEngine := DATA_ENGINE_V2, isSpdkInstanceSpec := Some (zero_spdk_spec\<lparr>sisSlotIndex := 3\<rparr>)\<rparr>"

lemma w_itoa_3: "strconv_Itoa 3 = ''3''"
  by code_simp

theorem shard_name_checked_witness:
  "fst (V2_InstanceCreate (srvV2 w_server) (w_shard_spec ''vol-3'') DATA_LAYOUT_TYPE_SHARDED []) =
     [''shard create of vol'']
   \<and> (\<exists>e. V2_InstanceCreate (srvV2 w_server) (w_shard_spec ''vol-4'') DATA_LAYOUT_TYPE_SHARDED [] = ([], Err e)
        \<and> status_code e = InvalidArgument)"
  using shard_name_checked[of "w_shard_spec ''vol-3''" "zero_spdk_spec\<lparr>sisSlotIndex := 3\<rparr>" "srvV2 w_server"
      "[]" "[]" DATA_LAYOUT_TYPE_SHARDED]
    shard_name_checked[of "w_shard_spec ''vol-4''" "zero_spdk_spec\<lparr>sisSlotIndex := 3\<rparr>" "srvV2 w_server"
      "[]" "[]" DATA_LAYOUT_TYPE_SHARDED]
  by (simp add: w_shard_spec_def zero_spec_def zero_spdk_spec_def w_service_defs w_itoa_3)

theorem v2_create_without_spec_panics_witness:
  "V2_InstanceCreate (srvV2 w_server) (zero_spec\<lparr>isType := InstanceTypeEngine\<rparr>) DATA_LAYOUT_TYPE_SHARDED []
     = ([], Panic)"
  using v2_create_without_spec_panics[of "zero_spec\<lparr>isType := InstanceTypeEngine\<rparr>" "srvV2 w_server" "[]"
      DATA_LAYOUT_TYPE_SHARDED "srvV1 w_server"]
  by (simp add: zero_spec_def w_service_defs)

theorem v2_list_lookup_witness:
  "\<exists>m. V2_InstanceList (srvV2 w_server) Map.empty [] = ([], Ok m)
     \<and> m ''x'' = Some (engineResponseToInstanceResponse (w_engine ''x'')) \<and> m ''y'' = None"
proof -
  obtain m where m: "V2_InstanceList (srvV2 w_server) Map.empty [] = ([], Ok m)"
    and l: "\<forall>n. m n = first_some [
       map_option shardGroupResponseToInstanceResponse (last_named sgName [(''g-1'', w_group ''g-1'')] n),
       map_option shardResponseToInstanceResponse (last_named shShardID [] n),
       map_option engineFrontendResponseToInstanceResponse (last_named efName [(''f-1'', w_frontend ''f-1'')] n),
       map_option engineResponseToInstanceResponse
         (last_named eName [(''e-1'', w_engine ''e-1''), (''x'', w_engine ''x'')] n),
       map_option replicaResponseToInstanceResponse (last_named rName [(''x'', w_replica ''x'')] n), None]"
    using v2_list_lookup[of "srvV2 w_server" "[]" "[(''x'', w_replica ''x'')]"
        "[(''e-1'', w_engine ''e-1''), (''x'', w_engine ''x'')]" "[(''f-1'', w_frontend ''f-1'')]" "[]"
        "[(''g-1'', w_group ''g-1'')]" Map.empty]
    by (auto simp: w_service_defs)
  from m l[rule_format, of "''x''"] l[rule_format, of "''y''"] show ?thesis
    by (simp add: w_group_def w_frontend_def w_engine_def w_replica_def)
qed

lemma w_upper: "strings_ToUpper ''debug'' = ''DEBUG''"
  by code_simp

theorem v2_log_level_not_read_back_witness:
  "LogSetLevel w_server DATA_ENGINE_V2 ''debug'' (InfoLevel, []) = ((InfoLevel, [''log level DEBUG'']), Ok ())
   \<and> snd (LogGetLevel w_server DATA_ENGINE_V2 (InfoLevel, [''log level DEBUG''])) = Ok ''info''"
proof -
  have "LogSetLevel w_server DATA_ENGINE_V2 ''debug'' (InfoLevel, []) = ((InfoLevel, [''log level DEBUG'']), Ok ())"
    by (simp add: LogSetLevel_def V2_LogSetLevel_def in_service_def v2_client_def w_service_defs
        r_map_def r_map_err_apply r_bind_def w_upper)
  with v2_log_level_not_read_back[OF this] show ?thesis by simp
qed

theorem watch_process_contract_witness:
  "watchProcess None [RecvItem, RecvErr (PlainError ''timeout''), RecvItem] = (2, None)
   \<and> watchProcess None ([RecvItem, RecvErr (PlainError ''timeout''), RecvItem]
        @ CtxDone (PlainError ''context canceled'') # [RecvItem]) = (2, Some (PlainError ''context canceled''))"
  using watch_process_contract[of "[RecvItem, RecvErr (PlainError ''timeout''), RecvItem]"
      "PlainError ''context canceled''" "[RecvItem]"]
  by (simp add: is_canceled_def FromError_def maxMonitorRetryCount_def)

end
