(* ===== verification/Instance_Client_Log.thy ===== *)
theory Instance_Client_Log
  imports Instance_Client
begin

text \<open>
  The rest of the instance client (\<^verbatim>\<open>pkg/client/instance.go\<close>): log settings, the log of an instance and the
  version, which the client of the process manager asks for in the same way; and the constructor of the server.
\<close>

section \<open>The server\<close>

definition instance_NewServer ::
  "string \<Rightarrow> 's pm_stub \<Rightarrow> 's spdk_client \<Rightarrow> bool \<Rightarrow> 's Server" where
  "instance_NewServer processManagerServiceAddress pm spdk v2DataEngineEnabled =
     \<lparr>srvV1 = \<lparr>v1ProcessManagerServiceAddress = processManagerServiceAddress, v1Stub = pm\<rparr>,
      srvV2 = \<lparr>v2Client = spdk\<rparr>, srvV2DataEngineEnabled = v2DataEngineEnabled\<rparr>"

definition instance_VersionGet :: "build_vars \<Rightarrow> VersionOutput" where
  "instance_VersionGet bv = (let v = GetVersion bv in
     \<lparr>voVersion = voVersion v, voGitCommit = voGitCommit v, voBuildDate = voBuildDate v,
      voInstanceManagerAPIVersion = wrap64 (voInstanceManagerAPIVersion v),
      voInstanceManagerAPIMinVersion = wrap64 (voInstanceManagerAPIMinVersion v),
      voInstanceManagerProxyAPIVersion = wrap64 (voInstanceManagerProxyAPIVersion v),
      voInstanceManagerProxyAPIMinVersion = wrap64 (voInstanceManagerProxyAPIMinVersion v)\<rparr>)"

section \<open>The client\<close>

record 's log_stub =
  ls_VersionGet :: "('s, VersionOutput) remote"
  ls_LogSetLevel :: "DataEngine \<Rightarrow> string \<Rightarrow> ('s, unit) remote"
  ls_LogSetFlags :: "DataEngine \<Rightarrow> string \<Rightarrow> ('s, unit) remote"
  ls_LogGetLevel :: "DataEngine \<Rightarrow> ('s, string) remote"
  ls_LogGetFlags :: "DataEngine \<Rightarrow> ('s, string) remote"

definition version_output :: "VersionOutput \<Rightarrow> VersionOutput" where
  "version_output resp = \<lparr>voVersion = voVersion resp, voGitCommit = voGitCommit resp, voBuildDate = voBuildDate resp,
     voInstanceManagerAPIVersion = wrap64 (voInstanceManagerAPIVersion resp),
     voInstanceManagerAPIMinVersion = wrap64 (voInstanceManagerAPIMinVersion resp),
     voInstanceManagerProxyAPIVersion = wrap64 (voInstanceManagerProxyAPIVersion resp),
     voInstanceManagerProxyAPIMinVersion = wrap64 (voInstanceManagerProxyAPIMinVersion resp)\<rparr>"

definition client_VersionGet :: "'s log_stub \<Rightarrow> ('s, VersionOutput) remote" where
  "client_VersionGet c = r_map version_output (r_map_err (WrapError ''failed to get version'') (ls_VersionGet c))"

definition pmc_VersionGet :: "('s, VersionOutput) remote \<Rightarrow> ('s, VersionOutput) remote" where
  "pmc_VersionGet service = r_map version_output (r_map_err (WrapError ''failed to get version'') service)"

definition client_LogSetLevel :: "'s log_stub \<Rightarrow> string \<Rightarrow> string \<Rightarrow> string \<Rightarrow> ('s, unit) remote" where
  "client_LogSetLevel c dataEngine service level =
     with_driver ''set log level'' dataEngine (\<lambda>d. ls_LogSetLevel c d level)"

definition client_LogSetFlags :: "'s log_stub \<Rightarrow> string \<Rightarrow> string \<Rightarrow> string \<Rightarrow> ('s, unit) remote" where
  "client_LogSetFlags c dataEngine service flags =
     with_driver ''set log flags'' dataEngine (\<lambda>d. ls_LogSetFlags c d flags)"

definition client_LogGetLevel :: "'s log_stub \<Rightarrow> string \<Rightarrow> string \<Rightarrow> ('s, string) remote" where
  "client_LogGetLevel c dataEngine service = with_driver ''get log level'' dataEngine (\<lambda>d. ls_LogGetLevel c d)"

definition client_LogGetFlags :: "'s log_stub \<Rightarrow> string \<Rightarrow> string \<Rightarrow> ('s, string) remote" where
  "client_LogGetFlags c dataEngine service = with_driver ''get log flags'' dataEngine (\<lambda>d. ls_LogGetFlags c d)"

text \<open>The server behind the connection. The state is the log level beside the state of the services.\<close>

definition log_server_stub :: "build_vars \<Rightarrow> 's Server \<Rightarrow> (Level \<times> 's) log_stub" where
  "log_server_stub bv s = \<lparr>ls_VersionGet = r_ok (instance_VersionGet bv),
     ls_LogSetLevel = (\<lambda>d l. over_wire (LogSetLevel s d l)), ls_LogSetFlags = (\<lambda>d f. over_wire (LogSetFlags s d f)),
     ls_LogGetLevel = (\<lambda>d. over_wire (LogGetLevel s d)), ls_LogGetFlags = (\<lambda>d. over_wire (LogGetFlags s d))\<rparr>"

lemma version_arrives: "client_VersionGet (log_server_stub bv srv) s = (s, Ok (GetVersion bv))"
  by (simp add: client_VersionGet_def log_server_stub_def instance_VersionGet_def version_output_def GetVersion_def Let_def
      r_map_apply r_map_err_apply wrap64_def InstanceManagerAPIVersion_def InstanceManagerAPIMinVersion_def
      InstanceManagerProxyAPIVersion_def InstanceManagerProxyAPIMinVersion_def)

lemma v1_name: "\<not> has_suffix (strings_ToLower de) ''v2'' \<Longrightarrow> with_driver what de f = f DATA_ENGINE_V1"
  by (simp add: with_driver_def DataEngine_value_getDataEngine)

text \<open>
  A level set for the V1 engine is the level read back, in the spelling of the library; a name that is no level is
  refused and the level stays.
\<close>

lemma v1_log_level_roundtrip:
  fixes srv :: "'s Server" and bv :: build_vars
  assumes "\<not> has_suffix (strings_ToLower de) ''v2''"
  defines "c \<equiv> log_server_stub bv srv"
  shows "ParseLevel name = Ok new \<Longrightarrow> client_LogSetLevel c de svc name (old, s) = ((new, s), Ok ())
         \<and> client_LogGetLevel c de svc (new, s) = ((new, s), Ok (Level_String new))"
    and "ParseLevel name = Err e \<Longrightarrow> fst (client_LogSetLevel c de svc name (old, s)) = (old, s)"
  by (simp_all add: c_def client_LogSetLevel_def client_LogGetLevel_def v1_name[OF assms(1)] log_server_stub_def over_wire_def
      LogSetLevel_def LogGetLevel_def V1_LogSetLevel_def V1_LogGetLevel_def logSetLevel_def r_map_err_apply)

end
