(* ===== verification/Watch_Group.thy ===== *)
theory Watch_Group
  imports Instance_Watch
begin

text \<open>
  \<^verbatim>\<open>InstanceWatch\<close> of \<^verbatim>\<open>pkg/instance/instance.go\<close> and \<^verbatim>\<open>SPDKBackingImageWatch\<close> of
  \<^verbatim>\<open>pkg/proxy/backing_image.go\<close>: a group of goroutines, one per watch loop, that report to one goroutine which
  notifies the caller, over a channel with room for 1024 notifications. The first error of the group cancels the
  context of all; the notifying goroutine closes the clients when it ends, which is what wakes a loop that
  waits in \<^verbatim>\<open>Recv\<close>; the handler waits for all of them. The loops here are those of theory
  \<open>Instance_Watch\<close>, cut at their points of interaction.
\<close>

section \<open>State\<close>

text \<open>
  A loop opens its stream, then goes round: it checks the context, receives, and forwards. \<open>gPushed\<close>, \<open>gSent\<close>
  and \<open>gLost\<close> count the notifications put into the channel, sent, and taken but not sent.
\<close>

datatype loop = Opening | Checking nat | Receiving nat | Forwarding nat | LoopEnded

datatype notifier = Notifying | Returning go_error | NotifierEnded

record watch_group =
  gLoops :: "loop list"
  gNotifier :: notifier
  gBuf :: nat
  gPushed :: nat
  gSent :: nat
  gLost :: nat
  gErr :: "go_error option"
  gCancelled :: bool
  gDone :: bool
  gClosed :: bool
  gResult :: "unit go_result option"

text \<open>The messages of a group, and its loops with their names.\<close>

record watch_spec =
  wsLoops :: "(string \<times> string) list"
  wsSendFailed :: string
  wsWaitFailed :: string

definition instance_loops :: "bool \<Rightarrow> (string \<times> string) list" where
  "instance_loops v2DataEngineEnabled = (''process'', ''processes'') #
     (if v2DataEngineEnabled then [(''SPDK engine'', ''SPDK engines''), (''SPDK engine frontend'', ''SPDK engine frontends''),
        (''SPDK replica'', ''SPDK replicas''), (''SPDK shard'', ''SPDK shards''), (''SPDK shardgroup'', ''SPDK shardgroups'')]
      else [])"

definition instance_group :: "bool \<Rightarrow> watch_spec" where
  "instance_group v2DataEngineEnabled = \<lparr>wsLoops = instance_loops v2DataEngineEnabled,
     wsSendFailed = ''failed to send instance response'', wsWaitFailed = ''failed to watch instances''\<rparr>"

definition backing_image_group :: watch_spec where
  "backing_image_group = \<lparr>wsLoops = [(''SPDK replica'', ''SPDK backing images'')],
     wsSendFailed = ''failed to send backing image response'', wsWaitFailed = ''failed to watch backing images''\<rparr>"

definition group_start :: "watch_spec \<Rightarrow> watch_group" where
  "group_start ws = \<lparr>gLoops = replicate (length (wsLoops ws)) Opening, gNotifier = Notifying, gBuf = 0, gPushed = 0,
     gSent = 0, gLost = 0, gErr = None, gCancelled = False, gDone = False, gClosed = False, gResult = None\<rparr>"

text \<open>The handlers: the clients first, then the group.\<close>

definition InstanceWatch :: "bool \<Rightarrow> unit go_result \<Rightarrow> unit go_result \<Rightarrow> watch_group go_result" where
  "InstanceWatch v2DataEngineEnabled pmClient spdkClient =
     go_bind (map_err (status_wrap Internal ''failed to create ProcessManagerClient'') pmClient) (\<lambda>_.
     go_bind (if v2DataEngineEnabled then map_err (status_wrap Internal ''failed to create SPDK client'') spdkClient else Ok ())
       (\<lambda>_. Ok (group_start (instance_group v2DataEngineEnabled))))"

definition SPDKBackingImageWatch :: "unit go_result \<Rightarrow> watch_group go_result" where
  "SPDKBackingImageWatch spdkClient =
     go_bind (map_err (status_wrap Internal ''failed to create SPDK client'') spdkClient) (\<lambda>_.
     Ok (group_start backing_image_group))"

section \<open>Steps\<close>

definition notify_capacity :: nat where "notify_capacity = 1024"

definition ctx_error :: go_error where "ctx_error = PlainError ''context canceled''"

text \<open>\<^verbatim>\<open>errgroup\<close> keeps the first error and cancels the context with it.\<close>

definition record_error :: "go_error \<Rightarrow> watch_group \<Rightarrow> watch_group" where
  "record_error e g = g\<lparr>gErr := (case gErr g of None \<Rightarrow> Some e | Some f \<Rightarrow> Some f), gCancelled := True\<rparr>"

definition set_loop :: "nat \<Rightarrow> loop \<Rightarrow> watch_group \<Rightarrow> watch_group" where
  "set_loop i l g = g\<lparr>gLoops := (gLoops g)[i := l]\<rparr>"

definition end_loop :: "nat \<Rightarrow> go_error \<Rightarrow> watch_group \<Rightarrow> watch_group" where
  "end_loop i e g = record_error e (set_loop i LoopEnded g)"

datatype group_event =
    ParentDone
  | Opened nat "go_error option"
  | Check nat
  | Received nat
  | RecvFailed nat go_error
  | Forward nat
  | SendOk
  | SendFailed go_error
  | NotifierDone
  | NotifierReturn
  | CloseClients
  | GroupWait

text \<open>One loop at its point of interaction; \<open>None\<close> where the event cannot happen.\<close>

definition loop_at :: "watch_group \<Rightarrow> nat \<Rightarrow> loop option" where
  "loop_at g i = (if i < length (gLoops g) then Some (gLoops g ! i) else None)"

fun group_do :: "watch_spec \<Rightarrow> group_event \<Rightarrow> watch_group \<Rightarrow> watch_group option" where
  "group_do ws ParentDone g = (if gCancelled g then None else Some (g\<lparr>gCancelled := True\<rparr>))"
| "group_do ws (Opened i err) g = (if loop_at g i \<noteq> Some Opening then None else case err of
     None \<Rightarrow> Some (set_loop i (Checking 0) g)
   | Some e \<Rightarrow> Some (end_loop i (WrapError (''failed to create '' @ fst (wsLoops ws ! i) @ '' watch notifier'') e) g))"
| "group_do ws (Check i) g = (case loop_at g i of
     Some (Checking k) \<Rightarrow> Some
       (if k \<ge> maxMonitorRetryCount then end_loop i (continuous_error (snd (wsLoops ws ! i))) g
        else if gCancelled g then end_loop i ctx_error g
        else set_loop i (Receiving k) g)
   | _ \<Rightarrow> None)"
| "group_do ws (Received i) g = (case loop_at g i of Some (Receiving k) \<Rightarrow> Some (set_loop i (Forwarding k) g) | _ \<Rightarrow> None)"
| "group_do ws (RecvFailed i e) g = (case loop_at g i of
     Some (Receiving k) \<Rightarrow> Some (if is_canceled e then end_loop i e g else set_loop i (Checking (Suc k)) g)
   | _ \<Rightarrow> None)"
| "group_do ws (Forward i) g = (case loop_at g i of
     Some (Forwarding k) \<Rightarrow>
       if gBuf g < notify_capacity then Some ((set_loop i (Checking k) g)\<lparr>gBuf := Suc (gBuf g), gPushed := Suc (gPushed g)\<rparr>)
       else None
   | _ \<Rightarrow> None)"
| "group_do ws SendOk g =
     (if gNotifier g = Notifying \<and> gBuf g > 0 then Some (g\<lparr>gBuf := gBuf g - 1, gSent := Suc (gSent g)\<rparr>) else None)"
| "group_do ws (SendFailed e) g =
     (if gNotifier g = Notifying \<and> gBuf g > 0 then
        Some (g\<lparr>gBuf := gBuf g - 1, gLost := Suc (gLost g), gNotifier := Returning (WrapError (wsSendFailed ws) e), gDone := True\<rparr>)
      else None)"
| "group_do ws NotifierDone g =
     (if gNotifier g = Notifying \<and> gCancelled g then Some (g\<lparr>gNotifier := Returning ctx_error, gDone := True\<rparr>) else None)"
| "group_do ws NotifierReturn g = (case gNotifier g of
     Returning e \<Rightarrow> Some (record_error e (g\<lparr>gNotifier := NotifierEnded\<rparr>)) | _ \<Rightarrow> None)"
| "group_do ws CloseClients g = (if gDone g \<and> \<not> gClosed g then Some (g\<lparr>gClosed := True\<rparr>) else None)"
| "group_do ws GroupWait g =
     (if gNotifier g = NotifierEnded \<and> list_all (\<lambda>l. l = LoopEnded) (gLoops g) \<and> gResult g = None then
        Some (g\<lparr>gResult := Some (case gErr g of None \<Rightarrow> Ok () | Some e \<Rightarrow> Err (WrapError (wsWaitFailed ws) e))\<rparr>)
      else None)"

inductive group_step :: "watch_spec \<Rightarrow> watch_group \<Rightarrow> watch_group \<Rightarrow> bool" for ws where
  group_step_do: "group_do ws ev g = Some g' \<Longrightarrow> group_step ws g g'"

inductive_cases group_stepE [elim!]: "group_step ws g g'"

definition group_run :: "watch_spec \<Rightarrow> watch_group \<Rightarrow> bool" where
  "group_run ws g \<longleftrightarrow> (group_step ws)\<^sup>*\<^sup>* (group_start ws) g"

lemmas loop_defs = loop_at_def set_loop_def end_loop_def record_error_def

lemma loop_at_Some: "loop_at g i = Some l \<longleftrightarrow> i < length (gLoops g) \<and> gLoops g ! i = l"
  by (simp add: loop_at_def)

section \<open>What holds in every run\<close>

definition group_ok :: "watch_spec \<Rightarrow> watch_group \<Rightarrow> bool" where
  "group_ok ws g \<longleftrightarrow> length (gLoops g) = length (wsLoops ws)
     \<and> gBuf g \<le> notify_capacity \<and> gSent g + gBuf g + gLost g = gPushed g
     \<and> gLost g \<le> (if gDone g then 1 else 0)
     \<and> (gDone g \<longleftrightarrow> gNotifier g \<noteq> Notifying) \<and> (gClosed g \<longrightarrow> gDone g)
     \<and> (gNotifier g = NotifierEnded \<longrightarrow> gErr g \<noteq> None) \<and> (gErr g \<noteq> None \<longrightarrow> gCancelled g)
     \<and> (\<forall>r. gResult g = Some r \<longrightarrow> gNotifier g = NotifierEnded \<and> list_all (\<lambda>l. l = LoopEnded) (gLoops g)
          \<and> (\<exists>e. gErr g = Some e \<and> r = Err (WrapError (wsWaitFailed ws) e)))"

lemma group_ok_start: "group_ok ws (group_start ws)"
  by (simp add: group_ok_def group_start_def)

lemma ended_stays:
  "list_all (\<lambda>l. l = LoopEnded) (gLoops g) \<Longrightarrow> loop_at g i = Some l \<Longrightarrow> l = LoopEnded"
  by (auto simp: list_all_length loop_at_Some)

lemma group_ok_loop:
  assumes "group_ok ws g" "loop_at g i = Some l" "l \<noteq> LoopEnded"
  shows "group_ok ws (set_loop i l' g)" "group_ok ws (end_loop i e g)"
  using assms ended_stays[of g i l] by (auto simp: group_ok_def loop_defs split: option.splits)

lemma group_ok_do:
  assumes "group_ok ws g" "group_do ws ev g = Some g'"
  shows "group_ok ws g'"
proof (cases ev)
  case (Opened i err)
  then show ?thesis using assms group_ok_loop[OF assms(1), of i Opening] by (auto split: if_splits option.splits)
next
  case (Check i)
  then obtain k where "loop_at g i = Some (Checking k)" using assms(2) by (auto split: option.splits loop.splits)
  then show ?thesis using assms(2) Check group_ok_loop[OF assms(1), of i "Checking k"] by (auto split: if_splits)
next
  case (Received i)
  then obtain k where "loop_at g i = Some (Receiving k)" using assms(2) by (auto split: option.splits loop.splits)
  then show ?thesis using assms(2) Received group_ok_loop[OF assms(1), of i "Receiving k"] by auto
next
  case (RecvFailed i e)
  then obtain k where "loop_at g i = Some (Receiving k)" using assms(2) by (auto split: option.splits loop.splits)
  then show ?thesis using assms(2) RecvFailed group_ok_loop[OF assms(1), of i "Receiving k"] by (auto split: if_splits)
next
  case (Forward i)
  then obtain k where k: "loop_at g i = Some (Forwarding k)" using assms(2) by (auto split: option.splits loop.splits)
  then have "group_ok ws (set_loop i (Checking k) g)" using group_ok_loop(1)[OF assms(1)] by blast
  then show ?thesis using assms(2) Forward k by (auto simp: group_ok_def set_loop_def split: if_splits)
qed (use assms in \<open>auto simp: group_ok_def record_error_def split: if_splits notifier.splits option.splits\<close>)

lemma group_run_ok: "group_run ws g \<Longrightarrow> group_ok ws g"
  unfolding group_run_def by (induction rule: rtranclp_induct) (auto intro: group_ok_start group_ok_do)

text \<open>
  The group keeps its books. In every state of every run the notifications put into the channel are those sent,
  those waiting (never more than the channel holds) and at most one that could not be sent; and the handler returns
  only when every goroutine has ended, with the first error any of them had.
\<close>

theorem watch_group_accounts:
  assumes "group_run ws g"
  shows "gBuf g \<le> notify_capacity \<and> gSent g + gBuf g + gLost g = gPushed g \<and> gLost g \<le> 1
    \<and> (\<forall>r. gResult g = Some r \<longrightarrow> gNotifier g = NotifierEnded \<and> list_all (\<lambda>l. l = LoopEnded) (gLoops g)
         \<and> (\<exists>e. gErr g = Some e \<and> r = Err (WrapError (wsWaitFailed ws) e)))"
  using group_run_ok[OF assms] by (auto simp: group_ok_def split: if_splits)

section \<open>After a cancellation\<close>

text \<open>The steps the goroutines have left at most once the context is cancelled.\<close>

fun loop_work :: "loop \<Rightarrow> nat" where
  "loop_work Opening = 2"
| "loop_work (Checking k) = 1"
| "loop_work (Receiving k) = 4"
| "loop_work (Forwarding k) = 3"
| "loop_work LoopEnded = 0"

fun notifier_work :: "notifier \<Rightarrow> nat" where
  "notifier_work Notifying = 2"
| "notifier_work (Returning e) = 1"
| "notifier_work NotifierEnded = 0"

definition work :: "watch_group \<Rightarrow> nat" where
  "work g = sum_list (map loop_work (gLoops g)) + gBuf g + notifier_work (gNotifier g)
     + (if gClosed g then 0 else 1) + (if gResult g = None then 1 else 0)"

lemma sum_list_map_update:
  "i < length xs \<Longrightarrow> sum_list (map f (xs[i := y])) + f (xs ! i) = sum_list (map f xs) + (f y :: nat)"
proof (induction xs arbitrary: i)
  case (Cons x xs)
  then show ?case by (cases i) auto
qed simp

lemma work_loop:
  assumes "loop_at g i = Some l"
  shows "work (set_loop i l' g) + loop_work l = work g + loop_work l'"
    and "work (end_loop i e g) + loop_work l = work g"
  using assms sum_list_map_update[of i "gLoops g" loop_work l'] sum_list_map_update[of i "gLoops g" loop_work LoopEnded]
  by (auto simp: work_def loop_defs split: if_splits)

lemma loop_cancelled [simp]: "gCancelled (set_loop i l g) = gCancelled g" "gCancelled (end_loop i e g)"
  by (simp_all add: loop_defs)

lemma work_decreases:
  assumes "group_do ws ev g = Some g'" "gCancelled g"
  shows "work g' < work g \<and> gCancelled g'"
proof (cases ev)
  case (Opened i err)
  then have at: "loop_at g i = Some Opening" using assms(1) by (auto split: if_splits)
  then have "g' = set_loop i (Checking 0) g \<or> (\<exists>e. g' = end_loop i e g)"
    using assms(1) Opened by (auto split: option.splits)
  then show ?thesis
  proof (elim disjE exE)
    assume "g' = set_loop i (Checking 0) g"
    then show ?thesis using work_loop(1)[OF at, of "Checking 0"] assms(2) by simp
  next
    fix e
    assume "g' = end_loop i e g"
    then show ?thesis using work_loop(2)[OF at, of e] by simp
  qed
next
  case (Check i)
  then obtain k where k: "loop_at g i = Some (Checking k)" using assms(1) by (auto split: option.splits loop.splits)
  then obtain e where "g' = end_loop i e g" using assms Check by (auto split: if_splits)
  then show ?thesis using work_loop(2)[OF k, of e] by (simp add: end_loop_def record_error_def)
next
  case (Received i)
  then obtain k where k: "loop_at g i = Some (Receiving k)" using assms(1) by (auto split: option.splits loop.splits)
  then show ?thesis using assms Received work_loop(1)[OF k, of "Forwarding k"] by (auto simp: set_loop_def)
next
  case (RecvFailed i e)
  then obtain k where k: "loop_at g i = Some (Receiving k)" using assms(1) by (auto split: option.splits loop.splits)
  then show ?thesis using assms RecvFailed work_loop(1)[OF k, of "Checking (Suc k)"] work_loop(2)[OF k, of e]
    by (auto simp: loop_defs split: if_splits)
next
  case (Forward i)
  then obtain k where k: "loop_at g i = Some (Forwarding k)" using assms(1) by (auto split: option.splits loop.splits)
  then show ?thesis using assms Forward work_loop(1)[OF k, of "Checking k"]
    by (auto simp: set_loop_def work_def split: if_splits)
qed (use assms in \<open>auto simp: work_def record_error_def split: if_splits notifier.splits\<close>)

lemma work_run:
  "(group_step ws ^^ n) g g' \<Longrightarrow> gCancelled g \<Longrightarrow> n + work g' \<le> work g \<and> gCancelled g'"
proof (induction n arbitrary: g)
  case (Suc n)
  then obtain h where h: "group_step ws g h" "(group_step ws ^^ n) h g'" by (metis relpowp_Suc_D2)
  then have "work h < work g" "gCancelled h" using work_decreases Suc.prems(2) by blast+
  then show ?case using Suc.IH[OF h(2)] by simp
qed simp

lemma work_bound:
  assumes "group_ok ws g"
  shows "work g \<le> 4 * length (wsLoops ws) + 1028"
proof -
  have "loop_work l \<le> 4" for l by (cases l) simp_all
  then have "sum_list (map loop_work ls) \<le> 4 * length ls" for ls by (induction ls) (simp_all add: add_mono)
  then have "sum_list (map loop_work (gLoops g)) \<le> 4 * length (wsLoops ws)" using assms by (metis group_ok_def)
  moreover have "notifier_work (gNotifier g) \<le> 2" by (cases "gNotifier g") simp_all
  moreover have "gBuf g \<le> 1024" using assms by (simp add: group_ok_def notify_capacity_def)
  ultimately show ?thesis by (simp add: work_def)
qed

text \<open>What a group that cannot take a step is waiting for.\<close>

lemma stuck_group:
  assumes "group_ok ws g" "gCancelled g" "\<nexists>g'. group_step ws g g'" "gResult g = None"
  shows "gBuf g = notify_capacity \<and> (\<exists>k. Forwarding k \<in> set (gLoops g))"
proof -
  have no: "group_do ws ev g = None" for ev using assms(3) group_step_do by (metis not_Some_eq)
  have "gNotifier g = NotifierEnded" using no[of NotifierDone] no[of NotifierReturn] assms(2) by (cases "gNotifier g") auto
  then obtain i where i: "i < length (gLoops g)" "gLoops g ! i \<noteq> LoopEnded"
    using no[of GroupWait] assms(4) by (auto simp: list_all_length split: if_splits)
  have at: "loop_at g i = Some (gLoops g ! i)" using i(1) by (simp add: loop_at_def)
  obtain k where k: "gLoops g ! i = Forwarding k"
    using no[of "Opened i None"] no[of "Check i"] no[of "Received i"] i(2) unfolding group_do.simps at
    by (cases "gLoops g ! i") auto
  then have "\<not> gBuf g < notify_capacity" using no[of "Forward i"] at by auto
  then show ?thesis using assms(1) k i(1) nth_mem[of i "gLoops g"] by (auto simp: group_ok_def)
qed


section \<open>Runs\<close>

fun group_exec :: "watch_spec \<Rightarrow> group_event list \<Rightarrow> watch_group \<Rightarrow> watch_group option" where
  "group_exec ws [] g = Some g"
| "group_exec ws (ev # evs) g = (case group_do ws ev g of None \<Rightarrow> None | Some h \<Rightarrow> group_exec ws evs h)"

lemma exec_steps: "group_exec ws evs g = Some g' \<Longrightarrow> (group_step ws ^^ length evs) g g'"
proof (induction evs arbitrary: g)
  case (Cons ev evs)
  then obtain h where "group_do ws ev g = Some h" "group_exec ws evs h = Some g'" by (auto split: option.splits)
  from relpowp_Suc_I2[OF group_step_do[OF this(1)] Cons.IH[OF this(2)]]
  show ?case by (simp only: length_Cons)
qed simp

lemma exec_run: "group_run ws g \<Longrightarrow> group_exec ws evs g = Some g' \<Longrightarrow> group_run ws g'"
  unfolding group_run_def by (metis exec_steps relpowp_imp_rtranclp rtranclp_trans)

lemma run_start: "group_run ws (group_start ws)"
  by (simp add: group_run_def)

text \<open>The group that watches processes only, with \<open>n\<close> notifications nobody has read.\<close>

definition filled :: "nat \<Rightarrow> watch_group" where
  "filled n = (group_start (instance_group False))\<lparr>gLoops := [Checking 0], gBuf := n, gPushed := n\<rparr>"

lemmas group_run_defs = filled_def group_start_def instance_group_def instance_loops_def loop_defs notify_capacity_def
  maxMonitorRetryCount_def

lemma filled_run: "n \<le> notify_capacity \<Longrightarrow> group_run (instance_group False) (filled n)"
proof (induction n)
  case 0
  have "group_exec (instance_group False) [Opened 0 None] (group_start (instance_group False)) = Some (filled 0)"
    by (simp add: group_run_defs)
  then show ?case by (rule exec_run[OF run_start])
next
  case (Suc n)
  then have "n < notify_capacity" by simp
  then have "group_exec (instance_group False) [Check 0, Received 0, Forward 0] (filled n) = Some (filled (Suc n))"
    by (simp add: filled_def group_start_def instance_group_def instance_loops_def loop_defs maxMonitorRetryCount_def)
  moreover have "group_run (instance_group False) (filled n)" using Suc by simp
  ultimately show ?case using exec_run by blast
qed

definition gone :: go_error where "gone = StatusError Unavailable ''transport is closing''"

definition stuck :: watch_group where
  "stuck = (filled notify_capacity)\<lparr>gLoops := [Forwarding 0], gPushed := Suc notify_capacity, gLost := 1,
     gNotifier := NotifierEnded, gErr := Some (WrapError ''failed to send instance response'' gone), gCancelled := True,
     gDone := True, gClosed := True\<rparr>"

lemma stuck_no_step: "group_do (instance_group False) ev stuck = None"
  by (cases ev) (auto simp: stuck_def group_run_defs)

lemma stuck_run: "group_run (instance_group False) stuck"
proof -
  have "group_exec (instance_group False)
      [Check 0, Received 0, SendFailed gone, Forward 0, Check 0, Received 0, NotifierReturn, CloseClients]
      (filled notify_capacity) = Some stuck"
    by (simp add: group_run_defs stuck_def)
  then show ?thesis by (rule exec_run[OF filled_run[OF order_refl]])
qed

text \<open>
  C40: A caller that is slow and then goes away can leave its handler behind for good: there is a run in which the
  channel is full, the notification of the caller fails, the context is cancelled and the clients are closed,
  and from there neither the handler nor any of its goroutines can ever take a step.
\<close>

theorem watch_group_hangs:
  "\<exists>g. group_run (instance_group False) g \<and> gCancelled g \<and> gClosed g \<and> gResult g = None
     \<and> (\<nexists>h. group_step (instance_group False) g h)"
proof -
  have "\<nexists>h. group_step (instance_group False) stuck h" using stuck_no_step by auto
  then show ?thesis using stuck_run by (intro exI[of _ stuck]) (simp add: stuck_def filled_def group_start_def)
qed

definition w_wind_down :: "group_event list" where
  "w_wind_down = [Opened 0 None, Check 0, NotifierDone, NotifierReturn, CloseClients, GroupWait]"

definition w_cancelled :: watch_group where
  "w_cancelled = (group_start (instance_group False))\<lparr>gCancelled := True\<rparr>"

definition w_ended :: watch_group where
  "w_ended = w_cancelled\<lparr>gLoops := [LoopEnded], gNotifier := NotifierEnded, gErr := Some ctx_error, gDone := True,
     gClosed := True, gResult := Some (Err (WrapError ''failed to watch instances'' ctx_error))\<rparr>"

lemma w_cancelled_run: "group_run (instance_group False) w_cancelled"
proof -
  have "group_exec (instance_group False) [ParentDone] (group_start (instance_group False)) = Some w_cancelled"
    by (simp add: w_cancelled_def group_start_def)
  then show ?thesis by (rule exec_run[OF run_start])
qed

lemma w_ended_steps: "(group_step (instance_group False) ^^ length w_wind_down) w_cancelled w_ended"
  by (rule exec_steps) (simp add: w_wind_down_def w_cancelled_def w_ended_def group_run_defs)


theorem watch_group_accounts_witness:
  "gBuf stuck = notify_capacity \<and> gSent stuck + gBuf stuck + gLost stuck = gPushed stuck \<and> gLost stuck \<le> 1"
  using watch_group_accounts[OF stuck_run] by (simp add: stuck_def filled_def group_start_def)

end
