(* ===== verification/Broadcaster.thy ===== *)
theory Broadcaster
  imports IM_Types "HOL-Library.Sublist"
begin

text \<open>
  \<^verbatim>\<open>pkg/util/broadcaster/broadcaster.go\<close>: one stream of items copied to the buffered channels of all
  subscribers. Each critical section of the mutex is one step; the goroutines that wait for the mutex
  are part of the state. Sending on a closed channel and closing it twice are panics.
\<close>

section \<open>State\<close>

text \<open>
  A channel has its buffer and whether it is closed. The other three fields observe it: the
  items its subscriber has taken, the items the stream offered while it was subscribed, and how many of
  those were dropped.
\<close>

record 'i sub_chan =
  scBuf :: "'i list"
  scClosed :: bool
  scTaken :: "'i list"
  scOffered :: "'i list"
  scDropped :: nat

definition new_chan :: "'i sub_chan" where
  "new_chan = \<lparr>scBuf = [], scClosed = False, scTaken = [], scOffered = [], scDropped = 0\<rparr>"

definition sub_capacity :: nat where "sub_capacity = 100"

text \<open>
  \<open>bRunning\<close> and \<open>bSubs\<close> are the fields of the source. \<open>bChans\<close> are the channels made so far, addressed by
  position; \<open>bUnsubs\<close> are the goroutines about to run \<^verbatim>\<open>unsub(sub, true)\<close>, by channel, and \<open>bStreams\<close>
  counts the goroutines running \<^verbatim>\<open>stream\<close>.
\<close>

record 'i Broadcaster =
  bRunning :: bool
  bSubs :: "nat list"
  bChans :: "'i sub_chan list"
  bUnsubs :: "nat list"
  bStreams :: nat

definition new_broadcaster :: "'i Broadcaster" where
  "new_broadcaster = \<lparr>bRunning = False, bSubs = [], bChans = [], bUnsubs = [], bStreams = 0\<rparr>"

section \<open>Operations\<close>

definition b_start :: "go_error option \<Rightarrow> 'i Broadcaster \<Rightarrow> 'i Broadcaster go_result" where
  "b_start connect b = (case connect of
     Some err \<Rightarrow> Err err
   | None \<Rightarrow> Ok (b\<lparr>bStreams := Suc (bStreams b), bRunning := True\<rparr>))"

definition Subscribe :: "go_error option \<Rightarrow> 'i Broadcaster \<Rightarrow> ('i Broadcaster \<times> nat) go_result" where
  "Subscribe connect b =
     go_bind (if bRunning b then Ok b else b_start connect b) (\<lambda>b.
       let sub = length (bChans b) in
       Ok (b\<lparr>bChans := bChans b @ [new_chan], bSubs := bSubs b @ [sub]\<rparr>, sub))"

definition close_chan :: "nat \<Rightarrow> 'i sub_chan list \<Rightarrow> 'i sub_chan list go_result" where
  "close_chan sub cs = (if scClosed (cs ! sub) then Panic else Ok (cs[sub := (cs ! sub)\<lparr>scClosed := True\<rparr>]))"

definition unsub :: "nat \<Rightarrow> 'i Broadcaster \<Rightarrow> 'i Broadcaster go_result" where
  "unsub sub b =
     (if sub \<in> set (bSubs b) then
        go_bind (close_chan sub (bChans b)) (\<lambda>cs.
          Ok (b\<lparr>bChans := cs, bSubs := removeAll sub (bSubs b)\<rparr>))
      else Ok b)"

text \<open>One subscriber's share of the stream loop: a send that does not block, or a goroutine that unsubscribes.\<close>

definition offer :: "'i \<Rightarrow> nat \<Rightarrow> 'i Broadcaster \<Rightarrow> 'i Broadcaster go_result" where
  "offer item sub b =
     (let c = bChans b ! sub in
      if scClosed c then Panic
      else if length (scBuf c) < sub_capacity then
        Ok (b\<lparr>bChans := (bChans b)[sub := c\<lparr>scBuf := scBuf c @ [item], scOffered := scOffered c @ [item]\<rparr>]\<rparr>)
      else
        Ok (b\<lparr>bChans := (bChans b)[sub := c\<lparr>scOffered := scOffered c @ [item], scDropped := Suc (scDropped c)\<rparr>],
              bUnsubs := bUnsubs b @ [sub]\<rparr>))"

fun go_fold :: "('x \<Rightarrow> 's \<Rightarrow> 's go_result) \<Rightarrow> 'x list \<Rightarrow> 's \<Rightarrow> 's go_result" where
  "go_fold f [] s = Ok s"
| "go_fold f (x # xs) s = go_bind (f x s) (go_fold f xs)"

definition stream_item :: "'i \<Rightarrow> 'i Broadcaster \<Rightarrow> 'i Broadcaster go_result" where
  "stream_item item b = go_fold (offer item) (bSubs b) b"

text \<open>The input is closed: every subscriber is closed, and the next subscription connects again.\<close>

definition stream_end :: "'i Broadcaster \<Rightarrow> 'i Broadcaster go_result" where
  "stream_end b = go_bind (go_fold unsub (bSubs b) b) (\<lambda>b.
     Ok (b\<lparr>bRunning := False, bStreams := bStreams b - 1\<rparr>))"

section \<open>Steps\<close>

text \<open>
  What may happen next: a subscription with the outcome of its connection, the end of a
  subscriber's context, a waiting goroutine that unsubscribes, an item or the end of the stream, and a
  subscriber that takes an item. \<open>None\<close> when the event is not possible.
\<close>

datatype 'i b_event =
    BSubscribe "go_error option"
  | BCtxDone nat
  | BUnsub nat
  | BItem 'i
  | BEnd
  | BTake nat

definition take_item :: "nat \<Rightarrow> 'i Broadcaster \<Rightarrow> 'i Broadcaster" where
  "take_item sub b = (let c = bChans b ! sub in
     b\<lparr>bChans := (bChans b)[sub := c\<lparr>scBuf := tl (scBuf c), scTaken := scTaken c @ [hd (scBuf c)]\<rparr>]\<rparr>)"

definition b_step :: "'i b_event \<Rightarrow> 'i Broadcaster \<Rightarrow> 'i Broadcaster go_result option" where
  "b_step ev b = (case ev of
     BSubscribe connect \<Rightarrow> (case Subscribe connect b of
         Ok (b', _) \<Rightarrow> Some (Ok b') | Err _ \<Rightarrow> Some (Ok b) | Panic \<Rightarrow> Some Panic | Diverge \<Rightarrow> Some Diverge)
   | BCtxDone sub \<Rightarrow> if sub < length (bChans b) then Some (Ok (b\<lparr>bUnsubs := bUnsubs b @ [sub]\<rparr>)) else None
   | BUnsub sub \<Rightarrow> if sub \<in> set (bUnsubs b) then Some (unsub sub (b\<lparr>bUnsubs := remove1 sub (bUnsubs b)\<rparr>)) else None
   | BItem x \<Rightarrow> if bStreams b > 0 then Some (stream_item x b) else None
   | BEnd \<Rightarrow> if bStreams b > 0 then Some (stream_end b) else None
   | BTake sub \<Rightarrow> if sub < length (bChans b) \<and> scBuf (bChans b ! sub) \<noteq> [] then Some (Ok (take_item sub b)) else None)"

inductive b_reach :: "'i Broadcaster \<Rightarrow> bool" where
  b_init: "b_reach new_broadcaster"
| b_next: "b_reach b \<Longrightarrow> b_step ev b = Some (Ok b') \<Longrightarrow> b_reach b'"

fun b_exec :: "'i b_event list \<Rightarrow> 'i Broadcaster \<Rightarrow> 'i Broadcaster option" where
  "b_exec [] b = Some b"
| "b_exec (ev # evs) b = (case b_step ev b of Some (Ok b') \<Rightarrow> b_exec evs b' | _ \<Rightarrow> None)"

lemma b_exec_reach: "b_reach b \<Longrightarrow> b_exec evs b = Some b' \<Longrightarrow> b_reach b'"
  by (induction evs b rule: b_exec.induct)
    (auto split: option.splits go_result.splits intro: b_reach.b_next)

section \<open>The invariant\<close>

text \<open>
  A subscriber that has missed nothing has taken, or has in its buffer, all that was offered; one that has missed an
  item is closed or about to be.
\<close>

definition chan_ok :: "'i sub_chan \<Rightarrow> bool" where
  "chan_ok c \<longleftrightarrow> length (scBuf c) \<le> sub_capacity \<and> subseq (scTaken c @ scBuf c) (scOffered c)
     \<and> length (scTaken c @ scBuf c) + scDropped c = length (scOffered c)"

definition b_ok :: "'i Broadcaster \<Rightarrow> bool" where
  "b_ok b \<longleftrightarrow> distinct (bSubs b)
     \<and> (\<forall>i. i \<in> set (bSubs b) \<longleftrightarrow> i < length (bChans b) \<and> \<not> scClosed (bChans b ! i))
     \<and> (\<forall>c \<in> set (bChans b). chan_ok c)
     \<and> (\<forall>i < length (bChans b). scDropped (bChans b ! i) > 0 \<longrightarrow> scClosed (bChans b ! i) \<or> i \<in> set (bUnsubs b))
     \<and> bStreams b = (if bRunning b then 1 else 0)"

lemma new_chan_ok [simp]: "chan_ok new_chan" "scClosed new_chan = False" "scDropped new_chan = 0"
  by (simp_all add: chan_ok_def new_chan_def)

lemma b_ok_init: "b_ok new_broadcaster"
  by (simp add: b_ok_def new_broadcaster_def)

lemma b_ok_open: "b_ok b \<Longrightarrow> i \<in> set (bSubs b) \<Longrightarrow> i < length (bChans b) \<and> \<not> scClosed (bChans b ! i)"
  by (simp add: b_ok_def)

lemma Subscribe_ok:
  assumes "b_ok b" "Subscribe connect b = Ok (b', sub)"
  shows "b_ok b'"
  using assms unfolding Subscribe_def b_start_def b_ok_def
  by (auto simp: Let_def nth_append less_Suc_eq split: if_splits option.splits go_result.splits)

lemma unsub_ok:
  assumes "b_ok b"
  shows "\<exists>b'. unsub sub b = Ok b' \<and> b_ok b' \<and> bSubs b' = removeAll sub (bSubs b)
    \<and> bRunning b' = bRunning b \<and> bStreams b' = bStreams b \<and> bUnsubs b' = bUnsubs b
    \<and> length (bChans b') = length (bChans b)
    \<and> (\<forall>i. bChans b' ! i = (if i = sub \<and> sub \<in> set (bSubs b) then (bChans b ! i)\<lparr>scClosed := True\<rparr> else bChans b ! i))"
proof (cases "sub \<in> set (bSubs b)")
  case True
  have s: "sub < length (bChans b)" "\<not> scClosed (bChans b ! sub)"
    using b_ok_open[OF assms True] by auto
  have c: "chan_ok (bChans b ! sub)" using assms s(1) by (simp add: b_ok_def)
  have upd: "chan_ok x" if "x \<in> set ((bChans b)[sub := (bChans b ! sub)\<lparr>scClosed := True\<rparr>])" for x
    using set_update_subset_insert[THEN subsetD, OF that] c assms by (auto simp: b_ok_def chan_ok_def)
  show ?thesis
    using True s assms upd
    by (auto simp: unsub_def close_chan_def b_ok_def nth_list_update distinct_removeAll)
next
  case False
  then show ?thesis using assms by (simp add: unsub_def removeAll_id)
qed

lemma unsub_pending_ok:
  assumes "b_ok b"
  shows "\<exists>b'. unsub sub (b\<lparr>bUnsubs := remove1 sub (bUnsubs b)\<rparr>) = Ok b' \<and> b_ok b'"
proof -
  obtain b1 where b1: "unsub sub b = Ok b1" "b_ok b1" "bSubs b1 = removeAll sub (bSubs b)"
      "bUnsubs b1 = bUnsubs b"
    using unsub_ok[OF assms, of sub] by blast
  have "unsub sub (b\<lparr>bUnsubs := remove1 sub (bUnsubs b)\<rparr>) = Ok (b1\<lparr>bUnsubs := remove1 sub (bUnsubs b)\<rparr>)"
    using b1(1) by (auto simp: unsub_def close_chan_def split: if_splits)
  moreover have "i \<in> set (remove1 sub (bUnsubs b)) \<or> i = sub" if "i \<in> set (bUnsubs b)" for i
    using that by (cases "i = sub") simp_all
  moreover have "sub \<notin> set (bSubs b1)" using b1(3) by simp
  ultimately show ?thesis
    using b1(2,4) unfolding b_ok_def by clarsimp blast
qed

lemma chan_ok_push:
  "chan_ok c \<Longrightarrow> length (scBuf c) < sub_capacity \<Longrightarrow>
   chan_ok (c\<lparr>scBuf := scBuf c @ [x], scOffered := scOffered c @ [x]\<rparr>)"
  unfolding chan_ok_def by (simp add: append_assoc[symmetric] del: append_assoc)

lemma chan_ok_drop:
  "chan_ok c \<Longrightarrow> chan_ok (c\<lparr>scOffered := scOffered c @ [x], scDropped := Suc (scDropped c)\<rparr>)"
  unfolding chan_ok_def by (auto intro: subseq_rev_drop_many)

lemma chan_ok_take:
  "chan_ok c \<Longrightarrow> scBuf c \<noteq> [] \<Longrightarrow>
   chan_ok (c\<lparr>scBuf := tl (scBuf c), scTaken := scTaken c @ [hd (scBuf c)]\<rparr>)"
  unfolding chan_ok_def by (cases "scBuf c") auto

lemma offer_ok:
  assumes "b_ok b" "sub \<in> set (bSubs b)"
  shows "\<exists>b'. offer x sub b = Ok b' \<and> b_ok b' \<and> bSubs b' = bSubs b"
proof -
  let ?c = "bChans b ! sub"
  have s: "sub < length (bChans b)" "\<not> scClosed ?c" using b_ok_open[OF assms] by auto
  have c: "chan_ok ?c" using assms(1) s(1) by (simp add: b_ok_def)
  have upd: "\<forall>y \<in> set ((bChans b)[sub := d]). chan_ok y" if "chan_ok d" for d
    using that assms(1) set_update_subset_insert[of "bChans b" sub d] by (auto simp: b_ok_def)
  show ?thesis
    using s assms upd[OF chan_ok_push[OF c]] upd[OF chan_ok_drop[OF c]]
    by (auto simp: offer_def Let_def b_ok_def nth_list_update)
qed

lemma go_fold_inv:
  assumes "\<And>x s. x \<in> set xs \<Longrightarrow> P s \<Longrightarrow> \<exists>s'. f x s = Ok s' \<and> P s'" "P s"
  shows "\<exists>s'. go_fold f xs s = Ok s' \<and> P s'"
  using assms
proof (induction xs arbitrary: s)
  case (Cons x xs)
  then obtain s1 where "f x s = Ok s1" "P s1" by (metis list.set_intros(1))
  with Cons show ?case by simp
qed simp

lemma stream_item_ok:
  assumes "b_ok b"
  shows "\<exists>b'. stream_item x b = Ok b' \<and> b_ok b'"
  using go_fold_inv[of "bSubs b" "\<lambda>b'. b_ok b' \<and> bSubs b' = bSubs b" "offer x" b] offer_ok assms
  unfolding stream_item_def by metis

lemma unsub_all:
  assumes "b_ok b"
  shows "\<exists>b'. go_fold unsub xs b = Ok b' \<and> b_ok b' \<and> bSubs b' = filter (\<lambda>i. i \<notin> set xs) (bSubs b)
    \<and> bRunning b' = bRunning b \<and> bStreams b' = bStreams b"
  using assms
proof (induction xs arbitrary: b)
  case (Cons x xs)
  obtain b1 where b1: "unsub x b = Ok b1" "b_ok b1" "bSubs b1 = removeAll x (bSubs b)"
      "bRunning b1 = bRunning b" "bStreams b1 = bStreams b"
    using unsub_ok[OF Cons.prems, of x] by blast
  obtain b2 where "go_fold unsub xs b1 = Ok b2" "b_ok b2" "bSubs b2 = filter (\<lambda>i. i \<notin> set xs) (bSubs b1)"
      "bRunning b2 = bRunning b1" "bStreams b2 = bStreams b1"
    using Cons.IH[OF b1(2)] by blast
  moreover have "filter (\<lambda>i. i \<notin> set xs) (removeAll x (bSubs b)) = filter (\<lambda>i. i \<notin> set (x # xs)) (bSubs b)"
    by (simp add: removeAll_filter_not_eq conj_commute eq_commute)
  ultimately show ?case using b1 by simp
qed simp

lemma stream_end_ok:
  assumes "b_ok b" "bStreams b > 0"
  shows "\<exists>b'. stream_end b = Ok b' \<and> b_ok b' \<and> bSubs b' = [] \<and> \<not> bRunning b'"
proof -
  obtain b' where b': "go_fold unsub (bSubs b) b = Ok b'" "b_ok b'" "bSubs b' = []"
      "bRunning b' = bRunning b" "bStreams b' = bStreams b"
    using unsub_all[OF assms(1), of "bSubs b"] by auto
  then show ?thesis using assms unfolding stream_end_def b_ok_def by (auto split: if_splits)
qed

lemma take_item_ok:
  assumes "b_ok b" "sub < length (bChans b)" "scBuf (bChans b ! sub) \<noteq> []"
  shows "b_ok (take_item sub b)"
proof -
  let ?d = "(bChans b ! sub)\<lparr>scBuf := tl (scBuf (bChans b ! sub)),
    scTaken := scTaken (bChans b ! sub) @ [hd (scBuf (bChans b ! sub))]\<rparr>"
  have "chan_ok ?d" by (rule chan_ok_take) (use assms in \<open>simp_all add: b_ok_def\<close>)
  then have "\<forall>y \<in> set ((bChans b)[sub := ?d]). chan_ok y"
    using assms(1) set_update_subset_insert[of "bChans b" sub ?d] by (auto simp: b_ok_def)
  then show ?thesis using assms
    by (auto simp: take_item_def Let_def b_ok_def nth_list_update)
qed

lemma b_step_ok:
  assumes "b_ok b" "b_step ev b = Some r"
  shows "\<exists>b'. r = Ok b' \<and> b_ok b'"
proof (cases ev)
  case (BSubscribe connect)
  with assms Subscribe_ok[OF assms(1), of connect] show ?thesis
    by (auto simp: b_step_def Subscribe_def b_start_def Let_def split: go_result.splits if_splits option.splits)
next
  case (BUnsub sub)
  with assms(2) have "r = unsub sub (b\<lparr>bUnsubs := remove1 sub (bUnsubs b)\<rparr>)"
    by (auto simp: b_step_def split: if_splits)
  then show ?thesis using unsub_pending_ok[OF assms(1)] by blast
next
  case (BCtxDone sub)
  moreover have "b_ok (b\<lparr>bUnsubs := bUnsubs b @ [sub]\<rparr>)" using assms(1) unfolding b_ok_def by auto
  ultimately show ?thesis using assms(2) by (auto simp: b_step_def split: if_splits)
next
  case (BItem x)
  with assms(2) have "r = stream_item x b" by (simp add: b_step_def split: if_splits)
  then show ?thesis using stream_item_ok[OF assms(1)] by simp
next
  case BEnd
  with assms(2) have "bStreams b > 0" "r = stream_end b" by (simp_all add: b_step_def split: if_splits)
  then show ?thesis using stream_end_ok[OF assms(1)] by blast
next
  case (BTake sub)
  with assms take_item_ok[OF assms(1), of sub] show ?thesis by (auto simp: b_step_def split: if_splits)
qed

lemma b_reach_ok: "b_reach b \<Longrightarrow> b_ok b"
proof (induction rule: b_reach.induct)
  case (b_next b ev b')
  then show ?case using b_step_ok[of b ev "Ok b'"] by auto
qed (rule b_ok_init)

section \<open>Delivery\<close>


text \<open>
  C20: The broadcaster never panics, whatever the order in which contexts end, slow subscribers are dropped
  and the stream ends: no item is sent on a closed channel and no channel is closed twice. Its map holds exactly the open
  channels, and one stream runs while it is marked as running and none otherwise.
\<close>

theorem broadcaster_safe:
  assumes "b_reach b"
  shows "b_step ev b \<noteq> Some Panic
    \<and> set (bSubs b) = {i. i < length (bChans b) \<and> \<not> scClosed (bChans b ! i)}
    \<and> bStreams b = (if bRunning b then 1 else 0)"
proof -
  note ok = b_reach_ok[OF assms]
  have "b_step ev b \<noteq> Some Panic" using b_step_ok[OF ok, of ev Panic] by auto
  with ok show ?thesis unfolding b_ok_def by blast
qed

text \<open>
  A subscriber that was too slow can see a gap before its channel is closed: here item 100 is
  dropped because its buffer of 100 is full, then it takes an item, and item 101 still arrives, because the
  goroutine that unsubscribes it waits for the mutex.
\<close>

theorem slow_subscriber_gap:
  "map_option (\<lambda>b. (scTaken (bChans b ! 0) @ scBuf (bChans b ! 0), scDropped (bChans b ! 0), scClosed (bChans b ! 0)))
     (b_exec (BSubscribe None # map BItem [0..<101] @ [BTake 0, BItem 101]) new_broadcaster)
   = Some ([0..<100] @ [101], 1, False)"
  by code_simp

section \<open>Witnesses\<close>

definition w_events :: "string b_event list" where
  "w_events = [BSubscribe None, BItem ''a'', BSubscribe None, BItem ''b'', BTake 0, BCtxDone 0, BUnsub 0, BItem ''c'']"

definition w_broadcaster :: "string Broadcaster" where
  "w_broadcaster = \<lparr>bRunning = True, bSubs = [1],
     bChans = [\<lparr>scBuf = [''b''], scClosed = True, scTaken = [''a''], scOffered = [''a'', ''b''], scDropped = 0\<rparr>,
               \<lparr>scBuf = [''b'', ''c''], scClosed = False, scTaken = [], scOffered = [''b'', ''c''], scDropped = 0\<rparr>],
     bUnsubs = [], bStreams = 1\<rparr>"

lemma w_broadcaster_exec: "b_exec w_events new_broadcaster = Some w_broadcaster"
  by code_simp

lemmas w_broadcaster_reach = b_exec_reach[OF b_reach.b_init w_broadcaster_exec]


theorem broadcaster_safe_witness:
  "b_step BEnd w_broadcaster \<noteq> Some Panic \<and> set (bSubs w_broadcaster) = {1}"
  using broadcaster_safe[OF w_broadcaster_reach, of BEnd] by (simp add: w_broadcaster_def)

end
