(* ===== verification/Process_Log.thy ===== *)
theory Process_Log
  imports Process_Manager Broadcaster
begin

text \<open>
  The two streams the process manager serves. The log of a process (\<^verbatim>\<open>LonghornWriter.StreamLog\<close> of
  \<^verbatim>\<open>pkg/util/log.go\<close> and \<^verbatim>\<open>ProcessLog\<close>) is sent by a goroutine that reads the file and a handler that
  receives from it, over channels without buffer; the watch (\<^verbatim>\<open>ProcessWatch\<close>) forwards what its
  subscription delivers.
\<close>

section \<open>The log of a process\<close>

text \<open>
  The goroutine reads a line, looks whether the handler is done, and otherwise sends the line. The
  handler receives a line, sends it to its client, and after an error tells the goroutine so, which
  must be there to hear it.
\<close>

datatype log_reader = AtScan | AtSelect string | AtSend string | ReaderDone

datatype log_handler = Receiving | Sending string | SignallingDone go_error | Returned "unit go_result"

record log_state =
  lsLines :: "string list"
  lsReader :: log_reader
  lsHandler :: log_handler
  lsSent :: "string list"
  lsSends :: nat
  lsFileOpen :: bool

definition StreamLog :: "string list \<Rightarrow> log_state" where
  "StreamLog lines = \<lparr>lsLines = lines, lsReader = AtScan, lsHandler = Receiving, lsSent = [], lsSends = 0,
     lsFileOpen = True\<rparr>"

text \<open>\<open>send i\<close> is the error of the \<open>i\<close>-th send to the client of the handler.\<close>

inductive log_step :: "(nat \<Rightarrow> go_error option) \<Rightarrow> log_state \<Rightarrow> log_state \<Rightarrow> bool" for send where
  scan: "lsReader s = AtScan \<Longrightarrow> lsLines s = l # ls \<Longrightarrow>
    log_step send s (s\<lparr>lsLines := ls, lsReader := AtSelect l\<rparr>)"
| scan_end: "lsReader s = AtScan \<Longrightarrow> lsLines s = [] \<Longrightarrow>
    log_step send s (s\<lparr>lsReader := ReaderDone, lsFileOpen := False\<rparr>)"
| select_done: "lsReader s = AtSelect l \<Longrightarrow> lsHandler s = SignallingDone e \<Longrightarrow>
    log_step send s (s\<lparr>lsReader := ReaderDone, lsHandler := Returned (Err e)\<rparr>)"
| select_default: "lsReader s = AtSelect l \<Longrightarrow> (\<forall>e. lsHandler s \<noteq> SignallingDone e) \<Longrightarrow>
    log_step send s (s\<lparr>lsReader := AtSend l\<rparr>)"
| hand_over: "lsReader s = AtSend l \<Longrightarrow> lsHandler s = Receiving \<Longrightarrow>
    log_step send s (s\<lparr>lsReader := AtScan, lsHandler := Sending l\<rparr>)"
| send_ok: "lsHandler s = Sending l \<Longrightarrow> send (lsSends s) = None \<Longrightarrow>
    log_step send s (s\<lparr>lsHandler := Receiving, lsSent := lsSent s @ [l], lsSends := Suc (lsSends s)\<rparr>)"
| send_fails: "lsHandler s = Sending l \<Longrightarrow> send (lsSends s) = Some e \<Longrightarrow>
    log_step send s (s\<lparr>lsHandler := SignallingDone e, lsSends := Suc (lsSends s)\<rparr>)"
| drained: "lsReader s = ReaderDone \<Longrightarrow> lsHandler s = Receiving \<Longrightarrow>
    log_step send s (s\<lparr>lsHandler := Returned (Ok ())\<rparr>)"

inductive log_reach :: "(nat \<Rightarrow> go_error option) \<Rightarrow> string list \<Rightarrow> log_state \<Rightarrow> bool" for send lines where
  log_init: "log_reach send lines (StreamLog lines)"
| log_next: "log_reach send lines s \<Longrightarrow> log_step send s s' \<Longrightarrow> log_reach send lines s'"

text \<open>What has been sent, is on its way and is still to be read is the file, in order.\<close>

fun reader_line :: "log_reader \<Rightarrow> string list" where
  "reader_line (AtSelect l) = [l]"
| "reader_line (AtSend l) = [l]"
| "reader_line _ = []"

fun handler_line :: "log_handler \<Rightarrow> string list" where
  "handler_line (Sending l) = [l]"
| "handler_line _ = []"

definition log_ok :: "string list \<Rightarrow> log_state \<Rightarrow> bool" where
  "log_ok lines s \<longleftrightarrow> lsSent s @ handler_line (lsHandler s) @ reader_line (lsReader s) @ lsLines s = lines
     \<and> (\<forall>e. lsHandler s \<noteq> SignallingDone e \<and> lsHandler s \<noteq> Returned (Err e))
     \<and> lsHandler s \<noteq> Returned Panic \<and> lsHandler s \<noteq> Returned Diverge
     \<and> (lsReader s = ReaderDone \<longrightarrow> lsLines s = [] \<and> \<not> lsFileOpen s)
     \<and> (lsHandler s = Returned (Ok ()) \<longrightarrow> lsReader s = ReaderDone)"

lemma log_step_ok:
  "log_step send s s' \<Longrightarrow> (\<And>i. send i = None) \<Longrightarrow> log_ok lines s \<Longrightarrow> log_ok lines s'"
  by (induction rule: log_step.induct) (auto simp: log_ok_def)

lemma log_reach_ok: "log_reach send lines s \<Longrightarrow> (\<And>i. send i = None) \<Longrightarrow> log_ok lines s"
  by (induction rule: log_reach.induct) (auto simp: log_ok_def StreamLog_def dest: log_step_ok)

lemma log_ok_handler:
  assumes "log_ok lines s"
  shows "(\<exists>l. lsHandler s = Sending l) \<or> lsHandler s = Receiving \<or> lsHandler s = Returned (Ok ())"
proof (cases "lsHandler s")
  case (Returned r)
  with assms show ?thesis by (cases r) (simp_all add: log_ok_def)
qed (use assms in \<open>simp_all add: log_ok_def\<close>)

text \<open>Every step brings the end nearer.\<close>

fun reader_work :: "log_reader \<Rightarrow> nat" where
  "reader_work AtScan = 1"
| "reader_work (AtSelect l) = 5"
| "reader_work (AtSend l) = 4"
| "reader_work ReaderDone = 0"

fun handler_work :: "log_handler \<Rightarrow> nat" where
  "handler_work (Sending l) = 2"
| "handler_work Receiving = 1"
| "handler_work (SignallingDone e) = 1"
| "handler_work (Returned r) = 0"

definition log_work :: "log_state \<Rightarrow> nat" where
  "log_work s = 5 * length (lsLines s) + reader_work (lsReader s) + handler_work (lsHandler s)"

lemma log_step_work: "log_step send s s' \<Longrightarrow> log_work s' < log_work s"
  by (induction rule: log_step.induct) (auto simp: log_work_def)

lemma log_step_cases:
  "(\<exists>s'. log_step send s s') \<longleftrightarrow>
     (case lsReader s of
        AtScan \<Rightarrow> True
      | AtSelect l \<Rightarrow> True
      | AtSend l \<Rightarrow> lsHandler s = Receiving
      | ReaderDone \<Rightarrow> lsHandler s = Receiving) \<or> (\<exists>l. lsHandler s = Sending l)"
proof (cases "\<exists>l. lsHandler s = Sending l")
  case True
  then obtain l where "lsHandler s = Sending l" ..
  then show ?thesis by (cases "send (lsSends s)") (auto intro: log_step.send_ok log_step.send_fails)
next
  case no_send: False
  show ?thesis
  proof (cases "lsReader s")
    case AtScan
    then show ?thesis by (cases "lsLines s") (auto intro: log_step.scan log_step.scan_end)
  next
    case (AtSelect l)
    then show ?thesis
      by (cases "\<exists>e. lsHandler s = SignallingDone e") (auto intro: log_step.select_done log_step.select_default)
  next
    case (AtSend l)
    then show ?thesis using no_send by (auto intro: log_step.hand_over elim: log_step.cases)
  next
    case ReaderDone
    then show ?thesis using no_send by (auto intro: log_step.drained elim: log_step.cases)
  qed
qed

text \<open>A run that has come to its end while sending works.\<close>

lemma log_finished:
  assumes "log_reach send lines s" "\<And>i. send i = None" "\<nexists>s'. log_step send s s'"
  shows "lsHandler s = Returned (Ok ()) \<and> lsSent s = lines \<and> \<not> lsFileOpen s"
proof -
  have ok: "log_ok lines s" using log_reach_ok[OF assms(1,2)] .
  have "\<forall>l. lsHandler s \<noteq> Sending l" "lsHandler s \<noteq> Receiving"
    using assms(3) unfolding log_step_cases by (simp_all split: log_reader.splits)
  with log_ok_handler[OF ok] have "lsHandler s = Returned (Ok ())" by blast
  with ok show ?thesis by (auto simp: log_ok_def)
qed

text \<open>
  C21: The log of a process arrives completely. While sending does not fail, every run of the reading
  goroutine and the handler goes on until the handler returns without error (each step brings the end
  nearer), and then all lines have been sent in order and the file is closed.
\<close>

theorem log_delivered:
  assumes "log_reach send lines s" "\<forall>i. send i = None"
  shows "(lsHandler s = Returned (Ok ()) \<and> lsSent s = lines \<and> \<not> lsFileOpen s)
    \<or> ((\<exists>s'. log_step send s s') \<and> (\<forall>s'. log_step send s s' \<longrightarrow> log_work s' < log_work s))"
proof (cases "\<exists>s'. log_step send s s'")
  case True
  then show ?thesis using log_step_work by blast
next
  case False
  then show ?thesis using log_finished[OF assms(1)] assms(2) by blast
qed

lemma log_hangs_inv:
  assumes "log_reach (\<lambda>i. Some e) [line] s"
  shows "(lsLines s = [line] \<and> lsReader s = AtScan \<and> lsHandler s = Receiving)
    \<or> (lsLines s = [] \<and> lsReader s \<in> {AtSelect line, AtSend line} \<and> lsHandler s = Receiving)
    \<or> (lsLines s = [] \<and> lsReader s \<in> {AtScan, ReaderDone} \<and> lsHandler s \<in> {Sending line, SignallingDone e})"
  using assms
proof (induction rule: log_reach.induct)
  case (log_next s s')
  from log_next.hyps(2) log_next.IH show ?case by (induction rule: log_step.induct) auto
qed (simp add: StreamLog_def)

text \<open>
  C39: A log whose client has gone away is never finished: when the only line of a log cannot be
  sent, the handler waits on its done channel for a goroutine that no longer listens, in every run. (The
  goroutine looks at that channel only between reading a line and sending it.)
\<close>

theorem log_send_error_hangs:
  assumes "log_reach (\<lambda>i. Some e) [line] s"
  shows "lsHandler s \<noteq> Returned r
    \<and> ((\<forall>s'. \<not> log_step (\<lambda>i. Some e) s s') \<longleftrightarrow> lsReader s = ReaderDone \<and> lsHandler s = SignallingDone e)"
proof -
  have "(\<exists>s'. log_step (\<lambda>i. Some e) s s') \<longleftrightarrow> \<not> (lsReader s = ReaderDone \<and> lsHandler s = SignallingDone e)"
    unfolding log_step_cases using log_hangs_inv[OF assms] by (auto split: log_reader.splits)
  with log_hangs_inv[OF assms] show ?thesis by auto
qed

section \<open>Serving the log\<close>

text \<open>\<open>opened\<close> is the outcome of opening the file: its lines as the scanner splits them, or the error.\<close>

definition ProcessLog :: "Manager \<Rightarrow> string \<Rightarrow> string list go_result \<Rightarrow> log_state go_result" where
  "ProcessLog m name opened = (case findProcess m name of
     None \<Rightarrow> Err (StatusError NotFound (''cannot find process '' @ name))
   | Some _ \<Rightarrow> go_bind opened (\<lambda>lines. Ok (StreamLog lines)))"

section \<open>The watch\<close>

text \<open>
  The handler forwards what its subscription delivers until the channel is closed or sending fails.
  An item that is no response would be a bug.
\<close>

fun ProcessWatch ::
  "(nat \<Rightarrow> go_error option) \<Rightarrow> nat \<Rightarrow> ProcessResponse option list \<Rightarrow> ProcessResponse list \<times> unit go_result" where
  "ProcessWatch send i [] = ([], Ok ())"
| "ProcessWatch send i (None # rest) = ([], Err (PlainError ''BUG: cannot get ProcessResponse from channel''))"
| "ProcessWatch send i (Some r # rest) = (case send i of
     Some e \<Rightarrow> ([], Err e)
   | None \<Rightarrow> (case ProcessWatch send (Suc i) rest of (sent, res) \<Rightarrow> (r # sent, res)))"

lemma ProcessWatch_all:
  "(\<And>j. send j = None) \<Longrightarrow> ProcessWatch send i (map Some rs) = (rs, Ok ())"
  by (induction rs arbitrary: i) auto

lemma ProcessWatch_prefix: "prefix (map Some (fst (ProcessWatch send i items))) items"
  by (induction send i items rule: ProcessWatch.induct) (auto split: option.splits prod.splits)

section \<open>The writer and formatter of the log\<close>

datatype log_field = FieldString string | FieldOther

text \<open>\<open>textFormat\<close> is the formatter of the log library, applied to the entry.\<close>

definition Format :: "string go_result \<Rightarrow> log_field option \<Rightarrow> string \<Rightarrow> string go_result" where
  "Format textFormat component message =
     (case (case component of None \<Rightarrow> FieldString ''longhorn-instance-manager'' | Some c \<Rightarrow> c) of
        FieldOther \<Rightarrow> Err (PlainError ''field component must be a string'')
      | FieldString c \<Rightarrow>
          if c = ''longhorn-instance-manager'' then
            go_bind textFormat (\<lambda>msg. Ok (''['' @ c @ ''] '' @ msg))
          else Ok (''['' @ c @ ''] '' @ message))"

text \<open>
  \<open>Write\<close> logs the bytes and appends them to the file; \<open>written\<close> and \<open>synced\<close> are the outcomes of the two
  file operations, the first with the number of bytes written.
\<close>

definition Write :: "string \<Rightarrow> nat go_result \<Rightarrow> unit go_result \<Rightarrow> nat go_result" where
  "Write input written synced = go_bind written (\<lambda>outLen. go_bind synced (\<lambda>_. Ok outLen))"

section \<open>Witnesses\<close>

definition w_log :: log_state where
  "w_log = (StreamLog [''a'', ''b''])\<lparr>lsLines := [''b''], lsReader := AtSelect ''a''\<rparr>"

lemma w_log_reach: "log_reach send [''a'', ''b''] w_log"
  unfolding w_log_def
  by (rule log_reach.log_next[OF log_reach.log_init log_step.scan]) (simp_all add: StreamLog_def)

theorem log_delivered_witness: "\<exists>s'. log_step (\<lambda>i. None) w_log s' \<and> log_work s' < log_work w_log"
  using log_delivered[OF w_log_reach[of "\<lambda>i. None"]] by (auto simp: w_log_def StreamLog_def)

theorem log_send_error_hangs_witness:
  "lsHandler ((StreamLog [''a''])\<lparr>lsLines := [], lsReader := AtSelect ''a''\<rparr>) \<noteq> Returned (Ok ())"
  by (rule conjunct1[OF log_send_error_hangs[of "PlainError ''broken pipe''" "''a''"]],
      rule log_reach.log_next[OF log_reach.log_init log_step.scan]) (simp_all add: StreamLog_def)

end
