(* ===== verification/Disk.thy ===== *)
theory Disk
  imports Instance_Types "HOL-Library.Word"
begin

text \<open>
  \<^verbatim>\<open>pkg/disk/disk.go\<close> (the disk service, over the SPDK client), \<^verbatim>\<open>pkg/client/disk.go\<close> (its client) and
  \<^verbatim>\<open>pkg/api/disk.go\<close> (what the client returns). Only block disks are served; every other type is
  answered with Unimplemented.
\<close>

section \<open>Messages\<close>

datatype DiskType = DiskType_filesystem | DiskType_block | DiskType_OTHER int

fun DiskType_String :: "DiskType \<Rightarrow> string" where
  "DiskType_String DiskType_filesystem = ''filesystem''"
| "DiskType_String DiskType_block = ''block''"
| "DiskType_String (DiskType_OTHER n) = (if n = 2 then ''lvm'' else strconv_Itoa n)"

text \<open>The generated map \<^verbatim>\<open>rpc.DiskType_value\<close>; reading a missing key gives 0, the file system.\<close>

definition DiskType_value :: "string \<Rightarrow> DiskType option" where
  "DiskType_value t = (if t = ''filesystem'' then Some DiskType_filesystem
     else if t = ''block'' then Some DiskType_block
     else if t = ''lvm'' then Some (DiskType_OTHER 2) else None)"

definition DiskType_or_zero :: "string \<Rightarrow> DiskType" where
  "DiskType_or_zero t = (case DiskType_value t of None \<Rightarrow> DiskType_filesystem | Some d \<Rightarrow> d)"

text \<open>
  The messages \<^verbatim>\<open>spdkrpc.Disk\<close> and \<^verbatim>\<open>rpc.Disk\<close> have the same fields, and so has \<^verbatim>\<open>api.DiskInfo\<close>. A
  \<^verbatim>\<open>float64\<close> is only copied and stands here as its bits.
\<close>

record DiskInfo =
  diID :: string
  diName :: string
  diUUID :: string
  diPath :: string
  diType :: string
  diDriver :: string
  diTotalSize :: int
  diFreeSize :: int
  diTotalBlocks :: int
  diFreeBlocks :: int
  diBlockSize :: int
  diClusterSize :: int
  diState :: string
  diMessage :: string

record DiskHealth =
  dhModelNumber :: string
  dhSerialNumber :: string
  dhFirmwareRevision :: string
  dhTraddr :: string
  dhCriticalWarning :: "32 word"
  dhTemperatureCelsius :: "64 word"
  dhAvailableSparePercentage :: "32 word"
  dhAvailableSpareThresholdPercentage :: "32 word"
  dhPercentageUsed :: "32 word"
  dhDataUnitsRead :: "64 word"
  dhDataUnitsWritten :: "64 word"
  dhHostReadCommands :: "64 word"
  dhHostWriteCommands :: "64 word"
  dhControllerBusyTime :: "64 word"
  dhPowerCycles :: "64 word"
  dhPowerOnHours :: "64 word"
  dhUnsafeShutdowns :: "64 word"
  dhMediaErrors :: "64 word"
  dhNumErrLogEntries :: "64 word"
  dhWarningTemperatureTimeMinutes :: "64 word"
  dhCriticalCompositeTemperatureTimeMinutes :: "64 word"

record DiskMetrics =
  dmReadThroughput :: "64 word"
  dmWriteThroughput :: "64 word"
  dmReadLatency :: "64 word"
  dmWriteLatency :: "64 word"
  dmReadIOPS :: "64 word"
  dmWriteIOPS :: "64 word"

text \<open>What the service reads of a replica of the SPDK client, and the replica it returns.\<close>

record spdk_replica =
  srName :: string
  srLvsName :: string
  srLvsUUID :: string
  srSpecSize :: "64 word"
  srActualSize :: "64 word"

record ReplicaStorageInstance =
  rsName :: string
  rsUUID :: string
  rsDiskName :: string
  rsDiskUUID :: string
  rsSpecSize :: "64 word"
  rsActualSize :: "64 word"

record DiskCreateRequest =
  dcType :: DiskType
  dcName :: string
  dcUuid :: string
  dcPath :: string
  dcBlockSize :: int
  dcDriver :: string

record DiskRequest =
  drType :: DiskType
  drName :: string
  drUuid :: string
  drPath :: string
  drDriver :: string
  drReplicaInstanceName :: string

record 's disk_client =
  sd_DiskCreate :: "string \<Rightarrow> string \<Rightarrow> string \<Rightarrow> string \<Rightarrow> int \<Rightarrow> ('s, DiskInfo) remote"
  sd_DiskDelete :: "string \<Rightarrow> string \<Rightarrow> string \<Rightarrow> string \<Rightarrow> ('s, unit) remote"
  sd_DiskGet :: "string \<Rightarrow> string \<Rightarrow> string \<Rightarrow> ('s, DiskInfo) remote"
  sd_DiskHealthGet :: "string \<Rightarrow> string \<Rightarrow> string \<Rightarrow> ('s, DiskHealth) remote"
  sd_ReplicaList :: "('s, (string \<times> spdk_replica) list) remote"
  sd_ReplicaDelete :: "string \<Rightarrow> bool \<Rightarrow> ('s, unit) remote"
  sd_MetricsGet :: "string \<Rightarrow> ('s, DiskMetrics) remote"

section \<open>The server\<close>

text \<open>
  The block operations hold the SPDK client, which stays nil when SPDK is disabled; every method of a nil
  client is a nil dereference.
\<close>

record 's disk_server =
  dsSpdkClient :: "'s disk_client option"

definition disk_NewServer ::
  "bool \<Rightarrow> bool \<Rightarrow> 's disk_client go_result \<Rightarrow> 's disk_server go_result" where
  "disk_NewServer spdkEnabled tgtReady connect =
     (if spdkEnabled then
        if \<not> tgtReady then Err (PlainError ''spdk_tgt is not ready in 1m0s'')
        else go_bind (map_err (status_wrap Internal ''failed to create SPDK client'') connect)
               (\<lambda>c. Ok \<lparr>dsSpdkClient = Some c\<rparr>)
      else Ok \<lparr>dsSpdkClient = None\<rparr>)"

definition unsupported_disk :: "DiskType \<Rightarrow> go_error" where
  "unsupported_disk t = StatusError Unimplemented (''unsupported disk type '' @ DiskType_String t)"

definition disk_invalid :: "string \<Rightarrow> go_error" where
  "disk_invalid m = StatusError InvalidArgument m"

definition internal :: "go_error \<Rightarrow> go_error" where
  "internal e = StatusError Internal (error_string e)"

definition block_client :: "'s disk_server \<Rightarrow> ('s disk_client \<Rightarrow> ('s, 'a) remote) \<Rightarrow> ('s, 'a) remote" where
  "block_client s f = (case dsSpdkClient s of None \<Rightarrow> r_panic | Some c \<Rightarrow> f c)"

text \<open>The lookup of the operations of a type; those of the file system refuse every call.\<close>

definition disk_ops :: "DiskType \<Rightarrow> ('s, 'a) remote \<Rightarrow> ('s, 'a) remote" where
  "disk_ops t block = (if t = DiskType_block then block else r_err (unsupported_disk t))"

definition spdkDiskToDisk :: "DiskInfo \<Rightarrow> DiskInfo" where
  "spdkDiskToDisk d = \<lparr>diID = diID d, diName = diName d, diUUID = diUUID d, diPath = diPath d,
     diType = diType d, diDriver = diDriver d, diTotalSize = diTotalSize d, diFreeSize = diFreeSize d,
     diTotalBlocks = diTotalBlocks d, diFreeBlocks = diFreeBlocks d, diBlockSize = diBlockSize d,
     diClusterSize = diClusterSize d, diState = diState d, diMessage = diMessage d\<rparr>"

definition replicaToReplicaInstance :: "spdk_replica \<Rightarrow> ReplicaStorageInstance" where
  "replicaToReplicaInstance r = \<lparr>rsName = srName r, rsUUID = '''', rsDiskName = srLvsName r,
     rsDiskUUID = srLvsUUID r, rsSpecSize = srSpecSize r, rsActualSize = srActualSize r\<rparr>"

definition disk_health_response :: "DiskHealth \<Rightarrow> DiskHealth" where
  "disk_health_response h = \<lparr>dhModelNumber = dhModelNumber h, dhSerialNumber = dhSerialNumber h,
     dhFirmwareRevision = dhFirmwareRevision h, dhTraddr = dhTraddr h,
     dhCriticalWarning = dhCriticalWarning h, dhTemperatureCelsius = dhTemperatureCelsius h,
     dhAvailableSparePercentage = dhAvailableSparePercentage h,
     dhAvailableSpareThresholdPercentage = dhAvailableSpareThresholdPercentage h,
     dhPercentageUsed = dhPercentageUsed h, dhDataUnitsRead = dhDataUnitsRead h,
     dhDataUnitsWritten = dhDataUnitsWritten h, dhHostReadCommands = dhHostReadCommands h,
     dhHostWriteCommands = dhHostWriteCommands h, dhControllerBusyTime = dhControllerBusyTime h,
     dhPowerCycles = dhPowerCycles h, dhPowerOnHours = dhPowerOnHours h,
     dhUnsafeShutdowns = dhUnsafeShutdowns h, dhMediaErrors = dhMediaErrors h,
     dhNumErrLogEntries = dhNumErrLogEntries h,
     dhWarningTemperatureTimeMinutes = dhWarningTemperatureTimeMinutes h,
     dhCriticalCompositeTemperatureTimeMinutes = dhCriticalCompositeTemperatureTimeMinutes h\<rparr>"

definition disk_metrics_reply :: "DiskMetrics \<Rightarrow> DiskMetrics" where
  "disk_metrics_reply m = \<lparr>dmReadThroughput = dmReadThroughput m, dmWriteThroughput = dmWriteThroughput m,
     dmReadLatency = dmReadLatency m, dmWriteLatency = dmWriteLatency m, dmReadIOPS = dmReadIOPS m,
     dmWriteIOPS = dmWriteIOPS m\<rparr>"

lemma disk_copies [simp]:
  "spdkDiskToDisk d = d" "disk_health_response h = h" "disk_metrics_reply m = m"
  by (simp_all add: spdkDiskToDisk_def disk_health_response_def disk_metrics_reply_def)

definition block_DiskCreate :: "'s disk_server \<Rightarrow> DiskCreateRequest \<Rightarrow> ('s, DiskInfo) remote" where
  "block_DiskCreate s req = block_client s (\<lambda>c. r_map spdkDiskToDisk (r_map_err internal
     (sd_DiskCreate c (dcName req) (dcUuid req) (dcPath req) (dcDriver req) (dcBlockSize req))))"

definition DiskCreate :: "'s disk_server \<Rightarrow> DiskCreateRequest \<Rightarrow> ('s, DiskInfo) remote" where
  "DiskCreate s req =
     (if dcName req = '''' \<or> dcPath req = '''' then r_err (disk_invalid ''disk name and disk path are required'')
      else disk_ops (dcType req) (block_DiskCreate s req))"

definition block_DiskDelete :: "'s disk_server \<Rightarrow> DiskRequest \<Rightarrow> ('s, unit) remote" where
  "block_DiskDelete s req =
     block_client s (\<lambda>c. sd_DiskDelete c (drName req) (drUuid req) (drPath req) (drDriver req))"

definition named_disk :: "string \<Rightarrow> ('s, 'a) remote \<Rightarrow> ('s, 'a) remote" where
  "named_disk name m = (if name = '''' then r_err (disk_invalid ''disk name is required'') else m)"

definition DiskDelete :: "'s disk_server \<Rightarrow> DiskRequest \<Rightarrow> ('s, unit) remote" where
  "DiskDelete s req = named_disk (drName req) (disk_ops (drType req) (block_DiskDelete s req))"

definition block_DiskGet :: "'s disk_server \<Rightarrow> DiskRequest \<Rightarrow> ('s, DiskInfo) remote" where
  "block_DiskGet s req = block_client s (\<lambda>c. r_map spdkDiskToDisk (r_map_err internal
     (sd_DiskGet c (drName req) (drPath req) (drDriver req))))"

definition DiskGet :: "'s disk_server \<Rightarrow> DiskRequest \<Rightarrow> ('s, DiskInfo) remote" where
  "DiskGet s req = named_disk (drName req) (disk_ops (drType req) (block_DiskGet s req))"

definition block_DiskHealthGet :: "'s disk_server \<Rightarrow> DiskRequest \<Rightarrow> ('s, DiskHealth) remote" where
  "block_DiskHealthGet s req = block_client s (\<lambda>c. r_map disk_health_response (r_map_err internal
     (sd_DiskHealthGet c (drName req) (drPath req) (drDriver req))))"

definition DiskHealthGet :: "'s disk_server \<Rightarrow> DiskRequest \<Rightarrow> ('s, DiskHealth) remote" where
  "DiskHealthGet s req = named_disk (drName req) (disk_ops (drType req) (block_DiskHealthGet s req))"

definition block_DiskReplicaInstanceList ::
  "'s disk_server \<Rightarrow> DiskRequest \<Rightarrow> ('s, (string \<times> ReplicaStorageInstance) list) remote" where
  "block_DiskReplicaInstanceList s req = block_client s (\<lambda>c.
     r_map (map (\<lambda>(name, replica). (name, replicaToReplicaInstance replica)))
       (r_map_err internal (sd_ReplicaList c)))"

definition DiskReplicaInstanceList ::
  "'s disk_server \<Rightarrow> DiskRequest \<Rightarrow> ('s, (string \<times> ReplicaStorageInstance) list) remote" where
  "DiskReplicaInstanceList s req =
     named_disk (drName req) (disk_ops (drType req) (block_DiskReplicaInstanceList s req))"

definition block_DiskReplicaInstanceDelete :: "'s disk_server \<Rightarrow> DiskRequest \<Rightarrow> ('s, unit) remote" where
  "block_DiskReplicaInstanceDelete s req = block_client s (\<lambda>c.
     r_map_err internal (sd_ReplicaDelete c (drReplicaInstanceName req) True))"

definition DiskReplicaInstanceDelete :: "'s disk_server \<Rightarrow> DiskRequest \<Rightarrow> ('s, unit) remote" where
  "DiskReplicaInstanceDelete s req =
     (if drName req = '''' \<or> drUuid req = '''' \<or> drReplicaInstanceName req = '''' then
        r_err (disk_invalid ''disk name, disk UUID and replica instance name are required'')
      else disk_ops (drType req) (block_DiskReplicaInstanceDelete s req))"

definition block_MetricsGet :: "'s disk_server \<Rightarrow> DiskRequest \<Rightarrow> ('s, DiskMetrics) remote" where
  "block_MetricsGet s req = block_client s (\<lambda>c.
     r_map disk_metrics_reply (r_map_err internal (sd_MetricsGet c (drName req))))"

definition disk_MetricsGet :: "'s disk_server \<Rightarrow> DiskRequest \<Rightarrow> ('s, DiskMetrics) remote" where
  "disk_MetricsGet s req = named_disk (drName req) (disk_ops (drType req) (block_MetricsGet s req))"

section \<open>The contract of the handlers\<close>

text \<open>
  A handler of the disk service rejects an incomplete request and a type it does not know without
  calling anything; otherwise it calls the operation for block disks. No server that was created with
  SPDK enabled panics.
\<close>

locale disk_handler =
  fixes handle :: "'s disk_server \<Rightarrow> 'req \<Rightarrow> ('s, 'a) remote"
    and block :: "'s disk_server \<Rightarrow> 'req \<Rightarrow> ('s, 'a) remote"
    and call :: "'s disk_client \<Rightarrow> 'req \<Rightarrow> ('s, 'a) remote"
    and complete :: "'req \<Rightarrow> bool"
    and type_of :: "'req \<Rightarrow> DiskType"
    and refusal :: go_error
  assumes handle_eq: "handle s req = (if complete req then disk_ops (type_of req) (block s req) else r_err refusal)"
    and block_eq: "block s req = block_client s (\<lambda>c. call c req)"
    and refusal_code: "status_code refusal = InvalidArgument"
begin

lemma incomplete:
  "\<not> complete req \<Longrightarrow> handle s req st = (st, Err refusal)"
  by (simp add: handle_eq)

lemma unsupported:
  "complete req \<Longrightarrow> type_of req \<noteq> DiskType_block \<Longrightarrow>
   handle s req st = (st, Err (unsupported_disk (type_of req)))"
  by (simp add: handle_eq disk_ops_def)

lemma served:
  "complete req \<Longrightarrow> type_of req = DiskType_block \<Longrightarrow> dsSpdkClient s = Some c \<Longrightarrow> handle s req st = call c req st"
  by (simp add: handle_eq disk_ops_def block_eq block_client_def)

lemma disabled:
  "complete req \<Longrightarrow> type_of req = DiskType_block \<Longrightarrow> dsSpdkClient s = None \<Longrightarrow> handle s req st = (st, Panic)"
  by (simp add: handle_eq disk_ops_def block_eq block_client_def)

end

definition named :: "DiskRequest \<Rightarrow> bool" where "named req \<longleftrightarrow> drName req \<noteq> ''''"

lemma disk_invalid_code [simp]: "status_code (disk_invalid m) = InvalidArgument"
  by (simp add: disk_invalid_def)

interpretation create_disk: disk_handler DiskCreate block_DiskCreate
    "\<lambda>c req. r_map spdkDiskToDisk (r_map_err internal
       (sd_DiskCreate c (dcName req) (dcUuid req) (dcPath req) (dcDriver req) (dcBlockSize req)))"
    "\<lambda>req. dcName req \<noteq> '''' \<and> dcPath req \<noteq> ''''" dcType "disk_invalid ''disk name and disk path are required''"
  by unfold_locales (auto simp: DiskCreate_def block_DiskCreate_def)

interpretation delete_disk: disk_handler DiskDelete block_DiskDelete
    "\<lambda>c req. sd_DiskDelete c (drName req) (drUuid req) (drPath req) (drDriver req)" named drType
    "disk_invalid ''disk name is required''"
  by unfold_locales (simp_all add: DiskDelete_def block_DiskDelete_def named_disk_def named_def)

interpretation get_disk: disk_handler DiskGet block_DiskGet
    "\<lambda>c req. r_map spdkDiskToDisk (r_map_err internal (sd_DiskGet c (drName req) (drPath req) (drDriver req)))"
    named drType "disk_invalid ''disk name is required''"
  by unfold_locales (simp_all add: DiskGet_def block_DiskGet_def named_disk_def named_def)

interpretation health_disk: disk_handler DiskHealthGet block_DiskHealthGet
    "\<lambda>c req. r_map disk_health_response (r_map_err internal (sd_DiskHealthGet c (drName req) (drPath req) (drDriver req)))"
    named drType "disk_invalid ''disk name is required''"
  by unfold_locales (simp_all add: DiskHealthGet_def block_DiskHealthGet_def named_disk_def named_def)

interpretation replicas_disk: disk_handler DiskReplicaInstanceList block_DiskReplicaInstanceList
    "\<lambda>c req. r_map (map (\<lambda>(name, replica). (name, replicaToReplicaInstance replica)))
       (r_map_err internal (sd_ReplicaList c))"
    named drType "disk_invalid ''disk name is required''"
  by unfold_locales
    (simp_all add: DiskReplicaInstanceList_def block_DiskReplicaInstanceList_def named_disk_def named_def)

interpretation replica_delete_disk: disk_handler DiskReplicaInstanceDelete block_DiskReplicaInstanceDelete
    "\<lambda>c req. r_map_err internal (sd_ReplicaDelete c (drReplicaInstanceName req) True)"
    "\<lambda>req. drName req \<noteq> '''' \<and> drUuid req \<noteq> '''' \<and> drReplicaInstanceName req \<noteq> ''''" drType
    "disk_invalid ''disk name, disk UUID and replica instance name are required''"
  by unfold_locales (auto simp: DiskReplicaInstanceDelete_def block_DiskReplicaInstanceDelete_def)

interpretation metrics_disk: disk_handler disk_MetricsGet block_MetricsGet
    "\<lambda>c req. r_map disk_metrics_reply (r_map_err internal (sd_MetricsGet c (drName req)))"
    named drType "disk_invalid ''disk name is required''"
  by unfold_locales (simp_all add: disk_MetricsGet_def block_MetricsGet_def named_disk_def named_def)

end
