(* ===== verification/Disk_Client.thy ===== *)
theory Disk_Client
  imports Disk
begin

text \<open>
  The client of the disk service (\<^verbatim>\<open>pkg/client/disk.go\<close>), and what client and server do together.
\<close>

section \<open>The client\<close>

record 's disk_stub =
  dstub_Create :: "DiskCreateRequest \<Rightarrow> ('s, DiskInfo) remote"
  dstub_Delete :: "DiskRequest \<Rightarrow> ('s, unit) remote"
  dstub_Get :: "DiskRequest \<Rightarrow> ('s, DiskInfo) remote"
  dstub_HealthGet :: "DiskRequest \<Rightarrow> ('s, DiskHealth) remote"
  dstub_ReplicaInstanceList :: "DiskRequest \<Rightarrow> ('s, (string \<times> ReplicaStorageInstance) list) remote"
  dstub_ReplicaInstanceDelete :: "DiskRequest \<Rightarrow> ('s, unit) remote"
  dstub_MetricsGet :: "DiskRequest \<Rightarrow> ('s, DiskMetrics) remote"
  dstub_VersionGet :: "('s, DiskServiceVersionOutput) remote"

definition disk_request :: "DiskType \<Rightarrow> string \<Rightarrow> string \<Rightarrow> string \<Rightarrow> string \<Rightarrow> string \<Rightarrow> DiskRequest" where
  "disk_request t name uuid path driver replica = \<lparr>drType = t, drName = name, drUuid = uuid, drPath = path,
     drDriver = driver, drReplicaInstanceName = replica\<rparr>"

definition missing :: "string \<Rightarrow> go_error" where
  "missing what = PlainError (''failed to '' @ what)"

definition with_disk_type ::
  "string \<Rightarrow> string \<Rightarrow> (DiskType \<Rightarrow> ('s, 'a) remote) \<Rightarrow> ('s, 'a) remote" where
  "with_disk_type what diskType f = (case DiskType_value diskType of
     None \<Rightarrow> r_err (PlainError (''failed to get disk '' @ what @ '': invalid disk type '' @ diskType))
   | Some t \<Rightarrow> f t)"

definition client_DiskCreate ::
  "'s disk_stub \<Rightarrow> string \<Rightarrow> string \<Rightarrow> string \<Rightarrow> string \<Rightarrow> string \<Rightarrow> int \<Rightarrow> ('s, DiskInfo) remote" where
  "client_DiskCreate c diskType diskName diskUUID diskPath diskDriver blockSize =
     (if diskName = '''' \<or> diskPath = '''' then r_err (missing ''create disk: missing required parameters'')
      else with_disk_type ''info'' diskType (\<lambda>t.
        r_map spdkDiskToDisk (dstub_Create c \<lparr>dcType = t, dcName = diskName, dcUuid = diskUUID,
           dcPath = diskPath, dcBlockSize = blockSize, dcDriver = diskDriver\<rparr>)))"

definition client_DiskGet ::
  "'s disk_stub \<Rightarrow> string \<Rightarrow> string \<Rightarrow> string \<Rightarrow> string \<Rightarrow> ('s, DiskInfo) remote" where
  "client_DiskGet c diskType diskName diskPath diskDriver =
     (if diskName = '''' then r_err (missing ''get disk info: missing required parameter diskName'')
      else with_disk_type ''info'' diskType (\<lambda>t.
        r_map spdkDiskToDisk (dstub_Get c (disk_request t diskName '''' diskPath diskDriver ''''))))"

definition client_DiskHealthGet ::
  "'s disk_stub \<Rightarrow> string \<Rightarrow> string \<Rightarrow> string \<Rightarrow> string \<Rightarrow> ('s, DiskHealth) remote" where
  "client_DiskHealthGet c diskType diskName diskPath diskDriver =
     (if diskName = '''' then r_err (missing ''get disk health info: missing required parameter diskName'')
      else with_disk_type ''health info'' diskType (\<lambda>t.
        r_map disk_health_response (dstub_HealthGet c (disk_request t diskName '''' diskPath diskDriver ''''))))"

definition client_DiskDelete ::
  "'s disk_stub \<Rightarrow> string \<Rightarrow> string \<Rightarrow> string \<Rightarrow> string \<Rightarrow> string \<Rightarrow> ('s, unit) remote" where
  "client_DiskDelete c diskType diskName diskUUID diskPath diskDriver =
     (if diskName = '''' then r_err (missing ''delete disk: missing required diskName'')
      else dstub_Delete c (disk_request (DiskType_or_zero diskType) diskName diskUUID diskPath diskDriver ''''))"

definition storage_instance :: "ReplicaStorageInstance \<Rightarrow> ReplicaStorageInstance" where
  "storage_instance i = \<lparr>rsName = rsName i, rsUUID = rsUUID i, rsDiskName = rsDiskName i,
     rsDiskUUID = rsDiskUUID i, rsSpecSize = rsSpecSize i, rsActualSize = rsActualSize i\<rparr>"

definition client_DiskReplicaInstanceList ::
  "'s disk_stub \<Rightarrow> string \<Rightarrow> string \<Rightarrow> string \<Rightarrow> ('s, (string \<times> ReplicaStorageInstance) list) remote" where
  "client_DiskReplicaInstanceList c diskType diskName diskDriver =
     (if diskName = '''' then r_err (missing ''list replica instances on disk: missing required parameter'')
      else r_map (map (\<lambda>(name, i). (name, storage_instance i)))
        (dstub_ReplicaInstanceList c (disk_request (DiskType_or_zero diskType) diskName '''' '''' diskDriver '''')))"

definition client_DiskReplicaInstanceDelete ::
  "'s disk_stub \<Rightarrow> string \<Rightarrow> string \<Rightarrow> string \<Rightarrow> string \<Rightarrow> string \<Rightarrow> ('s, unit) remote" where
  "client_DiskReplicaInstanceDelete c diskType diskName diskUUID diskDriver replciaInstanceName =
     (if diskName = '''' \<or> diskUUID = '''' \<or> replciaInstanceName = '''' then
        r_err (missing ''delete replica instance on disk: missing required parameters'')
      else dstub_ReplicaInstanceDelete c
        (disk_request (DiskType_or_zero diskType) diskName diskUUID '''' diskDriver replciaInstanceName))"

definition client_disk_MetricsGet ::
  "'s disk_stub \<Rightarrow> string \<Rightarrow> string \<Rightarrow> string \<Rightarrow> string \<Rightarrow> ('s, DiskMetrics) remote" where
  "client_disk_MetricsGet c diskType diskName diskPath diskDriver =
     (if diskName = '''' then r_err (missing ''get disk metrics: missing required parameter diskName'')
      else with_disk_type ''metrics'' diskType (\<lambda>t.
        r_map disk_metrics_reply (dstub_MetricsGet c (disk_request t diskName '''' diskPath diskDriver ''''))))"

definition disk_VersionGet :: "build_vars \<Rightarrow> DiskServiceVersionOutput" where
  "disk_VersionGet bv = (let v = GetDiskServiceVersion bv in
     \<lparr>dvVersion = dvVersion v, dvGitCommit = dvGitCommit v, dvBuildDate = dvBuildDate v,
      dvInstanceManagerDiskServiceAPIVersion = wrap64 (dvInstanceManagerDiskServiceAPIVersion v),
      dvInstanceManagerDiskServiceAPIMinVersion = wrap64 (dvInstanceManagerDiskServiceAPIMinVersion v)\<rparr>)"

definition client_disk_VersionGet :: "'s disk_stub \<Rightarrow> ('s, DiskServiceVersionOutput) remote" where
  "client_disk_VersionGet c = r_map (\<lambda>resp.
     \<lparr>dvVersion = dvVersion resp, dvGitCommit = dvGitCommit resp, dvBuildDate = dvBuildDate resp,
      dvInstanceManagerDiskServiceAPIVersion = wrap64 (dvInstanceManagerDiskServiceAPIVersion resp),
      dvInstanceManagerDiskServiceAPIMinVersion = wrap64 (dvInstanceManagerDiskServiceAPIMinVersion resp)\<rparr>)
     (r_map_err (WrapError ''failed to get disk service version'') (dstub_VersionGet c))"

text \<open>The server behind the connection.\<close>

definition disk_server_stub :: "build_vars \<Rightarrow> 's disk_server \<Rightarrow> 's disk_stub" where
  "disk_server_stub bv s = \<lparr>dstub_Create = (\<lambda>r. over_wire (DiskCreate s r)),
     dstub_Delete = (\<lambda>r. over_wire (DiskDelete s r)), dstub_Get = (\<lambda>r. over_wire (DiskGet s r)),
     dstub_HealthGet = (\<lambda>r. over_wire (DiskHealthGet s r)),
     dstub_ReplicaInstanceList = (\<lambda>r. over_wire (DiskReplicaInstanceList s r)),
     dstub_ReplicaInstanceDelete = (\<lambda>r. over_wire (DiskReplicaInstanceDelete s r)),
     dstub_MetricsGet = (\<lambda>r. over_wire (disk_MetricsGet s r)),
     dstub_VersionGet = r_ok (disk_VersionGet bv)\<rparr>"

section \<open>Client and server together\<close>

lemma internal_code [simp]: "status_code (internal e) = Internal"
  by (simp add: internal_def)

lemma unsupported_disk_code [simp]: "status_code (unsupported_disk t) = Unimplemented"
  by (simp add: unsupported_disk_def)

lemma over_wire_apply: "over_wire m st = (fst (m st), map_err wire_error (snd (m st)))"
  by (simp add: over_wire_def r_map_err_apply)

lemma r_map_id [simp]: "r_map (\<lambda>x. x) m = m"
  by (simp add: r_map_def)

lemma r_map_copies [simp]: "r_map spdkDiskToDisk m = m" "r_map disk_health_response h = h"
    "r_map disk_metrics_reply g = g"
  by (simp_all add: r_map_def)

lemma wire_internal: "wire_error (internal e) = internal e"
  by (simp add: wire_error_def internal_def FromError_def)

text \<open>
  C33: A disk created through the client: with a name, a path and the type block the SPDK service
  gets exactly one call, with the arguments of the client, and the client gets every field of the disk it
  answers, or its error as Internal. In every other case the SPDK service is not called and the client
  gets an error; a type that is known but not block is answered with Unimplemented.
\<close>

theorem disk_create_end_to_end:
  assumes "dsSpdkClient s = Some c"
  shows "client_DiskCreate (disk_server_stub bv s) t name uuid path driver blk st =
    (if name \<noteq> '''' \<and> path \<noteq> '''' \<and> t = ''block'' then
       (case sd_DiskCreate c name uuid path driver blk st of (st', r) \<Rightarrow> (st', map_err internal r))
     else (st, Err (if name = '''' \<or> path = '''' then missing ''create disk: missing required parameters''
        else case DiskType_value t of
          None \<Rightarrow> PlainError (''failed to get disk info: invalid disk type '' @ t)
        | Some d \<Rightarrow> wire_error (unsupported_disk d))))"
proof (cases "name = '''' \<or> path = ''''")
  case True
  then show ?thesis by (auto simp: client_DiskCreate_def)
next
  case complete: False
  show ?thesis
  proof (cases "t = ''block''")
    case True
    then show ?thesis using complete assms
      by (simp add: client_DiskCreate_def with_disk_type_def DiskType_value_def disk_server_stub_def
          over_wire_apply create_disk.served r_map_err_apply map_err_map_err wire_internal o_def split: prod.splits)
  next
    case False
    then show ?thesis using complete
      by (auto simp: client_DiskCreate_def with_disk_type_def DiskType_value_def disk_server_stub_def
          over_wire_apply create_disk.unsupported)
  qed
qed

text \<open>
  The replicas listed for a disk are the replicas of all disks, and a replica deleted on a disk is
  deleted wherever it is: neither answer depends on the disk that is named.
\<close>

theorem disk_replicas_any_disk:
  assumes "disk \<noteq> ''''" "disk' \<noteq> ''''" "uuid \<noteq> ''''" "uuid' \<noteq> ''''"
  shows "client_DiskReplicaInstanceList (disk_server_stub bv s) t disk driver =
      client_DiskReplicaInstanceList (disk_server_stub bv s) t disk' driver'
    \<and> client_DiskReplicaInstanceDelete (disk_server_stub bv s) t disk uuid driver replica =
      client_DiskReplicaInstanceDelete (disk_server_stub bv s) t disk' uuid' driver' replica"
  using assms
  by (auto simp: client_DiskReplicaInstanceList_def client_DiskReplicaInstanceDelete_def disk_request_def
      disk_server_stub_def DiskReplicaInstanceList_def DiskReplicaInstanceDelete_def named_disk_def
      block_DiskReplicaInstanceList_def block_DiskReplicaInstanceDelete_def)

text \<open>An unknown type is taken for the file system by the calls that do not check it.\<close>

lemma unknown_type_is_filesystem:
  "DiskType_value t = None \<Longrightarrow> DiskType_or_zero t = DiskType_filesystem"
  by (simp add: DiskType_or_zero_def)

lemma disk_version_roundtrip:
  "client_disk_VersionGet (disk_server_stub bv s) st = (st, Ok (GetDiskServiceVersion bv))"
  by (simp add: client_disk_VersionGet_def disk_server_stub_def disk_VersionGet_def GetDiskServiceVersion_def
      Let_def r_map_apply r_map_err_apply wrap64_def InstanceManagerDiskServiceAPIVersion_def
      InstanceManagerDiskServiceAPIMinVersion_def)

section \<open>Witnesses\<close>

definition w_disk :: DiskInfo where
  "w_disk = \<lparr>diID = ''id'', diName = ''d1'', diUUID = ''u1'', diPath = ''/dev/sdb'', diType = ''block'',
     diDriver = ''aio'', diTotalSize = 1000, diFreeSize = 500, diTotalBlocks = 10, diFreeBlocks = 5,
     diBlockSize = 100, diClusterSize = 1, diState = ''ready'', diMessage = ''''\<rparr>"

definition w_replicas :: "(string \<times> spdk_replica) list" where
  "w_replicas = [(''r1'', \<lparr>srName = ''r1'', srLvsName = ''d1'', srLvsUUID = ''u1'', srSpecSize = 1, srActualSize = 1\<rparr>),
     (''r2'', \<lparr>srName = ''r2'', srLvsName = ''d2'', srLvsUUID = ''u2'', srSpecSize = 1, srActualSize = 1\<rparr>)]"

definition w_disk_client :: "nat disk_client" where
  "w_disk_client = \<lparr>sd_DiskCreate = (\<lambda>name uuid path driver blk n. (Suc n, Ok w_disk)),
     sd_DiskDelete = (\<lambda>name uuid path driver n. (Suc n, Ok ())),
     sd_DiskGet = (\<lambda>name path driver. r_ok w_disk),
     sd_DiskHealthGet = (\<lambda>name path driver. r_err (PlainError ''no health'')),
     sd_ReplicaList = r_ok w_replicas, sd_ReplicaDelete = (\<lambda>name cleanup n. (Suc n, Ok ())),
     sd_MetricsGet = (\<lambda>name. r_err (PlainError ''no metrics''))\<rparr>"

definition w_disk_server :: "nat disk_server" where
  "w_disk_server = \<lparr>dsSpdkClient = Some w_disk_client\<rparr>"

definition w_build :: build_vars where
  "w_build = \<lparr>bvVersion = ''v1'', bvGitCommit = ''abc'', bvBuildDate = ''today''\<rparr>"

theorem disk_create_end_to_end_witness:
  "client_DiskCreate (disk_server_stub w_build w_disk_server) ''block'' ''d1'' '''' ''/dev/sdb'' ''aio'' 512 0 = (1, Ok w_disk)"
  using disk_create_end_to_end[of w_disk_server w_disk_client w_build "''block''" "''d1''" "''''" "''/dev/sdb''" "''aio''" 512 0]
  by (simp add: w_disk_server_def w_disk_client_def)

theorem disk_replicas_any_disk_witness:
  "client_DiskReplicaInstanceList (disk_server_stub w_build w_disk_server) ''block'' ''d1'' ''aio'' =
     client_DiskReplicaInstanceList (disk_server_stub w_build w_disk_server) ''block'' ''d2'' ''nvme''"
  using disk_replicas_any_disk[of "''d1''" "''d2''" "''u1''" "''u2''" w_build w_disk_server "''block''" "''aio''" "''nvme''" "''r1''"]
  by simp

end
