(* ===== verification/Proxy_Env.thy ===== *)
theory Proxy_Env
  imports IM_Types
begin

text \<open>
  \<^verbatim>\<open>pkg/proxy/env_allowlist.go\<close> and \<^verbatim>\<open>setEnv\<close>, \<^verbatim>\<open>getLabels\<close> of \<^verbatim>\<open>pkg/proxy/backup.go\<close>: which
  environment variables a caller of the proxy can set in the privileged instance manager.
\<close>

section \<open>The allowlist\<close>

definition backupEnvAllowlist :: "string list" where
  "backupEnvAllowlist =
     [''AWS_ACCESS_KEY_ID'', ''AWS_SECRET_ACCESS_KEY'', ''AWS_ENDPOINTS'', ''AWS_CERT'', ''VIRTUAL_HOSTED_STYLE'',
      ''AWS_SIGN_ACCEPT_ENCODING'',
      ''CIFS_USERNAME'', ''CIFS_PASSWORD'',
      ''AZBLOB_ACCOUNT_NAME'', ''AZBLOB_ACCOUNT_KEY'', ''AZBLOB_ENDPOINT'', ''AZBLOB_CERT'',
      ''HTTPS_PROXY'', ''HTTP_PROXY'', ''NO_PROXY'']"

definition isBackupEnvAllowed :: "string \<Rightarrow> bool" where
  "isBackupEnvAllowed key \<longleftrightarrow> key \<in> set backupEnvAllowlist"

definition validate_entry :: "string \<Rightarrow> unit go_result" where
  "validate_entry env = (case strings_Cut env CHR ''='' of (key, _, ok) \<Rightarrow>
     if \<not> ok then Err (PlainError (''malformed env entry '' @ quoted env @ '': expected KEY=VALUE''))
     else if key = '''' then Err (PlainError (''malformed env entry '' @ quoted env @ '': empty key''))
     else if \<not> isBackupEnvAllowed key then
       Err (PlainError (''env key '' @ quoted key @ '' is not permitted by the backup env allowlist''))
     else Ok ())"

fun validateBackupEnv :: "string list \<Rightarrow> unit go_result" where
  "validateBackupEnv [] = Ok ()"
| "validateBackupEnv (env # envs) = go_bind (validate_entry env) (\<lambda>_. validateBackupEnv envs)"

section \<open>Setting the environment\<close>

type_synonym environment = "string \<rightharpoonup> string"

text \<open>
  \<^verbatim>\<open>os.Setenv\<close> refuses an empty key, a key with an equals sign or a zero byte, and a value with a zero byte.
\<close>

definition NUL :: char where "NUL = CHR 0x00"

definition os_Setenv :: "string \<Rightarrow> string \<Rightarrow> environment \<Rightarrow> environment \<times> unit go_result" where
  "os_Setenv key value m =
     (if key = '''' \<or> CHR ''='' \<in> set key \<or> NUL \<in> set key \<or> NUL \<in> set value
      then (m, Err (PlainError ''setenv: invalid argument''))
      else (m(key \<mapsto> value), Ok ()))"

fun set_entries :: "string list \<Rightarrow> environment \<Rightarrow> environment \<times> unit go_result" where
  "set_entries [] m = (m, Ok ())"
| "set_entries (env # envs) m = (case strings_Cut env CHR ''='' of (key, value, ok) \<Rightarrow>
     if \<not> ok then (m, Err (PlainError (''invalid environment entry '' @ quoted env @ '': expected KEY=VALUE'')))
     else case os_Setenv key value m of
        (m', Ok _) \<Rightarrow> set_entries envs m'
      | (m', r) \<Rightarrow> (m', r))"

definition setEnv :: "string list \<Rightarrow> environment \<Rightarrow> environment \<times> unit go_result" where
  "setEnv envs m = (case validateBackupEnv envs of
     Ok _ \<Rightarrow> set_entries envs m
   | r \<Rightarrow> (m, r))"

text \<open>The labels of a backup, in the order in which the map is walked.\<close>

definition getLabels :: "(string \<times> string) list \<Rightarrow> string list" where
  "getLabels labels = map (\<lambda>(k, v). k @ ''='' @ v) labels"

section \<open>What a caller can set\<close>

definition entry_key :: "string \<Rightarrow> string" where
  "entry_key env = fst (strings_Cut env CHR ''='')"

definition entry_value :: "string \<Rightarrow> string" where
  "entry_value env = fst (snd (strings_Cut env CHR ''=''))"

definition entry_ok :: "string \<Rightarrow> bool" where
  "entry_ok env \<longleftrightarrow> CHR ''='' \<in> set env \<and> isBackupEnvAllowed (entry_key env)"

lemma allowed_nonempty: "isBackupEnvAllowed k \<Longrightarrow> k \<noteq> ''''"
  by (auto simp: isBackupEnvAllowed_def backupEnvAllowlist_def)

lemma allowed_plain: "isBackupEnvAllowed k \<Longrightarrow> CHR ''='' \<notin> set k \<and> NUL \<notin> set k"
  unfolding isBackupEnvAllowed_def backupEnvAllowlist_def by (auto simp: NUL_def)

lemma validate_entry_ok: "validate_entry env = Ok () \<longleftrightarrow> entry_ok env"
  using strings_Cut_ok[of env "CHR ''=''"] allowed_nonempty
  by (auto simp: validate_entry_def entry_ok_def entry_key_def split: prod.splits)

lemma validateBackupEnv_ok: "validateBackupEnv envs = Ok () \<longleftrightarrow> (\<forall>env \<in> set envs. entry_ok env)"
  by (induction envs) (auto simp: go_bind_Ok_iff validate_entry_ok)

lemma validate_entry_cases: "validate_entry env = Ok () \<or> (\<exists>e. validate_entry env = Err e)"
  by (auto simp: validate_entry_def split: prod.splits)

lemma validateBackupEnv_cases: "validateBackupEnv envs = Ok () \<or> (\<exists>e. validateBackupEnv envs = Err e)"
proof (induction envs)
  case (Cons env envs)
  then show ?case using validate_entry_cases[of env] by auto
qed simp

lemma setEnv_rejected:
  "\<not> (\<forall>env \<in> set envs. entry_ok env) \<Longrightarrow> \<exists>e. setEnv envs m = (m, Err e)"
  using validateBackupEnv_cases[of envs] validateBackupEnv_ok[of envs] by (auto simp: setEnv_def)

lemma setEnv_accepted:
  "\<forall>env \<in> set envs. entry_ok env \<Longrightarrow> setEnv envs m = set_entries envs m"
  using validateBackupEnv_ok[of envs] by (simp add: setEnv_def)

lemma set_entry:
  assumes "entry_ok env"
  shows "set_entries (env # envs) m =
    (if NUL \<in> set (entry_value env) then (m, Err (PlainError ''setenv: invalid argument''))
     else set_entries envs (m(entry_key env \<mapsto> entry_value env)))"
  using assms allowed_plain[of "entry_key env"] allowed_nonempty[of "entry_key env"] strings_Cut_ok[of env "CHR ''=''"]
  by (cases "strings_Cut env CHR ''=''")
    (auto simp: entry_ok_def entry_key_def entry_value_def os_Setenv_def)

lemma set_entries_frame:
  "\<forall>env \<in> set envs. entry_ok env \<Longrightarrow> \<not> isBackupEnvAllowed k \<Longrightarrow> fst (set_entries envs m) k = m k"
  by (induction envs arbitrary: m) (auto simp: set_entry entry_ok_def simp del: set_entries.simps(2))

lemma setEnv_frame: "\<not> isBackupEnvAllowed k \<Longrightarrow> fst (setEnv envs m) k = m k"
  by (cases "\<forall>env \<in> set envs. entry_ok env")
    (use setEnv_accepted[of envs m] set_entries_frame[of envs k m] setEnv_rejected[of envs m] in auto)

definition set_all :: "string list \<Rightarrow> environment \<Rightarrow> environment" where
  "set_all envs m = foldl (\<lambda>m env. m(entry_key env \<mapsto> entry_value env)) m envs"

lemma set_entries_all:
  "\<forall>env \<in> set envs. entry_ok env \<and> NUL \<notin> set (entry_value env) \<Longrightarrow> set_entries envs m = (set_all envs m, Ok ())"
  by (induction envs arbitrary: m) (auto simp: set_entry set_all_def simp del: set_entries.simps(2))


text \<open>
  A request can fail with some of its variables set: every entry below is allowed, and the zero
  byte that makes the second one fail is only found after the first one was set.
\<close>

theorem env_partially_set:
  "setEnv [''AWS_CERT=x'', ''NO_PROXY='' @ [NUL]] m =
     (m(''AWS_CERT'' \<mapsto> ''x''), Err (PlainError ''setenv: invalid argument''))"
proof -
  have "\<forall>env \<in> set [''AWS_CERT=x'', ''NO_PROXY='' @ [NUL]]. entry_ok env" by code_simp
  from setEnv_accepted[OF this, of m] show ?thesis by (simp add: os_Setenv_def NUL_def)
qed


end
