(* ===== verification/Proxy_Types.thy ===== *)
theory Proxy_Types
  imports Disk Proxy_Env
begin

text \<open>
  The messages of the proxy service, the clients it calls (the controller client, the sync tasks and the
  replica client of the V1 engine, the SPDK client of the V2 engine) and \<^verbatim>\<open>pkg/proxy/proxy.go\<close>. A map that
  a handler walks is the list of its entries in the order of the walk.
\<close>

section \<open>Requests\<close>

record ProxyEngineRequest =
  peAddress :: string
  peEngineName :: string
  peEngineFrontendName :: string
  peDataEngine :: DataEngine
  peVolumeName :: string

text \<open>Most requests carry that message, which may be missing, beside a body of their own.\<close>

record 'x engine_request =
  erProxy :: "ProxyEngineRequest option"
  erBody :: 'x

datatype ReplicaMode = ReplicaMode_WO | ReplicaMode_RW | ReplicaMode_ERR | ReplicaMode_OTHER int

text \<open>The modes of the engines are strings.\<close>

definition ModeRW :: string where "ModeRW = ''RW''"
definition ModeWO :: string where "ModeWO = ''WO''"
definition ModeERR :: string where "ModeERR = ''ERR''"

definition replicaModeToGRPCReplicaMode :: "string \<Rightarrow> ReplicaMode" where
  "replicaModeToGRPCReplicaMode mode =
     (if mode = ModeWO then ReplicaMode_WO else if mode = ModeRW then ReplicaMode_RW else ReplicaMode_ERR)"

fun GRPCReplicaModeToReplicaMode :: "ReplicaMode \<Rightarrow> string" where
  "GRPCReplicaModeToReplicaMode ReplicaMode_WO = ModeWO"
| "GRPCReplicaModeToReplicaMode ReplicaMode_RW = ModeRW"
| "GRPCReplicaModeToReplicaMode ReplicaMode_ERR = ModeERR"
| "GRPCReplicaModeToReplicaMode (ReplicaMode_OTHER n) = ModeERR"

lemma replica_mode_roundtrip:
  "m \<in> {ReplicaMode_WO, ReplicaMode_RW, ReplicaMode_ERR} \<Longrightarrow>
   replicaModeToGRPCReplicaMode (GRPCReplicaModeToReplicaMode m) = m"
  by (cases m) (simp_all add: replicaModeToGRPCReplicaMode_def ModeRW_def ModeWO_def ModeERR_def)

record ControllerReplica =
  crAddress :: string
  crInstanceName :: string
  crMode :: ReplicaMode

record Volume =
  volName :: string
  volSize :: int
  volReplicaCount :: int
  volEndpoint :: string
  volFrontend :: string
  volFrontendState :: string
  volIsExpanding :: bool
  volLastExpansionError :: string
  volLastExpansionFailedAt :: string
  volUnmapMarkSnapChainRemoved :: bool
  volSnapshotMaxCount :: int
  volSnapshotMaxSize :: int

record SnapshotDiskInfo =
  sniName :: string
  sniParent :: string
  sniChildren :: "string list"
  sniRemoved :: bool
  sniUserCreated :: bool
  sniCreated :: string
  sniSize :: string
  sniLabels :: "(string \<times> string) list"

record SnapshotCloneStatus =
  csIsCloning :: bool
  csError :: string
  csProgress :: int
  csState :: string
  csFromReplicaAddress :: string
  csSnapshotName :: string

record SnapshotPurgeStatus =
  spIsPurging :: bool
  spError :: string
  spProgress :: int
  spState :: string

record SnapshotHashStatus =
  shsState :: string
  shsChecksum :: string
  shsError :: string
  shsSilentlyCorrupted :: bool

record ReplicaRebuildStatus =
  rrError :: string
  rrIsRebuilding :: bool
  rrProgress :: int
  rrState :: string
  rrFromReplicaAddressList :: "string list"

record BackupStatus =
  bsBackupURL :: string
  bsError :: string
  bsProgress :: int
  bsSnapshotName :: string
  bsState :: string
  bsReplicaAddress :: string

record RestoreStatus =
  rtIsRestoring :: bool
  rtLastRestored :: string
  rtCurrentRestoringBackup :: string
  rtProgress :: int
  rtError :: string
  rtFilename :: string
  rtState :: string
  rtBackupURL :: string

record EngineVersion =
  evVersion :: string
  evGitCommit :: string
  evBuildDate :: string
  evCLIAPIVersion :: int
  evCLIAPIMinVersion :: int
  evControllerAPIVersion :: int
  evControllerAPIMinVersion :: int
  evDataFormatVersion :: int
  evDataFormatMinVersion :: int

record SnapshotBackupBody =
  sbBackupName :: string
  sbSnapshotName :: string
  sbBackupTarget :: string
  sbBackingImageName :: string
  sbBackingImageChecksum :: string
  sbCompressionMethod :: string
  sbConcurrentLimit :: int
  sbStorageClassName :: string
  sbLabels :: "(string \<times> string) list"
  sbEnvs :: "string list"
  sbParameters :: "(string \<times> string) list"

record BackupCreateReply =
  bcBackupId :: string
  bcReplica :: string
  bcIsIncremental :: bool

section \<open>The clients of the V1 engine\<close>

record v1_replica =
  vrAddress :: string
  vrMode :: string

type_synonym credential = "string \<rightharpoonup> string"

record 's controller_client =
  ctl_VersionDetailGet :: "('s, EngineVersion) remote"
  ctl_VolumeGet :: "('s, Volume) remote"
  ctl_VolumeExpand :: "int \<Rightarrow> ('s, unit) remote"
  ctl_VolumeFrontendStart :: "string \<Rightarrow> ('s, unit) remote"
  ctl_VolumeFrontendShutdown :: "('s, unit) remote"
  ctl_VolumeUnmapMarkSnapChainRemovedSet :: "bool \<Rightarrow> ('s, unit) remote"
  ctl_VolumeSnapshotMaxCountSet :: "int \<Rightarrow> ('s, unit) remote"
  ctl_VolumeSnapshotMaxSizeSet :: "int \<Rightarrow> ('s, unit) remote"
  ctl_VolumeSnapshot :: "string \<Rightarrow> (string \<times> string) list \<Rightarrow> bool \<Rightarrow> ('s, string) remote"
  ctl_VolumeRevert :: "string \<Rightarrow> ('s, unit) remote"
  ctl_ReplicaList :: "('s, v1_replica list) remote"
  ctl_ReplicaDelete :: "string \<Rightarrow> ('s, unit) remote"
  ctl_ReplicaUpdate :: "string \<Rightarrow> string \<Rightarrow> ('s, unit) remote"
  ctl_ReplicaRebuildConcurrentSyncLimitSet :: "int \<Rightarrow> ('s, unit) remote"
  ctl_ReplicaRebuildConcurrentSyncLimitGet :: "('s, int) remote"
  ctl_MetricsGet :: "('s, DiskMetrics) remote"
  ctl_CloneStatus :: "string \<Rightarrow> ('s, (string \<times> SnapshotCloneStatus) list) remote"

record FileLocalSync =
  flSourcePath :: string
  flTargetPath :: string

record 's sync_task =
  task_AddRestoreReplica :: "int \<Rightarrow> int \<Rightarrow> string \<Rightarrow> string \<Rightarrow> ('s, unit) remote"
  task_AddReplica :: "int \<Rightarrow> int \<Rightarrow> string \<Rightarrow> string \<Rightarrow> int \<Rightarrow> bool \<Rightarrow> FileLocalSync option \<Rightarrow> int \<Rightarrow> ('s, unit) remote"
  task_RebuildStatus :: "('s, (string \<times> ReplicaRebuildStatus) list) remote"
  task_VerifyRebuildReplica :: "string \<Rightarrow> string \<Rightarrow> ('s, unit) remote"
  task_CancelSnapshotHashJob :: "string \<Rightarrow> string list \<Rightarrow> ('s, unit) remote"
  task_PurgeSnapshots :: "bool \<Rightarrow> ('s, unit) remote"
  task_PurgeSnapshotStatus :: "('s, (string \<times> SnapshotPurgeStatus) list) remote"
  task_DeleteSnapshot :: "string \<Rightarrow> ('s, unit) remote"
  task_HashSnapshot :: "string \<Rightarrow> bool \<Rightarrow> ('s, unit) remote"
  task_HashSnapshotStatus :: "string \<Rightarrow> ('s, (string \<times> SnapshotHashStatus) list) remote"
  task_CreateBackup :: "SnapshotBackupBody \<Rightarrow> string list \<Rightarrow> credential \<Rightarrow> ('s, BackupCreateReply) remote"
  task_RestoreBackup :: "string \<Rightarrow> credential \<Rightarrow> int \<Rightarrow> bool \<Rightarrow> ('s, unit) remote"
  task_RestoreStatus :: "('s, (string \<times> RestoreStatus) list) remote"

section \<open>The SPDK client\<close>

record spdk_snapshot =
  ssName :: string
  ssParent :: string
  ssChildren :: "string list"
  ssUserCreated :: bool
  ssSnapshotTimestamp :: string
  ssCreationTime :: string
  ssActualSize :: nat

record spdk_engine =
  seName :: string
  seSpecSize :: int
  seEndpoint :: string
  seFrontend :: string
  seIsExpanding :: bool
  seLastExpansionError :: string
  seLastExpansionFailedAt :: string
  seReplicaModeMap :: "(string \<times> string) list"
  seReplicaAddressMap :: "(string \<times> string) list"
  seSnapshotMaxCount :: int
  seSnapshots :: "(string \<times> spdk_snapshot) list"
  seHead :: "spdk_snapshot option"

record spdk_frontend =
  sfSpecSize :: int
  sfEndpoint :: string
  sfFrontend :: string
  sfIsExpanding :: bool
  sfLastExpansionError :: string
  sfLastExpansionFailedAt :: string

record ShallowCopyStatus =
  scsError :: string
  scsTotalState :: string
  scsTotalProgress :: int
  scsSrcReplicaAddress :: string

record LinkedCloneSource =
  lcReplicaName :: string
  lcEngineName :: string
  lcEngineAddress :: string

record SpdkBackupCreateRequest =
  sbrBody :: SnapshotBackupBody
  sbrVolumeName :: string
  sbrEngineName :: string
  sbrLabels :: "string list"
  sbrCredential :: credential

record SnapshotCloneBody =
  scbSnapshotName :: string
  scbFromEngineAddress :: string
  scbFromVolumeName :: string
  scbFromEngineName :: string
  scbExportBackingImageIfExist :: bool
  scbFileSyncHttpClientTimeout :: int
  scbGrpcTimeoutSeconds :: int
  scbCloneMode :: int
  scbReplicaPairs :: "(string \<times> string) list"

record 's proxy_spdk =
  px_EngineGet :: "string \<Rightarrow> ('s, spdk_engine) remote"
  px_EngineFrontendGet :: "string \<Rightarrow> ('s, spdk_frontend) remote"
  px_EngineFrontendExpand :: "string \<Rightarrow> int \<Rightarrow> ('s, unit) remote"
  px_EngineSnapshotMaxCountSet :: "string \<Rightarrow> int \<Rightarrow> ('s, unit) remote"
  px_EngineFrontendReplicaAdd :: "string \<Rightarrow> string \<Rightarrow> string \<Rightarrow> bool \<Rightarrow> LinkedCloneSource option \<Rightarrow> ('s, unit) remote"
  px_EngineReplicaDelete :: "string \<Rightarrow> string \<Rightarrow> string \<Rightarrow> ('s, unit) remote"
  px_RebuildingShallowCopyCheck :: "string \<Rightarrow> ('s, ShallowCopyStatus) remote"
  px_RebuildingSetQosLimit :: "string \<Rightarrow> int \<Rightarrow> ('s, unit) remote"
  px_EngineFrontendSnapshotCreate :: "string \<Rightarrow> string \<Rightarrow> ('s, unit) remote"
  px_EngineFrontendSnapshotRevert :: "string \<Rightarrow> string \<Rightarrow> ('s, unit) remote"
  px_EngineFrontendSnapshotPurge :: "string \<Rightarrow> ('s, unit) remote"
  px_EngineFrontendSnapshotDelete :: "string \<Rightarrow> string \<Rightarrow> ('s, unit) remote"
  px_EngineSnapshotClone :: "string \<Rightarrow> SnapshotCloneBody \<Rightarrow> ('s, unit) remote"
  px_CloneDstStatusCheck :: "string \<Rightarrow> ('s, SnapshotCloneStatus option) remote"
  px_EngineSnapshotHash :: "string \<Rightarrow> string \<Rightarrow> bool \<Rightarrow> ('s, unit) remote"
  px_EngineSnapshotHashStatus :: "string \<Rightarrow> string \<Rightarrow> ('s, (string \<times> SnapshotHashStatus) list) remote"
  px_MetricsGet :: "string \<Rightarrow> ('s, DiskMetrics) remote"
  px_EngineBackupCreate :: "SpdkBackupCreateRequest \<Rightarrow> ('s, BackupCreateReply) remote"
  px_EngineBackupStatus :: "string \<Rightarrow> string \<Rightarrow> string \<Rightarrow> ('s, BackupStatus option) remote"
  px_EngineBackupRestore :: "string \<Rightarrow> string \<Rightarrow> credential \<Rightarrow> int \<Rightarrow> ('s, unit) remote"
  px_EngineRestoreStatus :: "string \<Rightarrow> ('s, string \<times> (string \<times> RestoreStatus) list) remote"
  px_Close :: "('s, unit) remote"

section \<open>The proxy\<close>

text \<open>
  What the proxy can reach: the controller, the tasks and a replica of a V1 volume by address, volume and
  name, the snapshots of replicas, and an SPDK service by address. \<open>pxAddress\<close> is the address of the local SPDK
  service.
\<close>

record 's Proxy =
  pxAddress :: string
  pxSpdk :: "string \<Rightarrow> ('s, 's proxy_spdk) remote"
  pxController :: "string \<Rightarrow> string \<Rightarrow> string \<Rightarrow> ('s, 's controller_client) remote"
  pxTask :: "string \<Rightarrow> string \<Rightarrow> string \<Rightarrow> ('s, 's sync_task) remote"
  pxReplicaConnect :: "string \<Rightarrow> string \<Rightarrow> string \<Rightarrow> ('s, unit) remote"
  pxFetchBackupStatus :: "string \<Rightarrow> string \<Rightarrow> string \<Rightarrow> string \<Rightarrow> ('s, BackupStatus) remote"
  pxGetSnapshotsInfo :: "v1_replica list \<Rightarrow> string \<Rightarrow> ('s, (string \<times> SnapshotDiskInfo) list) remote"
  pxCloneSnapshot :: "string \<times> string \<times> string \<Rightarrow> SnapshotCloneBody \<Rightarrow> ('s, unit) remote"

definition lift_go :: "'a go_result \<Rightarrow> ('s, 'a) remote" where
  "lift_go r = (\<lambda>s. (s, r))"

lemma lift_go_simps [simp]:
  "lift_go r s = (s, r)" "r_bind (lift_go (Ok x)) f = f x" "r_bind (lift_go (Err e)) f = r_err e"
  by (simp_all add: lift_go_def r_bind_def r_err_def fun_eq_iff)

definition getSPDKClientFromAddress :: "'s Proxy \<Rightarrow> string \<Rightarrow> ('s, 's proxy_spdk) remote" where
  "getSPDKClientFromAddress p address = r_bind (lift_go (net_SplitHostPort address)) (\<lambda>(host, _).
     pxSpdk p (net_JoinHostPort host (strconv_Itoa InstanceManagerSpdkServiceDefaultPort)))"

definition status_colon :: "string \<Rightarrow> go_error \<Rightarrow> go_error" where
  "status_colon m e = StatusError Internal (m @ '': '' @ error_string e)"

definition spdk_at :: "'s Proxy \<Rightarrow> string \<Rightarrow> ('s, 's proxy_spdk) remote" where
  "spdk_at p address = r_map_err (status_colon (''failed to get SPDK client from engine address '' @ address))
     (getSPDKClientFromAddress p address)"

definition controller_of :: "'s Proxy \<Rightarrow> ProxyEngineRequest \<Rightarrow> ('s, 's controller_client) remote" where
  "controller_of p req = pxController p (peAddress req) (peVolumeName req) (peEngineName req)"

definition task_of :: "'s Proxy \<Rightarrow> ProxyEngineRequest \<Rightarrow> ('s, 's sync_task) remote" where
  "task_of p req = pxTask p (peAddress req) (peVolumeName req) (peEngineName req)"

text \<open>Every handler reads the data engine of the embedded message first: without it it panics.\<close>

definition proxied ::
  "'x engine_request \<Rightarrow> (ProxyEngineRequest \<Rightarrow> 'x \<Rightarrow> ('s, 'a) remote) \<Rightarrow> (ProxyEngineRequest \<Rightarrow> 'x \<Rightarrow> ('s, 'a) remote)
     \<Rightarrow> ('s, 'a) remote" where
  "proxied req v1 v2 = (case erProxy req of
     None \<Rightarrow> r_panic
   | Some pe \<Rightarrow> dispatch (peDataEngine pe) (v1 pe (erBody req)) (v2 pe (erBody req)))"

text \<open>Where the body is a message of its own, the handler logs one of its fields before it dispatches.\<close>

definition proxied_body ::
  "'x option engine_request \<Rightarrow> (ProxyEngineRequest \<Rightarrow> 'x \<Rightarrow> ('s, 'a) remote) \<Rightarrow> (ProxyEngineRequest \<Rightarrow> 'x \<Rightarrow> ('s, 'a) remote)
     \<Rightarrow> ('s, 'a) remote" where
  "proxied_body req v1 v2 = (case erBody req of
     None \<Rightarrow> r_panic
   | Some b \<Rightarrow> proxied \<lparr>erProxy = erProxy req, erBody = b\<rparr> v1 v2)"

definition ServerVersionGet :: "'s Proxy \<Rightarrow> ProxyEngineRequest \<Rightarrow> ('s, EngineVersion) remote" where
  "ServerVersionGet p req = r_bind (controller_of p req) (\<lambda>c. r_map (\<lambda>recv.
     \<lparr>evVersion = evVersion recv, evGitCommit = evGitCommit recv, evBuildDate = evBuildDate recv,
      evCLIAPIVersion = wrap64 (evCLIAPIVersion recv), evCLIAPIMinVersion = wrap64 (evCLIAPIMinVersion recv),
      evControllerAPIVersion = wrap64 (evControllerAPIVersion recv),
      evControllerAPIMinVersion = wrap64 (evControllerAPIMinVersion recv),
      evDataFormatVersion = wrap64 (evDataFormatVersion recv),
      evDataFormatMinVersion = wrap64 (evDataFormatMinVersion recv)\<rparr>) (ctl_VersionDetailGet c))"

text \<open>The service port is the one constant of the address; the host is the engine's.\<close>

lemma getSPDKClientFromAddress_join:
  assumes "plain_addr host" "plain_addr port" "CHR '':'' \<notin> set port"
  shows "getSPDKClientFromAddress p (net_JoinHostPort host port) =
    pxSpdk p (net_JoinHostPort host (strconv_Itoa InstanceManagerSpdkServiceDefaultPort))"
  using assms by (simp add: getSPDKClientFromAddress_def SplitHostPort_JoinHostPort)

end
