(* ===== verification/Proxy_Backup.thy ===== *)
theory Proxy_Backup
  imports Proxy_Types "HOL-Library.Multiset"
begin

text \<open>
  \<^verbatim>\<open>pkg/proxy/backup.go\<close>: backups of snapshots, their status, and restores. The environment of the
  process is a state beside the services, because the credentials are read from it.
\<close>

section \<open>Creating backups\<close>

text \<open>\<^verbatim>\<open>GetBackupCredential\<close> of the backup store reads the environment; it is a parameter.\<close>

type_synonym credential_source = "string \<Rightarrow> environment \<Rightarrow> credential go_result"

definition in_env :: "('s, 'a) remote \<Rightarrow> (environment \<times> 's, 'a) remote" where
  "in_env m = (\<lambda>(env, s). case m s of (s', r) \<Rightarrow> ((env, s'), r))"

definition set_env :: "string list \<Rightarrow> (environment \<times> 's, unit) remote" where
  "set_env envs = r_map_err (status_wrap Internal ''failed to set envs'')
     (\<lambda>(env, s). case setEnv envs env of (env', r) \<Rightarrow> ((env', s), r))"

definition get_credential :: "credential_source \<Rightarrow> string \<Rightarrow> (environment \<times> 's, credential) remote" where
  "get_credential src target = r_map_err
     (\<lambda>e. StatusError InvalidArgument (''failed to get backup credential: '' @ error_string e))
     (\<lambda>(env, s). ((env, s), src target env))"

definition V1_SnapshotBackup ::
  "'s Proxy \<Rightarrow> ProxyEngineRequest \<Rightarrow> SnapshotBackupBody \<Rightarrow> credential \<Rightarrow> string list \<Rightarrow> ('s, BackupCreateReply) remote" where
  "V1_SnapshotBackup p pe b cred labels =
     r_bind (r_map_err (status_wrap Internal ''failed to create task'') (task_of p pe)) (\<lambda>task.
     r_map_err (status_wrap Internal ''failed to create backup'') (task_CreateBackup task b labels cred))"

text \<open>\<open>uuid\<close> is the name \<^verbatim>\<open>util.UUID\<close> makes up for a snapshot without a name.\<close>

definition V2_SnapshotBackup ::
  "string \<Rightarrow> 's Proxy \<Rightarrow> ProxyEngineRequest \<Rightarrow> SnapshotBackupBody \<Rightarrow> credential \<Rightarrow> string list \<Rightarrow> ('s, BackupCreateReply) remote" where
  "V2_SnapshotBackup uuid p pe b cred labels = r_bind (spdk_at p (peAddress pe)) (\<lambda>c.
     let snapshotName = (if sbSnapshotName b = '''' then uuid else sbSnapshotName b) in
     r_map_err (status_wrap Internal ''failed to create backup'')
       (px_EngineBackupCreate c \<lparr>sbrBody = b\<lparr>sbSnapshotName := snapshotName\<rparr>, sbrVolumeName = peVolumeName pe,
          sbrEngineName = peEngineName pe, sbrLabels = labels, sbrCredential = cred\<rparr>))"

definition SnapshotBackup ::
  "credential_source \<Rightarrow> string \<Rightarrow> 's Proxy \<Rightarrow> SnapshotBackupBody engine_request
     \<Rightarrow> (environment \<times> 's, BackupCreateReply) remote" where
  "SnapshotBackup src uuid p req = (case erProxy req of
     None \<Rightarrow> r_panic
   | Some pe \<Rightarrow> let b = erBody req in
       r_bind (set_env (sbEnvs b)) (\<lambda>_.
       r_bind (get_credential src (sbBackupTarget b)) (\<lambda>cred.
       in_env (dispatch (peDataEngine pe) (V1_SnapshotBackup p pe b cred (getLabels (sbLabels b)))
                 (V2_SnapshotBackup uuid p pe b cred (getLabels (sbLabels b)))))))"

section \<open>Where the status of a backup is\<close>

text \<open>Requests for a status: the name of the backup, and the replica's address and name if known.\<close>

record BackupStatusBody =
  bqBackupName :: string
  bqReplicaAddress :: string
  bqReplicaName :: string

text \<open>The V1 engine asks its read-write replicas in turn; a replica that fails is skipped.\<close>

fun find_backup_replica ::
  "'s Proxy \<Rightarrow> string \<Rightarrow> string \<Rightarrow> ControllerReplica list \<Rightarrow> ('s, string) remote" where
  "find_backup_replica p vol backup [] = r_ok ''''"
| "find_backup_replica p vol backup (r # rs) =
     (if GRPCReplicaModeToReplicaMode (crMode r) \<noteq> ModeRW then find_backup_replica p vol backup rs
      else (\<lambda>s. case pxReplicaConnect p (crAddress r) vol (crInstanceName r) s of
        (s1, Ok _) \<Rightarrow> (case pxFetchBackupStatus p (crAddress r) vol (crInstanceName r) backup s1 of
            (s2, Ok _) \<Rightarrow> (s2, Ok (crAddress r))
          | (s2, Err _) \<Rightarrow> find_backup_replica p vol backup rs s2
          | (s2, Panic) \<Rightarrow> (s2, Panic)
          | (s2, Diverge) \<Rightarrow> (s2, Diverge))
      | (s1, Err _) \<Rightarrow> find_backup_replica p vol backup rs s1
      | (s1, Panic) \<Rightarrow> (s1, Panic)
      | (s1, Diverge) \<Rightarrow> (s1, Diverge)))"

definition v1_replica_list :: "v1_replica list \<Rightarrow> ControllerReplica list" where
  "v1_replica_list recv = map (\<lambda>r. \<lparr>crAddress = vrAddress r, crInstanceName = '''',
     crMode = replicaModeToGRPCReplicaMode (vrMode r)\<rparr>) recv"

definition V1_ReplicaList :: "'s Proxy \<Rightarrow> ProxyEngineRequest \<Rightarrow> ('s, ControllerReplica list) remote" where
  "V1_ReplicaList p pe = r_bind (controller_of p pe) (\<lambda>c. r_map v1_replica_list (ctl_ReplicaList c))"

definition backup_replica_known :: "ControllerReplica list \<Rightarrow> string \<Rightarrow> bool" where
  "backup_replica_known rs address \<longleftrightarrow>
     (\<forall>r \<in> set rs. crAddress r = address \<longrightarrow> GRPCReplicaModeToReplicaMode (crMode r) = ModeRW)"

definition V1_SnapshotBackupStatus ::
  "'s Proxy \<Rightarrow> ProxyEngineRequest \<Rightarrow> BackupStatusBody \<Rightarrow> ('s, BackupStatus) remote" where
  "V1_SnapshotBackupStatus p pe b = r_bind (controller_of p pe) (\<lambda>c.
     r_bind (V1_ReplicaList p pe) (\<lambda>replicas.
     r_bind (if bqReplicaAddress b = '''' then find_backup_replica p (peVolumeName pe) (bqBackupName b) replicas
             else r_ok (bqReplicaAddress b)) (\<lambda>replicaAddress.
     if replicaAddress = '''' then
       r_err (PlainError (''failed to find a replica with backup '' @ bqBackupName b))
     else if \<not> backup_replica_known replicas replicaAddress then
       r_err (PlainError (''failed to get backup '' @ bqBackupName b @ '' status on unknown replica '' @ replicaAddress))
     else r_bind (r_map_err (WrapError (''failed to create Replica client with '' @ replicaAddress))
         (pxReplicaConnect p replicaAddress (peVolumeName pe) (bqReplicaName b))) (\<lambda>_.
       r_map (\<lambda>status. status\<lparr>bsProgress := wrap32 (bsProgress status), bsReplicaAddress := replicaAddress\<rparr>)
         (pxFetchBackupStatus p replicaAddress (peVolumeName pe) (bqReplicaName b) (bqBackupName b))))))"

text \<open>The V2 engine asks its read-write replicas in the order of their names.\<close>

definition findV2BackupReplicaAddresses :: "(string \<times> string) list \<Rightarrow> (string \<times> string) list \<Rightarrow> string list" where
  "findV2BackupReplicaAddresses replicaModeMap replicaAddressMap =
     (let replicaNames = sort_Strings (map fst replicaModeMap) in
      concat (map (\<lambda>name.
        if map_of replicaModeMap name \<noteq> Some ModeRW then []
        else case map_of replicaAddressMap name of
          Some a \<Rightarrow> if a \<noteq> '''' then [a] else []
        | None \<Rightarrow> []) replicaNames))"

fun status_from_replicas ::
  "(string \<Rightarrow> ('s, BackupStatus option) remote) \<Rightarrow> go_error option \<Rightarrow> go_error option \<Rightarrow> string list
     \<Rightarrow> ('s, (BackupStatus \<times> string) option) remote" where
  "status_from_replicas ask firstErr notFoundErr [] =
     (case firstErr of Some e \<Rightarrow> r_err e
      | None \<Rightarrow> (case notFoundErr of Some e \<Rightarrow> r_err e | None \<Rightarrow> r_ok None))"
| "status_from_replicas ask firstErr notFoundErr (a # as) = (\<lambda>s. case ask a s of
     (s', Ok (Some status)) \<Rightarrow> (s', Ok (Some (status, a)))
   | (s', Ok None) \<Rightarrow> status_from_replicas ask
        (case firstErr of Some e \<Rightarrow> Some e
         | None \<Rightarrow> Some (PlainError (''received an empty backup status from replica '' @ a))) notFoundErr as s'
   | (s', Err e) \<Rightarrow>
        if status_code e = NotFound then status_from_replicas ask firstErr (Some e) as s'
        else status_from_replicas ask (case firstErr of Some e' \<Rightarrow> Some e' | None \<Rightarrow> Some e) notFoundErr as s'
   | (s', Panic) \<Rightarrow> (s', Panic)
   | (s', Diverge) \<Rightarrow> (s', Diverge))"

definition getV2BackupStatusFromReplicas ::
  "'s proxy_spdk \<Rightarrow> string \<Rightarrow> string \<Rightarrow> string list \<Rightarrow> ('s, (BackupStatus \<times> string) option) remote" where
  "getV2BackupStatusFromReplicas c backupName engineName replicaAddresses =
     status_from_replicas (px_EngineBackupStatus c backupName engineName) None None replicaAddresses"

definition no_replica_with_backup :: "string \<Rightarrow> go_error" where
  "no_replica_with_backup backup = PlainError (''failed to find a replica with backup '' @ backup)"

text \<open>An answer NotFound of every replica, and no replica at all, are both reported as that error.\<close>

definition recover_status ::
  "'s proxy_spdk \<Rightarrow> ProxyEngineRequest \<Rightarrow> string \<Rightarrow> ('s, BackupStatus option \<times> string) remote" where
  "recover_status c pe backup =
     r_bind (r_map_err (status_colon (''failed to get engine '' @ peEngineName pe @ '' for backup status recovery''))
       (px_EngineGet c (peEngineName pe))) (\<lambda>engine. (\<lambda>s.
     case getV2BackupStatusFromReplicas c backup (peEngineName pe)
         (findV2BackupReplicaAddresses (seReplicaModeMap engine) (seReplicaAddressMap engine)) s of
       (s', Ok (Some (status, a))) \<Rightarrow> (s', Ok (Some status, a))
     | (s', Ok None) \<Rightarrow> (s', Err (no_replica_with_backup backup))
     | (s', Err e) \<Rightarrow> (s', Err (if status_code e \<noteq> NotFound then e else no_replica_with_backup backup))
     | (s', Panic) \<Rightarrow> (s', Panic)
     | (s', Diverge) \<Rightarrow> (s', Diverge)))"

definition V2_SnapshotBackupStatus ::
  "'s Proxy \<Rightarrow> ProxyEngineRequest \<Rightarrow> BackupStatusBody \<Rightarrow> ('s, BackupStatus) remote" where
  "V2_SnapshotBackupStatus p pe b = r_bind (spdk_at p (peAddress pe)) (\<lambda>c.
     r_bind (if bqReplicaAddress b = '''' then recover_status c pe (bqBackupName b)
             else r_map (\<lambda>status. (status, bqReplicaAddress b)) (r_map_err (status_colon ''failed to get backup status'')
               (px_EngineBackupStatus c (bqBackupName b) (peEngineName pe) (bqReplicaAddress b)))) (\<lambda>(status, replicaAddress).
     case status of
       None \<Rightarrow> r_err (PlainError (''received an empty backup status from replica address '' @ quoted replicaAddress))
     | Some st \<Rightarrow> r_ok (st\<lparr>bsProgress := wrap32 (bsProgress st),
         bsReplicaAddress := (if bsReplicaAddress st \<noteq> '''' then bsReplicaAddress st else replicaAddress)\<rparr>)))"

definition SnapshotBackupStatus ::
  "'s Proxy \<Rightarrow> BackupStatusBody engine_request \<Rightarrow> ('s, BackupStatus) remote" where
  "SnapshotBackupStatus p req = proxied req (V1_SnapshotBackupStatus p) (V2_SnapshotBackupStatus p)"

section \<open>Restoring\<close>

record BackupRestoreBody =
  brEnvs :: "string list"
  brUrl :: string
  brTarget :: string
  brVolumeName :: string
  brConcurrentLimit :: int
  brNeedCorrectEncryptedVolumeSize :: bool

definition V1_BackupRestore ::
  "'s Proxy \<Rightarrow> ProxyEngineRequest \<Rightarrow> BackupRestoreBody \<Rightarrow> credential \<Rightarrow> ('s, unit) remote" where
  "V1_BackupRestore p pe b cred = r_bind (task_of p pe) (\<lambda>task.
     task_RestoreBackup task (brUrl b) cred (brConcurrentLimit b) (brNeedCorrectEncryptedVolumeSize b))"

definition V2_BackupRestore ::
  "'s Proxy \<Rightarrow> ProxyEngineRequest \<Rightarrow> BackupRestoreBody \<Rightarrow> credential \<Rightarrow> ('s, unit) remote" where
  "V2_BackupRestore p pe b cred = r_bind (spdk_at p (peAddress pe)) (\<lambda>c.
     px_EngineBackupRestore c (brUrl b) (peEngineName pe) cred (brConcurrentLimit b))"

text \<open>
  An error of the restore does not fail the call: it is the payload of the response, as JSON when that is
  more than an empty object. \<open>json\<close> is \<^verbatim>\<open>json.Marshal\<close> on errors.
\<close>

definition task_error :: "(go_error \<Rightarrow> string) \<Rightarrow> go_error \<Rightarrow> string" where
  "task_error json err = (if json err \<noteq> ''{}'' then json err else error_string err)"

definition BackupRestore ::
  "credential_source \<Rightarrow> (go_error \<Rightarrow> string) \<Rightarrow> 's Proxy \<Rightarrow> BackupRestoreBody engine_request
     \<Rightarrow> (environment \<times> 's, string) remote" where
  "BackupRestore src json p req = (case erProxy req of
     None \<Rightarrow> r_panic
   | Some pe \<Rightarrow> let b = erBody req in
       r_bind (set_env (brEnvs b)) (\<lambda>_.
       r_bind (get_credential src (brTarget b)) (\<lambda>cred.
       case peDataEngine pe of
         DATA_ENGINE_OTHER n \<Rightarrow> r_err (unsupported_engine (DATA_ENGINE_OTHER n))
       | _ \<Rightarrow> (\<lambda>st. case in_env (dispatch (peDataEngine pe) (V1_BackupRestore p pe b cred) (V2_BackupRestore p pe b cred)) st of
             (st', Ok _) \<Rightarrow> (st', Ok '''')
           | (st', Err e) \<Rightarrow> (st', Ok (task_error json e))
           | (st', Panic) \<Rightarrow> (st', Panic)
           | (st', Diverge) \<Rightarrow> (st', Diverge)))))"

text \<open>The status of restores: the error of the engine, and the status by replica.\<close>

definition restore_entry :: "RestoreStatus \<Rightarrow> RestoreStatus" where
  "restore_entry v = v\<lparr>rtProgress := wrap32 (rtProgress v)\<rparr>"

definition V1_BackupRestoreStatus ::
  "'s Proxy \<Rightarrow> ProxyEngineRequest \<Rightarrow> ('s, string \<times> (string \<times> RestoreStatus) list) remote" where
  "V1_BackupRestoreStatus p pe = r_bind (task_of p pe) (\<lambda>task.
     r_map (\<lambda>recv. ('''', map (\<lambda>(k, v). (k, restore_entry v)) recv)) (task_RestoreStatus task))"

definition convertRestoreStatusToProxyResponse ::
  "string \<times> (string \<times> RestoreStatus) list \<Rightarrow> string \<times> (string \<times> RestoreStatus) list" where
  "convertRestoreStatusToProxyResponse resp =
     (fst resp, map (\<lambda>(address, status). (''tcp://'' @ address, restore_entry status)) (snd resp))"

definition V2_BackupRestoreStatus ::
  "'s Proxy \<Rightarrow> ProxyEngineRequest \<Rightarrow> ('s, string \<times> (string \<times> RestoreStatus) list) remote" where
  "V2_BackupRestoreStatus p pe = r_bind (spdk_at p (peAddress pe)) (\<lambda>c.
     r_map convertRestoreStatusToProxyResponse (r_map_err (status_colon ''failed to get restore status'')
       (px_EngineRestoreStatus c (peEngineName pe))))"

definition BackupRestoreStatus ::
  "'s Proxy \<Rightarrow> ProxyEngineRequest \<Rightarrow> ('s, string \<times> (string \<times> RestoreStatus) list) remote" where
  "BackupRestoreStatus p pe = dispatch (peDataEngine pe) (V1_BackupRestoreStatus p pe) (V2_BackupRestoreStatus p pe)"

definition CleanupBackupMountPoints :: "('s, unit) remote \<Rightarrow> ('s, unit) remote" where
  "CleanupBackupMountPoints cleanUpAllMounts =
     r_map_err (status_colon ''failed to unmount all mount points'') cleanUpAllMounts"

section \<open>Which variables a request can change\<close>

text \<open>A step keeps every variable that is not on the allowlist.\<close>

definition keeps_env :: "(environment \<times> 's, 'a) remote \<Rightarrow> bool" where
  "keeps_env m \<longleftrightarrow> (\<forall>env s k. \<not> isBackupEnvAllowed k \<longrightarrow> fst (fst (m (env, s))) k = env k)"

lemma keeps_env_intros [intro]:
  "keeps_env (r_ok x)" "keeps_env (r_err e)" "keeps_env r_panic" "keeps_env (in_env m')"
  "keeps_env (get_credential src target)"
  by (auto simp: keeps_env_def in_env_def get_credential_def r_map_err_apply split: prod.splits)

lemma keeps_env_set_env [intro]: "keeps_env (set_env envs)"
  unfolding keeps_env_def set_env_def using setEnv_frame[of _ envs]
  by (auto simp: r_map_err_apply split: prod.splits) (metis fst_conv)

lemma keeps_env_bind [intro]:
  assumes "keeps_env m" "\<And>x. keeps_env (f x)"
  shows "keeps_env (r_bind m f)"
  unfolding keeps_env_def
proof (intro allI impI)
  fix env s k assume k: "\<not> isBackupEnvAllowed k"
  obtain env' s' r where m: "m (env, s) = ((env', s'), r)" by (metis surj_pair)
  have "env' k = env k" using assms(1) k m unfolding keeps_env_def by (metis fst_conv)
  moreover have "fst (fst (f x (env', s'))) k = env' k" for x using assms(2) k by (simp add: keeps_env_def)
  ultimately show "fst (fst (r_bind m f (env, s))) k = env k"
    using m by (cases r) (simp_all add: r_bind_def)
qed

lemma keeps_env_engine [intro]:
  "(\<And>n. keeps_env (other n)) \<Longrightarrow> keeps_env v1 \<Longrightarrow> keeps_env v2 \<Longrightarrow>
   keeps_env (case de of DATA_ENGINE_V1 \<Rightarrow> v1 | DATA_ENGINE_V2 \<Rightarrow> v2 | DATA_ENGINE_OTHER n \<Rightarrow> other n)"
  by (cases de) simp_all

text \<open>
  C18: No backup or restore request can change an environment variable outside the allowlist, whatever
  the request, the credentials and the services do, and whether the request succeeds or fails.
\<close>

theorem backup_requests_env_safe:
  assumes "\<not> isBackupEnvAllowed k"
  shows "fst (fst (SnapshotBackup src uuid p req (env, s))) k = env k
    \<and> fst (fst (BackupRestore src json p req' (env, s))) k = env k"
proof -
  have "keeps_env (SnapshotBackup src uuid p req)"
    unfolding SnapshotBackup_def Let_def by (auto split: option.splits)
  moreover have "keeps_env (\<lambda>st. case in_env m st of
       (st', Ok _) \<Rightarrow> (st', Ok '''') | (st', Err e) \<Rightarrow> (st', Ok (task_error json e))
     | (st', Panic) \<Rightarrow> (st', Panic) | (st', Diverge) \<Rightarrow> (st', Diverge))" for m :: "('a, unit) remote"
    by (auto simp: keeps_env_def in_env_def split: prod.splits go_result.splits)
  then have "keeps_env (BackupRestore src json p req')"
    unfolding BackupRestore_def Let_def by (auto split: option.splits)
  ultimately show ?thesis using assms by (simp add: keeps_env_def)
qed

section \<open>Where a status is found\<close>

lemma replica_addresses_set:
  "set (findV2BackupReplicaAddresses modes addresses) =
     {a. a \<noteq> '''' \<and> (\<exists>name. map_of modes name = Some ModeRW \<and> map_of addresses name = Some a)}"
proof -
  have "name \<in> set (sort_Strings (map fst modes))" if "map_of modes name = Some ModeRW" for name
    using map_of_SomeD[OF that] by (force simp: sort_Strings_def)
  then show ?thesis
    unfolding findV2BackupReplicaAddresses_def Let_def
    by (auto split: option.splits if_splits) (metis IntI mem_Collect_eq)
qed

lemma replica_addresses_order:
  assumes "distinct (map fst modes)" "mset modes' = mset modes"
    and "distinct (map fst addresses)" "mset addresses' = mset addresses"
  shows "findV2BackupReplicaAddresses modes' addresses' = findV2BackupReplicaAddresses modes addresses"
proof -
  have m: "map_of ys = map_of xs" if "distinct (map fst xs)" "mset ys = mset xs" for xs ys :: "(string \<times> string) list"
  proof -
    have "mset (map fst ys) = mset (map fst xs)" using that(2) by simp
    then have "distinct (map fst ys)" using that(1) by (metis mset_eq_imp_distinct_iff)
    moreover have "set ys = set xs" using that(2) by (metis set_mset_mset)
    ultimately show ?thesis using that(1) by (metis map_of_eqI map_of_inject_set)
  qed
  have "mset (map fst modes') = mset (map fst modes)" using assms(2) by simp
  then have "sort_Strings (map fst modes') = sort_Strings (map fst modes)"
    unfolding sort_Strings_def by (intro properties_for_sort) simp_all
  then show ?thesis unfolding findV2BackupReplicaAddresses_def m[OF assms(1,2)] m[OF assms(3,4)] by simp
qed

text \<open>What the answer of a replica means: a status, or an error that is not NotFound.\<close>

definition answered :: "BackupStatus option go_result \<Rightarrow> bool" where
  "answered r = (case r of Ok (Some _) \<Rightarrow> True | _ \<Rightarrow> False)"

definition hard_error :: "string \<Rightarrow> BackupStatus option go_result \<Rightarrow> go_error option" where
  "hard_error a r = (case r of
     Ok None \<Rightarrow> Some (PlainError (''received an empty backup status from replica '' @ a))
   | Err e \<Rightarrow> if status_code e = NotFound then None else Some e
   | _ \<Rightarrow> None)"

lemma hard_error_code: "hard_error a r = Some e \<Longrightarrow> status_code e \<noteq> NotFound"
  by (auto simp: hard_error_def split: go_result.splits option.splits if_splits)

definition returns :: "'a go_result \<Rightarrow> bool" where
  "returns r \<longleftrightarrow> r \<noteq> Panic \<and> r \<noteq> Diverge"

lemma status_from_replicas_cases:
  assumes "\<And>a. returns (ans a)" and ask: "\<And>a s. ask a s = (s, ans a)"
  shows "\<exists>r. status_from_replicas ask firstErr notFoundErr as s = (s, r) \<and>
    (case find (\<lambda>a. answered (ans a)) as of
       Some a \<Rightarrow> (\<exists>st. ans a = Ok (Some st) \<and> r = Ok (Some (st, a)))
     | None \<Rightarrow> (case first_some (firstErr # map (\<lambda>a. hard_error a (ans a)) as) of
         Some e \<Rightarrow> r = Err e
       | None \<Rightarrow> r = Ok None \<or> (\<exists>e. r = Err e \<and> (notFoundErr = Some e \<or> status_code e = NotFound))))"
proof (induction as arbitrary: firstErr notFoundErr)
  case Nil
  then show ?case by (auto split: option.splits)
next
  case (Cons a as)
  show ?case
  proof (cases "ans a")
    case (Ok x)
    then show ?thesis
      using Cons[of "case firstErr of Some e \<Rightarrow> Some e
         | None \<Rightarrow> Some (PlainError (''received an empty backup status from replica '' @ a))" notFoundErr]
      by (cases x; cases firstErr) (auto simp: ask answered_def hard_error_def split: option.splits)
  next
    case (Err e)
    then show ?thesis
      using Cons[of firstErr "Some e"] Cons[of "case firstErr of Some e' \<Rightarrow> Some e' | None \<Rightarrow> Some e" notFoundErr]
      by (cases "status_code e = NotFound"; cases firstErr)
        (auto simp: ask answered_def hard_error_def split: option.splits)
  qed (use assms(1)[of a] in \<open>simp_all add: returns_def\<close>)
qed


end
