(* ===== verification/Proxy_Volume.thy ===== *)
theory Proxy_Volume
  imports Proxy_Backup
begin

text \<open>
  \<^verbatim>\<open>pkg/proxy/volume.go\<close>, \<^verbatim>\<open>pkg/proxy/metrics.go\<close> and \<^verbatim>\<open>pkg/proxy/replica.go\<close>: volumes, metrics and replicas.
\<close>

section \<open>Volumes\<close>

definition V1_VolumeGet :: "'s Proxy \<Rightarrow> ProxyEngineRequest \<Rightarrow> ('s, Volume) remote" where
  "V1_VolumeGet p pe = r_bind (controller_of p pe) (\<lambda>c. r_map (\<lambda>recv.
     recv\<lparr>volReplicaCount := wrap32 (volReplicaCount recv), volSnapshotMaxCount := wrap32 (volSnapshotMaxCount recv)\<rparr>)
     (ctl_VolumeGet c))"

text \<open>
  The frontend's view wins over the engine's where both have one. It is optional: when the frontend
  cannot be reached, the engine's view is returned alone.
\<close>

definition v2_volume :: "spdk_engine \<Rightarrow> spdk_frontend option \<Rightarrow> Volume" where
  "v2_volume e f =
     \<lparr>volName = seName e,
      volSize = wrap64 (case f of None \<Rightarrow> seSpecSize e | Some f \<Rightarrow> sfSpecSize f),
      volReplicaCount = wrap32 (int (length (seReplicaAddressMap e))),
      volEndpoint = (case f of None \<Rightarrow> seEndpoint e | Some f \<Rightarrow> sfEndpoint f),
      volFrontend = (case f of None \<Rightarrow> seFrontend e | Some f \<Rightarrow> sfFrontend f),
      volFrontendState = '''',
      volIsExpanding = (case f of None \<Rightarrow> seIsExpanding e | Some f \<Rightarrow> seIsExpanding e \<or> sfIsExpanding f),
      volLastExpansionError = (case f of None \<Rightarrow> seLastExpansionError e
        | Some f \<Rightarrow> if sfLastExpansionError f \<noteq> '''' then sfLastExpansionError f else seLastExpansionError e),
      volLastExpansionFailedAt = (case f of None \<Rightarrow> seLastExpansionFailedAt e
        | Some f \<Rightarrow> if sfLastExpansionError f \<noteq> '''' then sfLastExpansionFailedAt f else seLastExpansionFailedAt e),
      volUnmapMarkSnapChainRemoved = False, volSnapshotMaxCount = seSnapshotMaxCount e, volSnapshotMaxSize = 0\<rparr>"

text \<open>An error becomes a missing value, as where the code only logs it.\<close>

definition r_try :: "('s, 'a) remote \<Rightarrow> ('s, 'a option) remote" where
  "r_try m = (\<lambda>s. case m s of
     (s', Ok x) \<Rightarrow> (s', Ok (Some x))
   | (s', Err _) \<Rightarrow> (s', Ok None)
   | (s', Panic) \<Rightarrow> (s', Panic)
   | (s', Diverge) \<Rightarrow> (s', Diverge))"

definition V2_VolumeGet :: "'s Proxy \<Rightarrow> ProxyEngineRequest \<Rightarrow> ('s, Volume) remote" where
  "V2_VolumeGet p pe =
     r_bind (r_map_err (status_colon (''failed to create local SPDK client for address '' @ pxAddress p))
       (pxSpdk p (pxAddress p))) (\<lambda>local.
     r_bind (r_map_err (status_colon (''failed to get engine '' @ peEngineName pe))
       (px_EngineGet local (peEngineName pe))) (\<lambda>engine.
     if peEngineFrontendName pe = '''' then r_ok (v2_volume engine None)
     else r_map (v2_volume engine) (r_try (r_bind (getSPDKClientFromAddress p (peAddress pe)) (\<lambda>c.
       px_EngineFrontendGet c (peEngineFrontendName pe))))))"

definition VolumeGet :: "'s Proxy \<Rightarrow> ProxyEngineRequest \<Rightarrow> ('s, Volume) remote" where
  "VolumeGet p pe = dispatch (peDataEngine pe) (V1_VolumeGet p pe) (V2_VolumeGet p pe)"

definition not_implemented :: "string \<Rightarrow> ('s, 'a) remote" where
  "not_implemented m = r_err (StatusError Unimplemented m)"

definition V1_VolumeExpand :: "'s Proxy \<Rightarrow> ProxyEngineRequest \<Rightarrow> int \<Rightarrow> ('s, unit) remote" where
  "V1_VolumeExpand p pe b = r_bind (controller_of p pe) (\<lambda>c. ctl_VolumeExpand c b)"

definition wrapu64 :: "int \<Rightarrow> int" where "wrapu64 x = x mod 18446744073709551616"

definition V2_VolumeExpand :: "'s Proxy \<Rightarrow> ProxyEngineRequest \<Rightarrow> int \<Rightarrow> ('s, unit) remote" where
  "V2_VolumeExpand p pe b = r_bind (spdk_at p (peAddress pe)) (\<lambda>c.
     px_EngineFrontendExpand c (peEngineFrontendName pe) (wrapu64 b))"

definition VolumeExpand :: "'s Proxy \<Rightarrow> int option engine_request \<Rightarrow> ('s, unit) remote" where
  "VolumeExpand p req = proxied_body req (V1_VolumeExpand p) (V2_VolumeExpand p)"

definition V1_VolumeFrontendStart :: "'s Proxy \<Rightarrow> ProxyEngineRequest \<Rightarrow> string \<Rightarrow> ('s, unit) remote" where
  "V1_VolumeFrontendStart p pe b = r_bind (controller_of p pe) (\<lambda>c. ctl_VolumeFrontendStart c b)"

definition V2_VolumeFrontendStart :: "'s Proxy \<Rightarrow> ProxyEngineRequest \<Rightarrow> string \<Rightarrow> ('s, unit) remote" where
  "V2_VolumeFrontendStart p pe b = not_implemented ''VolumeFrontendStart is not yet implemented for V2 engine''"

definition VolumeFrontendStart :: "'s Proxy \<Rightarrow> string option engine_request \<Rightarrow> ('s, unit) remote" where
  "VolumeFrontendStart p req = proxied_body req (V1_VolumeFrontendStart p) (V2_VolumeFrontendStart p)"

definition V1_VolumeFrontendShutdown :: "'s Proxy \<Rightarrow> ProxyEngineRequest \<Rightarrow> ('s, unit) remote" where
  "V1_VolumeFrontendShutdown p pe = r_bind (controller_of p pe) ctl_VolumeFrontendShutdown"

definition V2_VolumeFrontendShutdown :: "'s Proxy \<Rightarrow> ProxyEngineRequest \<Rightarrow> ('s, unit) remote" where
  "V2_VolumeFrontendShutdown p pe = not_implemented ''VolumeFrontendShutdown is not yet implemented for V2 engine''"

definition VolumeFrontendShutdown :: "'s Proxy \<Rightarrow> ProxyEngineRequest \<Rightarrow> ('s, unit) remote" where
  "VolumeFrontendShutdown p pe =
     dispatch (peDataEngine pe) (V1_VolumeFrontendShutdown p pe) (V2_VolumeFrontendShutdown p pe)"

definition V1_VolumeUnmapMarkSnapChainRemovedSet ::
  "'s Proxy \<Rightarrow> ProxyEngineRequest \<Rightarrow> bool \<Rightarrow> ('s, unit) remote" where
  "V1_VolumeUnmapMarkSnapChainRemovedSet p pe b =
     r_bind (controller_of p pe) (\<lambda>c. ctl_VolumeUnmapMarkSnapChainRemovedSet c b)"

definition V2_VolumeUnmapMarkSnapChainRemovedSet ::
  "'s Proxy \<Rightarrow> ProxyEngineRequest \<Rightarrow> bool \<Rightarrow> ('s, unit) remote" where
  "V2_VolumeUnmapMarkSnapChainRemovedSet p pe b =
     not_implemented ''VolumeUnmapMarkSnapChainRemovedSet is not yet implemented for V2 engine''"

definition VolumeUnmapMarkSnapChainRemovedSet :: "'s Proxy \<Rightarrow> bool option engine_request \<Rightarrow> ('s, unit) remote" where
  "VolumeUnmapMarkSnapChainRemovedSet p req =
     proxied_body req (V1_VolumeUnmapMarkSnapChainRemovedSet p) (V2_VolumeUnmapMarkSnapChainRemovedSet p)"

definition V1_VolumeSnapshotMaxCountSet :: "'s Proxy \<Rightarrow> ProxyEngineRequest \<Rightarrow> int \<Rightarrow> ('s, unit) remote" where
  "V1_VolumeSnapshotMaxCountSet p pe b = r_bind (controller_of p pe) (\<lambda>c. ctl_VolumeSnapshotMaxCountSet c b)"

definition V2_VolumeSnapshotMaxCountSet :: "'s Proxy \<Rightarrow> ProxyEngineRequest \<Rightarrow> int \<Rightarrow> ('s, unit) remote" where
  "V2_VolumeSnapshotMaxCountSet p pe b = r_bind (spdk_at p (peAddress pe)) (\<lambda>c.
     px_EngineSnapshotMaxCountSet c (peEngineName pe) b)"

definition VolumeSnapshotMaxCountSet :: "'s Proxy \<Rightarrow> int option engine_request \<Rightarrow> ('s, unit) remote" where
  "VolumeSnapshotMaxCountSet p req = proxied_body req (V1_VolumeSnapshotMaxCountSet p) (V2_VolumeSnapshotMaxCountSet p)"

definition V1_VolumeSnapshotMaxSizeSet :: "'s Proxy \<Rightarrow> ProxyEngineRequest \<Rightarrow> int \<Rightarrow> ('s, unit) remote" where
  "V1_VolumeSnapshotMaxSizeSet p pe b = r_bind (controller_of p pe) (\<lambda>c. ctl_VolumeSnapshotMaxSizeSet c b)"

definition V2_VolumeSnapshotMaxSizeSet :: "'s Proxy \<Rightarrow> ProxyEngineRequest \<Rightarrow> int \<Rightarrow> ('s, unit) remote" where
  "V2_VolumeSnapshotMaxSizeSet p pe b = not_implemented ''VolumeSnapshotMaxSizeSet is not yet implemented for V2 engine''"

definition VolumeSnapshotMaxSizeSet :: "'s Proxy \<Rightarrow> int option engine_request \<Rightarrow> ('s, unit) remote" where
  "VolumeSnapshotMaxSizeSet p req = proxied_body req (V1_VolumeSnapshotMaxSizeSet p) (V2_VolumeSnapshotMaxSizeSet p)"

text \<open>
  A volume found among the mount points, by the digest of its name, is mounted again. \<open>sha\<close> is the digest in
  hexadecimal, \<open>mounts\<close> the mount point of every digest, \<open>execute\<close> runs a command in the namespaces of the host.
\<close>

definition RemountReadOnlyVolume ::
  "(string \<Rightarrow> string) \<Rightarrow> ('s, string \<rightharpoonup> string) remote \<Rightarrow> ('s, unit) remote \<Rightarrow> (string \<Rightarrow> string list \<Rightarrow> ('s, unit) remote)
     \<Rightarrow> string \<Rightarrow> ('s, unit) remote" where
  "RemountReadOnlyVolume sha mounts newExecutor execute volumeName =
     r_bind mounts (\<lambda>volumeMountPointMap.
     r_bind newExecutor (\<lambda>_.
     case volumeMountPointMap (sha volumeName) of
       None \<Rightarrow> r_ok ()
     | Some path \<Rightarrow> r_map_err (status_colon ''remount failed with error'')
         (execute ''mount'' [''-o'', ''remount,rw'', path])))"

section \<open>Metrics\<close>

definition V1_MetricsGet :: "'s Proxy \<Rightarrow> ProxyEngineRequest \<Rightarrow> ('s, DiskMetrics) remote" where
  "V1_MetricsGet p pe = r_bind (controller_of p pe) ctl_MetricsGet"

definition V2_MetricsGet :: "'s Proxy \<Rightarrow> ProxyEngineRequest \<Rightarrow> ('s, DiskMetrics) remote" where
  "V2_MetricsGet p pe = r_bind (spdk_at p (peAddress pe)) (\<lambda>c.
     r_map disk_metrics_reply (r_map_err (status_colon (''failed to get engine '' @ peEngineName pe))
       (px_MetricsGet c (peEngineName pe))))"

definition MetricsGet :: "'s Proxy \<Rightarrow> ProxyEngineRequest \<Rightarrow> ('s, DiskMetrics) remote" where
  "MetricsGet p pe = dispatch (peDataEngine pe) (V1_MetricsGet p pe) (V2_MetricsGet p pe)"

section \<open>Replicas\<close>

record ReplicaAddBody =
  raReplicaName :: string
  raReplicaAddress :: string
  raRestore :: bool
  raSize :: int
  raCurrentSize :: int
  raFastSync :: bool
  raFileSyncHttpClientTimeout :: int
  raLocalSync :: "FileLocalSync option"
  raGrpcTimeoutSeconds :: int
  raLinkedCloneSource :: "LinkedCloneSource option"

definition V1_ReplicaAdd :: "'s Proxy \<Rightarrow> ProxyEngineRequest \<Rightarrow> ReplicaAddBody \<Rightarrow> ('s, unit) remote" where
  "V1_ReplicaAdd p pe b = r_bind (task_of p pe) (\<lambda>task.
     if raRestore b then
       task_AddRestoreReplica task (raSize b) (raCurrentSize b) (raReplicaAddress b) (raReplicaName b)
     else task_AddReplica task (raSize b) (raCurrentSize b) (raReplicaAddress b) (raReplicaName b)
       (raFileSyncHttpClientTimeout b) (raFastSync b) (raLocalSync b) (raGrpcTimeoutSeconds b))"

definition V2_ReplicaAdd :: "'s Proxy \<Rightarrow> ProxyEngineRequest \<Rightarrow> ReplicaAddBody \<Rightarrow> ('s, unit) remote" where
  "V2_ReplicaAdd p pe b = r_bind (spdk_at p (peAddress pe)) (\<lambda>c.
     let replicaAddress = strings_TrimPrefix (raReplicaAddress b) ''tcp://'' in
     r_map_err (status_colon (''failed to add replica '' @ replicaAddress))
       (px_EngineFrontendReplicaAdd c (peEngineFrontendName pe) (raReplicaName b) replicaAddress (raFastSync b)
         (raLinkedCloneSource b)))"

definition ReplicaAdd :: "'s Proxy \<Rightarrow> ReplicaAddBody engine_request \<Rightarrow> ('s, unit) remote" where
  "ReplicaAdd p req = proxied req (V1_ReplicaAdd p) (V2_ReplicaAdd p)"

text \<open>The replicas of the V2 engine in the order of the walk; one without an address fails the call.\<close>

fun v2_replica_list ::
  "(string \<times> string) list \<Rightarrow> (string \<times> string) list \<Rightarrow> ControllerReplica list go_result" where
  "v2_replica_list addresses [] = Ok []"
| "v2_replica_list addresses ((name, mode) # modes) = (case map_of addresses name of
     None \<Rightarrow> Err (StatusError Internal (''failed to get replica address for '' @ name))
   | Some address \<Rightarrow> go_bind (v2_replica_list addresses modes) (\<lambda>rs.
       Ok (\<lparr>crAddress = AddTcpPrefixForAddress address, crInstanceName = '''',
            crMode = replicaModeToGRPCReplicaMode mode\<rparr> # rs)))"

definition V2_ReplicaList :: "'s Proxy \<Rightarrow> ProxyEngineRequest \<Rightarrow> ('s, ControllerReplica list) remote" where
  "V2_ReplicaList p pe = r_bind (spdk_at p (peAddress pe)) (\<lambda>c.
     r_bind (r_map_err (status_wrap Internal (''failed to get engine '' @ peEngineName pe))
       (px_EngineGet c (peEngineName pe))) (\<lambda>e.
     lift_go (v2_replica_list (seReplicaAddressMap e) (seReplicaModeMap e))))"

definition ReplicaList :: "'s Proxy \<Rightarrow> ProxyEngineRequest \<Rightarrow> ('s, ControllerReplica list) remote" where
  "ReplicaList p pe = dispatch (peDataEngine pe) (V1_ReplicaList p pe) (V2_ReplicaList p pe)"

definition rebuild_entry :: "ReplicaRebuildStatus \<Rightarrow> ReplicaRebuildStatus" where
  "rebuild_entry v = v\<lparr>rrProgress := wrap32 (rrProgress v)\<rparr>"

definition V1_ReplicaRebuildingStatus ::
  "'s Proxy \<Rightarrow> ProxyEngineRequest \<Rightarrow> ('s, string \<rightharpoonup> ReplicaRebuildStatus) remote" where
  "V1_ReplicaRebuildingStatus p pe = r_bind (task_of p pe) (\<lambda>task.
     r_map (\<lambda>recv. map_of (map (\<lambda>(k, v). (k, rebuild_entry v)) recv)) (task_RebuildStatus task))"

definition shallow_copy_status :: "ShallowCopyStatus \<Rightarrow> ReplicaRebuildStatus" where
  "shallow_copy_status s = \<lparr>rrError = scsError s, rrIsRebuilding = (scsTotalState s = ''in_progress''),
     rrProgress = wrap32 (scsTotalProgress s), rrState = scsTotalState s,
     rrFromReplicaAddressList = [AddTcpPrefixForAddress (scsSrcReplicaAddress s)]\<rparr>"

text \<open>The replicas being rebuilt (mode WO, with an address) and where they are.\<close>

definition rebuilding_replicas :: "spdk_engine \<Rightarrow> (string \<times> string) list" where
  "rebuilding_replicas e = concat (map (\<lambda>(name, mode).
     if mode \<noteq> ModeWO then [] else case map_of (seReplicaAddressMap e) name of
       Some a \<Rightarrow> if a = '''' then [] else [(name, a)]
     | None \<Rightarrow> []) (seReplicaModeMap e))"

fun rebuilding_status ::
  "'s Proxy \<Rightarrow> (string \<rightharpoonup> ReplicaRebuildStatus) \<Rightarrow> (string \<times> string) list \<Rightarrow> ('s, string \<rightharpoonup> ReplicaRebuildStatus) remote" where
  "rebuilding_status p m [] = r_ok m"
| "rebuilding_status p m ((name, address) # rs) =
     r_bind (r_map_err (status_colon (''failed to get SPDK client from replica address '' @ address))
       (getSPDKClientFromAddress p address)) (\<lambda>c.
     r_bind (px_RebuildingShallowCopyCheck c name) (\<lambda>s.
     rebuilding_status p (m(AddTcpPrefixForAddress address \<mapsto> shallow_copy_status s)) rs))"

definition V2_ReplicaRebuildingStatus ::
  "'s Proxy \<Rightarrow> ProxyEngineRequest \<Rightarrow> ('s, string \<rightharpoonup> ReplicaRebuildStatus) remote" where
  "V2_ReplicaRebuildingStatus p pe = r_bind (spdk_at p (peAddress pe)) (\<lambda>c.
     r_bind (r_map_err (status_colon (''failed to get engine '' @ peEngineName pe)) (px_EngineGet c (peEngineName pe))) (\<lambda>e.
     rebuilding_status p Map.empty (rebuilding_replicas e)))"

definition ReplicaRebuildingStatus ::
  "'s Proxy \<Rightarrow> ProxyEngineRequest \<Rightarrow> ('s, string \<rightharpoonup> ReplicaRebuildStatus) remote" where
  "ReplicaRebuildingStatus p pe =
     dispatch (peDataEngine pe) (V1_ReplicaRebuildingStatus p pe) (V2_ReplicaRebuildingStatus p pe)"

definition V1_ReplicaRebuildingQosSet :: "'s Proxy \<Rightarrow> ProxyEngineRequest \<Rightarrow> int \<Rightarrow> ('s, unit) remote" where
  "V1_ReplicaRebuildingQosSet p pe limit = r_err (unsupported_engine (peDataEngine pe))"

fun set_qos :: "'s Proxy \<Rightarrow> int \<Rightarrow> (string \<times> string) list \<Rightarrow> ('s, unit) remote" where
  "set_qos p limit [] = r_ok ()"
| "set_qos p limit ((name, address) # rs) =
     r_bind (r_try (r_bind (getSPDKClientFromAddress p address) (\<lambda>c. px_RebuildingSetQosLimit c name limit)))
       (\<lambda>_. set_qos p limit rs)"

definition V2_ReplicaRebuildingQosSet :: "'s Proxy \<Rightarrow> ProxyEngineRequest \<Rightarrow> int \<Rightarrow> ('s, unit) remote" where
  "V2_ReplicaRebuildingQosSet p pe limit = r_bind (spdk_at p (peAddress pe)) (\<lambda>c.
     r_bind (r_map_err (status_colon (''failed to get engine '' @ peEngineName pe)) (px_EngineGet c (peEngineName pe))) (\<lambda>e.
     set_qos p limit (rebuilding_replicas e)))"

definition ReplicaRebuildingQosSet :: "'s Proxy \<Rightarrow> int engine_request \<Rightarrow> ('s, unit) remote" where
  "ReplicaRebuildingQosSet p req = proxied req (V1_ReplicaRebuildingQosSet p) (V2_ReplicaRebuildingQosSet p)"

record ReplicaNameBody =
  rnReplicaName :: string
  rnReplicaAddress :: string

definition V1_ReplicaVerifyRebuild :: "'s Proxy \<Rightarrow> ProxyEngineRequest \<Rightarrow> ReplicaNameBody \<Rightarrow> ('s, unit) remote" where
  "V1_ReplicaVerifyRebuild p pe b = r_bind (task_of p pe) (\<lambda>task.
     task_VerifyRebuildReplica task (rnReplicaAddress b) (rnReplicaName b))"

definition V2_ReplicaVerifyRebuild :: "'s Proxy \<Rightarrow> ProxyEngineRequest \<Rightarrow> ReplicaNameBody \<Rightarrow> ('s, unit) remote" where
  "V2_ReplicaVerifyRebuild p pe b = not_implemented ''not implemented''"

definition ReplicaVerifyRebuild :: "'s Proxy \<Rightarrow> ReplicaNameBody engine_request \<Rightarrow> ('s, unit) remote" where
  "ReplicaVerifyRebuild p req = proxied req (V1_ReplicaVerifyRebuild p) (V2_ReplicaVerifyRebuild p)"

definition cancelSnapshotHashesForReplica ::
  "'s Proxy \<Rightarrow> 's controller_client \<Rightarrow> string \<Rightarrow> ProxyEngineRequest \<Rightarrow> ('s, unit) remote" where
  "cancelSnapshotHashesForReplica p c replicaAddress pe =
     r_bind (ctl_ReplicaList c) (\<lambda>recv.
     r_bind (pxGetSnapshotsInfo p recv (peVolumeName pe)) (\<lambda>infos.
     r_bind (task_of p pe) (\<lambda>task.
     task_CancelSnapshotHashJob task replicaAddress (map (\<lambda>(_, i). sniName i) infos))))"

definition V1_ReplicaRemove :: "'s Proxy \<Rightarrow> ProxyEngineRequest \<Rightarrow> ReplicaNameBody \<Rightarrow> ('s, unit) remote" where
  "V1_ReplicaRemove p pe b = r_bind (controller_of p pe) (\<lambda>c.
     r_bind (r_try (cancelSnapshotHashesForReplica p c (rnReplicaAddress b) pe)) (\<lambda>_.
     ctl_ReplicaDelete c (rnReplicaAddress b)))"

definition V2_ReplicaRemove :: "'s Proxy \<Rightarrow> ProxyEngineRequest \<Rightarrow> ReplicaNameBody \<Rightarrow> ('s, unit) remote" where
  "V2_ReplicaRemove p pe b = r_bind (spdk_at p (peAddress pe)) (\<lambda>c.
     px_EngineReplicaDelete c (peEngineName pe) (rnReplicaName b) (strings_TrimPrefix (rnReplicaAddress b) ''tcp://''))"

definition ReplicaRemove :: "'s Proxy \<Rightarrow> ReplicaNameBody engine_request \<Rightarrow> ('s, unit) remote" where
  "ReplicaRemove p req = proxied req (V1_ReplicaRemove p) (V2_ReplicaRemove p)"

definition V1_ReplicaModeUpdate ::
  "'s Proxy \<Rightarrow> ProxyEngineRequest \<Rightarrow> string \<times> ReplicaMode \<Rightarrow> ('s, unit) remote" where
  "V1_ReplicaModeUpdate p pe b = r_bind (controller_of p pe) (\<lambda>c.
     ctl_ReplicaUpdate c (fst b) (GRPCReplicaModeToReplicaMode (snd b)))"

definition V2_ReplicaModeUpdate ::
  "'s Proxy \<Rightarrow> ProxyEngineRequest \<Rightarrow> string \<times> ReplicaMode \<Rightarrow> ('s, unit) remote" where
  "V2_ReplicaModeUpdate p pe b = not_implemented ''not implemented''"

definition ReplicaModeUpdate :: "'s Proxy \<Rightarrow> (string \<times> ReplicaMode) engine_request \<Rightarrow> ('s, unit) remote" where
  "ReplicaModeUpdate p req = proxied req (V1_ReplicaModeUpdate p) (V2_ReplicaModeUpdate p)"

definition V1_ReplicaRebuildConcurrentSyncLimitSet :: "'s Proxy \<Rightarrow> ProxyEngineRequest \<Rightarrow> int \<Rightarrow> ('s, unit) remote" where
  "V1_ReplicaRebuildConcurrentSyncLimitSet p pe limit =
     r_bind (controller_of p pe) (\<lambda>c. ctl_ReplicaRebuildConcurrentSyncLimitSet c limit)"

definition V2_ReplicaRebuildConcurrentSyncLimitSet :: "'s Proxy \<Rightarrow> ProxyEngineRequest \<Rightarrow> int \<Rightarrow> ('s, unit) remote" where
  "V2_ReplicaRebuildConcurrentSyncLimitSet p pe limit = not_implemented ''not implemented''"

definition ReplicaRebuildConcurrentSyncLimitSet :: "'s Proxy \<Rightarrow> int engine_request \<Rightarrow> ('s, unit) remote" where
  "ReplicaRebuildConcurrentSyncLimitSet p req =
     proxied req (V1_ReplicaRebuildConcurrentSyncLimitSet p) (V2_ReplicaRebuildConcurrentSyncLimitSet p)"

definition V1_ReplicaRebuildConcurrentSyncLimitGet :: "'s Proxy \<Rightarrow> ProxyEngineRequest \<Rightarrow> ('s, int) remote" where
  "V1_ReplicaRebuildConcurrentSyncLimitGet p pe =
     r_bind (controller_of p pe) (\<lambda>c. r_map wrap32 (ctl_ReplicaRebuildConcurrentSyncLimitGet c))"

definition V2_ReplicaRebuildConcurrentSyncLimitGet :: "'s Proxy \<Rightarrow> ProxyEngineRequest \<Rightarrow> ('s, int) remote" where
  "V2_ReplicaRebuildConcurrentSyncLimitGet p pe = not_implemented ''not implemented''"

definition ReplicaRebuildConcurrentSyncLimitGet :: "'s Proxy \<Rightarrow> ProxyEngineRequest \<Rightarrow> ('s, int) remote" where
  "ReplicaRebuildConcurrentSyncLimitGet p pe = dispatch (peDataEngine pe)
     (V1_ReplicaRebuildConcurrentSyncLimitGet p pe) (V2_ReplicaRebuildConcurrentSyncLimitGet p pe)"

end
