(* ===== verification/Proxy_Snapshot.thy ===== *)
theory Proxy_Snapshot
  imports Proxy_Volume "HOL-Library.AList"
begin

text \<open>\<^verbatim>\<open>pkg/proxy/snapshot.go\<close>: snapshots, clones, purges and hashes.\<close>

section \<open>Creating and listing\<close>

record SnapshotVolumeBody =
  svName :: string
  svLabels :: "(string \<times> string) list"
  svFreezeFilesystem :: bool

definition V1_VolumeSnapshot :: "'s Proxy \<Rightarrow> ProxyEngineRequest \<Rightarrow> SnapshotVolumeBody \<Rightarrow> ('s, string) remote" where
  "V1_VolumeSnapshot p pe b = r_bind (controller_of p pe) (\<lambda>c.
     ctl_VolumeSnapshot c (svName b) (svLabels b) (svFreezeFilesystem b))"

definition V2_VolumeSnapshot ::
  "string \<Rightarrow> 's Proxy \<Rightarrow> ProxyEngineRequest \<Rightarrow> SnapshotVolumeBody \<Rightarrow> ('s, string) remote" where
  "V2_VolumeSnapshot uuid p pe b = r_bind (spdk_at p (peAddress pe)) (\<lambda>c.
     let snapshotName = (if svName b = '''' then uuid else svName b) in
     r_map (\<lambda>_. snapshotName) (r_map_err (status_colon (''failed to create snapshot '' @ snapshotName))
       (px_EngineFrontendSnapshotCreate c (peEngineFrontendName pe) snapshotName)))"

definition VolumeSnapshot :: "string \<Rightarrow> 's Proxy \<Rightarrow> SnapshotVolumeBody option engine_request \<Rightarrow> ('s, string) remote" where
  "VolumeSnapshot uuid p req = proxied_body req (V1_VolumeSnapshot p) (V2_VolumeSnapshot uuid p)"

definition V1_SnapshotList ::
  "'s Proxy \<Rightarrow> ProxyEngineRequest \<Rightarrow> ('s, (string \<times> SnapshotDiskInfo) list) remote" where
  "V1_SnapshotList p pe = r_bind (controller_of p pe) (\<lambda>c.
     r_bind (ctl_ReplicaList c) (\<lambda>recv. pxGetSnapshotsInfo p recv (peVolumeName pe)))"

text \<open>The head of the volume is listed with the snapshots, in place of one that has its name.\<close>

definition disks_of :: "spdk_engine \<Rightarrow> (string \<times> spdk_snapshot) list" where
  "disks_of e = (case seHead e of
     None \<Rightarrow> seSnapshots e
   | Some h \<Rightarrow> AList.update (ssName h) h (seSnapshots e))"

definition snapshot_info :: "spdk_snapshot \<Rightarrow> SnapshotDiskInfo" where
  "snapshot_info s = \<lparr>sniName = ssName s, sniParent = ssParent s, sniChildren = ssChildren s, sniRemoved = False,
     sniUserCreated = ssUserCreated s,
     sniCreated = (if ssSnapshotTimestamp s = '''' then ssCreationTime s else ssSnapshotTimestamp s),
     sniSize = strconv_Itoa (int (ssActualSize s)), sniLabels = []\<rparr>"

definition V2_SnapshotList ::
  "'s Proxy \<Rightarrow> ProxyEngineRequest \<Rightarrow> ('s, (string \<times> SnapshotDiskInfo) list) remote" where
  "V2_SnapshotList p pe =
     r_bind (r_map_err (WrapError (''failed to get SPDK client from engine address '' @ peAddress pe))
       (getSPDKClientFromAddress p (peAddress pe))) (\<lambda>c.
     r_bind (r_map_err (WrapError (''failed to get engine '' @ peEngineName pe)) (px_EngineGet c (peEngineName pe))) (\<lambda>e.
     r_ok (map (\<lambda>(name, s). (name, snapshot_info s)) (disks_of e))))"

definition SnapshotList ::
  "'s Proxy \<Rightarrow> ProxyEngineRequest \<Rightarrow> ('s, (string \<times> SnapshotDiskInfo) list) remote" where
  "SnapshotList p pe = dispatch (peDataEngine pe) (V1_SnapshotList p pe) (V2_SnapshotList p pe)"

section \<open>Clones\<close>

definition V1_SnapshotClone :: "'s Proxy \<Rightarrow> ProxyEngineRequest \<Rightarrow> SnapshotCloneBody \<Rightarrow> ('s, unit) remote" where
  "V1_SnapshotClone p pe b =
     r_bind (pxController p (scbFromEngineAddress b) (scbFromVolumeName b) (scbFromEngineName b)) (\<lambda>cFrom.
     r_bind (controller_of p pe) (\<lambda>cTo.
     pxCloneSnapshot p (peAddress pe, peVolumeName pe, peEngineName pe) b))"

definition V2_SnapshotClone :: "'s Proxy \<Rightarrow> ProxyEngineRequest \<Rightarrow> SnapshotCloneBody \<Rightarrow> ('s, unit) remote" where
  "V2_SnapshotClone p pe b = r_bind (spdk_at p (peAddress pe)) (\<lambda>c.
     r_map_err (status_colon (''failed to do clone snapshot '' @ scbSnapshotName b))
       (px_EngineSnapshotClone c (peEngineName pe) b))"

definition SnapshotClone :: "'s Proxy \<Rightarrow> SnapshotCloneBody engine_request \<Rightarrow> ('s, unit) remote" where
  "SnapshotClone p req = proxied req (V1_SnapshotClone p) (V2_SnapshotClone p)"

definition clone_entry :: "SnapshotCloneStatus \<Rightarrow> SnapshotCloneStatus" where
  "clone_entry v = v\<lparr>csProgress := wrap32 (csProgress v)\<rparr>"

definition V1_SnapshotCloneStatus ::
  "'s Proxy \<Rightarrow> ProxyEngineRequest \<Rightarrow> ('s, (string \<times> SnapshotCloneStatus) list) remote" where
  "V1_SnapshotCloneStatus p pe = r_bind (controller_of p pe) (\<lambda>c.
     r_map (map (\<lambda>(k, v). (k, clone_entry v))) (ctl_CloneStatus c (peVolumeName pe)))"

text \<open>
  The V2 engine asks each read-write replica that has an address. The answer of one: nothing when it cannot be
  asked, a clone state, or that it is reachable and has none (where the connection also closed cleanly).
\<close>

datatype clone_answer = NoAnswer | CloneState SnapshotCloneStatus | NotStarted

definition ask_replica :: "'s Proxy \<Rightarrow> string \<Rightarrow> string \<Rightarrow> ('s, clone_answer) remote" where
  "ask_replica p name address = r_bind (r_try (getSPDKClientFromAddress p address)) (\<lambda>client. case client of
     None \<Rightarrow> r_ok NoAnswer
   | Some c \<Rightarrow>
       r_bind (r_try (px_CloneDstStatusCheck c name)) (\<lambda>answer.
       r_bind (r_try (px_Close c)) (\<lambda>closed.
       r_ok (case answer of
         Some (Some status) \<Rightarrow>
           if csState status = '''' then (if closed \<noteq> None then NotStarted else NoAnswer) else CloneState status
       | _ \<Rightarrow> NoAnswer))))"

definition clone_replicas :: "spdk_engine \<Rightarrow> (string \<times> string) list" where
  "clone_replicas e = concat (map (\<lambda>(name, mode). if mode \<noteq> ModeRW then [] else
     case map_of (seReplicaAddressMap e) name of None \<Rightarrow> [] | Some a \<Rightarrow> [(name, a)]) (seReplicaModeMap e))"

fun ask_all :: "'s Proxy \<Rightarrow> (string \<times> string) list \<Rightarrow> ('s, (string \<times> string \<times> clone_answer) list) remote" where
  "ask_all p [] = r_ok []"
| "ask_all p ((name, address) # rs) = r_bind (ask_replica p name address) (\<lambda>answer.
     r_map (\<lambda>as. (name, address, answer) # as) (ask_all p rs))"

definition zero_clone_status :: SnapshotCloneStatus where
  "zero_clone_status = \<lparr>csIsCloning = False, csError = '''', csProgress = 0, csState = '''', csFromReplicaAddress = '''',
     csSnapshotName = ''''\<rparr>"

fun add_clone_states ::
  "(string \<times> string \<times> clone_answer) list \<Rightarrow> (string \<times> SnapshotCloneStatus) list \<Rightarrow> (string \<times> SnapshotCloneStatus) list" where
  "add_clone_states [] m = m"
| "add_clone_states ((name, address, CloneState s) # as) m =
     add_clone_states as (AList.update (AddTcpPrefixForAddress address) (clone_entry s) m)"
| "add_clone_states ((name, address, _) # as) m = add_clone_states as m"

definition not_started :: "(string \<times> string \<times> clone_answer) list \<Rightarrow> string list" where
  "not_started as = map fst (filter (\<lambda>(_, _, a). a = NotStarted) as)"

definition clone_response ::
  "(string \<rightharpoonup> string) \<Rightarrow> (string \<times> string \<times> clone_answer) list \<Rightarrow> (string \<times> SnapshotCloneStatus) list go_result" where
  "clone_response addresses as =
     (let m = add_clone_states as []; names = sort_Strings (not_started as);
          m' = (if m = [] \<and> names \<noteq> [] then
                  [(AddTcpPrefixForAddress (case addresses (hd names) of Some a \<Rightarrow> a | None \<Rightarrow> ''''), zero_clone_status)]
                else m) in
      if m' = [] then Err (StatusError Internal ''cannot get clone status from any replica'') else Ok m')"

definition V2_SnapshotCloneStatus ::
  "'s Proxy \<Rightarrow> ProxyEngineRequest \<Rightarrow> ('s, (string \<times> SnapshotCloneStatus) list) remote" where
  "V2_SnapshotCloneStatus p pe = r_bind (spdk_at p (peAddress pe)) (\<lambda>c.
     r_bind (r_map_err (status_wrap Internal (''failed to get engine '' @ peEngineName pe))
       (px_EngineGet c (peEngineName pe))) (\<lambda>e.
     r_bind (ask_all p (clone_replicas e)) (\<lambda>as.
     lift_go (clone_response (map_of (seReplicaAddressMap e)) as))))"

definition SnapshotCloneStatus_handler ::
  "'s Proxy \<Rightarrow> ProxyEngineRequest \<Rightarrow> ('s, (string \<times> SnapshotCloneStatus) list) remote" where
  "SnapshotCloneStatus_handler p pe =
     dispatch (peDataEngine pe) (V1_SnapshotCloneStatus p pe) (V2_SnapshotCloneStatus p pe)"

section \<open>Revert, purge, remove, hash\<close>

definition V1_SnapshotRevert :: "'s Proxy \<Rightarrow> ProxyEngineRequest \<Rightarrow> string \<Rightarrow> ('s, unit) remote" where
  "V1_SnapshotRevert p pe name = r_bind (controller_of p pe) (\<lambda>c. ctl_VolumeRevert c name)"

definition V2_SnapshotRevert :: "'s Proxy \<Rightarrow> ProxyEngineRequest \<Rightarrow> string \<Rightarrow> ('s, unit) remote" where
  "V2_SnapshotRevert p pe name = r_bind (spdk_at p (peAddress pe)) (\<lambda>c.
     r_map_err (status_colon (''failed to create snapshot '' @ name))
       (px_EngineFrontendSnapshotRevert c (peEngineFrontendName pe) name))"

definition SnapshotRevert :: "'s Proxy \<Rightarrow> string engine_request \<Rightarrow> ('s, unit) remote" where
  "SnapshotRevert p req = proxied req (V1_SnapshotRevert p) (V2_SnapshotRevert p)"

definition V1_SnapshotPurge :: "'s Proxy \<Rightarrow> ProxyEngineRequest \<Rightarrow> bool \<Rightarrow> ('s, unit) remote" where
  "V1_SnapshotPurge p pe skipIfInProgress = r_bind (task_of p pe) (\<lambda>task. task_PurgeSnapshots task skipIfInProgress)"

text \<open>The V2 engine's error is dropped.\<close>

definition V2_SnapshotPurge :: "'s Proxy \<Rightarrow> ProxyEngineRequest \<Rightarrow> bool \<Rightarrow> ('s, unit) remote" where
  "V2_SnapshotPurge p pe skipIfInProgress = r_bind (spdk_at p (peAddress pe)) (\<lambda>c.
     r_map (\<lambda>_. ()) (r_try (px_EngineFrontendSnapshotPurge c (peEngineFrontendName pe))))"

definition SnapshotPurge :: "'s Proxy \<Rightarrow> bool engine_request \<Rightarrow> ('s, unit) remote" where
  "SnapshotPurge p req = proxied req (V1_SnapshotPurge p) (V2_SnapshotPurge p)"

definition V1_SnapshotPurgeStatus ::
  "'s Proxy \<Rightarrow> ProxyEngineRequest \<Rightarrow> ('s, (string \<times> SnapshotPurgeStatus) list) remote" where
  "V1_SnapshotPurgeStatus p pe = r_bind (task_of p pe) (\<lambda>task.
     r_map (map (\<lambda>(k, v). (k, v\<lparr>spProgress := wrap32 (spProgress v)\<rparr>))) (task_PurgeSnapshotStatus task))"

definition V2_SnapshotPurgeStatus ::
  "'s Proxy \<Rightarrow> ProxyEngineRequest \<Rightarrow> ('s, (string \<times> SnapshotPurgeStatus) list) remote" where
  "V2_SnapshotPurgeStatus p pe = r_ok []"

definition SnapshotPurgeStatus_handler ::
  "'s Proxy \<Rightarrow> ProxyEngineRequest \<Rightarrow> ('s, (string \<times> SnapshotPurgeStatus) list) remote" where
  "SnapshotPurgeStatus_handler p pe =
     dispatch (peDataEngine pe) (V1_SnapshotPurgeStatus p pe) (V2_SnapshotPurgeStatus p pe)"

text \<open>Every snapshot is tried; the last error is returned.\<close>

fun delete_each :: "(string \<Rightarrow> ('s, unit) remote) \<Rightarrow> go_error option \<Rightarrow> string list \<Rightarrow> ('s, unit) remote" where
  "delete_each delete lastErr [] = lift_go (ret_err lastErr)"
| "delete_each delete lastErr (name # names) = (\<lambda>s. case delete name s of
     (s', Ok _) \<Rightarrow> delete_each delete lastErr names s'
   | (s', Err e) \<Rightarrow> delete_each delete (Some e) names s'
   | (s', Panic) \<Rightarrow> (s', Panic)
   | (s', Diverge) \<Rightarrow> (s', Diverge))"

definition V1_SnapshotRemove :: "'s Proxy \<Rightarrow> ProxyEngineRequest \<Rightarrow> string list \<Rightarrow> ('s, unit) remote" where
  "V1_SnapshotRemove p pe names = r_bind (task_of p pe) (\<lambda>task. delete_each (task_DeleteSnapshot task) None names)"

definition V2_SnapshotRemove :: "'s Proxy \<Rightarrow> ProxyEngineRequest \<Rightarrow> string list \<Rightarrow> ('s, unit) remote" where
  "V2_SnapshotRemove p pe names = r_bind (spdk_at p (peAddress pe)) (\<lambda>c.
     delete_each (px_EngineFrontendSnapshotDelete c (peEngineFrontendName pe)) None names)"

definition SnapshotRemove :: "'s Proxy \<Rightarrow> string list engine_request \<Rightarrow> ('s, unit) remote" where
  "SnapshotRemove p req = proxied req (V1_SnapshotRemove p) (V2_SnapshotRemove p)"

definition V1_SnapshotHash :: "'s Proxy \<Rightarrow> ProxyEngineRequest \<Rightarrow> string \<times> bool \<Rightarrow> ('s, unit) remote" where
  "V1_SnapshotHash p pe b = r_bind (task_of p pe) (\<lambda>task. task_HashSnapshot task (fst b) (snd b))"

definition V2_SnapshotHash :: "'s Proxy \<Rightarrow> ProxyEngineRequest \<Rightarrow> string \<times> bool \<Rightarrow> ('s, unit) remote" where
  "V2_SnapshotHash p pe b = r_bind (spdk_at p (peAddress pe)) (\<lambda>c.
     px_EngineSnapshotHash c (peEngineName pe) (fst b) (snd b))"

definition SnapshotHash :: "'s Proxy \<Rightarrow> (string \<times> bool) engine_request \<Rightarrow> ('s, unit) remote" where
  "SnapshotHash p req = proxied req (V1_SnapshotHash p) (V2_SnapshotHash p)"

definition V1_SnapshotHashStatus ::
  "'s Proxy \<Rightarrow> ProxyEngineRequest \<Rightarrow> string \<Rightarrow> ('s, (string \<times> SnapshotHashStatus) list) remote" where
  "V1_SnapshotHashStatus p pe name = r_bind (task_of p pe) (\<lambda>task. task_HashSnapshotStatus task name)"

definition V2_SnapshotHashStatus ::
  "'s Proxy \<Rightarrow> ProxyEngineRequest \<Rightarrow> string \<Rightarrow> ('s, (string \<times> SnapshotHashStatus) list) remote" where
  "V2_SnapshotHashStatus p pe name = r_bind (spdk_at p (peAddress pe)) (\<lambda>c.
     px_EngineSnapshotHashStatus c (peEngineName pe) name)"

definition SnapshotHashStatus_handler ::
  "'s Proxy \<Rightarrow> string engine_request \<Rightarrow> ('s, (string \<times> SnapshotHashStatus) list) remote" where
  "SnapshotHashStatus_handler p req = proxied req (V1_SnapshotHashStatus p) (V2_SnapshotHashStatus p)"

section \<open>The status of a clone\<close>

lemma ask_all_pure:
  assumes "\<And>n a s. ask_replica p n a s = (s, Ok (ans n a))"
  shows "ask_all p rs s = (s, Ok (map (\<lambda>(n, a). (n, a, ans n a)) rs))"
  by (induction rs) (auto simp: assms r_bind_def r_map_apply)

lemma update_nonempty [simp]: "AList.update k v m \<noteq> []"
  by (induction m) auto

lemma add_clone_states_empty:
  "add_clone_states as m = [] \<longleftrightarrow> m = [] \<and> (\<forall>n a s. (n, a, CloneState s) \<notin> set as)"
  by (induction as m rule: add_clone_states.induct) auto

lemma add_clone_states_lookup:
  "map_of (add_clone_states as m) k = Some v \<Longrightarrow>
   map_of m k = Some v \<or> (\<exists>n a s. (n, a, CloneState s) \<in> set as \<and> k = AddTcpPrefixForAddress a \<and> v = clone_entry s)"
  by (induction as m rule: add_clone_states.induct) (auto simp: update_conv' split: if_splits)

lemma add_clone_states_keys:
  "(n, a, CloneState s) \<in> set as \<or> AddTcpPrefixForAddress a \<in> fst ` set m \<Longrightarrow>
   AddTcpPrefixForAddress a \<in> fst ` set (add_clone_states as m)"
  by (induction as m rule: add_clone_states.induct) (auto simp: dom_update)

lemma sort_Strings_empty [simp]: "sort_Strings xs = [] \<longleftrightarrow> xs = []"
  unfolding sort_Strings_def by (metis set_empty set_sort)

lemma hd_sort_Strings:
  assumes "xs \<noteq> []"
  shows "hd (sort_Strings xs) = Min (set xs)"
proof -
  obtain y ys where ys: "sort xs = y # ys" using assms by (metis list.exhaust set_empty set_sort)
  have "sorted (y # ys)" using ys sorted_sort[of xs] by simp
  moreover have "set xs = set (y # ys)" using ys by (metis set_sort)
  ultimately have "Min (set xs) = y" by (auto intro!: Min_eqI)
  then show ?thesis using ys by (simp add: sort_Strings_def)
qed

lemma clone_keys_image:
  assumes "\<And>a t. (a, t) \<in> S \<longleftrightarrow> (\<exists>n. P n a t)"
  shows "{f a |n a t. P n a t} = (\<lambda>(a, t). f a) ` S"
  using assms by force

lemma clone_values_of:
  assumes "\<And>a t. (a, t) \<in> S \<longleftrightarrow> (\<exists>n. P n a t)"
    and "\<forall>k v. m k = Some v \<longrightarrow> (\<exists>n a t. P n a t \<and> k = f a \<and> v = g t)"
  shows "\<forall>k v. m k = Some v \<longrightarrow> (\<exists>(a, t) \<in> S. k = f a \<and> v = g t)"
  using assms by blast

lemma clone_response_states:
  assumes "\<exists>n a t. (n, a, CloneState t) \<in> set as"
  shows "\<exists>m. clone_response addresses as = Ok m
    \<and> fst ` set m = {AddTcpPrefixForAddress a |n a t. (n, a, CloneState t) \<in> set as}
    \<and> (\<forall>k v. map_of m k = Some v \<longrightarrow>
         (\<exists>n a t. (n, a, CloneState t) \<in> set as \<and> k = AddTcpPrefixForAddress a \<and> v = clone_entry t))"
proof -
  let ?m = "add_clone_states as []"
  have "?m \<noteq> []" using assms unfolding add_clone_states_empty by blast
  then have res: "clone_response addresses as = Ok ?m" by (simp add: clone_response_def Let_def)
  have vals: "\<exists>n a t. (n, a, CloneState t) \<in> set as \<and> k = AddTcpPrefixForAddress a \<and> v = clone_entry t"
    if "map_of ?m k = Some v" for k v
    using add_clone_states_lookup[OF that] by auto
  have "\<exists>n a t. (n, a, CloneState t) \<in> set as \<and> k = AddTcpPrefixForAddress a" if "k \<in> fst ` set ?m" for k
    using that vals unfolding dom_map_of_conv_image_fst[symmetric] by blast
  then have "fst ` set ?m \<subseteq> {AddTcpPrefixForAddress a |n a t. (n, a, CloneState t) \<in> set as}" by blast
  moreover have "{AddTcpPrefixForAddress a |n a t. (n, a, CloneState t) \<in> set as} \<subseteq> fst ` set ?m"
    using add_clone_states_keys[of _ _ _ as "[]"] by blast
  ultimately show ?thesis using res vals by blast
qed

text \<open>Without any clone state the replicas that have none decide.\<close>

lemma clone_response_none:
  assumes "\<nexists>n a t. (n, a, CloneState t) \<in> set as"
  shows "clone_response addresses as =
    (if not_started as = [] then Err (StatusError Internal ''cannot get clone status from any replica'')
     else Ok [(AddTcpPrefixForAddress (case addresses (Min (set (not_started as))) of Some a \<Rightarrow> a | None \<Rightarrow> ''''),
       zero_clone_status)])"
proof -
  have none: "add_clone_states as [] = []" using assms unfolding add_clone_states_empty by blast
  show ?thesis
  proof (cases "not_started as = []")
    case False
    then have "sort_Strings (not_started as) \<noteq> []" by simp
    with none False hd_sort_Strings[OF False] show ?thesis by (simp add: clone_response_def Let_def)
  qed (simp add: clone_response_def none)
qed


end
