(* ===== verification/Proxy_Client.thy ===== *)
theory Proxy_Client
  imports Proxy_Snapshot Instance_Client
begin

text \<open>
  The client of the proxy (\<^verbatim>\<open>pkg/client/proxy*.go\<close>): every method checks that its required parameters are there,
  looks the data engine up, sends one request and puts the address of the proxy and of the destination in
  front of an error. The generated stub is a parameter; theory \<open>Proxy_End_To_End\<close> instantiates it with the proxy.
\<close>

section \<open>The connection\<close>

record 's proxy_stub =
  ps_ServerVersionGet :: "ProxyEngineRequest \<Rightarrow> ('s, EngineVersion) remote"
  ps_VolumeGet :: "ProxyEngineRequest \<Rightarrow> ('s, Volume) remote"
  ps_VolumeExpand :: "int option engine_request \<Rightarrow> ('s, unit) remote"
  ps_VolumeFrontendStart :: "string option engine_request \<Rightarrow> ('s, unit) remote"
  ps_VolumeFrontendShutdown :: "ProxyEngineRequest \<Rightarrow> ('s, unit) remote"
  ps_VolumeUnmapMarkSnapChainRemovedSet :: "bool option engine_request \<Rightarrow> ('s, unit) remote"
  ps_VolumeSnapshotMaxCountSet :: "int option engine_request \<Rightarrow> ('s, unit) remote"
  ps_VolumeSnapshotMaxSizeSet :: "int option engine_request \<Rightarrow> ('s, unit) remote"
  ps_RemountReadOnlyVolume :: "string \<Rightarrow> ('s, unit) remote"
  ps_MetricsGet :: "ProxyEngineRequest \<Rightarrow> ('s, DiskMetrics) remote"
  ps_CleanupBackupMountPoints :: "('s, unit) remote"
  ps_SnapshotBackup :: "SnapshotBackupBody engine_request \<Rightarrow> ('s, BackupCreateReply) remote"
  ps_SnapshotBackupStatus :: "BackupStatusBody engine_request \<Rightarrow> ('s, BackupStatus) remote"
  ps_BackupRestore :: "BackupRestoreBody engine_request \<Rightarrow> ('s, string) remote"
  ps_BackupRestoreStatus :: "ProxyEngineRequest \<Rightarrow> ('s, string \<times> (string \<times> RestoreStatus) list) remote"
  ps_VolumeSnapshot :: "SnapshotVolumeBody option engine_request \<Rightarrow> ('s, string) remote"
  ps_SnapshotList :: "ProxyEngineRequest \<Rightarrow> ('s, (string \<times> SnapshotDiskInfo) list) remote"
  ps_SnapshotClone :: "int \<Rightarrow> SnapshotCloneBody engine_request \<Rightarrow> ('s, unit) remote"
  ps_SnapshotCloneStatus :: "ProxyEngineRequest \<Rightarrow> ('s, (string \<times> SnapshotCloneStatus) list) remote"
  ps_SnapshotRevert :: "string engine_request \<Rightarrow> ('s, unit) remote"
  ps_SnapshotPurge :: "bool engine_request \<Rightarrow> ('s, unit) remote"
  ps_SnapshotPurgeStatus :: "ProxyEngineRequest \<Rightarrow> ('s, (string \<times> SnapshotPurgeStatus) list) remote"
  ps_SnapshotRemove :: "string list engine_request \<Rightarrow> ('s, unit) remote"
  ps_SnapshotHash :: "(string \<times> bool) engine_request \<Rightarrow> ('s, unit) remote"
  ps_SnapshotHashStatus :: "string engine_request \<Rightarrow> ('s, (string \<times> SnapshotHashStatus) list) remote"
  ps_ReplicaAdd :: "int \<Rightarrow> ReplicaAddBody engine_request \<Rightarrow> ('s, unit) remote"
  ps_ReplicaList :: "ProxyEngineRequest \<Rightarrow> ('s, ControllerReplica list) remote"
  ps_ReplicaRebuildingStatus :: "ProxyEngineRequest \<Rightarrow> ('s, string \<rightharpoonup> ReplicaRebuildStatus) remote"
  ps_ReplicaRebuildingQosSet :: "int engine_request \<Rightarrow> ('s, unit) remote"
  ps_ReplicaVerifyRebuild :: "ReplicaNameBody engine_request \<Rightarrow> ('s, unit) remote"
  ps_ReplicaRemove :: "ReplicaNameBody engine_request \<Rightarrow> ('s, unit) remote"
  ps_ReplicaModeUpdate :: "(string \<times> ReplicaMode) engine_request \<Rightarrow> ('s, unit) remote"
  ps_ReplicaRebuildConcurrentSyncLimitSet :: "int engine_request \<Rightarrow> ('s, unit) remote"
  ps_ReplicaRebuildConcurrentSyncLimitGet :: "ProxyEngineRequest \<Rightarrow> ('s, int) remote"

text \<open>
  \<open>pcWalk\<close> is the order in which Go happens to walk the map of required parameters, \<open>pcIsQualifiedName\<close> the
  engine library's check of a label's name, which returns what is wrong with it.
\<close>

record 's ProxyClient =
  pcServiceURL :: string
  pcService :: "'s proxy_stub"
  pcWalk :: "(string \<times> string) list \<Rightarrow> (string \<times> string) list"
  pcIsQualifiedName :: "string \<Rightarrow> string list"

definition NewProxyClient ::
  "('s \<Rightarrow> 's \<times> unit go_result) \<Rightarrow> 's proxy_stub \<Rightarrow> ((string \<times> string) list \<Rightarrow> (string \<times> string) list)
     \<Rightarrow> (string \<Rightarrow> string list) \<Rightarrow> string \<Rightarrow> int \<Rightarrow> ('s, 's ProxyClient) remote" where
  "NewProxyClient connect stub walk qualified address port =
     (let serviceURL = GetURL address port in
      r_map (\<lambda>_. \<lparr>pcServiceURL = serviceURL, pcService = stub, pcWalk = walk, pcIsQualifiedName = qualified\<rparr>)
        (r_map_err (WrapError (''cannot connect to ProxyService '' @ serviceURL)) connect))"

fun validateProxyMethodParameters :: "(string \<times> string) list \<Rightarrow> unit go_result" where
  "validateProxyMethodParameters [] = Ok ()"
| "validateProxyMethodParameters ((k, v) # input) =
     (if v = '''' then Err (PlainError (''missing required '' @ k @ '' parameter''))
      else validateProxyMethodParameters input)"

definition getProxyErrorPrefix :: "'s ProxyClient \<Rightarrow> string \<Rightarrow> string" where
  "getProxyErrorPrefix c destination = ''proxyServer='' @ pcServiceURL c @ '' destination='' @ destination @ '':''"

text \<open>Timeouts, in nanoseconds of a signed 64-bit duration.\<close>

definition GRPCServiceTimeout :: int where "GRPCServiceTimeout = 360000000000"
definition GRPCServiceLongTimeout :: int where "GRPCServiceLongTimeout = 86760000000000"

definition getContextWithGRPCLongTimeout :: "int \<Rightarrow> int" where
  "getContextWithGRPCLongTimeout grpcTimeoutSeconds =
     (if grpcTimeoutSeconds > 0 then wrap64 (wrap64 (1000000000 * grpcTimeoutSeconds) + GRPCServiceTimeout)
      else GRPCServiceLongTimeout)"

section \<open>The shape of a call\<close>

text \<open>
  The required parameters, the engine, then the request: \<open>what\<close> is the message of a local refusal, \<open>doing\<close> the
  one of the deferred wrapper.
\<close>

definition checked :: "'s ProxyClient \<Rightarrow> string \<Rightarrow> (string \<times> string) list \<Rightarrow> ('s, 'a) remote \<Rightarrow> ('s, 'a) remote" where
  "checked c what input m =
     r_bind (r_map_err (WrapError (''failed to '' @ what)) (lift_go (validateProxyMethodParameters (pcWalk c input)))) (\<lambda>_. m)"

definition prefixed :: "'s ProxyClient \<Rightarrow> string \<Rightarrow> string \<Rightarrow> ('s, 'a) remote \<Rightarrow> ('s, 'a) remote" where
  "prefixed c serviceAddress doing m =
     r_map_err (WrapError (getProxyErrorPrefix c serviceAddress @ '' failed to '' @ doing)) m"

definition proxy_call ::
  "'s ProxyClient \<Rightarrow> string \<Rightarrow> (string \<times> string) list \<Rightarrow> string \<Rightarrow> string \<Rightarrow> string \<Rightarrow> (DataEngine \<Rightarrow> ('s, 'a) remote)
     \<Rightarrow> ('s, 'a) remote" where
  "proxy_call c what input dataEngine serviceAddress doing f =
     checked c what input (with_driver what dataEngine (\<lambda>d. prefixed c serviceAddress doing (f d)))"

definition basic_input :: "string \<Rightarrow> string \<Rightarrow> string \<Rightarrow> (string \<times> string) list" where
  "basic_input engineName volumeName serviceAddress =
     [(''engineName'', engineName), (''volumeName'', volumeName), (''serviceAddress'', serviceAddress)]"

text \<open>Some methods want the name of the frontend as well, when the engine is given as exactly \<^verbatim>\<open>v2\<close>.\<close>

definition frontend_input :: "string \<Rightarrow> string \<Rightarrow> (string \<times> string) list" where
  "frontend_input dataEngine engineFrontendName =
     (if dataEngine = ''v2'' then [(''engineFrontendName'', engineFrontendName)] else [])"

definition engine_message :: "string \<Rightarrow> string \<Rightarrow> string \<Rightarrow> DataEngine \<Rightarrow> string \<Rightarrow> ProxyEngineRequest" where
  "engine_message serviceAddress engineName engineFrontendName d volumeName =
     \<lparr>peAddress = serviceAddress, peEngineName = engineName, peEngineFrontendName = engineFrontendName, peDataEngine = d,
      peVolumeName = volumeName\<rparr>"

section \<open>Version, metrics\<close>

definition client_ServerVersionGet :: "'s ProxyClient \<Rightarrow> string \<Rightarrow> ('s, EngineVersion) remote" where
  "client_ServerVersionGet c serviceAddress =
     checked c ''get server version'' [(''serviceAddress'', serviceAddress)]
       (prefixed c serviceAddress ''get server version''
         (r_map (\<lambda>v. \<lparr>evVersion = evVersion v, evGitCommit = evGitCommit v, evBuildDate = evBuildDate v,
             evCLIAPIVersion = wrap64 (evCLIAPIVersion v), evCLIAPIMinVersion = wrap64 (evCLIAPIMinVersion v),
             evControllerAPIVersion = wrap64 (evControllerAPIVersion v),
             evControllerAPIMinVersion = wrap64 (evControllerAPIMinVersion v),
             evDataFormatVersion = wrap64 (evDataFormatVersion v),
             evDataFormatMinVersion = wrap64 (evDataFormatMinVersion v)\<rparr>)
           (ps_ServerVersionGet (pcService c) (engine_message serviceAddress '''' '''' DATA_ENGINE_V1 ''''))))"

definition client_MetricsGet :: "'s ProxyClient \<Rightarrow> string \<Rightarrow> string \<Rightarrow> string \<Rightarrow> string \<Rightarrow> ('s, DiskMetrics) remote" where
  "client_MetricsGet c dataEngine engineName volumeName serviceAddress =
     proxy_call c ''get metrics for volume'' (basic_input engineName volumeName serviceAddress @ [(''dataEngine'', dataEngine)])
       dataEngine serviceAddress ''get metrics for volume'' (\<lambda>d.
       r_map disk_metrics_reply (ps_MetricsGet (pcService c) (engine_message serviceAddress engineName '''' d volumeName)))"

section \<open>Volumes\<close>

definition volume_info :: "Volume \<Rightarrow> Volume" where
  "volume_info v = \<lparr>volName = volName v, volSize = volSize v, volReplicaCount = volReplicaCount v,
     volEndpoint = volEndpoint v, volFrontend = volFrontend v, volFrontendState = volFrontendState v,
     volIsExpanding = volIsExpanding v, volLastExpansionError = volLastExpansionError v,
     volLastExpansionFailedAt = volLastExpansionFailedAt v,
     volUnmapMarkSnapChainRemoved = volUnmapMarkSnapChainRemoved v,
     volSnapshotMaxCount = volSnapshotMaxCount v, volSnapshotMaxSize = volSnapshotMaxSize v\<rparr>"

definition client_VolumeGet :: "'s ProxyClient \<Rightarrow> string \<Rightarrow> string \<Rightarrow> string \<Rightarrow> string \<Rightarrow> string \<Rightarrow> ('s, Volume) remote" where
  "client_VolumeGet c dataEngine engineName engineFrontendName volumeName serviceAddress =
     proxy_call c ''get volume'' (basic_input engineName volumeName serviceAddress) dataEngine serviceAddress ''get volume'' (\<lambda>d.
       r_map volume_info
         (ps_VolumeGet (pcService c) (engine_message serviceAddress engineName engineFrontendName d volumeName)))"

definition client_VolumeExpand ::
  "'s ProxyClient \<Rightarrow> string \<Rightarrow> string \<Rightarrow> string \<Rightarrow> string \<Rightarrow> string \<Rightarrow> int \<Rightarrow> ('s, unit) remote" where
  "client_VolumeExpand c dataEngine engineName engineFrontendName volumeName serviceAddress newSize =
     proxy_call c ''expand volume'' (basic_input engineName volumeName serviceAddress @ frontend_input dataEngine engineFrontendName)
       dataEngine serviceAddress ''expand volume'' (\<lambda>d.
       ps_VolumeExpand (pcService c)
         \<lparr>erProxy = Some (engine_message serviceAddress engineName engineFrontendName d volumeName), erBody = Some newSize\<rparr>)"

definition client_VolumeFrontendStart ::
  "'s ProxyClient \<Rightarrow> string \<Rightarrow> string \<Rightarrow> string \<Rightarrow> string \<Rightarrow> string \<Rightarrow> ('s, unit) remote" where
  "client_VolumeFrontendStart c dataEngine engineName volumeName serviceAddress frontendName =
     proxy_call c ''start volume frontend'' (basic_input engineName volumeName serviceAddress @ [(''frontendName'', frontendName)])
       dataEngine serviceAddress (''start volume frontend '' @ frontendName) (\<lambda>d.
       ps_VolumeFrontendStart (pcService c)
         \<lparr>erProxy = Some (engine_message serviceAddress engineName '''' d volumeName), erBody = Some frontendName\<rparr>)"

definition client_VolumeFrontendShutdown ::
  "'s ProxyClient \<Rightarrow> string \<Rightarrow> string \<Rightarrow> string \<Rightarrow> string \<Rightarrow> ('s, unit) remote" where
  "client_VolumeFrontendShutdown c dataEngine engineName volumeName serviceAddress =
     proxy_call c ''shutdown volume frontend'' (basic_input engineName volumeName serviceAddress)
       dataEngine serviceAddress ''shutdown volume frontend'' (\<lambda>d.
       ps_VolumeFrontendShutdown (pcService c) (engine_message serviceAddress engineName '''' d volumeName))"

definition client_VolumeUnmapMarkSnapChainRemovedSet ::
  "'s ProxyClient \<Rightarrow> string \<Rightarrow> string \<Rightarrow> string \<Rightarrow> string \<Rightarrow> bool \<Rightarrow> ('s, unit) remote" where
  "client_VolumeUnmapMarkSnapChainRemovedSet c dataEngine engineName volumeName serviceAddress enabled =
     proxy_call c ''set volume flag UnmapMarkSnapChainRemoved''
       (basic_input engineName volumeName serviceAddress @ [(''enabled'', if enabled then ''true'' else ''false'')])
       dataEngine serviceAddress ''set UnmapMarkSnapChainRemoved'' (\<lambda>d.
       ps_VolumeUnmapMarkSnapChainRemovedSet (pcService c)
         \<lparr>erProxy = Some (engine_message serviceAddress engineName '''' d volumeName), erBody = Some enabled\<rparr>)"

definition client_VolumeSnapshotMaxCountSet ::
  "'s ProxyClient \<Rightarrow> string \<Rightarrow> string \<Rightarrow> string \<Rightarrow> string \<Rightarrow> int \<Rightarrow> ('s, unit) remote" where
  "client_VolumeSnapshotMaxCountSet c dataEngine engineName volumeName serviceAddress maxCount =
     proxy_call c ''set volume flag SnapshotMaxCount''
       (basic_input engineName volumeName serviceAddress @ [(''count'', strconv_Itoa maxCount)])
       dataEngine serviceAddress ''set SnapshotMaxCount'' (\<lambda>d.
       ps_VolumeSnapshotMaxCountSet (pcService c)
         \<lparr>erProxy = Some (engine_message serviceAddress engineName '''' d volumeName), erBody = Some (wrap32 maxCount)\<rparr>)"

definition client_VolumeSnapshotMaxSizeSet ::
  "'s ProxyClient \<Rightarrow> string \<Rightarrow> string \<Rightarrow> string \<Rightarrow> string \<Rightarrow> int \<Rightarrow> ('s, unit) remote" where
  "client_VolumeSnapshotMaxSizeSet c dataEngine engineName volumeName serviceAddress newSize =
     proxy_call c ''set volume flag SnapshotMaxSize''
       (basic_input engineName volumeName serviceAddress @ [(''size'', strconv_Itoa newSize)])
       dataEngine serviceAddress ''set SnapshotMaxSize'' (\<lambda>d.
       ps_VolumeSnapshotMaxSizeSet (pcService c)
         \<lparr>erProxy = Some (engine_message serviceAddress engineName '''' d volumeName), erBody = Some newSize\<rparr>)"

definition client_RemountReadOnlyVolume :: "'s ProxyClient \<Rightarrow> string \<Rightarrow> ('s, unit) remote" where
  "client_RemountReadOnlyVolume c volumeName =
     (if volumeName = '''' then r_err (PlainError ''failed to remount volume, volume name is empty'')
      else ps_RemountReadOnlyVolume (pcService c) volumeName)"

section \<open>Backups\<close>

definition client_CleanupBackupMountPoints :: "'s ProxyClient \<Rightarrow> ('s, unit) remote" where
  "client_CleanupBackupMountPoints c = ps_CleanupBackupMountPoints (pcService c)"

text \<open>What is backed up is a message of the proxy; the client narrows its limit to 32 bits.\<close>

definition client_SnapshotBackup ::
  "'s ProxyClient \<Rightarrow> string \<Rightarrow> string \<Rightarrow> string \<Rightarrow> string \<Rightarrow> SnapshotBackupBody \<Rightarrow> ('s, string \<times> string) remote" where
  "client_SnapshotBackup c dataEngine engineName volumeName serviceAddress b =
     proxy_call c ''backup snapshot'' (basic_input engineName volumeName serviceAddress) dataEngine serviceAddress
       (''backup snapshot '' @ sbSnapshotName b @ '' to '' @ sbBackupName b) (\<lambda>d.
       r_map (\<lambda>recv. (bcBackupId recv, bcReplica recv)) (ps_SnapshotBackup (pcService c)
         \<lparr>erProxy = Some (engine_message serviceAddress engineName '''' d volumeName),
          erBody = b\<lparr>sbConcurrentLimit := wrap32 (sbConcurrentLimit b)\<rparr>\<rparr>))"

definition backup_status_reply :: "BackupStatus \<Rightarrow> BackupStatus" where
  "backup_status_reply recv = \<lparr>bsBackupURL = bsBackupURL recv, bsError = bsError recv, bsProgress = bsProgress recv,
     bsSnapshotName = bsSnapshotName recv, bsState = bsState recv, bsReplicaAddress = bsReplicaAddress recv\<rparr>"

definition client_SnapshotBackupStatus ::
  "'s ProxyClient \<Rightarrow> string \<Rightarrow> string \<Rightarrow> string \<Rightarrow> string \<Rightarrow> string \<Rightarrow> string \<Rightarrow> string \<Rightarrow> ('s, BackupStatus) remote" where
  "client_SnapshotBackupStatus c dataEngine engineName volumeName serviceAddress backupName replicaAddress replicaName =
     proxy_call c ''get backup status'' (basic_input engineName volumeName serviceAddress @ [(''backupName'', backupName)])
       dataEngine serviceAddress (''get '' @ backupName @ '' backup status'') (\<lambda>d.
       r_map backup_status_reply
         (ps_SnapshotBackupStatus (pcService c)
           \<lparr>erProxy = Some (engine_message serviceAddress engineName '''' d volumeName),
            erBody = \<lparr>bqBackupName = backupName, bqReplicaAddress = replicaAddress, bqReplicaName = replicaName\<rparr>\<rparr>))"

text \<open>
  A restore ends well, or with the errors of replicas as a \<^verbatim>\<open>TaskError\<close>, which is handed on as it is, or with
  another error. \<open>unjson\<close> is \<^verbatim>\<open>json.Unmarshal\<close> into a \<^verbatim>\<open>TaskError\<close>.
\<close>

datatype restore_outcome = Restored | RestoreTaskError "ReplicaError list"

definition client_BackupRestore ::
  "(string \<Rightarrow> ReplicaError list go_result) \<Rightarrow> 's ProxyClient \<Rightarrow> string \<Rightarrow> string \<Rightarrow> string \<Rightarrow> string \<Rightarrow> string \<Rightarrow> string \<Rightarrow> string
     \<Rightarrow> string list \<Rightarrow> int \<Rightarrow> bool \<Rightarrow> ('s, restore_outcome) remote" where
  "client_BackupRestore unjson c dataEngine engineName volumeName serviceAddress url target backupVolumeName envs
       concurrentLimit needCorrectEncryptedVolumeSize =
     proxy_call c ''restore backup to volume'' (basic_input engineName volumeName serviceAddress
         @ [(''url'', url), (''target'', target), (''backupVolumeName'', backupVolumeName)])
       dataEngine serviceAddress (''restore backup '' @ url @ '' to volume '' @ volumeName) (\<lambda>d.
       r_bind (ps_BackupRestore (pcService c)
         \<lparr>erProxy = Some (engine_message serviceAddress engineName '''' d volumeName),
          erBody = \<lparr>brEnvs = envs, brUrl = url, brTarget = target, brVolumeName = backupVolumeName,
            brConcurrentLimit = wrap32 concurrentLimit,
            brNeedCorrectEncryptedVolumeSize = needCorrectEncryptedVolumeSize\<rparr>\<rparr>) (\<lambda>taskError.
       if taskError = '''' then r_ok Restored
       else r_map RestoreTaskError (r_map_err (WrapError (''cannot unmarshal the restore error, maybe it's not caused by''
           @ '' the replica restore failure: '' @ taskError)) (lift_go (unjson taskError)))))"

definition convertProxyResponseToBackupRestoreStatus ::
  "string \<times> (string \<times> RestoreStatus) list \<Rightarrow> string \<times> (string \<times> RestoreStatus) list" where
  "convertProxyResponseToBackupRestoreStatus proxyResp = (fst proxyResp, map (\<lambda>(k, v).
     (k, \<lparr>rtIsRestoring = rtIsRestoring v, rtLastRestored = rtLastRestored v,
          rtCurrentRestoringBackup = rtCurrentRestoringBackup v, rtProgress = rtProgress v, rtError = rtError v,
          rtFilename = rtFilename v, rtState = rtState v, rtBackupURL = rtBackupURL v\<rparr>)) (snd proxyResp))"

definition client_BackupRestoreStatus ::
  "'s ProxyClient \<Rightarrow> string \<Rightarrow> string \<Rightarrow> string \<Rightarrow> string \<Rightarrow> ('s, string \<times> (string \<times> RestoreStatus) list) remote" where
  "client_BackupRestoreStatus c dataEngine engineName volumeName serviceAddress =
     proxy_call c ''get backup restore status'' (basic_input engineName volumeName serviceAddress)
       dataEngine serviceAddress ''get backup restore status'' (\<lambda>d.
       r_map convertProxyResponseToBackupRestoreStatus
         (ps_BackupRestoreStatus (pcService c) (engine_message serviceAddress engineName '''' d volumeName)))"

text \<open>Nothing is lost or renamed on the way through the client.\<close>

lemma client_copies [simp]: "volume_info v = v" "backup_status_reply b = b"
  by (simp_all add: volume_info_def backup_status_reply_def)

lemma client_copies_fun [simp]: "volume_info = (\<lambda>v. v)" "backup_status_reply = (\<lambda>b. b)"
  by (simp_all add: fun_eq_iff)

lemma r_map_ident [simp]: "r_map (\<lambda>x. x) m = m"
  by (simp add: r_map_def)

lemma restore_status_copied [simp]: "convertProxyResponseToBackupRestoreStatus r = r"
  by (cases r) (auto simp: convertProxyResponseToBackupRestoreStatus_def intro!: map_idI)

end
