(* ===== verification/Proxy_Client_Calls.thy ===== *)
theory Proxy_Client_Calls
  imports Proxy_Client
begin

text \<open>
  The methods of the proxy's client on snapshots and replicas (\<^verbatim>\<open>pkg/client/proxy_snapshot.go\<close>,
  \<^verbatim>\<open>pkg/client/proxy_replica.go\<close>), and the contract all methods of the client keep.
\<close>

section \<open>Snapshots\<close>

text \<open>The labels are checked one after the other before the request is sent.\<close>

fun check_labels :: "(string \<Rightarrow> string list) \<Rightarrow> (string \<times> string) list \<Rightarrow> unit go_result" where
  "check_labels qualified [] = Ok ()"
| "check_labels qualified ((key, v) # labels) = (case qualified key of
     err # _ \<Rightarrow> Err (PlainError (''invalid key '' @ key @ '' for label: '' @ err))
   | [] \<Rightarrow> if v = '''' then Err (PlainError (''invalid empty value for label with key '' @ key))
           else check_labels qualified labels)"

definition client_VolumeSnapshot ::
  "'s ProxyClient \<Rightarrow> string \<Rightarrow> string \<Rightarrow> string \<Rightarrow> string \<Rightarrow> string \<Rightarrow> string \<Rightarrow> (string \<times> string) list \<Rightarrow> bool
     \<Rightarrow> ('s, string) remote" where
  "client_VolumeSnapshot c dataEngine engineName engineFrontendName volumeName serviceAddress volumeSnapshotName labels
       freezeFilesystem =
     proxy_call c ''snapshot volume'' (basic_input engineName volumeName serviceAddress @ frontend_input dataEngine engineFrontendName)
       dataEngine serviceAddress ''snapshot volume'' (\<lambda>d.
       r_bind (lift_go (check_labels (pcIsQualifiedName c) labels)) (\<lambda>_.
       ps_VolumeSnapshot (pcService c)
         \<lparr>erProxy = Some (engine_message serviceAddress engineName engineFrontendName d volumeName),
          erBody = Some \<lparr>svName = volumeSnapshotName, svLabels = labels, svFreezeFilesystem = freezeFilesystem\<rparr>\<rparr>))"

definition client_SnapshotList ::
  "'s ProxyClient \<Rightarrow> string \<Rightarrow> string \<Rightarrow> string \<Rightarrow> string \<Rightarrow> ('s, (string \<times> SnapshotDiskInfo) list) remote" where
  "client_SnapshotList c dataEngine engineName volumeName serviceAddress =
     proxy_call c ''list snapshots'' (basic_input engineName volumeName serviceAddress)
       dataEngine serviceAddress ''list snapshots'' (\<lambda>d.
       r_map (map (\<lambda>(k, v). (k, \<lparr>sniName = sniName v, sniParent = sniParent v, sniChildren = sniChildren v,
           sniRemoved = sniRemoved v, sniUserCreated = sniUserCreated v, sniCreated = sniCreated v, sniSize = sniSize v,
           sniLabels = sniLabels v\<rparr>)))
         (ps_SnapshotList (pcService c) (engine_message serviceAddress engineName '''' d volumeName)))"

text \<open>The numbers of the clone modes.\<close>

fun CloneMode_number :: "CloneMode \<Rightarrow> int" where
  "CloneMode_number CLONE_MODE_FULL_COPY = 0"
| "CloneMode_number CLONE_MODE_LINKED_CLONE = 1"

definition client_SnapshotClone ::
  "'s ProxyClient \<Rightarrow> string \<Rightarrow> string \<Rightarrow> string \<Rightarrow> string \<Rightarrow> string \<Rightarrow> string \<Rightarrow> string \<Rightarrow> string \<Rightarrow> int \<Rightarrow> int \<Rightarrow> string
     \<Rightarrow> (string \<times> string) list \<Rightarrow> ('s, unit) remote" where
  "client_SnapshotClone c dataEngine engineName volumeName serviceAddress snapshotName fromEngineAddress fromVolumeName
       fromEngineName fileSyncHTTPClientTimeout grpcTimeoutSeconds cloneMode pairs =
     proxy_call c ''clone snapshot'' (basic_input engineName volumeName serviceAddress
         @ [(''snapshotName'', snapshotName), (''fromEngineAddress'', fromEngineAddress),
            (''fromVolumeName'', fromVolumeName), (''fromEngineName'', fromEngineName)])
       dataEngine serviceAddress (''clone snapshot '' @ snapshotName @ '' from '' @ fromEngineAddress) (\<lambda>d.
       ps_SnapshotClone (pcService c) (getContextWithGRPCLongTimeout grpcTimeoutSeconds)
         \<lparr>erProxy = Some (engine_message serviceAddress engineName '''' d volumeName),
          erBody = \<lparr>scbSnapshotName = snapshotName, scbFromEngineAddress = fromEngineAddress,
            scbFromVolumeName = fromVolumeName, scbFromEngineName = fromEngineName,
            scbExportBackingImageIfExist = False,
            scbFileSyncHttpClientTimeout = wrap32 fileSyncHTTPClientTimeout,
            scbGrpcTimeoutSeconds = grpcTimeoutSeconds, scbCloneMode = CloneMode_number (getCloneMode cloneMode),
            scbReplicaPairs = pairs\<rparr>\<rparr>)"

definition client_SnapshotCloneStatus ::
  "'s ProxyClient \<Rightarrow> string \<Rightarrow> string \<Rightarrow> string \<Rightarrow> string \<Rightarrow> ('s, (string \<times> SnapshotCloneStatus) list) remote" where
  "client_SnapshotCloneStatus c dataEngine engineName volumeName serviceAddress =
     proxy_call c ''get snapshot clone status'' (basic_input engineName volumeName serviceAddress)
       dataEngine serviceAddress ''get snapshot clone status'' (\<lambda>d.
       r_map (map (\<lambda>(k, v). (k, \<lparr>csIsCloning = csIsCloning v, csError = csError v, csProgress = csProgress v,
           csState = csState v, csFromReplicaAddress = csFromReplicaAddress v, csSnapshotName = csSnapshotName v\<rparr>)))
         (ps_SnapshotCloneStatus (pcService c) (engine_message serviceAddress engineName '''' d volumeName)))"

definition VolumeHeadName :: string where "VolumeHeadName = ''volume-head''"

definition client_SnapshotRevert ::
  "'s ProxyClient \<Rightarrow> string \<Rightarrow> string \<Rightarrow> string \<Rightarrow> string \<Rightarrow> string \<Rightarrow> string \<Rightarrow> ('s, unit) remote" where
  "client_SnapshotRevert c dataEngine engineName engineFrontendName volumeName serviceAddress name =
     proxy_call c ''revert volume to snapshot'' (basic_input engineName volumeName serviceAddress @ [(''name'', name)]
         @ frontend_input dataEngine engineFrontendName)
       dataEngine serviceAddress (''revert volume to snapshot '' @ name) (\<lambda>d.
       if name = VolumeHeadName then r_err (PlainError (''invalid operation: cannot revert to '' @ VolumeHeadName))
       else ps_SnapshotRevert (pcService c)
         \<lparr>erProxy = Some (engine_message serviceAddress engineName engineFrontendName d volumeName), erBody = name\<rparr>)"

definition client_SnapshotPurge ::
  "'s ProxyClient \<Rightarrow> string \<Rightarrow> string \<Rightarrow> string \<Rightarrow> string \<Rightarrow> string \<Rightarrow> bool \<Rightarrow> ('s, unit) remote" where
  "client_SnapshotPurge c dataEngine engineName engineFrontendName volumeName serviceAddress skipIfInProgress =
     proxy_call c ''purge snapshots'' (basic_input engineName volumeName serviceAddress @ frontend_input dataEngine engineFrontendName)
       dataEngine serviceAddress ''purge snapshots'' (\<lambda>d.
       ps_SnapshotPurge (pcService c)
         \<lparr>erProxy = Some (engine_message serviceAddress engineName engineFrontendName d volumeName), erBody = skipIfInProgress\<rparr>)"

definition client_SnapshotPurgeStatus ::
  "'s ProxyClient \<Rightarrow> string \<Rightarrow> string \<Rightarrow> string \<Rightarrow> string \<Rightarrow> string \<Rightarrow> ('s, (string \<times> SnapshotPurgeStatus) list) remote" where
  "client_SnapshotPurgeStatus c dataEngine engineName engineFrontendName volumeName serviceAddress =
     proxy_call c ''get snapshot purge status'' (basic_input engineName volumeName serviceAddress)
       dataEngine serviceAddress ''get snapshot purge status'' (\<lambda>d.
       r_map (map (\<lambda>(k, v). (k, \<lparr>spIsPurging = spIsPurging v, spError = spError v, spProgress = spProgress v,
           spState = spState v\<rparr>)))
         (ps_SnapshotPurgeStatus (pcService c) (engine_message serviceAddress engineName engineFrontendName d volumeName)))"

definition client_SnapshotRemove ::
  "'s ProxyClient \<Rightarrow> string \<Rightarrow> string \<Rightarrow> string \<Rightarrow> string \<Rightarrow> string \<Rightarrow> string list \<Rightarrow> ('s, unit) remote" where
  "client_SnapshotRemove c dataEngine engineName engineFrontendName volumeName serviceAddress names =
     checked c (''remove snapshot '' @ go_list names)
       (basic_input engineName volumeName serviceAddress @ frontend_input dataEngine engineFrontendName)
       (with_driver ''remove snapshot'' dataEngine (\<lambda>d.
         prefixed c serviceAddress (''remove snapshot '' @ go_list names) (ps_SnapshotRemove (pcService c)
           \<lparr>erProxy = Some (engine_message serviceAddress engineName engineFrontendName d volumeName), erBody = names\<rparr>)))"

definition client_SnapshotHash ::
  "'s ProxyClient \<Rightarrow> string \<Rightarrow> string \<Rightarrow> string \<Rightarrow> string \<Rightarrow> string \<Rightarrow> bool \<Rightarrow> ('s, unit) remote" where
  "client_SnapshotHash c dataEngine engineName volumeName serviceAddress snapshotName rehash =
     proxy_call c ''hash snapshot'' (basic_input engineName volumeName serviceAddress)
       dataEngine serviceAddress ''hash snapshot'' (\<lambda>d.
       ps_SnapshotHash (pcService c)
         \<lparr>erProxy = Some (engine_message serviceAddress engineName '''' d volumeName), erBody = (snapshotName, rehash)\<rparr>)"

definition client_SnapshotHashStatus ::
  "'s ProxyClient \<Rightarrow> string \<Rightarrow> string \<Rightarrow> string \<Rightarrow> string \<Rightarrow> string \<Rightarrow> ('s, (string \<times> SnapshotHashStatus) list) remote" where
  "client_SnapshotHashStatus c dataEngine engineName volumeName serviceAddress snapshotName =
     proxy_call c ''get snapshot hash status'' (basic_input engineName volumeName serviceAddress)
       dataEngine serviceAddress ''get snapshot hash status'' (\<lambda>d.
       r_map (map (\<lambda>(k, v). (k, \<lparr>shsState = shsState v, shsChecksum = shsChecksum v, shsError = shsError v,
           shsSilentlyCorrupted = shsSilentlyCorrupted v\<rparr>)))
         (ps_SnapshotHashStatus (pcService c)
           \<lparr>erProxy = Some (engine_message serviceAddress engineName '''' d volumeName), erBody = snapshotName\<rparr>))"

section \<open>Replicas\<close>

definition client_ReplicaAdd ::
  "'s ProxyClient \<Rightarrow> string \<Rightarrow> string \<Rightarrow> string \<Rightarrow> string \<Rightarrow> string \<Rightarrow> string \<Rightarrow> string \<Rightarrow> bool \<Rightarrow> int \<Rightarrow> int \<Rightarrow> int \<Rightarrow> bool
     \<Rightarrow> FileLocalSync option \<Rightarrow> LinkedCloneSource option \<Rightarrow> int \<Rightarrow> ('s, unit) remote" where
  "client_ReplicaAdd c dataEngine engineName engineFrontendName volumeName serviceAddress replicaName replicaAddress restore
       newSize currentSize fileSyncHTTPClientTimeout fastSync localSync linkedCloneSource grpcTimeoutSeconds =
     proxy_call c ''add replica for volume'' (basic_input engineName volumeName serviceAddress
         @ [(''replicaName'', replicaName), (''replicaAddress'', replicaAddress)])
       dataEngine serviceAddress
       ((if restore then ''add restore replica '' else ''add replica '') @ replicaAddress @ '' for volume'') (\<lambda>d.
       ps_ReplicaAdd (pcService c) (getContextWithGRPCLongTimeout grpcTimeoutSeconds)
         \<lparr>erProxy = Some (engine_message serviceAddress engineName engineFrontendName d volumeName),
          erBody = \<lparr>raReplicaName = replicaName, raReplicaAddress = replicaAddress, raRestore = restore, raSize = newSize,
            raCurrentSize = currentSize, raFastSync = fastSync,
            raFileSyncHttpClientTimeout = wrap32 fileSyncHTTPClientTimeout,
            raLocalSync = (case localSync of None \<Rightarrow> None
              | Some l \<Rightarrow> Some \<lparr>flSourcePath = flSourcePath l, flTargetPath = flTargetPath l\<rparr>),
            raGrpcTimeoutSeconds = grpcTimeoutSeconds, raLinkedCloneSource = linkedCloneSource\<rparr>\<rparr>)"

definition client_ReplicaList ::
  "'s ProxyClient \<Rightarrow> string \<Rightarrow> string \<Rightarrow> string \<Rightarrow> string \<Rightarrow> ('s, v1_replica list) remote" where
  "client_ReplicaList c dataEngine engineName volumeName serviceAddress =
     proxy_call c ''list replicas for volume'' (basic_input engineName volumeName serviceAddress)
       dataEngine serviceAddress ''list replicas for volume'' (\<lambda>d.
       r_map (map (\<lambda>cr. \<lparr>vrAddress = crAddress cr, vrMode = GRPCReplicaModeToReplicaMode (crMode cr)\<rparr>))
         (ps_ReplicaList (pcService c) (engine_message serviceAddress engineName '''' d volumeName)))"

definition client_ReplicaRebuildingStatus ::
  "'s ProxyClient \<Rightarrow> string \<Rightarrow> string \<Rightarrow> string \<Rightarrow> string \<Rightarrow> ('s, string \<rightharpoonup> ReplicaRebuildStatus) remote" where
  "client_ReplicaRebuildingStatus c dataEngine engineName volumeName serviceAddress =
     proxy_call c ''get replicas rebuilding status'' (basic_input engineName volumeName serviceAddress)
       dataEngine serviceAddress ''get replicas rebuilding status'' (\<lambda>d.
       r_map (\<lambda>m k. map_option (\<lambda>v. \<lparr>rrError = rrError v, rrIsRebuilding = rrIsRebuilding v, rrProgress = rrProgress v,
           rrState = rrState v, rrFromReplicaAddressList = rrFromReplicaAddressList v\<rparr>) (m k))
         (ps_ReplicaRebuildingStatus (pcService c) (engine_message serviceAddress engineName '''' d volumeName)))"

definition client_ReplicaRebuildingQosSet ::
  "'s ProxyClient \<Rightarrow> string \<Rightarrow> string \<Rightarrow> string \<Rightarrow> string \<Rightarrow> int \<Rightarrow> ('s, unit) remote" where
  "client_ReplicaRebuildingQosSet c dataEngine engineName volumeName serviceAddress qosLimitMbps =
     proxy_call c ''set replicas rebuilding qos set'' (basic_input engineName volumeName serviceAddress)
       dataEngine serviceAddress ''set replicas rebuilding qos set'' (\<lambda>d.
       ps_ReplicaRebuildingQosSet (pcService c)
         \<lparr>erProxy = Some (engine_message serviceAddress engineName '''' d volumeName), erBody = qosLimitMbps\<rparr>)"

definition client_ReplicaVerifyRebuild ::
  "'s ProxyClient \<Rightarrow> string \<Rightarrow> string \<Rightarrow> string \<Rightarrow> string \<Rightarrow> string \<Rightarrow> string \<Rightarrow> ('s, unit) remote" where
  "client_ReplicaVerifyRebuild c dataEngine engineName volumeName serviceAddress replicaAddress replicaName =
     proxy_call c ''verify replica rebuild'' (basic_input engineName volumeName serviceAddress
         @ [(''replicaAddress'', replicaAddress), (''replicaName'', replicaName)])
       dataEngine serviceAddress (''verify replica '' @ replicaAddress @ '' rebuild'') (\<lambda>d.
       ps_ReplicaVerifyRebuild (pcService c)
         \<lparr>erProxy = Some (engine_message serviceAddress engineName '''' d volumeName),
          erBody = \<lparr>rnReplicaName = replicaName, rnReplicaAddress = replicaAddress\<rparr>\<rparr>)"

definition client_ReplicaRemove ::
  "'s ProxyClient \<Rightarrow> string \<Rightarrow> string \<Rightarrow> string \<Rightarrow> string \<Rightarrow> string \<Rightarrow> ('s, unit) remote" where
  "client_ReplicaRemove c dataEngine serviceAddress engineName replicaAddress replicaName =
     checked c ''remove replica for volume'' [(''serviceAddress'', serviceAddress), (''engineName'', engineName)]
       (if replicaAddress = '''' \<and> replicaName = '''' then
          r_err (PlainError ''failed to remove replica for volume: replica address and name are both empty'')
        else with_driver ''remove replica for volume'' dataEngine (\<lambda>d.
          prefixed c serviceAddress (''remove replica '' @ replicaAddress @ '' for volume'') (ps_ReplicaRemove (pcService c)
            \<lparr>erProxy = Some (engine_message serviceAddress engineName '''' d ''''),
             erBody = \<lparr>rnReplicaName = replicaName, rnReplicaAddress = replicaAddress\<rparr>\<rparr>)))"

definition client_ReplicaModeUpdate ::
  "'s ProxyClient \<Rightarrow> string \<Rightarrow> string \<Rightarrow> string \<Rightarrow> string \<Rightarrow> ('s, unit) remote" where
  "client_ReplicaModeUpdate c dataEngine serviceAddress replicaAddress mode =
     proxy_call c ''remove replica for volume'' [(''serviceAddress'', serviceAddress), (''replicaAddress'', replicaAddress)]
       dataEngine serviceAddress (''update replica '' @ replicaAddress @ '' mode for volume'') (\<lambda>d.
       ps_ReplicaModeUpdate (pcService c)
         \<lparr>erProxy = Some (engine_message serviceAddress '''' '''' d ''''),
          erBody = (replicaAddress, replicaModeToGRPCReplicaMode mode)\<rparr>)"

definition client_ReplicaRebuildConcurrentSyncLimitSet ::
  "'s ProxyClient \<Rightarrow> string \<Rightarrow> string \<Rightarrow> string \<Rightarrow> string \<Rightarrow> int \<Rightarrow> ('s, unit) remote" where
  "client_ReplicaRebuildConcurrentSyncLimitSet c dataEngine engineName volumeName serviceAddress limit =
     proxy_call c ''set replica rebuilding concurrent sync limit'' (basic_input engineName volumeName serviceAddress)
       dataEngine serviceAddress ''set replica rebuilding concurrent sync limit'' (\<lambda>d.
       ps_ReplicaRebuildConcurrentSyncLimitSet (pcService c)
         \<lparr>erProxy = Some (engine_message serviceAddress engineName '''' d volumeName), erBody = wrap32 limit\<rparr>)"

definition client_ReplicaRebuildConcurrentSyncLimitGet ::
  "'s ProxyClient \<Rightarrow> string \<Rightarrow> string \<Rightarrow> string \<Rightarrow> string \<Rightarrow> ('s, int) remote" where
  "client_ReplicaRebuildConcurrentSyncLimitGet c dataEngine engineName volumeName serviceAddress =
     proxy_call c ''get replica rebuilding concurrent sync limit'' (basic_input engineName volumeName serviceAddress)
       dataEngine serviceAddress ''get replica rebuilding concurrent sync limit'' (\<lambda>d.
       ps_ReplicaRebuildConcurrentSyncLimitGet (pcService c) (engine_message serviceAddress engineName '''' d volumeName))"

section \<open>The contract of the methods\<close>

text \<open>The client walks its map of parameters in some order.\<close>

definition walks :: "'s ProxyClient \<Rightarrow> bool" where
  "walks c \<longleftrightarrow> (\<forall>xs. mset (pcWalk c xs) = mset xs)"

definition complete :: "(string \<times> string) list \<Rightarrow> bool" where
  "complete xs \<longleftrightarrow> list_all (\<lambda>(k, v). v \<noteq> '''') xs"

definition missing_parameter :: "string \<Rightarrow> go_error" where
  "missing_parameter k = PlainError (''missing required '' @ k @ '' parameter'')"

lemma complete_simps [simp]:
  "complete []" "complete ((k, v) # xs) \<longleftrightarrow> v \<noteq> '''' \<and> complete xs" "complete (xs @ ys) \<longleftrightarrow> complete xs \<and> complete ys"
  "complete (basic_input en vn sa) \<longleftrightarrow> en \<noteq> '''' \<and> vn \<noteq> '''' \<and> sa \<noteq> ''''"
  "complete (frontend_input de ef) \<longleftrightarrow> (de = ''v2'' \<longrightarrow> ef \<noteq> '''')"
  by (auto simp: complete_def basic_input_def frontend_input_def)

lemma validate_complete: "complete xs \<Longrightarrow> validateProxyMethodParameters xs = Ok ()"
  by (induction xs rule: validateProxyMethodParameters.induct) simp_all

lemma validate_incomplete:
  "\<not> complete xs \<Longrightarrow> \<exists>k. (k, '''') \<in> set xs \<and> validateProxyMethodParameters xs = Err (missing_parameter k)"
  by (induction xs rule: validateProxyMethodParameters.induct) (auto simp: missing_parameter_def)

lemma validate_returns [simp]:
  "validateProxyMethodParameters xs \<noteq> Panic" "validateProxyMethodParameters xs \<noteq> Diverge"
  using validate_complete[of xs] validate_incomplete[of xs] by (cases "complete xs"; auto)+

lemma walk_set: "walks c \<Longrightarrow> set (pcWalk c xs) = set xs"
  unfolding walks_def by (metis set_mset_mset)

lemma walk_complete: "walks c \<Longrightarrow> complete (pcWalk c xs) = complete xs"
  by (simp add: complete_def list_all_iff walk_set)

lemma checked_cases:
  assumes "walks c"
  shows "complete input \<Longrightarrow> checked c what input m = m"
    and "\<not> complete input \<Longrightarrow> \<exists>k. (k, '''') \<in> set input \<and>
           checked c what input m s = (s, Err (WrapError (''failed to '' @ what) (missing_parameter k)))"
  using validate_complete[of "pcWalk c input"] validate_incomplete[of "pcWalk c input"]
  by (auto simp: checked_def walk_complete[OF assms] walk_set[OF assms] r_map_err_apply r_bind_def fun_eq_iff)

text \<open>The engine a name stands for.\<close>

definition engine_of :: "string \<Rightarrow> DataEngine" where
  "engine_of de = (if has_suffix (strings_ToLower de) ''v2'' then DATA_ENGINE_V2 else DATA_ENGINE_V1)"

lemma proxy_call_sent:
  "walks c \<Longrightarrow> complete input \<Longrightarrow> proxy_call c what input de sa doing f = prefixed c sa doing (f (engine_of de))"
  by (simp add: proxy_call_def checked_cases(1) with_driver_def DataEngine_value_getDataEngine engine_of_def)

lemma prefixed_apply: "prefixed c sa doing m s =
    (fst (m s), map_err (WrapError (getProxyErrorPrefix c sa @ '' failed to '' @ doing)) (snd (m s)))"
  by (simp add: prefixed_def r_map_err_apply)

text \<open>
  What every method promises: an incomplete request is refused before anything is sent, with an error that
  names a missing parameter, whatever the order of the walk; a complete one is sent once.
\<close>

locale proxy_method =
  fixes call :: "'s ProxyClient \<Rightarrow> 'x \<Rightarrow> ('s, 'a) remote"
    and what :: string
    and input :: "'x \<Rightarrow> (string \<times> string) list"
    and engine address doing :: "'x \<Rightarrow> string"
    and send :: "'s ProxyClient \<Rightarrow> 'x \<Rightarrow> DataEngine \<Rightarrow> ('s, 'a) remote"
  assumes call_eq: "call c x = proxy_call c what (input x) (engine x) (address x) (doing x) (send c x)"
begin

lemma refused:
  assumes "walks c" "\<not> complete (input x)"
  shows "\<exists>k. (k, '''') \<in> set (input x) \<and>
    call c x s = (s, Err (WrapError (''failed to '' @ what) (missing_parameter k)))"
  using checked_cases(2)[OF assms] by (simp add: call_eq proxy_call_def)

lemma sent:
  assumes "walks c" "complete (input x)"
  shows "call c x s = (fst (send c x (engine_of (engine x)) s),
    map_err (WrapError (getProxyErrorPrefix c (address x) @ '' failed to '' @ doing x)) (snd (send c x (engine_of (engine x)) s)))"
  by (simp add: call_eq proxy_call_sent[OF assms] prefixed_apply)

lemma error_code:
  assumes "walks c" "complete (input x)" "send c x (engine_of (engine x)) s = (s', Err e)"
  shows "\<exists>e'. call c x s = (s', Err e') \<and> status_code e' = status_code e"
  using sent[OF assms(1,2), of s] assms(3) by simp

end

interpretation m_volume_expand: proxy_method
  "\<lambda>c (de, en, ef, vn, sa, n). client_VolumeExpand c de en ef vn sa n" "''expand volume''"
  "\<lambda>(de, en, ef, vn, sa, n). basic_input en vn sa @ frontend_input de ef" "\<lambda>(de, en, ef, vn, sa, n). de"
  "\<lambda>(de, en, ef, vn, sa, n). sa" "\<lambda>_. ''expand volume''"
  "\<lambda>c (de, en, ef, vn, sa, n) d. ps_VolumeExpand (pcService c)
     \<lparr>erProxy = Some (engine_message sa en ef d vn), erBody = Some n\<rparr>"
  by unfold_locales (auto simp: client_VolumeExpand_def)

interpretation m_snapshot_hash: proxy_method
  "\<lambda>c (de, en, vn, sa, snap, rehash). client_SnapshotHash c de en vn sa snap rehash" "''hash snapshot''"
  "\<lambda>(de, en, vn, sa, snap, rehash). basic_input en vn sa" "\<lambda>(de, en, vn, sa, snap, rehash). de"
  "\<lambda>(de, en, vn, sa, snap, rehash). sa" "\<lambda>_. ''hash snapshot''"
  "\<lambda>c (de, en, vn, sa, snap, rehash) d. ps_SnapshotHash (pcService c)
     \<lparr>erProxy = Some (engine_message sa en '''' d vn), erBody = (snap, rehash)\<rparr>"
  by unfold_locales (auto simp: client_SnapshotHash_def)

interpretation m_snapshot_revert: proxy_method
  "\<lambda>c (de, en, ef, vn, sa, name). client_SnapshotRevert c de en ef vn sa name" "''revert volume to snapshot''"
  "\<lambda>(de, en, ef, vn, sa, name). basic_input en vn sa @ [(''name'', name)] @ frontend_input de ef"
  "\<lambda>(de, en, ef, vn, sa, name). de" "\<lambda>(de, en, ef, vn, sa, name). sa"
  "\<lambda>(de, en, ef, vn, sa, name). ''revert volume to snapshot '' @ name"
  "\<lambda>c (de, en, ef, vn, sa, name) d. if name = VolumeHeadName then r_err (PlainError (''invalid operation: cannot revert to '' @ VolumeHeadName))
     else ps_SnapshotRevert (pcService c) \<lparr>erProxy = Some (engine_message sa en ef d vn), erBody = name\<rparr>"
  by unfold_locales (auto simp: client_SnapshotRevert_def)

interpretation m_replica_list: proxy_method
  "\<lambda>c (de, en, vn, sa). client_ReplicaList c de en vn sa" "''list replicas for volume''"
  "\<lambda>(de, en, vn, sa). basic_input en vn sa" "\<lambda>(de, en, vn, sa). de" "\<lambda>(de, en, vn, sa). sa" "\<lambda>_. ''list replicas for volume''"
  "\<lambda>c (de, en, vn, sa) d. r_map (map (\<lambda>cr. \<lparr>vrAddress = crAddress cr, vrMode = GRPCReplicaModeToReplicaMode (crMode cr)\<rparr>))
     (ps_ReplicaList (pcService c) (engine_message sa en '''' d vn))"
  by unfold_locales (auto simp: client_ReplicaList_def)

interpretation m_backup_status: proxy_method
  "\<lambda>c (de, en, vn, sa, backup, ra, rn). client_SnapshotBackupStatus c de en vn sa backup ra rn" "''get backup status''"
  "\<lambda>(de, en, vn, sa, backup, ra, rn). basic_input en vn sa @ [(''backupName'', backup)]"
  "\<lambda>(de, en, vn, sa, backup, ra, rn). de" "\<lambda>(de, en, vn, sa, backup, ra, rn). sa"
  "\<lambda>(de, en, vn, sa, backup, ra, rn). ''get '' @ backup @ '' backup status''"
  "\<lambda>c (de, en, vn, sa, backup, ra, rn) d. ps_SnapshotBackupStatus (pcService c)
     \<lparr>erProxy = Some (engine_message sa en '''' d vn),
      erBody = \<lparr>bqBackupName = backup, bqReplicaAddress = ra, bqReplicaName = rn\<rparr>\<rparr>"
  by unfold_locales (auto simp: client_SnapshotBackupStatus_def)

section \<open>Timeouts\<close>

lemma long_timeout_outlasts:
  assumes "0 < t" "t \<le> 9223371676"
  shows "getContextWithGRPCLongTimeout t = 1000000000 * t + GRPCServiceTimeout"
  using assms by (simp add: getContextWithGRPCLongTimeout_def GRPCServiceTimeout_def is_int64_def)

lemma long_timeout_overflows: "getContextWithGRPCLongTimeout 9223372037 < 0"
  by (simp add: getContextWithGRPCLongTimeout_def GRPCServiceTimeout_def wrap64_def)

end
