(* ===== verification/Backing_Image.thy ===== *)
theory Backing_Image
  imports Proxy_Client_Calls
begin

text \<open>
  Backing images of the V2 engine: the handlers of the proxy (\<^verbatim>\<open>pkg/proxy/backing_image.go\<close>), which call the SPDK
  service of their own node, the client (\<^verbatim>\<open>pkg/client/proxy_backing_image.go\<close>) and the conversion of answers
  (\<^verbatim>\<open>pkg/api/backing_image.go\<close>).
\<close>

section \<open>Messages\<close>

record spdk_backing_image =
  sbiName :: string
  sbiBackingImageUUID :: string
  sbiLvsUUID :: string
  sbiSize :: int
  sbiExpectedChecksum :: string
  sbiProgress :: int
  sbiState :: string
  sbiCurrentChecksum :: string
  sbiErrorMsg :: string

record SPDKBackingImageSpec =
  bisName :: string
  bisBackingImageUuid :: string
  bisDiskUuid :: string
  bisSize :: int
  bisChecksum :: string

record SPDKBackingImageStatus =
  bitProgress :: int
  bitState :: string
  bitChecksum :: string
  bitErrorMsg :: string

record SPDKBackingImageResponse =
  birSpec :: "SPDKBackingImageSpec option"
  birStatus :: "SPDKBackingImageStatus option"

record BackingImageStatus =
  abtProgress :: int
  abtState :: string
  abtCurrentChecksum :: string
  abtErrorMsg :: string

record BackingImage =
  abiName :: string
  abiBackingImageUUID :: string
  abiDiskUUID :: string
  abiSize :: int
  abiExpectedChecksum :: string
  abiStatus :: BackingImageStatus

record SPDKBackingImageCreateRequest =
  bqcName :: string
  bqcBackingImageUuid :: string
  bqcDiskUuid :: string
  bqcSize :: int
  bqcChecksum :: string
  bqcFromAddress :: string
  bqcSrcLvsUuid :: string

text \<open>The local SPDK client, which the proxy is not created without.\<close>

record 's bi_spdk =
  bi_Create :: "string \<Rightarrow> string \<Rightarrow> string \<Rightarrow> int \<Rightarrow> string \<Rightarrow> string \<Rightarrow> string \<Rightarrow> ('s, spdk_backing_image) remote"
  bi_Delete :: "string \<Rightarrow> string \<Rightarrow> ('s, unit) remote"
  bi_Get :: "string \<Rightarrow> string \<Rightarrow> ('s, spdk_backing_image) remote"
  bi_List :: "('s, (string \<times> spdk_backing_image) list) remote"

section \<open>The handlers\<close>

definition spdkBackingImageToBackingImageResponse :: "spdk_backing_image \<Rightarrow> SPDKBackingImageResponse" where
  "spdkBackingImageToBackingImageResponse bi =
     \<lparr>birSpec = Some \<lparr>bisName = sbiName bi, bisBackingImageUuid = sbiBackingImageUUID bi, bisDiskUuid = sbiLvsUUID bi,
        bisSize = sbiSize bi, bisChecksum = sbiExpectedChecksum bi\<rparr>,
      birStatus = Some \<lparr>bitProgress = sbiProgress bi, bitState = sbiState bi, bitChecksum = sbiCurrentChecksum bi,
        bitErrorMsg = sbiErrorMsg bi\<rparr>\<rparr>"

definition SPDKBackingImageCreate ::
  "'s bi_spdk \<Rightarrow> SPDKBackingImageCreateRequest \<Rightarrow> ('s, SPDKBackingImageResponse) remote" where
  "SPDKBackingImageCreate local req = r_map spdkBackingImageToBackingImageResponse (r_map_err internal
     (bi_Create local (bqcName req) (bqcBackingImageUuid req) (bqcDiskUuid req) (bqcSize req) (bqcChecksum req)
       (bqcFromAddress req) (bqcSrcLvsUuid req)))"

definition SPDKBackingImageDelete :: "'s bi_spdk \<Rightarrow> string \<Rightarrow> string \<Rightarrow> ('s, unit) remote" where
  "SPDKBackingImageDelete local name diskUuid = bi_Delete local name diskUuid"

definition SPDKBackingImageGet :: "'s bi_spdk \<Rightarrow> string \<Rightarrow> string \<Rightarrow> ('s, SPDKBackingImageResponse) remote" where
  "SPDKBackingImageGet local name diskUuid =
     r_map spdkBackingImageToBackingImageResponse (r_map_err internal (bi_Get local name diskUuid))"

definition SPDKBackingImageList :: "'s bi_spdk \<Rightarrow> ('s, (string \<times> SPDKBackingImageResponse) list) remote" where
  "SPDKBackingImageList local =
     r_map (map (\<lambda>(name, bi). (name, spdkBackingImageToBackingImageResponse bi))) (r_map_err internal (bi_List local))"

text \<open>The watch loop, of the same shape as those of the instance service.\<close>

definition watchSPDKBackingImage :: "go_error option \<Rightarrow> watch_event list \<Rightarrow> nat \<times> go_error option" where
  "watchSPDKBackingImage = watch_from ''SPDK replica'' ''SPDK backing images''"

interpretation w_backing_image: watcher watchSPDKBackingImage "''SPDK replica''" "''SPDK backing images''"
  by unfold_locales (simp_all add: watchSPDKBackingImage_def watch_from_def)

section \<open>The client\<close>

record 's bi_stub =
  bst_Create :: "SPDKBackingImageCreateRequest \<Rightarrow> ('s, SPDKBackingImageResponse option) remote"
  bst_Delete :: "string \<Rightarrow> string \<Rightarrow> ('s, unit) remote"
  bst_Get :: "string \<Rightarrow> string \<Rightarrow> ('s, SPDKBackingImageResponse option) remote"
  bst_List :: "('s, (string \<times> SPDKBackingImageResponse option) list) remote"

text \<open>A missing specification is an error, a missing status is a nil dereference.\<close>

definition RPCToBackingImage :: "SPDKBackingImageResponse option \<Rightarrow> BackingImage go_result" where
  "RPCToBackingImage obj = (case obj of
     None \<Rightarrow> Err (PlainError ''cannot convert nil SPDKBackingImageResponse'')
   | Some r \<Rightarrow> (case birSpec r of
       None \<Rightarrow> Err (PlainError ''backing image spec is nil'')
     | Some spec \<Rightarrow> (case birStatus r of
         None \<Rightarrow> Panic
       | Some st \<Rightarrow> Ok \<lparr>abiName = bisName spec, abiBackingImageUUID = bisBackingImageUuid spec,
           abiDiskUUID = bisDiskUuid spec, abiSize = bisSize spec, abiExpectedChecksum = bisChecksum spec,
           abiStatus = \<lparr>abtProgress = bitProgress st, abtState = bitState st, abtCurrentChecksum = bitChecksum st,
             abtErrorMsg = bitErrorMsg st\<rparr>\<rparr>)))"

text \<open>An entry that cannot be converted stays in the list as nil.\<close>

fun RPCToBackingImageList ::
  "(string \<times> SPDKBackingImageResponse option) list \<Rightarrow> (string \<times> BackingImage option) list go_result" where
  "RPCToBackingImageList [] = Ok []"
| "RPCToBackingImageList ((name, bi) # bis) = (case RPCToBackingImage bi of
     Ok res \<Rightarrow> go_bind (RPCToBackingImageList bis) (\<lambda>ret. Ok ((name, Some res) # ret))
   | Err _ \<Rightarrow> go_bind (RPCToBackingImageList bis) (\<lambda>ret. Ok ((name, None) # ret))
   | Panic \<Rightarrow> Panic
   | Diverge \<Rightarrow> Diverge)"

definition client_SPDKBackingImageCreate ::
  "'s ProxyClient \<Rightarrow> 's bi_stub \<Rightarrow> string \<Rightarrow> string \<Rightarrow> string \<Rightarrow> string \<Rightarrow> string \<Rightarrow> string \<Rightarrow> int \<Rightarrow> ('s, BackingImage) remote" where
  "client_SPDKBackingImageCreate c stub name backingImageUUID diskUUID checksum fromAddress srcLvsUUID imageSize =
     checked c ''create backing image'' [(''name'', name), (''backingImageUUID'', backingImageUUID), (''checksum'', checksum),
         (''diskUUID'', diskUUID)]
       (if imageSize = 0 then r_err (PlainError ''failed to create backing image, size should not be zero'')
        else r_bind (bst_Create stub \<lparr>bqcName = name, bqcBackingImageUuid = backingImageUUID, bqcDiskUuid = diskUUID,
            bqcSize = imageSize, bqcChecksum = checksum, bqcFromAddress = fromAddress, bqcSrcLvsUuid = srcLvsUUID\<rparr>)
          (\<lambda>resp. lift_go (RPCToBackingImage resp)))"

definition client_SPDKBackingImageDelete ::
  "'s ProxyClient \<Rightarrow> 's bi_stub \<Rightarrow> string \<Rightarrow> string \<Rightarrow> ('s, unit) remote" where
  "client_SPDKBackingImageDelete c stub name diskUUID =
     checked c ''delete backing image'' [(''name'', name), (''diskUUID'', diskUUID)] (bst_Delete stub name diskUUID)"

definition client_SPDKBackingImageGet ::
  "'s ProxyClient \<Rightarrow> 's bi_stub \<Rightarrow> string \<Rightarrow> string \<Rightarrow> ('s, BackingImage) remote" where
  "client_SPDKBackingImageGet c stub name diskUUID =
     checked c ''get backing image'' [(''name'', name), (''diskUUID'', diskUUID)]
       (r_bind (bst_Get stub name diskUUID) (\<lambda>resp. lift_go (RPCToBackingImage resp)))"

definition client_SPDKBackingImageList :: "'s bi_stub \<Rightarrow> ('s, (string \<times> BackingImage option) list) remote" where
  "client_SPDKBackingImageList stub = r_bind (r_map_err (WrapError ''failed to list backing images'') (bst_List stub))
     (\<lambda>resp. lift_go (RPCToBackingImageList resp))"

section \<open>Client and proxy together\<close>

definition bi_server_stub :: "'s bi_spdk \<Rightarrow> 's bi_stub" where
  "bi_server_stub local = \<lparr>bst_Create = (\<lambda>req. r_map Some (over_wire (SPDKBackingImageCreate local req))),
     bst_Delete = (\<lambda>name disk. over_wire (SPDKBackingImageDelete local name disk)),
     bst_Get = (\<lambda>name disk. r_map Some (over_wire (SPDKBackingImageGet local name disk))),
     bst_List = r_map (map (\<lambda>(n, r). (n, Some r))) (over_wire (SPDKBackingImageList local))\<rparr>"

text \<open>What a client is to see of an image of the SPDK service.\<close>

definition image_view :: "spdk_backing_image \<Rightarrow> BackingImage" where
  "image_view bi = \<lparr>abiName = sbiName bi, abiBackingImageUUID = sbiBackingImageUUID bi, abiDiskUUID = sbiLvsUUID bi,
     abiSize = sbiSize bi, abiExpectedChecksum = sbiExpectedChecksum bi,
     abiStatus = \<lparr>abtProgress = sbiProgress bi, abtState = sbiState bi, abtCurrentChecksum = sbiCurrentChecksum bi,
       abtErrorMsg = sbiErrorMsg bi\<rparr>\<rparr>"

lemma response_roundtrip [simp]:
  "RPCToBackingImage (Some (spdkBackingImageToBackingImageResponse bi)) = Ok (image_view bi)"
  by (simp add: RPCToBackingImage_def spdkBackingImageToBackingImageResponse_def image_view_def)

lemma list_roundtrip:
  "RPCToBackingImageList (map ((\<lambda>(n, r). (n, Some r)) \<circ> (\<lambda>(n, bi). (n, spdkBackingImageToBackingImageResponse bi))) bis) =
     Ok (map (\<lambda>(n, bi). (n, Some (image_view bi))) bis)"
  by (induction bis) auto

text \<open>
  What the SPDK service knows of its backing images arrives at the client unchanged: the list holds an
  entry for every image, none of them nil, with all its fields, and an error arrives with status Internal.
\<close>

theorem backing_images_listed:
  "client_SPDKBackingImageList (bi_server_stub local) s =
     (case bi_List local s of
        (s', Ok bis) \<Rightarrow> (s', Ok (map (\<lambda>(n, bi). (n, Some (image_view bi))) bis))
      | (s', Err e) \<Rightarrow> (s', Err (WrapError ''failed to list backing images'' (StatusError Internal (error_string e))))
      | (s', Panic) \<Rightarrow> (s', Panic)
      | (s', Diverge) \<Rightarrow> (s', Diverge))"
  by (auto simp: client_SPDKBackingImageList_def bi_server_stub_def over_wire_def SPDKBackingImageList_def r_map_apply
      r_map_err_apply r_bind_def list_roundtrip internal_def wire_error_def FromError_def split: prod.splits go_result.splits)

lemma image_get_view:
  assumes "walks c" "name \<noteq> ''''" "disk \<noteq> ''''" "bi_Get local name disk s = (s', Ok bi)"
  shows "client_SPDKBackingImageGet c (bi_server_stub local) name disk s = (s', Ok (image_view bi))"
  using assms(2-4) by (simp add: checked_cases(1)[OF assms(1)] client_SPDKBackingImageGet_def bi_server_stub_def over_wire_def SPDKBackingImageGet_def r_map_apply
      r_map_err_apply r_bind_def)

end
