(* ===== verification/Proxy_End_To_End.thy ===== *)
theory Proxy_End_To_End
  imports Backing_Image
begin

text \<open>
  The client of the proxy connected to the proxy: the stub of the client is the handlers of the proxy, over a
  connection that turns every error into a status. The state is the environment of the instance manager
  beside that of the engines. Deadlines are not part of the model: a call takes as long as it takes.
\<close>

section \<open>The proxy behind the connection\<close>

text \<open>What the proxy uses of its surroundings.\<close>

record 's proxy_world =
  pwCredentials :: credential_source
  pwUuid :: string
  pwJson :: "go_error \<Rightarrow> string"
  pwSha :: "string \<Rightarrow> string"
  pwMounts :: "('s, string \<rightharpoonup> string) remote"
  pwExecutor :: "('s, unit) remote"
  pwExecute :: "string \<Rightarrow> string list \<Rightarrow> ('s, unit) remote"
  pwCleanUp :: "('s, unit) remote"

definition served :: "('s, 'a) remote \<Rightarrow> (environment \<times> 's, 'a) remote" where
  "served m = over_wire (in_env m)"

definition proxy_server_stub :: "'s proxy_world \<Rightarrow> 's Proxy \<Rightarrow> (environment \<times> 's) proxy_stub" where
  "proxy_server_stub w p =
     \<lparr>ps_ServerVersionGet = (\<lambda>r. served (ServerVersionGet p r)),
      ps_VolumeGet = (\<lambda>r. served (VolumeGet p r)),
      ps_VolumeExpand = (\<lambda>r. served (VolumeExpand p r)),
      ps_VolumeFrontendStart = (\<lambda>r. served (VolumeFrontendStart p r)),
      ps_VolumeFrontendShutdown = (\<lambda>r. served (VolumeFrontendShutdown p r)),
      ps_VolumeUnmapMarkSnapChainRemovedSet = (\<lambda>r. served (VolumeUnmapMarkSnapChainRemovedSet p r)),
      ps_VolumeSnapshotMaxCountSet = (\<lambda>r. served (VolumeSnapshotMaxCountSet p r)),
      ps_VolumeSnapshotMaxSizeSet = (\<lambda>r. served (VolumeSnapshotMaxSizeSet p r)),
      ps_RemountReadOnlyVolume = (\<lambda>v. served (RemountReadOnlyVolume (pwSha w) (pwMounts w) (pwExecutor w) (pwExecute w) v)),
      ps_MetricsGet = (\<lambda>r. served (MetricsGet p r)),
      ps_CleanupBackupMountPoints = served (CleanupBackupMountPoints (pwCleanUp w)),
      ps_SnapshotBackup = (\<lambda>r. over_wire (SnapshotBackup (pwCredentials w) (pwUuid w) p r)),
      ps_SnapshotBackupStatus = (\<lambda>r. served (SnapshotBackupStatus p r)),
      ps_BackupRestore = (\<lambda>r. over_wire (BackupRestore (pwCredentials w) (pwJson w) p r)),
      ps_BackupRestoreStatus = (\<lambda>r. served (BackupRestoreStatus p r)),
      ps_VolumeSnapshot = (\<lambda>r. served (VolumeSnapshot (pwUuid w) p r)),
      ps_SnapshotList = (\<lambda>r. served (SnapshotList p r)),
      ps_SnapshotClone = (\<lambda>t r. served (SnapshotClone p r)),
      ps_SnapshotCloneStatus = (\<lambda>r. served (SnapshotCloneStatus_handler p r)),
      ps_SnapshotRevert = (\<lambda>r. served (SnapshotRevert p r)),
      ps_SnapshotPurge = (\<lambda>r. served (SnapshotPurge p r)),
      ps_SnapshotPurgeStatus = (\<lambda>r. served (SnapshotPurgeStatus_handler p r)),
      ps_SnapshotRemove = (\<lambda>r. served (SnapshotRemove p r)),
      ps_SnapshotHash = (\<lambda>r. served (SnapshotHash p r)),
      ps_SnapshotHashStatus = (\<lambda>r. served (SnapshotHashStatus_handler p r)),
      ps_ReplicaAdd = (\<lambda>t r. served (ReplicaAdd p r)),
      ps_ReplicaList = (\<lambda>r. served (ReplicaList p r)),
      ps_ReplicaRebuildingStatus = (\<lambda>r. served (ReplicaRebuildingStatus p r)),
      ps_ReplicaRebuildingQosSet = (\<lambda>r. served (ReplicaRebuildingQosSet p r)),
      ps_ReplicaVerifyRebuild = (\<lambda>r. served (ReplicaVerifyRebuild p r)),
      ps_ReplicaRemove = (\<lambda>r. served (ReplicaRemove p r)),
      ps_ReplicaModeUpdate = (\<lambda>r. served (ReplicaModeUpdate p r)),
      ps_ReplicaRebuildConcurrentSyncLimitSet = (\<lambda>r. served (ReplicaRebuildConcurrentSyncLimitSet p r)),
      ps_ReplicaRebuildConcurrentSyncLimitGet = (\<lambda>r. served (ReplicaRebuildConcurrentSyncLimitGet p r))\<rparr>"

lemma served_apply: "served m (env, s) = ((env, fst (m s)), map_err wire_error (snd (m s)))"
  by (simp add: served_def over_wire_def in_env_def r_map_err_apply split: prod.splits)

section \<open>Volumes\<close>

text \<open>
  A V2 volume is known as long as its engine is: the client gets the engine's view of the volume, with size,
  endpoint and frontend of the engine frontend where that can be asked. A frontend that cannot be reached, or does
  not answer, never fails the call.
\<close>

theorem volume_get_falls_back:
  fixes r :: "spdk_frontend go_result"
  assumes "walks c" "pcService c = proxy_server_stub w p" "en \<noteq> ''''" "vn \<noteq> ''''" "sa \<noteq> ''''" "ef \<noteq> ''''"
    and "engine_of de = DATA_ENGINE_V2"
    and "pxSpdk p (pxAddress p) s = (s1, Ok local)" "px_EngineGet local en s1 = (s2, Ok e)"
    and "r_bind (getSPDKClientFromAddress p sa) (\<lambda>c. px_EngineFrontendGet c ef) s2 = (s3, r)"
    and "r \<noteq> Panic" "r \<noteq> Diverge"
  shows "\<exists>v. client_VolumeGet c de en ef vn sa (env, s) = ((env, s3), Ok v) \<and> volName v = seName e \<and>
    (case r of
       Ok f \<Rightarrow> volSize v = wrap64 (sfSpecSize f) \<and> volEndpoint v = sfEndpoint f \<and> volFrontend v = sfFrontend f
         \<and> volIsExpanding v = (seIsExpanding e \<or> sfIsExpanding f)
     | _ \<Rightarrow> volSize v = wrap64 (seSpecSize e) \<and> volEndpoint v = seEndpoint e \<and> volFrontend v = seFrontend e
         \<and> volIsExpanding v = seIsExpanding e)"
proof -
  let ?pe = "engine_message sa en ef DATA_ENGINE_V2 vn"
  have "r_try (r_bind (getSPDKClientFromAddress p sa) (\<lambda>c. px_EngineFrontendGet c ef)) s2 =
      (s3, Ok (case r of Ok f \<Rightarrow> Some f | _ \<Rightarrow> None))"
    using assms(10-12) by (cases r) (simp_all add: r_try_def)
  then have "V2_VolumeGet p ?pe s = (s3, Ok (v2_volume e (case r of Ok f \<Rightarrow> Some f | _ \<Rightarrow> None)))"
    using assms(6,8,9) by (simp add: V2_VolumeGet_def engine_message_def r_bind_def r_map_err_apply r_map_apply)
  moreover have "client_VolumeGet c de en ef vn sa (env, s) =
      prefixed c sa ''get volume'' (served (VolumeGet p ?pe)) (env, s)"
    using assms(3-5,7) by (simp add: client_VolumeGet_def proxy_call_sent[OF assms(1)] assms(2) proxy_server_stub_def)
  ultimately show ?thesis
    using assms(11,12) by (cases r) (simp_all add: prefixed_apply served_apply VolumeGet_def engine_message_def v2_volume_def)
qed

section \<open>Snapshots\<close>

text \<open>
  The live head of a volume is never the target of a revert: whatever else the call says, and whatever the
  proxy would do, the client refuses and nothing is changed.
\<close>

theorem head_never_reverted_to:
  "\<exists>e. client_SnapshotRevert c de en ef vn sa VolumeHeadName s = (s, Err e)"
  by (cases "validateProxyMethodParameters (pcWalk c (basic_input en vn sa @ [(''name'', VolumeHeadName)] @ frontend_input de ef))")
    (simp_all add: client_SnapshotRevert_def proxy_call_def checked_def with_driver_def DataEngine_value_getDataEngine
      prefixed_apply r_map_err_apply r_bind_def)

text \<open>
  A V2 request needs the name of the engine frontend. The client asks for it only when the engine is spelt
  exactly \<^verbatim>\<open>v2\<close>; under any other name of that engine a request without it is sent.
\<close>

lemma frontend_name_not_asked:
  assumes "walks c" "en \<noteq> ''''" "vn \<noteq> ''''" "sa \<noteq> ''''"
  shows "client_VolumeExpand c ''V2'' en '''' vn sa n = prefixed c sa ''expand volume'' (ps_VolumeExpand (pcService c)
      \<lparr>erProxy = Some (engine_message sa en '''' DATA_ENGINE_V2 vn), erBody = Some n\<rparr>)"
    and "\<exists>e. client_VolumeExpand c ''v2'' en '''' vn sa n s = (s, Err e)"
proof -
  have "engine_of ''V2'' = DATA_ENGINE_V2" by code_simp
  then show "client_VolumeExpand c ''V2'' en '''' vn sa n = prefixed c sa ''expand volume'' (ps_VolumeExpand (pcService c)
      \<lparr>erProxy = Some (engine_message sa en '''' DATA_ENGINE_V2 vn), erBody = Some n\<rparr>)"
    using assms(2-4) by (simp add: client_VolumeExpand_def proxy_call_sent[OF assms(1)])
  show "\<exists>e. client_VolumeExpand c ''v2'' en '''' vn sa n s = (s, Err e)"
    using m_volume_expand.refused[OF assms(1), of "(''v2'', en, '''', vn, sa, n)"] by auto
qed

section \<open>Restores\<close>


end
