(* ===== verification/Proxy_Witnesses.thy ===== *)
theory Proxy_Witnesses
  imports Proxy_End_To_End
begin

text \<open>A proxy with two replicas, and the properties of the proxy applied to it.\<close>

definition no_call :: "('s, 'a) remote" where
  "no_call = r_err (PlainError ''not part of the example'')"

definition w_status :: BackupStatus where
  "w_status = \<lparr>bsBackupURL = ''s3://b'', bsError = '''', bsProgress = 50, bsSnapshotName = ''snap'', bsState = ''in_progress'',
     bsReplicaAddress = ''''\<rparr>"

definition w_clone :: SnapshotCloneStatus where
  "w_clone = zero_clone_status\<lparr>csIsCloning := True, csState := ''in_progress'', csProgress := 10\<rparr>"

definition w_engine_two :: spdk_engine where
  "w_engine_two = \<lparr>seName = ''e'', seSpecSize = 1, seEndpoint = '''', seFrontend = '''', seIsExpanding = False,
     seLastExpansionError = '''', seLastExpansionFailedAt = '''',
     seReplicaModeMap = [(''r2'', ''RW''), (''r1'', ''RW''), (''r3'', ''WO'')],
     seReplicaAddressMap = [(''r1'', ''h1:1''), (''r2'', ''h2:2''), (''r3'', ''h3:3'')],
     seSnapshotMaxCount = 250, seSnapshots = [], seHead = None\<rparr>"

text \<open>Only the second replica has the backup; the first answers NotFound.\<close>

definition w_backup_answer :: "string \<Rightarrow> BackupStatus option go_result" where
  "w_backup_answer a = (if a = ''h2:2'' then Ok (Some w_status) else Err (StatusError NotFound ''no backup''))"

text \<open>Both replicas can be asked for a clone; \<open>started\<close> is the one that has a state.\<close>

definition w_clone_answer :: "string \<Rightarrow> string \<Rightarrow> SnapshotCloneStatus" where
  "w_clone_answer cloning n = (if n = cloning then w_clone else zero_clone_status)"

definition w_px :: "string \<Rightarrow> unit proxy_spdk" where
  "w_px cloning = \<lparr>px_EngineGet = (\<lambda>n. r_ok w_engine_two), px_EngineFrontendGet = (\<lambda>n. no_call),
     px_EngineFrontendExpand = (\<lambda>n b. no_call), px_EngineSnapshotMaxCountSet = (\<lambda>n b. no_call),
     px_EngineFrontendReplicaAdd = (\<lambda>n r a f l. no_call), px_EngineReplicaDelete = (\<lambda>n r a. no_call),
     px_RebuildingShallowCopyCheck = (\<lambda>n. no_call), px_RebuildingSetQosLimit = (\<lambda>n b. no_call),
     px_EngineFrontendSnapshotCreate = (\<lambda>n b. no_call), px_EngineFrontendSnapshotRevert = (\<lambda>n b. no_call),
     px_EngineFrontendSnapshotPurge = (\<lambda>n. no_call), px_EngineFrontendSnapshotDelete = (\<lambda>n b. no_call),
     px_EngineSnapshotClone = (\<lambda>n b. no_call),
     px_CloneDstStatusCheck = (\<lambda>n. r_ok (Some (w_clone_answer cloning n))),
     px_EngineSnapshotHash = (\<lambda>n b r. no_call), px_EngineSnapshotHashStatus = (\<lambda>n b. no_call),
     px_MetricsGet = (\<lambda>n. no_call), px_EngineBackupCreate = (\<lambda>b. no_call),
     px_EngineBackupStatus = (\<lambda>b e a. lift_go (w_backup_answer a)),
     px_EngineBackupRestore = (\<lambda>b e c n. no_call), px_EngineRestoreStatus = (\<lambda>n. no_call), px_Close = r_ok ()\<rparr>"

definition w_proxy :: "string \<Rightarrow> unit Proxy" where
  "w_proxy cloning = \<lparr>pxAddress = ''h0:8504'', pxSpdk = (\<lambda>a. r_ok (w_px cloning)),
     pxController = (\<lambda>a v e. no_call), pxTask = (\<lambda>a v e. no_call), pxReplicaConnect = (\<lambda>a v n. no_call),
     pxFetchBackupStatus = (\<lambda>a v n b. no_call), pxGetSnapshotsInfo = (\<lambda>r v. no_call),
     pxCloneSnapshot = (\<lambda>t b. no_call)\<rparr>"

definition w_pe :: ProxyEngineRequest where
  "w_pe = \<lparr>peAddress = ''h0:1'', peEngineName = ''e'', peEngineFrontendName = '''', peDataEngine = DATA_ENGINE_V2,
     peVolumeName = ''v''\<rparr>"

lemma w_split: "net_SplitHostPort ''h0:1'' = Ok (''h0'', ''1'')"
  by code_simp

lemma w_spdk_at: "spdk_at (w_proxy c) (peAddress w_pe) s = (s, Ok (w_px c))"
  by (simp add: spdk_at_def getSPDKClientFromAddress_def w_pe_def w_split w_proxy_def r_map_err_apply)

lemma w_engine_get: "px_EngineGet (w_px c) n s = (s, Ok w_engine_two)"
  by (simp add: w_px_def)

theorem backup_requests_env_safe_witness:
  "fst (fst (SnapshotBackup (\<lambda>t env. Ok Map.empty) ''uuid'' (w_proxy ''r1'')
      \<lparr>erProxy = Some w_pe, erBody = \<lparr>sbBackupName = ''b'', sbSnapshotName = '''', sbBackupTarget = '''',
         sbBackingImageName = '''', sbBackingImageChecksum = '''', sbCompressionMethod = '''', sbConcurrentLimit = 1,
         sbStorageClassName = '''', sbLabels = [], sbEnvs = [''PATH=/tmp''], sbParameters = []\<rparr>\<rparr>
      (Map.empty(''PATH'' \<mapsto> ''/bin''), ()))) ''PATH'' = Some ''/bin''"
proof -
  have "\<not> isBackupEnvAllowed ''PATH''" by code_simp
  from backup_requests_env_safe[OF this, of "\<lambda>t env. Ok Map.empty" "''uuid''" "w_proxy ''r1''" _ "Map.empty(''PATH'' \<mapsto> ''/bin'')" "()"]
  show ?thesis by simp
qed

lemma w_addresses: "findV2BackupReplicaAddresses (seReplicaModeMap w_engine_two) (seReplicaAddressMap w_engine_two) = [''h1:1'', ''h2:2'']"
  by code_simp


text \<open>What a replica of the example answers when it is asked for its clone.\<close>

definition w_clone_ask :: "string \<Rightarrow> string \<Rightarrow> string \<Rightarrow> clone_answer" where
  "w_clone_ask cloning n a = (case net_SplitHostPort a of
     Ok _ \<Rightarrow> if n = cloning then CloneState w_clone else NotStarted | _ \<Rightarrow> NoAnswer)"

lemma net_SplitHostPort_returns: "net_SplitHostPort a \<noteq> Panic" "net_SplitHostPort a \<noteq> Diverge"
  by (auto simp: net_SplitHostPort_def check_brackets_def Let_def split: option.splits if_splits)

lemma w_ask: "ask_replica (w_proxy c) n a s = (s, Ok (w_clone_ask c n a))"
  by (auto simp: ask_replica_def r_try_def r_bind_def getSPDKClientFromAddress_def w_proxy_def w_px_def w_clone_answer_def
      w_clone_def zero_clone_status_def w_clone_ask_def net_SplitHostPort_returns split: go_result.splits)

lemma w_clone_split: "net_SplitHostPort ''h1:1'' = Ok (''h1'', ''1'')" "net_SplitHostPort ''h2:2'' = Ok (''h2'', ''2'')"
  by code_simp+

lemma w_asked:
  "{(n, a). (n, ModeRW) \<in> set (seReplicaModeMap w_engine_two) \<and> map_of (seReplicaAddressMap w_engine_two) n = Some a} =
     {(''r1'', ''h1:1''), (''r2'', ''h2:2'')}"
  by (auto simp: w_engine_two_def ModeRW_def)

lemma w_clone_answers: "w_clone_ask ''r1'' ''r1'' ''h1:1'' = CloneState w_clone" "w_clone_ask ''r1'' ''r2'' ''h2:2'' = NotStarted"
  by (simp_all add: w_clone_ask_def w_clone_split)

lemma w_states:
  "{(a, st). \<exists>n. (n, a) \<in> {(''r1'', ''h1:1''), (''r2'', ''h2:2'')} \<and> w_clone_ask ''r1'' n a = CloneState st} = {(''h1:1'', w_clone)}"
  using w_clone_answers by auto


section \<open>A client of that proxy\<close>

definition w_replica_errors :: "ReplicaError list" where
  "w_replica_errors = [\<lparr>reAddress = ''h1:1'', reMessage = ''no space''\<rparr>]"

text \<open>Errors become some JSON, which is read back as the errors of one replica.\<close>

definition w_world :: "unit proxy_world" where
  "w_world = \<lparr>pwCredentials = (\<lambda>t env. Ok Map.empty), pwUuid = ''uuid'', pwJson = (\<lambda>e. ''[1]''), pwSha = (\<lambda>v. v),
     pwMounts = r_ok Map.empty, pwExecutor = r_ok (), pwExecute = (\<lambda>cmd args. no_call), pwCleanUp = no_call\<rparr>"

definition w_proxy_client :: "(environment \<times> unit) ProxyClient" where
  "w_proxy_client = \<lparr>pcServiceURL = ''h9:8501'', pcService = proxy_server_stub w_world (w_proxy ''r1''), pcWalk = rev,
     pcIsQualifiedName = (\<lambda>k. [])\<rparr>"

lemma w_proxy_client_simps:
  "walks w_proxy_client" "pcService w_proxy_client = proxy_server_stub w_world (w_proxy ''r1'')"
  by (simp_all add: walks_def w_proxy_client_def)

lemma w_engine_of: "engine_of ''v2'' = DATA_ENGINE_V2"
  by code_simp

theorem volume_get_falls_back_witness:
  "\<exists>v. client_VolumeGet w_proxy_client ''v2'' ''e'' ''f'' ''v'' ''h0:1'' (Map.empty, ()) = ((Map.empty, ()), Ok v) \<and> volName v = ''e''"
proof -
  have local: "pxSpdk (w_proxy ''r1'') (pxAddress (w_proxy ''r1'')) () = ((), Ok (w_px ''r1''))"
    by (simp add: w_proxy_def)
  have front: "r_bind (getSPDKClientFromAddress (w_proxy ''r1'') ''h0:1'') (\<lambda>c. px_EngineFrontendGet c ''f'') () =
      ((), Err (PlainError ''not part of the example''))"
    by (simp add: getSPDKClientFromAddress_def w_split w_proxy_def w_px_def no_call_def r_bind_def)
  from volume_get_falls_back[where vn = "''v''" and en = "''e''" and env = Map.empty,
      OF w_proxy_client_simps _ _ _ _ w_engine_of local w_engine_get front]
  show ?thesis by (auto simp: w_engine_two_def)
qed


end
