(* ===== verification/Shutdown.thy ===== *)
theory Shutdown
  imports Manager_Properties
begin

text \<open>
  \<^verbatim>\<open>cleanup\<close> of \<^verbatim>\<open>app/cmd/start.go\<close>: when the server of the process manager has stopped, the daemon deletes every
  process, one after the other, and waits until the manager has none left. It runs beside the threads of theory
  \<open>Manager_Steps\<close>; its calls of \<^verbatim>\<open>ProcessDelete\<close> are the same thread as those of a client.
\<close>

section \<open>The shutdown goroutine\<close>

text \<open>
  \<open>ShutdownCall t names\<close> is inside \<^verbatim>\<open>ProcessDelete\<close>, at control point \<open>t\<close> of it, with \<open>names\<close> to go;
  \<open>ShutdownEnd ok\<close> is the return, \<open>ok\<close> when all processes are gone. The answer of a deletion is only logged.
\<close>

datatype shutdown =
    ShutdownStart
  | ShutdownDelete "string list"
  | ShutdownCall thread "string list"
  | ShutdownWait nat
  | ShutdownEnd bool

text \<open>
  Go ranges over the map of \<^verbatim>\<open>ProcessList\<close> in any order; the name deleted is the one in the response.
\<close>

definition listed_names :: "Manager \<Rightarrow> string list \<Rightarrow> string list" where
  "listed_names pm keys = map (\<lambda>k. case ProcessList pm k of Some r \<Rightarrow> psName (prSpec r) | None \<Rightarrow> '''') keys"

definition no_processes :: "Manager \<Rightarrow> bool" where
  "no_processes pm \<longleftrightarrow> processes pm = []"

lemma no_processes_iff: "no_processes pm \<longleftrightarrow> ProcessList pm = Map.empty"
proof (cases "processes pm" rule: rev_cases)
  case (snoc ps kq)
  then show ?thesis by (cases kq) (simp add: no_processes_def ProcessList_def)
qed (simp add: no_processes_def ProcessList_def)

inductive shutdown_step ::
  "(nat \<Rightarrow> string) \<Rightarrow> (string \<Rightarrow> string) \<Rightarrow> System \<times> thread list \<Rightarrow> shutdown \<Rightarrow> System \<times> thread list \<Rightarrow> shutdown \<Rightarrow> bool"
  for u :: "nat \<Rightarrow> string" and sha :: "string \<Rightarrow> string" where
  list_all: "distinct keys \<Longrightarrow> set keys = dom (ProcessList (mgr S)) \<Longrightarrow>
     shutdown_step u sha (S, ts) ShutdownStart (S, ts) (ShutdownDelete (listed_names (mgr S) keys))"
| call: "shutdown_step u sha C (ShutdownDelete (n # names)) C (ShutdownCall (Delete n '''') names)"
| inside: "thread_step u sha e t S = Some (S', t' # spawned) \<Longrightarrow>
     shutdown_step u sha (S, ts) (ShutdownCall t names) (S', ts @ spawned) (ShutdownCall t' names)"
| returned: "shutdown_step u sha C (ShutdownCall Finished names) C (ShutdownDelete names)"
| all_asked: "shutdown_step u sha C (ShutdownDelete []) C (ShutdownWait WaitCount)"
| all_gone: "no_processes (mgr S) \<Longrightarrow> shutdown_step u sha (S, ts) (ShutdownWait (Suc n)) (S, ts) (ShutdownEnd True)"
| keep_waiting: "\<not> no_processes (mgr S) \<Longrightarrow> shutdown_step u sha (S, ts) (ShutdownWait (Suc n)) (S, ts) (ShutdownWait n)"
| give_up: "shutdown_step u sha C (ShutdownWait 0) C (ShutdownEnd False)"

text \<open>Runs of the daemon: \<open>k\<close> steps of the shutdown goroutine, any number of the manager's between them.\<close>

inductive shutdown_run ::
  "(nat \<Rightarrow> string) \<Rightarrow> (string \<Rightarrow> string) \<Rightarrow> System \<times> thread list \<Rightarrow> shutdown \<Rightarrow> nat \<Rightarrow> System \<times> thread list \<Rightarrow> shutdown \<Rightarrow> bool"
  for u :: "nat \<Rightarrow> string" and sha :: "string \<Rightarrow> string" where
  here: "shutdown_run u sha C c 0 C c"
| other: "shutdown_run u sha C c k C' c' \<Longrightarrow> pm_step u sha C' C'' \<Longrightarrow> shutdown_run u sha C c k C'' c'"
| own: "shutdown_run u sha C c k C' c' \<Longrightarrow> shutdown_step u sha C' c' C'' c'' \<Longrightarrow> shutdown_run u sha C c (Suc k) C'' c''"

section \<open>The manager's invariant through a shutdown\<close>

fun own_thread :: "shutdown \<Rightarrow> thread list" where
  "own_thread (ShutdownCall t names) = [t]"
| "own_thread _ = []"

definition shutdown_ok :: "(nat \<Rightarrow> string) \<Rightarrow> int set \<Rightarrow> System \<times> thread list \<Rightarrow> shutdown \<Rightarrow> bool" where
  "shutdown_ok u A C c \<longleftrightarrow> sys_ok u A (fst C) (snd C @ own_thread c)"

lemma sys_ok_perm: "mset ts = mset ts' \<Longrightarrow> sys_ok u A S ts = sys_ok u A S ts'"
  unfolding sys_ok_def threads_owned_def threads_ptrs_def
  by (metis mset_map sum_mset_sum_list set_mset_mset)

text \<open>A step of the manager's threads leaves the thread of the shutdown alone.\<close>

lemma sys_ok_beside:
  assumes "inj u" "sys_ok u A S (ts @ own)" "pm_step u sha (S, ts) (S', ts')"
  shows "sys_ok u A S' (ts' @ own)"
  using assms(3)
proof cases
  case (request t)
  then have "sys_ok u A S ((ts @ own) @ [t])" using assms(2) by (intro sys_ok_request)
  then show ?thesis using request by (subst sys_ok_perm[of _ "(ts @ own) @ [t]"]) simp_all
next
  case (thread e t new ts1 ts2)
  then have "pm_step u sha (S, ts1 @ t # (ts2 @ own)) (S', ts1 @ new @ (ts2 @ own))" by (intro pm_step.thread)
  then show ?thesis using sys_ok_step[OF assms(1)] assms(2) thread by auto
next
  case monitor
  then have "pm_step u sha (S, ts @ own) (S', ts @ own)" by (intro pm_step.monitor)
  then show ?thesis using sys_ok_step[OF assms(1)] assms(2) monitor by auto
qed

lemma shutdown_ok_step:
  assumes "inj u" "shutdown_ok u A C c" "shutdown_step u sha C c C' c'"
  shows "shutdown_ok u A C' c'"
  using assms(3)
proof cases
  case (call n names)
  then show ?thesis using assms(2) by (simp add: shutdown_ok_def sys_ok_request)
next
  case (inside e t S S' t' spawned ts names)
  have "sys_ok u A S' (ts @ (t' # spawned) @ [])"
    using sys_ok_step[OF assms(1) pm_step.thread[OF inside(5), of ts "[]"]] assms(2) inside by (simp add: shutdown_ok_def)
  then show ?thesis using inside by (simp add: shutdown_ok_def sys_ok_perm[of "ts @ spawned @ [t']" "ts @ t' # spawned"])
next
  case (returned names)
  then show ?thesis using assms(2) by (simp add: shutdown_ok_def sys_ok_def)
qed (use assms(2) in \<open>simp_all add: shutdown_ok_def\<close>)

lemma shutdown_run_ok:
  assumes "inj u" "shutdown_run u sha C c k C' c'" "shutdown_ok u A C c"
  shows "shutdown_ok u A C' c'"
  using assms(2,3)
proof (induction rule: shutdown_run.induct)
  case (other C c k C' c' C'')
  then show ?case using sys_ok_beside[OF assms(1)] by (cases C'; cases C'') (auto simp: shutdown_ok_def)
next
  case (own C c k C' c' C'' c'')
  then show ?case using shutdown_ok_step[OF assms(1)] by blast
qed simp

section \<open>What a shutdown leaves\<close>

text \<open>
  C11: A shutdown that reports success has left nothing behind: at that moment the manager has no process, and,
  unless a replacement is still in flight, every port of its range is free again.
\<close>

theorem shutdown_frees_ports:
  assumes "started u sha pm0 S ts" "shutdown_run u sha (S, ts) ShutdownStart k (S', ts') c"
    and "shutdown_step u sha (S', ts') c (S', ts') (ShutdownEnd True)"
  shows "ProcessList (mgr S') = Map.empty \<and> (threads_owned ts' = {#} \<longrightarrow> free_of S' = all_ports_of pm0)"
proof -
  have inj: "inj u" using assms(1) by (simp add: started_def)
  have gone: "no_processes (mgr S')" "own_thread c = []" using assms(3) by (auto elim: shutdown_step.cases)
  have "shutdown_ok u (all_ports_of pm0) (S, ts) ShutdownStart"
    using started_ok[OF assms(1)] by (simp add: shutdown_ok_def)
  from shutdown_run_ok[OF inj assms(2) this] have
    ok: "pm_ok u (all_ports_of pm0) (mgr S') (threads_owned ts')" by (simp add: shutdown_ok_def sys_ok_def gone)
  have "free_of S' = all_ports_of pm0" if "threads_owned ts' = {#}"
    using ports_accounted[of u "all_ports_of pm0" "mgr S'"] ok that gone(1) by (simp add: no_processes_def)
  then show ?thesis using gone(1) by (simp add: no_processes_iff)
qed

section \<open>It ends\<close>

text \<open>The control points of a deletion, and the steps it has left.\<close>

fun is_delete_call :: "thread \<Rightarrow> bool" where
  "is_delete_call Finished = True"
| "is_delete_call (Delete name uid) = True"
| "is_delete_call (CallStop q sig k) = is_delete_call k"
| "is_delete_call (Send q k) = is_delete_call k"
| "is_delete_call (StopSpawn q sig b k) = is_delete_call k"
| "is_delete_call (DeleteResp q) = True"
| "is_delete_call (Unregister q resp) = True"
| "is_delete_call _ = False"

fun call_work :: "thread \<Rightarrow> nat" where
  "call_work (Delete name uid) = 7"
| "call_work (CallStop q sig k) = 3 + call_work k"
| "call_work (Send q k) = 1 + call_work k"
| "call_work (StopSpawn q sig b k) = 1 + call_work k"
| "call_work (DeleteResp q) = 3"
| "call_work (Unregister q resp) = 2"
| "call_work _ = 1"

lemma delete_call_step:
  assumes "is_delete_call t" "thread_step u sha e t S = Some (S', new)"
  shows "\<exists>t' spawned. new = t' # spawned \<and> is_delete_call t' \<and> call_work t' < call_work t"
  using assms by (cases t) (auto simp: StopWithSignal_def ProcessDelete_def delete_response_def unregisterProcess_def
    split: if_splits option.splits prod.splits)

fun shutdown_work :: "shutdown \<Rightarrow> nat" where
  "shutdown_work ShutdownStart = 0"
| "shutdown_work (ShutdownDelete names) = 8 * length names + WaitCount + 2"
| "shutdown_work (ShutdownCall t names) = call_work t + 8 * length names + WaitCount + 2"
| "shutdown_work (ShutdownWait n) = n + 1"
| "shutdown_work (ShutdownEnd ok) = 0"

fun deleting :: "shutdown \<Rightarrow> bool" where
  "deleting ShutdownStart = False"
| "deleting (ShutdownCall t names) = is_delete_call t"
| "deleting _ = True"

lemma shutdown_work_step:
  assumes "shutdown_step u sha C c C' c'" "deleting c"
  shows "deleting c' \<and> shutdown_work c' < shutdown_work c"
  using assms(1)
proof cases
  case (inside e t S S' t' spawned ts names)
  then show ?thesis using delete_call_step[of t u sha e S S' "t' # spawned"] assms(2) by simp
qed (use assms(2) in auto)

lemma shutdown_run_work:
  assumes "shutdown_run u sha C c k C' c'" "deleting c"
  shows "deleting c' \<and> k + shutdown_work c' \<le> shutdown_work c"
  using assms
proof (induction rule: shutdown_run.induct)
  case (own C c k C' c' C'' c'')
  then show ?case using shutdown_work_step by fastforce
qed simp_all

lemma delete_call_progress:
  assumes "is_delete_call t" "t \<noteq> Finished" "receiving S = None"
  shows "\<exists>S' t' spawned. thread_step u sha e t S = Some (S', t' # spawned)"
proof -
  have "thread_step u sha e t S \<noteq> None" using assms by (cases t) auto
  then obtain S' new where "thread_step u sha e t S = Some (S', new)" by force
  then show ?thesis using delete_call_step[OF assms(1)] by blast
qed

lemma shutdown_progress:
  assumes "deleting c" "\<And>ok. c \<noteq> ShutdownEnd ok" "receiving S = None"
  shows "\<exists>C' c'. shutdown_step u sha (S, ts) c C' c'"
proof (cases c)
  case (ShutdownDelete names)
  then show ?thesis by (cases names) (auto intro: shutdown_step.intros)
next
  case (ShutdownCall t names)
  show ?thesis
  proof (cases "t = Finished")
    case False
    then show ?thesis using delete_call_progress[of t S u sha] assms ShutdownCall
      by (metis deleting.simps(2) shutdown_step.inside)
  qed (use ShutdownCall in \<open>auto intro: shutdown_step.intros\<close>)
next
  case (ShutdownWait n)
  then show ?thesis by (cases n; cases "no_processes (mgr S)") (auto intro: shutdown_step.intros)
qed (use assms in auto)

text \<open>
  C12: A shutdown ends, whatever the processes and the other threads of the manager do: once the processes are
  listed it takes at most eight steps for each of them and one for each of the 600 rounds of waiting, and it never
  gets stuck: until it has returned it can take its next step, or the monitor can take the update it waits to send.
\<close>

theorem shutdown_ends:
  assumes "shutdown_run u sha C0 (ShutdownDelete names) k (S, ts) c"
  shows "k \<le> 8 * length names + WaitCount + 2
    \<and> ((\<exists>ok. c = ShutdownEnd ok) \<or> (\<exists>C' c'. shutdown_step u sha (S, ts) c C' c') \<or> (\<exists>S'. monitor_step S = Some S'))"
proof -
  have d: "deleting c" and k: "k \<le> 8 * length names + WaitCount + 2"
    using shutdown_run_work[OF assms] by simp_all
  show ?thesis
  proof (cases "receiving S")
    case None
    then show ?thesis using shutdown_progress[OF d] k by blast
  next
    case (Some q)
    then show ?thesis using k by (auto simp: monitor_step_def)
  qed
qed

end
