(* ===== verification/Shutdown_Witnesses.thy ===== *)
theory Shutdown_Witnesses
  imports Shutdown Manager_Witnesses
begin

text \<open>
  A shutdown as a schedule that can be run, and a concrete one: a process with two ports is created and started,
  the daemon deletes it, and the shutdown ends with all ports free.
\<close>

section \<open>Running a shutdown\<close>

definition registered_names :: "Manager \<Rightarrow> string list" where
  "registered_names pm = remdups (map (\<lambda>(k, q). pName (obj pm q)) (processes pm))"

lemma dom_fold_update:
  "dom (foldl (\<lambda>m (k, q). m(f q \<mapsto> g q)) m xs) = dom m \<union> (\<lambda>(k, q). f q) ` set xs"
  by (induction xs arbitrary: m) auto

lemma set_registered_names: "set (registered_names pm) = dom (ProcessList pm)"
  unfolding ProcessList_def dom_fold_update by (simp add: registered_names_def)

fun shutdown_do ::
  "(nat \<Rightarrow> string) \<Rightarrow> (string \<Rightarrow> string) \<Rightarrow> env \<Rightarrow> System \<times> thread list \<Rightarrow> shutdown \<Rightarrow> ((System \<times> thread list) \<times> shutdown) option" where
  "shutdown_do u sha e (S, ts) ShutdownStart =
     Some ((S, ts), ShutdownDelete (listed_names (mgr S) (registered_names (mgr S))))"
| "shutdown_do u sha e C (ShutdownDelete []) = Some (C, ShutdownWait WaitCount)"
| "shutdown_do u sha e C (ShutdownDelete (n # names)) = Some (C, ShutdownCall (Delete n '''') names)"
| "shutdown_do u sha e (S, ts) (ShutdownCall t names) =
     (if is_finished t then Some ((S, ts), ShutdownDelete names)
      else case thread_step u sha e t S of Some (S', t' # spawned) \<Rightarrow> Some ((S', ts @ spawned), ShutdownCall t' names) | _ \<Rightarrow> None)"
| "shutdown_do u sha e C (ShutdownWait 0) = Some (C, ShutdownEnd False)"
| "shutdown_do u sha e (S, ts) (ShutdownWait (Suc n)) =
     Some ((S, ts), if no_processes (mgr S) then ShutdownEnd True else ShutdownWait n)"
| "shutdown_do u sha e C (ShutdownEnd ok) = None"

lemma shutdown_do_step:
  "shutdown_do u sha e C c = Some (C', c') \<Longrightarrow> shutdown_step u sha C c C' c'"
proof (induction u sha e C c rule: shutdown_do.induct)
  case (1 u sha e S ts)
  have "distinct (registered_names (mgr S))" by (simp add: registered_names_def)
  with 1 show ?case using shutdown_step.list_all[OF _ set_registered_names, of S u sha ts] by auto
next
  case (4 u sha e S ts t names)
  then show ?case by (auto simp: is_finished_iff intro: shutdown_step.intros split: if_splits option.splits list.splits)
qed (auto intro: shutdown_step.intros split: if_splits)

datatype shutdown_event = Own env | Other event

fun shutdown_exec ::
  "(nat \<Rightarrow> string) \<Rightarrow> (string \<Rightarrow> string) \<Rightarrow> shutdown_event list \<Rightarrow> System \<times> thread list \<Rightarrow> shutdown \<Rightarrow> nat
     \<Rightarrow> ((System \<times> thread list) \<times> shutdown \<times> nat) option" where
  "shutdown_exec u sha [] C c k = Some (C, c, k)"
| "shutdown_exec u sha (Own e # evs) C c k =
     (case shutdown_do u sha e C c of None \<Rightarrow> None | Some (C', c') \<Rightarrow> shutdown_exec u sha evs C' c' (Suc k))"
| "shutdown_exec u sha (Other ev # evs) C c k =
     (case exec_event_step u sha ev C of None \<Rightarrow> None | Some C' \<Rightarrow> shutdown_exec u sha evs C' c k)"

lemma shutdown_exec_run:
  "shutdown_run u sha C0 c0 k C c \<Longrightarrow> shutdown_exec u sha evs C c k = Some (C', c', k') \<Longrightarrow>
   shutdown_run u sha C0 c0 k' C' c'"
proof (induction evs arbitrary: C c k)
  case (Cons ev evs)
  show ?case
  proof (cases ev)
    case (Own e)
    then obtain C1 c1 where d: "shutdown_do u sha e C c = Some (C1, c1)" "shutdown_exec u sha evs C1 c1 (Suc k) = Some (C', c', k')"
      using Cons.prems(2) by (auto split: option.splits)
    show ?thesis by (rule Cons.IH[OF shutdown_run.own[OF Cons.prems(1) shutdown_do_step[OF d(1)]] d(2)])
  next
    case (Other ev')
    then obtain C1 where d: "exec_event_step u sha ev' C = Some C1" "shutdown_exec u sha evs C1 c k = Some (C', c', k')"
      using Cons.prems(2) by (auto split: option.splits)
    show ?thesis by (rule Cons.IH[OF shutdown_run.other[OF Cons.prems(1) exec_event_pm_step[OF d(1)]] d(2)])
  qed
qed simp

section \<open>A run\<close>

definition w_created :: "event list" where
  "w_created = [Arrive (Create (w_spec ''a'' ''bin'' 2)), Run 0 w_env, Run 0 w_env, Monitor, Run 0 w_env]"

abbreviation "S_created \<equiv> fst (the (w_exec w_created))"
abbreviation "T_created \<equiv> snd (the (w_exec w_created))"

lemma created_started: "started w_uuid id w_mgr S_created T_created"
  by (rule w_exec_started) code_simp

definition w_asked :: "shutdown_event list" where
  "w_asked = [Own w_env, Own w_env, Own w_env, Own w_env, Own w_env, Other Monitor, Own w_env, Own w_env, Own w_env,
     Own w_env, Own w_env]"

definition w_unregistered :: "shutdown_event list" where
  "w_unregistered = [Other (Run 3 w_env), Other (Run 4 w_env), Other (Run 4 w_env), Other (Run 4 w_env)]"

definition w_shutdown :: "((System \<times> thread list) \<times> shutdown \<times> nat) option" where
  "w_shutdown = shutdown_exec w_uuid id (w_asked @ w_unregistered) (the (w_exec w_created)) ShutdownStart 0"

abbreviation "S_gone \<equiv> fst (fst (the w_shutdown))"
abbreviation "T_gone \<equiv> snd (fst (the w_shutdown))"

fun is_waiting :: "nat \<Rightarrow> shutdown \<Rightarrow> bool" where
  "is_waiting n (ShutdownWait m) = (m = n)"
| "is_waiting n _ = False"

lemma is_waiting_iff: "is_waiting n c \<longleftrightarrow> c = ShutdownWait n"
  by (cases c) auto

lemma shutdown_runs: "\<not> Option.is_none w_shutdown" "is_waiting 600 (fst (snd (the w_shutdown)))"
    "no_processes (mgr S_gone)" "threads_owned T_gone = {#}"
  by code_simp+

lemma gone_run: "shutdown_run w_uuid id (S_created, T_created) ShutdownStart (snd (snd (the w_shutdown))) (S_gone, T_gone) (ShutdownWait 600)"
proof -
  have "shutdown_exec w_uuid id (w_asked @ w_unregistered) (S_created, T_created) ShutdownStart 0
      = Some ((S_gone, T_gone), ShutdownWait 600, snd (snd (the w_shutdown)))"
    using shutdown_runs(1,2) by (cases w_shutdown) (auto simp: w_shutdown_def is_waiting_iff)
  then show ?thesis by (rule shutdown_exec_run[OF shutdown_run.here])
qed

lemma gone_step: "shutdown_step w_uuid id (S_gone, T_gone) (ShutdownWait 600) (S_gone, T_gone) (ShutdownEnd True)"
  using shutdown_step.all_gone[OF shutdown_runs(3), of w_uuid id T_gone 599] by simp

theorem shutdown_frees_ports_witness: "ProcessList (mgr S_gone) = Map.empty \<and> free_of S_gone = all_ports_of w_mgr"
  using shutdown_frees_ports[OF created_started gone_run gone_step] shutdown_runs(4) by simp

text \<open>A deletion of a name that is not registered: eight steps, of which the first four are run.\<close>

definition w_unknown :: "((System \<times> thread list) \<times> shutdown \<times> nat) option" where
  "w_unknown = shutdown_exec w_uuid id [Own w_env, Own w_env, Own w_env, Own w_env] (init_system w_mgr, []) (ShutdownDelete [''x'']) 0"

theorem shutdown_ends_witness: "snd (snd (the w_unknown)) \<le> 8 * length [''x''] + WaitCount + 2 \<and> snd (snd (the w_unknown)) = 4"
proof -
  have r: "\<not> Option.is_none w_unknown" "snd (snd (the w_unknown)) = 4" by code_simp+
  obtain S ts c k where w: "w_unknown = Some ((S, ts), c, k)" using r(1) by (cases w_unknown) auto
  have "shutdown_run w_uuid id (init_system w_mgr, []) (ShutdownDelete [''x'']) k (S, ts) c"
    using w unfolding w_unknown_def by (rule shutdown_exec_run[OF shutdown_run.here])
  from shutdown_ends[OF this] show ?thesis using r(2) w by simp
qed

end
