(* ===== verification/Connection.thy ===== *)
theory Connection
  imports IM_Util Remote
begin

text \<open>
  Connections: the TLS configurations of \<^verbatim>\<open>pkg/util/grpcutil.go\<close>, \<^verbatim>\<open>Connect\<close> and \<^verbatim>\<open>NewServer\<close>, and the constructors
  of the four clients under \<^verbatim>\<open>pkg/client\<close>. Files, keys and sockets are arguments: a record \<open>tls_files\<close> of what the
  standard library reads, a dialler and a listener. \<open>'cert\<close> is a key pair, \<open>'pool\<close> a pool of certificates.
\<close>

section \<open>TLS configurations\<close>

record ('cert, 'pool) tls_files =
  tf_LoadX509KeyPair :: "string \<Rightarrow> string \<Rightarrow> 'cert go_result"
  tf_ReadFile :: "string \<Rightarrow> string go_result"
  tf_AppendCertsFromPEM :: "string \<Rightarrow> 'pool option"
  tf_X509KeyPair :: "string \<Rightarrow> string \<Rightarrow> 'cert go_result"

definition VersionTLS13 :: int where "VersionTLS13 = 772"

datatype Renegotiation = RenegotiateNever | RenegotiateOnceAsClient | RenegotiateFreelyAsClient

text \<open>The configuration of a client, and the one \<^verbatim>\<open>GetConfigForClient\<close> of a server gives for a connection.\<close>

record ('cert, 'pool) client_tls =
  ctMinVersion :: int
  ctRenegotiation :: Renegotiation
  ctServerName :: string
  ctRootCAs :: "'pool option"
  ctCertificates :: "'cert list"

record ('cert, 'pool) server_tls =
  stMinVersion :: int
  stRenegotiation :: Renegotiation
  stCertificates :: "'cert list"
  stClientCAs :: "'pool option"
  stVerifyPeerCertificate :: "Certificate list list \<Rightarrow> go_error option"
  stClientAuth :: ClientAuthType

text \<open>
  A server configuration is its \<^verbatim>\<open>GetConfigForClient\<close>: the argument is whether the library passes the client's
  greeting. The certificate is dereferenced there, not when the configuration is made.
\<close>

type_synonym ('cert, 'pool) server_config = "bool \<Rightarrow> ('cert, 'pool) server_tls go_result"

definition serverConfig :: "'pool option \<Rightarrow> 'cert option \<Rightarrow> string \<Rightarrow> ('cert, 'pool) server_config" where
  "serverConfig certPool peerCert peerName = (\<lambda>info.
     if \<not> info then Err (PlainError ''nil client info passed'')
     else case peerCert of
       None \<Rightarrow> Panic
     | Some cert \<Rightarrow> Ok \<lparr>stMinVersion = VersionTLS13, stRenegotiation = RenegotiateNever, stCertificates = [cert],
         stClientCAs = certPool, stVerifyPeerCertificate = VerifyPeerCertificate peerName,
         stClientAuth = serverConfig_ClientAuth peerName\<rparr>)"

definition clientConfig :: "'pool option \<Rightarrow> 'cert option \<Rightarrow> string \<Rightarrow> ('cert, 'pool) client_tls" where
  "clientConfig certPool peerCert peerName = \<lparr>ctMinVersion = VersionTLS13, ctRenegotiation = RenegotiateNever,
     ctServerName = peerName, ctRootCAs = certPool, ctCertificates = (case peerCert of None \<Rightarrow> [] | Some c \<Rightarrow> [c])\<rparr>"

definition load_files ::
  "('cert, 'pool) tls_files \<Rightarrow> string \<Rightarrow> string \<Rightarrow> string \<Rightarrow> ('pool option \<times> 'cert option) go_result" where
  "load_files f = loadCertificate (tf_LoadX509KeyPair f) (tf_ReadFile f) (tf_AppendCertsFromPEM f)"

definition LoadServerTLS ::
  "('cert, 'pool) tls_files \<Rightarrow> string \<Rightarrow> string \<Rightarrow> string \<Rightarrow> string \<Rightarrow> ('cert, 'pool) server_config go_result" where
  "LoadServerTLS f caFile certFile keyFile peerName =
     go_bind (load_files f caFile certFile keyFile) (\<lambda>(certPool, peerCert). Ok (serverConfig certPool peerCert peerName))"

definition LoadClientTLS ::
  "('cert, 'pool) tls_files \<Rightarrow> string \<Rightarrow> string \<Rightarrow> string \<Rightarrow> string \<Rightarrow> ('cert, 'pool) client_tls go_result" where
  "LoadClientTLS f caFile certFile keyFile peerName =
     go_bind (load_files f caFile certFile keyFile) (\<lambda>(certPool, peerCert). Ok (clientConfig certPool peerCert peerName))"

text \<open>The variants for certificates in memory.\<close>

definition key_pair ::
  "('cert, 'pool) tls_files \<Rightarrow> string \<Rightarrow> string \<Rightarrow> string \<Rightarrow> ('pool \<times> 'cert) go_result" where
  "key_pair f caCert cert key = (case tf_AppendCertsFromPEM f caCert of
     None \<Rightarrow> Err (PlainError ''failed to append CA certificate to pool'')
   | Some pool \<Rightarrow> go_bind (tf_X509KeyPair f cert key) (\<lambda>c. Ok (pool, c)))"

definition ServerTLS ::
  "('cert, 'pool) tls_files \<Rightarrow> string \<Rightarrow> string \<Rightarrow> string \<Rightarrow> string \<Rightarrow> ('cert, 'pool) server_config go_result" where
  "ServerTLS f caCert cert key peerName =
     go_bind (key_pair f caCert cert key) (\<lambda>(pool, c). Ok (serverConfig (Some pool) (Some c) peerName))"

definition ClientTLS ::
  "('cert, 'pool) tls_files \<Rightarrow> string \<Rightarrow> string \<Rightarrow> string \<Rightarrow> string \<Rightarrow> ('cert, 'pool) client_tls go_result" where
  "ClientTLS f caCert cert key peerName =
     go_bind (key_pair f caCert cert key) (\<lambda>(pool, c). Ok (clientConfig (Some pool) (Some c) peerName))"

section \<open>Who may connect\<close>

text \<open>
  What \<^verbatim>\<open>crypto/tls\<close> does with the certificates a client sends: when a certificate is required the chains
  that verify against the pool must not be empty, and the callback decides; otherwise the server asks for none.
  \<open>verified\<close> is the verification of the library.
\<close>

definition tls_accepts ::
  "('pool option \<Rightarrow> 'raw \<Rightarrow> Certificate list list) \<Rightarrow> ('cert, 'pool) server_tls \<Rightarrow> 'raw \<Rightarrow> bool" where
  "tls_accepts verified cfg raw = (case stClientAuth cfg of
     NoClientCert \<Rightarrow> True
   | RequireAndVerifyClientCert \<Rightarrow>
       verified (stClientCAs cfg) raw \<noteq> [] \<and> stVerifyPeerCertificate cfg (verified (stClientCAs cfg) raw) = None)"

definition certified_for :: "string \<Rightarrow> Certificate \<Rightarrow> bool" where
  "certified_for name leaf \<longleftrightarrow> name \<in> set (certDNSNames leaf) \<or> certCommonName leaf = name"

lemma VerifyPeerCertificate_iff:
  "peerName \<noteq> '''' \<Longrightarrow> VerifyPeerCertificate peerName cs = None \<longleftrightarrow>
   (\<exists>leaf rest more. cs = (leaf # rest) # more \<and> certified_for peerName leaf)"
  by (auto simp: VerifyPeerCertificate_def certified_for_def list_ex_iff split: list.splits)

lemma load_files_pool:
  assumes "load_files f caFile certFile keyFile = Ok (certPool, peerCert)" "caFile \<noteq> ''''"
  shows "\<exists>pem pool. tf_ReadFile f caFile = Ok pem \<and> tf_AppendCertsFromPEM f pem = Some pool \<and> certPool = Some pool"
  using assms by (auto simp: load_files_def loadCertificate_def go_bind_Ok_iff split: if_splits option.splits)

text \<open>
  C26: Mutual TLS keeps strangers out. A server set up with a CA file and a peer name accepts exactly the clients
  whose certificate chain verifies against that CA and whose own certificate carries the peer name, as a DNS name
  or as its common name; no connection is accepted with a version below TLS 1.3.
\<close>

theorem server_tls_authenticates:
  assumes "LoadServerTLS f caFile certFile keyFile peerName = Ok server" "caFile \<noteq> ''''" "peerName \<noteq> ''''"
    and "server True = Ok cfg"
  shows "\<exists>pem pool. tf_ReadFile f caFile = Ok pem \<and> tf_AppendCertsFromPEM f pem = Some pool \<and> stMinVersion cfg = 772 \<and>
    (tls_accepts verified cfg raw \<longleftrightarrow>
       (\<exists>leaf rest more. verified (Some pool) raw = (leaf # rest) # more \<and> certified_for peerName leaf))"
proof -
  obtain certPool peerCert where l: "load_files f caFile certFile keyFile = Ok (certPool, peerCert)"
    and s: "server = serverConfig certPool peerCert peerName"
    using assms(1) by (auto simp: LoadServerTLS_def go_bind_Ok_iff)
  obtain pem pool where p: "tf_ReadFile f caFile = Ok pem" "tf_AppendCertsFromPEM f pem = Some pool" "certPool = Some pool"
    using load_files_pool[OF l assms(2)] by blast
  obtain cert where c: "peerCert = Some cert" using assms(4) s by (cases peerCert) (auto simp: serverConfig_def)
  have cfg: "stClientAuth cfg = RequireAndVerifyClientCert" "stClientCAs cfg = Some pool" "stMinVersion cfg = 772"
    "stVerifyPeerCertificate cfg = VerifyPeerCertificate peerName"
    using assms(3,4) s p(3) c by (auto simp: serverConfig_def serverConfig_ClientAuth_def VersionTLS13_def)
  show ?thesis using p(1,2) cfg VerifyPeerCertificate_iff[OF assms(3), of "verified (Some pool) raw"]
    by (auto simp: tls_accepts_def)
qed

definition w_tls_files :: "(unit, unit) tls_files" where
  "w_tls_files = \<lparr>tf_LoadX509KeyPair = (\<lambda>_ _. Ok ()), tf_ReadFile = (\<lambda>_. Ok ''pem''), tf_AppendCertsFromPEM = (\<lambda>_. Some ()),
     tf_X509KeyPair = (\<lambda>_ _. Ok ())\<rparr>"

definition w_server_tls :: "(unit, unit) server_tls" where
  "w_server_tls = \<lparr>stMinVersion = VersionTLS13, stRenegotiation = RenegotiateNever, stCertificates = [()],
     stClientCAs = Some (), stVerifyPeerCertificate = VerifyPeerCertificate ''peer'', stClientAuth = RequireAndVerifyClientCert\<rparr>"

text \<open>A client with a certificate for the name, one with a certificate for another name and one without any.\<close>

theorem server_tls_authenticates_witness:
  "tls_accepts (\<lambda>_ raw. raw) w_server_tls [[\<lparr>certDNSNames = [''peer''], certCommonName = ''x''\<rparr>]]
   \<and> \<not> tls_accepts (\<lambda>_ raw. raw) w_server_tls [[\<lparr>certDNSNames = [''other''], certCommonName = ''x''\<rparr>]]
   \<and> \<not> tls_accepts (\<lambda>_ raw. raw) w_server_tls []"
proof -
  have l: "LoadServerTLS w_tls_files ''ca.crt'' ''tls.crt'' ''tls.key'' ''peer'' = Ok (serverConfig (Some ()) (Some ()) ''peer'')"
    by (simp add: LoadServerTLS_def load_files_def loadCertificate_def w_tls_files_def)
  have c: "serverConfig (Some ()) (Some ()) ''peer'' True = Ok w_server_tls"
    by (simp add: serverConfig_def w_server_tls_def serverConfig_ClientAuth_def)
  note auth = server_tls_authenticates[OF l _ _ c, where verified = "\<lambda>_ raw. raw"]
  show ?thesis
    using auth[of "[[\<lparr>certDNSNames = [''peer''], certCommonName = ''x''\<rparr>]]"]
      auth[of "[[\<lparr>certDNSNames = [''other''], certCommonName = ''x''\<rparr>]]"] auth[of "[]"]
    by (auto simp: certified_for_def)
qed

text \<open>
  The configuration for no certificate and key is made without an error; the first connection dereferences nil.
\<close>

lemma server_without_certificate_panics:
  "LoadServerTLS f '''' '''' '''' peerName = Ok server \<Longrightarrow> server True = Panic"
  by (auto simp: LoadServerTLS_def load_files_def loadCertificate_def serverConfig_def)

section \<open>Connecting and listening\<close>

datatype ('cert, 'pool) dial_option =
    WithConnectParams int int
  | WithTransportCredentials "('cert, 'pool) client_tls option"
  | WithNoProxy
  | WithContextDialer
  | WithKeepaliveParams int bool
  | WithDisableServiceConfig

definition seconds :: "int \<Rightarrow> int" where "seconds n = n * 1000000000"

text \<open>\<open>new_client\<close> is \<^verbatim>\<open>grpc.NewClient\<close>, which resolves and checks the address but does not connect yet.\<close>

definition Connect ::
  "(string \<Rightarrow> ('cert, 'pool) dial_option list \<Rightarrow> ('s, 'conn) remote) \<Rightarrow> string \<Rightarrow> ('cert, 'pool) client_tls option
     \<Rightarrow> ('cert, 'pool) dial_option list \<Rightarrow> ('s, 'conn) remote" where
  "Connect new_client endpoint tlsConfig dialOptions = (case parseEndpoint endpoint of
     Ok (proto, address) \<Rightarrow> new_client address
       (dialOptions @ [WithConnectParams (seconds 1) (seconds 1), WithTransportCredentials tlsConfig, WithNoProxy]
        @ (if proto = ''unix'' then [WithContextDialer] else [])
        @ [WithKeepaliveParams (seconds 30) True, WithDisableServiceConfig])
   | Err e \<Rightarrow> r_err e
   | _ \<Rightarrow> r_panic)"

text \<open>
  \<^verbatim>\<open>NewServer\<close>: removing the socket of an earlier run may fail because there is none (\<open>Inr False\<close> of \<open>remove\<close>
  is \<^verbatim>\<open>os.IsNotExist\<close>), for another reason (\<open>Inl\<close>), or work.
\<close>

record ('s, 'listener) net_ops =
  no_Remove :: "string \<Rightarrow> ('s, go_error + bool) remote"
  no_Listen :: "string \<Rightarrow> string \<Rightarrow> ('s, 'listener) remote"

definition NewServer ::
  "('s, 'listener) net_ops \<Rightarrow> string \<Rightarrow> 'tls option \<Rightarrow> ('s, 'tls option \<times> 'listener) remote" where
  "NewServer net endpoint tlsConfig = (case parseEndpoint endpoint of
     Ok (proto, addr) \<Rightarrow>
       r_bind (if proto = ''unix''
               then r_bind (no_Remove net addr) (\<lambda>r. case r of Inl e \<Rightarrow> r_err e | Inr _ \<Rightarrow> r_ok ())
               else r_ok ()) (\<lambda>_.
       r_bind (no_Listen net proto addr) (\<lambda>listener. r_ok (tlsConfig, listener)))
   | Err e \<Rightarrow> r_err e
   | _ \<Rightarrow> r_panic)"

lemma parseEndpoint_returns: "parseEndpoint ep \<noteq> Panic" "parseEndpoint ep \<noteq> Diverge"
  by (auto simp: parseEndpoint_def split: list.splits if_splits)

lemma parseEndpoint_plain:
  assumes "\<not> (\<exists>a b. ep = a @ ''://'' @ b)"
  shows "parseEndpoint ep = Ok (''tcp'', ep)"
proof -
  have "strings_SplitN2 s ''://'' = [s]" if "\<not> (\<exists>a b. s = a @ ''://'' @ b)" for s
    using that
  proof (induction s)
    case (Cons x xs)
    have "\<not> has_prefix (x # xs) ''://''" using Cons.prems has_prefix_iff by (metis append_Nil)
    moreover have "\<not> (\<exists>a b. xs = a @ ''://'' @ b)" using Cons.prems by (metis append_Cons)
    ultimately show ?case using Cons.IH by simp
  qed simp
  then show ?thesis using assms by (simp add: parseEndpoint_def)
qed

section \<open>The constructors of the clients\<close>

text \<open>
  The four constructors connect and keep the connection; they differ in the message of a failure. The variants with
  files load the TLS configuration first.
\<close>

definition connect_to :: "string \<Rightarrow> ('a \<Rightarrow> string \<Rightarrow> ('s, 'conn) remote) \<Rightarrow> string \<Rightarrow> 'a \<Rightarrow> ('s, 'conn) remote" where
  "connect_to what connect serviceURL tlsConfig =
     r_map_err (WrapError (''cannot connect to '' @ what @ '' '' @ serviceURL)) (connect tlsConfig serviceURL)"

definition with_files ::
  "('cert, 'pool) tls_files \<Rightarrow> string \<Rightarrow> string \<Rightarrow> string \<Rightarrow> string
     \<Rightarrow> (('cert, 'pool) client_tls option \<Rightarrow> ('s, 'a) remote) \<Rightarrow> ('s, 'a) remote" where
  "with_files f caFile certFile keyFile peerName new = (case LoadClientTLS f caFile certFile keyFile peerName of
     Ok tlsConfig \<Rightarrow> new (Some tlsConfig)
   | Err e \<Rightarrow> r_err (WrapError ''failed to load tls key pair from file'' e)
   | _ \<Rightarrow> r_panic)"

type_synonym ('s, 'cert, 'pool, 'conn) connector =
  "('cert, 'pool) client_tls option \<Rightarrow> string \<Rightarrow> ('s, 'conn) remote"

definition tls_NewProcessManagerClient ::
  "('s, 'cert, 'pool, 'conn) connector \<Rightarrow> string \<Rightarrow> ('cert, 'pool) client_tls option \<Rightarrow> ('s, 'conn) remote" where
  "tls_NewProcessManagerClient connect = connect_to ''ProcessManagerService'' connect"

definition NewProcessManagerClientWithTLS ::
  "('cert, 'pool) tls_files \<Rightarrow> ('s, 'cert, 'pool, 'conn) connector \<Rightarrow> string \<Rightarrow> string \<Rightarrow> string \<Rightarrow> string \<Rightarrow> string
     \<Rightarrow> ('s, 'conn) remote" where
  "NewProcessManagerClientWithTLS f connect serviceURL caFile certFile keyFile peerName =
     with_files f caFile certFile keyFile peerName (tls_NewProcessManagerClient connect serviceURL)"

definition NewInstanceServiceClient ::
  "('s, 'cert, 'pool, 'conn) connector \<Rightarrow> string \<Rightarrow> ('cert, 'pool) client_tls option \<Rightarrow> ('s, 'conn) remote" where
  "NewInstanceServiceClient connect = connect_to ''Instance Service'' connect"

definition NewInstanceServiceClientWithTLS ::
  "('cert, 'pool) tls_files \<Rightarrow> ('s, 'cert, 'pool, 'conn) connector \<Rightarrow> string \<Rightarrow> string \<Rightarrow> string \<Rightarrow> string \<Rightarrow> string
     \<Rightarrow> ('s, 'conn) remote" where
  "NewInstanceServiceClientWithTLS f connect serviceURL caFile certFile keyFile peerName =
     with_files f caFile certFile keyFile peerName (NewInstanceServiceClient connect serviceURL)"

definition NewDiskServiceClient ::
  "('s, 'cert, 'pool, 'conn) connector \<Rightarrow> string \<Rightarrow> ('cert, 'pool) client_tls option \<Rightarrow> ('s, 'conn) remote" where
  "NewDiskServiceClient connect = connect_to ''Disk Service'' connect"

definition NewDiskServiceClientWithTLS ::
  "('cert, 'pool) tls_files \<Rightarrow> ('s, 'cert, 'pool, 'conn) connector \<Rightarrow> string \<Rightarrow> string \<Rightarrow> string \<Rightarrow> string \<Rightarrow> string
     \<Rightarrow> ('s, 'conn) remote" where
  "NewDiskServiceClientWithTLS f connect serviceURL caFile certFile keyFile peerName =
     with_files f caFile certFile keyFile peerName (NewDiskServiceClient connect serviceURL)"

text \<open>The proxy client takes a host and a port, and keeps its URL and the version of its interface.\<close>

record 'conn ProxyClient_conn =
  pxcServiceURL :: string
  pxcConnection :: 'conn
  pxcVersion :: int

definition tls_NewProxyClient ::
  "('s, 'cert, 'pool, 'conn) connector \<Rightarrow> string \<Rightarrow> int \<Rightarrow> ('cert, 'pool) client_tls option
     \<Rightarrow> ('s, 'conn ProxyClient_conn) remote" where
  "tls_NewProxyClient connect address port tlsConfig =
     r_map (\<lambda>c. \<lparr>pxcServiceURL = GetURL address port, pxcConnection = c, pxcVersion = InstanceManagerProxyAPIVersion\<rparr>)
       (connect_to ''ProxyService'' connect (GetURL address port) tlsConfig)"

definition NewProxyClientWithTLS ::
  "('cert, 'pool) tls_files \<Rightarrow> ('s, 'cert, 'pool, 'conn) connector \<Rightarrow> string \<Rightarrow> int \<Rightarrow> string \<Rightarrow> string \<Rightarrow> string \<Rightarrow> string
     \<Rightarrow> ('s, 'conn ProxyClient_conn) remote" where
  "NewProxyClientWithTLS f connect address port caFile certFile keyFile peerName =
     with_files f caFile certFile keyFile peerName (tls_NewProxyClient connect address port)"

section \<open>Closing a client\<close>

text \<open>
  A client owns a connection (nil when it was never made) and the function that cancels its context. Closing the
  connection may fail; the disk client leaves its context alone.
\<close>

record client_handle =
  chConnected :: bool
  chCancelled :: bool

definition close_connection :: "go_error option \<Rightarrow> string \<Rightarrow> client_handle \<Rightarrow> client_handle \<times> unit go_result" where
  "close_connection failure what c =
     (c\<lparr>chCancelled := True\<rparr>,
      if \<not> chConnected c then Ok ()
      else map_err (WrapError (''failed to close '' @ what @ '' gRPC connection'')) (ret_err failure))"

definition InstanceServiceContext_Close :: "go_error option \<Rightarrow> client_handle \<Rightarrow> client_handle \<times> unit go_result" where
  "InstanceServiceContext_Close failure c = close_connection failure ''instance'' c"

definition ProcessManagerServiceContext_Close :: "go_error option \<Rightarrow> client_handle \<Rightarrow> client_handle \<times> unit go_result" where
  "ProcessManagerServiceContext_Close failure c = close_connection failure ''process manager'' c"

definition ProxyClient_Close :: "go_error option \<Rightarrow> client_handle \<Rightarrow> client_handle \<times> unit go_result" where
  "ProxyClient_Close failure c =
     (c\<lparr>chCancelled := True\<rparr>,
      if \<not> chConnected c then Panic
      else map_err (WrapError ''failed to close proxy gRPC connection'') (ret_err failure))"

definition DiskServiceClient_Close :: "go_error option \<Rightarrow> client_handle \<Rightarrow> client_handle \<times> unit go_result" where
  "DiskServiceClient_Close failure c = (c, if \<not> chConnected c then Ok () else ret_err failure)"

text \<open>Whoever waits for the context of a closed client is woken, but for the disk client.\<close>

lemma close_cancels:
  "chCancelled (fst (InstanceServiceContext_Close failure c))"
  "chCancelled (fst (ProcessManagerServiceContext_Close failure c))"
  "chCancelled (fst (ProxyClient_Close failure c))"
  "chCancelled (fst (DiskServiceClient_Close failure c)) = chCancelled c"
  by (simp_all add: InstanceServiceContext_Close_def ProcessManagerServiceContext_Close_def ProxyClient_Close_def
      DiskServiceClient_Close_def close_connection_def)

end
