(* ===== verification/Log_File.thy ===== *)
theory Log_File
  imports Connection
begin

text \<open>
  Paths (\<^verbatim>\<open>filepath.Clean\<close>, \<^verbatim>\<open>filepath.Join\<close> and \<^verbatim>\<open>filepath.Abs\<close> on Unix) and the files of \<^verbatim>\<open>pkg/util/log.go\<close>:
  \<^verbatim>\<open>SetUpLogger\<close>, which prepares the directory of logs, and \<^verbatim>\<open>NewLonghornWriter\<close>, which opens the log of a process
  under a path made from the name of the process.
\<close>

section \<open>Paths\<close>

text \<open>
  \<^verbatim>\<open>Clean\<close> walks over the elements of a path; \<open>clean_up\<close> is what \<^verbatim>\<open>..\<close> does to the elements kept so far (in reverse).
\<close>

definition clean_up :: "bool \<Rightarrow> string list \<Rightarrow> string list" where
  "clean_up rooted acc = (case acc of
     [] \<Rightarrow> if rooted then [] else [''..'']
   | e # es \<Rightarrow> if e = ''..'' then ''..'' # e # es else es)"

fun clean_parts :: "bool \<Rightarrow> string list \<Rightarrow> string list \<Rightarrow> string list" where
  "clean_parts rooted acc [] = rev acc"
| "clean_parts rooted acc (e # es) =
     (if e = '''' \<or> e = ''.'' then clean_parts rooted acc es
      else if e = ''..'' then clean_parts rooted (clean_up rooted acc) es
      else clean_parts rooted (e # acc) es)"

definition filepath_Clean :: "string \<Rightarrow> string" where
  "filepath_Clean path =
     (let rooted = has_prefix path ''/'';
          parts = clean_parts rooted [] (strings_Split CHR ''/'' path);
          out = (if rooted then ''/'' else '''') @ strings_Join parts ''/''
      in if out = '''' then ''.'' else out)"

definition filepath_Join :: "string \<Rightarrow> string \<Rightarrow> string" where
  "filepath_Join a b = (if a \<noteq> '''' then filepath_Clean (a @ ''/'' @ b) else if b \<noteq> '''' then filepath_Clean b else '''')"

text \<open>\<^verbatim>\<open>Abs\<close> needs the working directory only for a relative path; asking for it may fail.\<close>

definition filepath_Abs :: "string go_result \<Rightarrow> string \<Rightarrow> string go_result" where
  "filepath_Abs getwd path =
     (if has_prefix path ''/'' then Ok (filepath_Clean path)
      else go_bind getwd (\<lambda>wd. Ok (filepath_Join wd path)))"

definition normal :: "string \<Rightarrow> bool" where
  "normal e \<longleftrightarrow> e \<noteq> '''' \<and> e \<noteq> ''.'' \<and> e \<noteq> ''..'' \<and> CHR ''/'' \<notin> set e"

lemma clean_parts_normal: "list_all normal es \<Longrightarrow> clean_parts rooted acc (es @ fs) = clean_parts rooted (rev es @ acc) fs"
  by (induction es arbitrary: acc) (auto simp: normal_def)

lemma Split_Join_normal: "list_all normal es \<Longrightarrow> es \<noteq> [] \<Longrightarrow> strings_Split CHR ''/'' (strings_Join es ''/'') = es"
proof (induction es rule: rev_induct)
  case (snoc e es)
  then show ?case by (cases "es = []") (simp_all add: strings_Join_snoc strings_Split_snoc normal_def)
qed simp

text \<open>The rooted path with the given elements, and what cleaning and joining do with it.\<close>

definition rooted_path :: "string list \<Rightarrow> string" where
  "rooted_path es = ''/'' @ strings_Join es ''/''"

lemma Split_rooted: "strings_Split CHR ''/'' (''/'' @ s) = '''' # strings_Split CHR ''/'' s"
  by simp

lemma Clean_rooted: "list_all normal es \<Longrightarrow> filepath_Clean (rooted_path es) = rooted_path es"
proof -
  assume n: "list_all normal es"
  have "clean_parts True [] (strings_Split CHR ''/'' (rooted_path es)) = es"
    using clean_parts_normal[OF n, of True "[]" "[]"] Split_Join_normal[OF n]
    by (cases "es = []") (simp_all add: rooted_path_def)
  then show ?thesis by (simp add: filepath_Clean_def rooted_path_def has_prefix_def Let_def)
qed

lemma Join_rooted:
  assumes "list_all normal es" "normal e"
  shows "filepath_Join (rooted_path es) e = rooted_path (es @ [e])"
proof -
  have s: "strings_Split CHR ''/'' e = [e]" using assms(2) by (simp add: normal_def)
  have "clean_parts True [] (strings_Split CHR ''/'' (rooted_path es @ ''/'' @ e)) = es @ [e]"
  proof (cases "es = []")
    case True
    then show ?thesis using assms(2) s by (simp add: rooted_path_def normal_def)
  next
    case False
    then have "strings_Split CHR ''/'' (strings_Join es ''/'' @ CHR ''/'' # e) = es @ [e]"
      using assms Split_Join_normal by (simp add: strings_Split_snoc normal_def)
    then show ?thesis using clean_parts_normal[OF assms(1), of True "[]" "[e]"] assms(2)
      by (simp add: rooted_path_def normal_def)
  qed
  then show ?thesis by (simp add: filepath_Join_def filepath_Clean_def rooted_path_def has_prefix_def Let_def)
qed

section \<open>The log of a process\<close>

text \<open>\<open>open_file\<close> is \<^verbatim>\<open>os.OpenFile\<close> for appending; the writer keeps the name and the path.\<close>

record LonghornWriter =
  lwName :: string
  lwPath :: string

definition log_path :: "string go_result \<Rightarrow> string \<Rightarrow> string \<Rightarrow> string go_result" where
  "log_path getwd name logsDir = filepath_Abs getwd (filepath_Join logsDir (name @ ''.log''))"

definition NewLonghornWriter ::
  "string go_result \<Rightarrow> (string \<Rightarrow> ('s, unit) remote) \<Rightarrow> string \<Rightarrow> string \<Rightarrow> ('s, LonghornWriter) remote" where
  "NewLonghornWriter getwd open_file name logsDir = (case log_path getwd name logsDir of
     Ok logPath \<Rightarrow> r_map (\<lambda>_. \<lparr>lwName = name, lwPath = logPath\<rparr>) (open_file logPath)
   | Err e \<Rightarrow> r_err e
   | _ \<Rightarrow> r_panic)"

text \<open>
  \<^verbatim>\<open>SetUpLogger\<close>: the answer of opening the test file is an error with whether it is about permissions, which is
  the only kind that counts.
\<close>

definition SetUpLogger ::
  "string go_result \<Rightarrow> (string \<Rightarrow> ('s, unit) remote) \<Rightarrow> (string \<Rightarrow> 's \<Rightarrow> 's \<times> (go_error \<times> bool) option) \<Rightarrow> string \<Rightarrow> ('s, unit) remote" where
  "SetUpLogger getwd mkdir_all open_file logsDir = r_bind (mkdir_all logsDir) (\<lambda>_ s.
     case filepath_Abs getwd logsDir of
       Ok dir \<Rightarrow> (case open_file (filepath_Join dir ''test'') s of
           (s', Some (e, True)) \<Rightarrow> (s', Err e)
         | (s', _) \<Rightarrow> (s', Ok ()))
     | Err e \<Rightarrow> (s, Err e) | Panic \<Rightarrow> (s, Panic) | Diverge \<Rightarrow> (s, Diverge))"

lemma log_name_normal: "CHR ''/'' \<notin> set name \<Longrightarrow> normal (name @ ''.log'')"
  by (cases name; cases "tl name") (auto simp: normal_def)

text \<open>
  C29: The log of a process stays in the directory of logs as long as the name of the process has no slash: its
  path is the directory followed by the name and the suffix. With slashes a name can lead anywhere: the log of the
  process \<open>../../../etc/cron.d/x\<close> is not below the directory. Nothing between the request and the file checks this.
\<close>

theorem log_path_contained:
  assumes "list_all normal es" "CHR ''/'' \<notin> set name"
  shows "log_path getwd name (rooted_path es) = Ok (rooted_path (es @ [name @ ''.log'']))
    \<and> log_path getwd ''../../../etc/cron.d/x'' ''/var/log/instances'' = Ok ''/etc/cron.d/x.log''"
proof
  have n: "normal (name @ ''.log'')" by (rule log_name_normal[OF assms(2)])
  have "list_all normal (es @ [name @ ''.log''])" using assms(1) n by simp
  from Clean_rooted[OF this] show "log_path getwd name (rooted_path es) = Ok (rooted_path (es @ [name @ ''.log'']))"
    by (simp add: log_path_def Join_rooted[OF assms(1) n]) (simp add: filepath_Abs_def rooted_path_def has_prefix_def)
next
  have "filepath_Join ''/var/log/instances'' (''../../../etc/cron.d/x'' @ ''.log'') = ''/etc/cron.d/x.log''"
    "filepath_Clean ''/etc/cron.d/x.log'' = ''/etc/cron.d/x.log''" by code_simp+
  then show "log_path getwd ''../../../etc/cron.d/x'' ''/var/log/instances'' = Ok ''/etc/cron.d/x.log''"
    by (simp add: log_path_def filepath_Abs_def has_prefix_def)
qed

theorem log_path_contained_witness:
  "log_path (Ok ''/'') ''pvc-1-e-0'' ''/var/log/instances'' = Ok ''/var/log/instances/pvc-1-e-0.log''"
proof -
  have "list_all normal [''var'', ''log'', ''instances'']" "CHR ''/'' \<notin> set ''pvc-1-e-0''" by code_simp+
  from log_path_contained[OF this] show ?thesis by (simp add: rooted_path_def)
qed

end
