(* ===== verification/Daemon.thy ===== *)
theory Daemon
  imports Log_File Process_Manager Disk Proxy_Types Instance_Client_Log
begin

text \<open>
  \<^verbatim>\<open>app/cmd/start.go\<close>: how the daemon is put together. It computes the addresses of its five services from one flag,
  sets up each server (its object, its listener and its TLS configuration) and connects the services with each other.
  The operating system and the SPDK libraries are fields of a record; \<open>Daemon_Group\<close> has what happens afterwards.
\<close>

section \<open>Addresses\<close>

text \<open>The map of addresses, in the order it is written; \<^verbatim>\<open>int\<close> has 64 bits.\<close>

definition getServiceAddresses :: "string \<Rightarrow> (string \<times> string) list go_result" where
  "getServiceAddresses listen =
     go_bind (net_SplitHostPort listen) (\<lambda>(host, port).
     go_bind (strconv_Atoi port) (\<lambda>intPort. Ok
       [(ProcessManagerGrpcService, net_JoinHostPort host (strconv_Itoa intPort)),
        (ProxyGRPCService, net_JoinHostPort host (strconv_Itoa (wrap64 (intPort + 1)))),
        (DiskGrpcService, net_JoinHostPort host (strconv_Itoa (wrap64 (intPort + 2)))),
        (InstanceGrpcService, net_JoinHostPort host (strconv_Itoa (wrap64 (intPort + 3)))),
        (SpdkGrpcService, net_JoinHostPort host (strconv_Itoa (wrap64 (intPort + 4))))]))"

definition loopback :: "string \<Rightarrow> string" where
  "loopback host = (if host = ''0.0.0.0'' \<or> host = '''' then ''127.0.0.1'' else if host = ''::'' then ''::1'' else host)"

definition toClientAddress :: "string \<Rightarrow> string" where
  "toClientAddress serverAddr = (case net_SplitHostPort serverAddr of
     Ok (host, port) \<Rightarrow> net_JoinHostPort (loopback host) port | _ \<Rightarrow> serverAddr)"

text \<open>\<^verbatim>\<open>addresses[name]\<close>: the zero value when the key is missing.\<close>

definition address_of :: "(string \<times> string) list \<Rightarrow> string \<Rightarrow> string" where
  "address_of addresses name = (case map_of addresses name of Some a \<Rightarrow> a | None \<Rightarrow> '''')"

lemmas service_name_defs = ProcessManagerGrpcService_def ProxyGRPCService_def DiskGrpcService_def
  InstanceGrpcService_def SpdkGrpcService_def

lemma toClientAddress_Join:
  assumes "plain_addr host"
  shows "toClientAddress (net_JoinHostPort host (strconv_Itoa p)) = net_JoinHostPort (loopback host) (strconv_Itoa p)"
  using SplitHostPort_JoinHostPort[OF assms Itoa_plain] by (simp add: toClientAddress_def)

lemma net_JoinHostPort_inj: "net_JoinHostPort h p = net_JoinHostPort h q \<longleftrightarrow> p = q"
  by (simp add: net_JoinHostPort_def)

definition service_ports :: "(string \<times> int) list" where
  "service_ports = [(ProcessManagerGrpcService, 0), (ProxyGRPCService, 1), (DiskGrpcService, 2), (InstanceGrpcService, 3),
     (SpdkGrpcService, 4)]"

text \<open>
  One flag gives five services their addresses. For a host and a port written as \<^verbatim>\<open>host:port\<close> (IPv6 hosts in
  brackets), each service listens on the host and its own offset to the port; no two services share an address, and
  the address a service is dialled at inside the pod is the same port on the host itself or, for a wildcard host,
  on the loopback interface.
\<close>

lemma service_addresses:
  assumes "plain_addr host" "0 \<le> port" "port \<le> 65535"
  shows "\<exists>addresses. getServiceAddresses (net_JoinHostPort host (strconv_Itoa port)) = Ok addresses
    \<and> (\<forall>(name, k) \<in> set service_ports. address_of addresses name = net_JoinHostPort host (strconv_Itoa (port + k))
        \<and> toClientAddress (address_of addresses name) = net_JoinHostPort (loopback host) (strconv_Itoa (port + k)))
    \<and> distinct (map snd addresses)"
proof -
  have w: "wrap64 (port + k) = port + k" if "k \<in> {1, 2, 3, 4}" for k
    using assms(2,3) that by (intro wrap64_id) (auto simp: is_int64_def)
  have "is_int64 port" using assms(2,3) by (simp add: is_int64_def)
  then have "getServiceAddresses (net_JoinHostPort host (strconv_Itoa port)) =
      Ok (map (\<lambda>(name, k). (name, net_JoinHostPort host (strconv_Itoa (port + k)))) service_ports)"
    using SplitHostPort_JoinHostPort[OF assms(1) Itoa_plain]
    by (simp add: getServiceAddresses_def Atoi_Itoa service_ports_def w)
  moreover have "distinct (map (\<lambda>(name, k). net_JoinHostPort host (strconv_Itoa (port + k))) service_ports)"
    by (auto simp: service_ports_def net_JoinHostPort_inj dest: Itoa_inj)
  ultimately show ?thesis
    by (auto simp: service_ports_def address_of_def service_name_defs toClientAddress_Join[OF assms(1)])
qed

lemma Split_too_many_colons:
  assumes "CHR '':'' \<notin> set b" "CHR '':'' \<in> set h" "take 1 h \<noteq> ''[''" "h \<noteq> []"
  shows "net_SplitHostPort (h @ CHR '':'' # b) = Err (addr_error (h @ CHR '':'' # b) ''too many colons in address'')"
proof -
  have "take 1 (h @ CHR '':'' # b) \<noteq> ''[''" using assms(3,4) by (cases h) auto
  then show ?thesis using assms(1,2) by (simp add: net_SplitHostPort_def Let_def)
qed

lemma Split_protocol:
  assumes "proto \<in> {''tcp'', ''unix''}"
  shows "(\<exists>e. net_SplitHostPort (proto @ ''://'' @ rest) = Err e)
    \<or> net_SplitHostPort (proto @ ''://'' @ rest) = Ok (proto, ''//'' @ rest)"
proof (cases "CHR '':'' \<in> set rest")
  case True
  then obtain a b where r: "rest = a @ CHR '':'' # b" "CHR '':'' \<notin> set b" by (metis split_list_last)
  have "CHR '':'' \<in> set (proto @ ''://'' @ a)" "take 1 (proto @ ''://'' @ a) \<noteq> ''[''" "proto @ ''://'' @ a \<noteq> []"
    using assms by auto
  from Split_too_many_colons[OF r(2) this] show ?thesis by (simp add: r(1))
next
  case False
  then have "last_index_byte CHR '':'' (proto @ CHR '':'' # ''//'' @ rest) = Some (length proto)"
    by (intro last_index_byte_append) simp
  moreover have "take 1 (proto @ CHR '':'' # ''//'' @ rest) \<noteq> ''[''" "CHR '':'' \<notin> set proto" using assms by auto
  ultimately show ?thesis by (auto simp: net_SplitHostPort_def Let_def check_brackets_def)
qed

text \<open>
  The protocols the flag documents are not accepted: the daemon refuses every endpoint that names one,
  \<^verbatim>\<open>tcp\<close> or \<^verbatim>\<open>unix\<close>, with an error before any server is set up.
\<close>

theorem listen_protocol_refused:
  assumes "proto \<in> {''tcp'', ''unix''}"
  shows "\<exists>e. getServiceAddresses (proto @ ''://'' @ rest) = Err e"
proof -
  have "\<exists>e. strconv_Atoi (''//'' @ rest) = Err e" by (simp add: strconv_Atoi_def digit_val_def)
  then show ?thesis using Split_protocol[OF assms, of rest] by (auto simp: getServiceAddresses_def)
qed

theorem listen_protocol_refused_witness: "\<exists>e. getServiceAddresses ''tcp://localhost:8500'' = Err e"
  using listen_protocol_refused[of "''tcp''" "''localhost:8500''"] by simp

section \<open>Setting up\<close>

text \<open>
  What the daemon asks of the system and of the SPDK libraries. The clients of the vendored engine packages are
  \<open>os_engines\<close>, the connections of the instance service \<open>os_pm\<close> and \<open>os_spdk\<close>; the record \<open>flags\<close> has the
  values of the command line.
\<close>

record ('s, 'cert, 'pool, 'l) daemon_os =
  os_getwd :: "string go_result"
  os_MkdirAll :: "string \<Rightarrow> ('s, unit) remote"
  os_OpenFile :: "string \<Rightarrow> 's \<Rightarrow> 's \<times> (go_error \<times> bool) option"
  os_mounts :: "('s, MountPoint list) remote"
  os_UnfreezeFilesystem :: "string \<Rightarrow> ('s, bool) remote"
  os_files :: "('cert, 'pool) tls_files"
  os_net :: "('s, 'l) net_ops"
  os_IsSPDKTgtReady :: "('s, bool) remote"
  os_disk_client :: "('cert, 'pool) client_tls option \<Rightarrow> string \<Rightarrow> ('s, 's disk_client) remote"
  os_proxy_client :: "('cert, 'pool) client_tls option \<Rightarrow> string \<Rightarrow> ('s, 's proxy_spdk) remote"
  os_engines :: "'s Proxy"
  os_pm :: "'s pm_stub"
  os_spdk :: "'s spdk_client"
  os_subscribed :: "go_error option"
  os_spdk_NewServer :: "int \<Rightarrow> int \<Rightarrow> ('cert, 'pool) client_tls option \<Rightarrow> ('s, unit) remote"
  os_StopSPDKTgtDaemon :: "int \<Rightarrow> ('s, unit) remote"

record flags =
  fListen :: string
  fLogsDir :: string
  fPortRange :: string
  fSpdkPortRange :: string
  fSpdkEnabled :: bool
  fTlsDir :: string

definition StartCmd_defaults :: flags where
  "StartCmd_defaults = \<lparr>fListen = ''localhost:8500'', fLogsDir = ''/var/log/instances'', fPortRange = ''10000-20000'',
     fSpdkPortRange = ''20001-30000'', fSpdkEnabled = False, fTlsDir = ''''\<rparr>"

text \<open>An error that is only logged.\<close>

definition r_attempt :: "('s, 'a) remote \<Rightarrow> ('s, unit) remote" where
  "r_attempt m = (\<lambda>s. case m s of
     (s', Ok _) \<Rightarrow> (s', Ok ()) | (s', Err _) \<Rightarrow> (s', Ok ()) | (s', Panic) \<Rightarrow> (s', Panic) | (s', Diverge) \<Rightarrow> (s', Diverge))"

definition strings_Contains :: "string \<Rightarrow> string \<Rightarrow> bool" where
  "strings_Contains s sub = list_ex (\<lambda>i. has_prefix (drop i s) sub) [0..<Suc (length s)]"

definition DevicePathPrefix :: string where "DevicePathPrefix = ''/dev/longhorn/''"

fun unfreeze_all :: "('s, 'cert, 'pool, 'l) daemon_os \<Rightarrow> MountPoint list \<Rightarrow> ('s, unit) remote" where
  "unfreeze_all os [] = r_ok ()"
| "unfreeze_all os (mp # mps) =
     (if strings_Contains (mpDevice mp) DevicePathPrefix
      then r_bind (r_attempt (os_UnfreezeFilesystem os (mpPath mp))) (\<lambda>_. unfreeze_all os mps)
      else unfreeze_all os mps)"

definition unfreezeFilesystems :: "('s, 'cert, 'pool, 'l) daemon_os \<Rightarrow> ('s, unit) remote" where
  "unfreezeFilesystems os =
     r_bind (r_map_err (WrapError ''failed to list mount points while starting up'') (os_mounts os)) (unfreeze_all os)"

definition loadTLSConfigsFromDir ::
  "('cert, 'pool) tls_files \<Rightarrow> string \<Rightarrow> (('cert, 'pool) server_config \<times> ('cert, 'pool) client_tls) go_result" where
  "loadTLSConfigsFromDir f tlsDir =
     (let caFile = filepath_Join tlsDir TLSCAFile; certFile = filepath_Join tlsDir TLSCertFile;
          keyFile = filepath_Join tlsDir TLSKeyFile in
      go_bind (map_err (WrapError (''failed to initialize server TLS from '' @ tlsDir))
                 (LoadServerTLS f caFile certFile keyFile TLSPeerName)) (\<lambda>server.
      go_bind (map_err (WrapError (''failed to initialize client TLS from '' @ tlsDir))
                 (LoadClientTLS f caFile certFile keyFile TLSPeerName)) (\<lambda>client. Ok (server, client))))"

text \<open>The part of \<^verbatim>\<open>start\<close> on TLS: a failure is logged and the daemon goes on without.\<close>

definition start_tls ::
  "('cert, 'pool) tls_files \<Rightarrow> string \<Rightarrow> (('cert, 'pool) server_config option \<times> ('cert, 'pool) client_tls option) go_result" where
  "start_tls f tlsDir =
     (if tlsDir = '''' then Ok (None, None)
      else case loadTLSConfigsFromDir f tlsDir of
        Ok (server, client) \<Rightarrow> Ok (Some server, Some client)
      | Err e \<Rightarrow> Ok (None, None)
      | Panic \<Rightarrow> Panic | Diverge \<Rightarrow> Diverge)"

text \<open>
  The servers: each \<^verbatim>\<open>setup\<close> function makes the object of its service, then the gRPC server and its listener.
  \<open>grpc_of\<close> is what they share.
\<close>

type_synonym ('cert, 'pool, 'l) grpc_server = "('cert, 'pool) server_config option \<times> 'l"

definition grpc_of ::
  "('s, 'cert, 'pool, 'l) daemon_os \<Rightarrow> string \<Rightarrow> string \<Rightarrow> ('cert, 'pool) server_config option
     \<Rightarrow> ('s, ('cert, 'pool, 'l) grpc_server) remote" where
  "grpc_of os name listen serverTLSConfig =
     r_map_err (WrapError (''failed to setup '' @ name)) (NewServer (os_net os) listen serverTLSConfig)"

definition new_disk_server ::
  "('s, 'cert, 'pool, 'l) daemon_os \<Rightarrow> bool \<Rightarrow> string \<Rightarrow> ('cert, 'pool) client_tls option \<Rightarrow> ('s, 's disk_server) remote" where
  "new_disk_server os spdkEnabled spdkServiceAddress clientTLSConfig =
     (if spdkEnabled then r_bind (os_IsSPDKTgtReady os) (\<lambda>ready s.
        if ready then (case os_disk_client os clientTLSConfig spdkServiceAddress s of
            (s', c) \<Rightarrow> (s', disk_NewServer True True c))
        else (s, disk_NewServer True False (Err (PlainError ''''))))
      else lift_go (disk_NewServer False False (Err (PlainError ''''))))"

definition setupDiskGRPCServer ::
  "('s, 'cert, 'pool, 'l) daemon_os \<Rightarrow> string \<Rightarrow> string \<Rightarrow> bool \<Rightarrow> ('cert, 'pool) server_config option
     \<Rightarrow> ('cert, 'pool) client_tls option \<Rightarrow> ('s, 's disk_server \<times> ('cert, 'pool, 'l) grpc_server) remote" where
  "setupDiskGRPCServer os listen spdkServiceAddress spdkEnabled serverTLSConfig clientTLSConfig =
     r_bind (new_disk_server os spdkEnabled spdkServiceAddress clientTLSConfig) (\<lambda>srv.
     r_map (Pair srv) (grpc_of os DiskGrpcService listen serverTLSConfig))"

definition setupInstanceGRPCServer ::
  "('s, 'cert, 'pool, 'l) daemon_os \<Rightarrow> string \<Rightarrow> string \<Rightarrow> ('cert, 'pool) server_config option \<Rightarrow> bool
     \<Rightarrow> ('s, 's Server \<times> ('cert, 'pool, 'l) grpc_server) remote" where
  "setupInstanceGRPCServer os listen processManagerServiceAddress serverTLSConfig spdkEnabled =
     r_map (Pair (instance_NewServer processManagerServiceAddress (os_pm os) (os_spdk os) spdkEnabled))
       (grpc_of os InstanceGrpcService listen serverTLSConfig)"

definition NewProxy ::
  "('s, 'cert, 'pool, 'l) daemon_os \<Rightarrow> string \<Rightarrow> ('cert, 'pool) client_tls option \<Rightarrow> ('s, 's Proxy) remote" where
  "NewProxy os spdkServiceAddress spdkTLSConfig =
     r_map (\<lambda>_. (os_engines os)\<lparr>pxAddress := spdkServiceAddress, pxSpdk := os_proxy_client os spdkTLSConfig\<rparr>)
       (r_map_err (status_wrap Internal ''failed to create SPDK client'') (os_proxy_client os spdkTLSConfig spdkServiceAddress))"

definition setupProxyGRPCServer ::
  "('s, 'cert, 'pool, 'l) daemon_os \<Rightarrow> string \<Rightarrow> string \<Rightarrow> ('cert, 'pool) server_config option
     \<Rightarrow> ('cert, 'pool) client_tls option \<Rightarrow> ('s, 's Proxy \<times> ('cert, 'pool, 'l) grpc_server) remote" where
  "setupProxyGRPCServer os listen spdkServiceAddress serverTLSConfig clientTLSConfig =
     r_bind (NewProxy os spdkServiceAddress clientTLSConfig) (\<lambda>srv.
     r_map (Pair srv) (grpc_of os ProxyGRPCService listen serverTLSConfig))"

definition setupProcessManagerGRPCServer ::
  "('s, 'cert, 'pool, 'l) daemon_os \<Rightarrow> string \<Rightarrow> string \<Rightarrow> string \<Rightarrow> ('cert, 'pool) server_config option
     \<Rightarrow> ('s, Manager \<times> ('cert, 'pool, 'l) grpc_server) remote" where
  "setupProcessManagerGRPCServer os portRange dir listen tlsConfig =
     r_bind (lift_go (NewManager (os_subscribed os) portRange dir)) (\<lambda>srv.
     r_map (Pair srv) (grpc_of os ProcessManagerGrpcService listen tlsConfig))"

definition setupSPDKGRPCServer ::
  "('s, 'cert, 'pool, 'l) daemon_os \<Rightarrow> string \<Rightarrow> string \<Rightarrow> ('cert, 'pool) server_config option
     \<Rightarrow> ('cert, 'pool) client_tls option \<Rightarrow> ('s, ('cert, 'pool, 'l) grpc_server) remote" where
  "setupSPDKGRPCServer os portRange listen serverTLSConfig clientTLSConfig =
     r_bind (lift_go (util_ParsePortRange portRange)) (\<lambda>(portStart, portEnd).
     r_bind (os_spdk_NewServer os portStart portEnd clientTLSConfig) (\<lambda>_.
     grpc_of os SpdkGrpcService listen serverTLSConfig))"

section \<open>The daemon\<close>

text \<open>What \<^verbatim>\<open>start\<close> has put together when it starts to serve.\<close>

record ('s, 'cert, 'pool, 'l) daemon_parts =
  dpAddresses :: "(string \<times> string) list"
  dpServers :: "(string \<times> ('cert, 'pool, 'l) grpc_server) list"
  dpDisk :: "'s disk_server"
  dpInstance :: "'s Server"
  dpProxy :: "'s Proxy"
  dpManager :: Manager
  dpClientTLS :: "('cert, 'pool) client_tls option"

definition start_servers ::
  "('s, 'cert, 'pool, 'l) daemon_os \<Rightarrow> flags \<Rightarrow> (string \<times> string) list \<Rightarrow> ('cert, 'pool) server_config option
     \<Rightarrow> ('cert, 'pool) client_tls option \<Rightarrow> ('s, ('s, 'cert, 'pool, 'l) daemon_parts) remote" where
  "start_servers os fl addresses serverTLSConfig clientTLSConfig =
     (let spdkClientAddr = toClientAddress (address_of addresses SpdkGrpcService) in
      r_bind (setupDiskGRPCServer os (address_of addresses DiskGrpcService) spdkClientAddr (fSpdkEnabled fl)
                serverTLSConfig clientTLSConfig) (\<lambda>(diskSrv, diskGRPC).
      r_bind (setupInstanceGRPCServer os (address_of addresses InstanceGrpcService)
                (toClientAddress (address_of addresses ProcessManagerGrpcService)) serverTLSConfig (fSpdkEnabled fl))
        (\<lambda>(instanceSrv, instanceGRPC).
      r_bind (setupProxyGRPCServer os (address_of addresses ProxyGRPCService) spdkClientAddr serverTLSConfig clientTLSConfig)
        (\<lambda>(proxySrv, proxyGRPC).
      r_bind (setupProcessManagerGRPCServer os (fPortRange fl) (fLogsDir fl) (address_of addresses ProcessManagerGrpcService)
                serverTLSConfig) (\<lambda>(pm, pmGRPC).
      r_bind (if fSpdkEnabled fl then r_map (\<lambda>g. [(SpdkGrpcService, g)])
                (setupSPDKGRPCServer os (fSpdkPortRange fl) (address_of addresses SpdkGrpcService) serverTLSConfig clientTLSConfig)
              else r_ok []) (\<lambda>spdkGRPC.
        r_ok \<lparr>dpAddresses = addresses,
          dpServers = [(DiskGrpcService, diskGRPC), (InstanceGrpcService, instanceGRPC), (ProxyGRPCService, proxyGRPC),
             (ProcessManagerGrpcService, pmGRPC)] @ spdkGRPC,
          dpDisk = diskSrv, dpInstance = instanceSrv, dpProxy = proxySrv, dpManager = pm, dpClientTLS = clientTLSConfig\<rparr>))))))"

definition start_body ::
  "('s, 'cert, 'pool, 'l) daemon_os \<Rightarrow> flags \<Rightarrow> ('s, ('s, 'cert, 'pool, 'l) daemon_parts) remote" where
  "start_body os fl =
     r_bind (SetUpLogger (os_getwd os) (os_MkdirAll os) (os_OpenFile os) (fLogsDir fl)) (\<lambda>_.
     r_bind (if fSpdkEnabled fl then r_ok () else unfreezeFilesystems os) (\<lambda>_.
     r_bind (lift_go (start_tls (os_files os) (fTlsDir fl))) (\<lambda>(serverTLSConfig, clientTLSConfig).
     r_bind (lift_go (getServiceAddresses (fListen fl))) (\<lambda>addresses.
       start_servers os fl addresses serverTLSConfig clientTLSConfig))))"

text \<open>The deferred function of \<^verbatim>\<open>start\<close>, which runs whichever way it is left, and \<^verbatim>\<open>start\<close> up to its group.\<close>

definition spdkTgtStopTimeout :: int where "spdkTgtStopTimeout = seconds 120"

definition stop_spdk_tgt :: "('s, 'cert, 'pool, 'l) daemon_os \<Rightarrow> bool \<Rightarrow> 's \<Rightarrow> 's" where
  "stop_spdk_tgt os spdkEnabled s = (if spdkEnabled then fst (os_StopSPDKTgtDaemon os spdkTgtStopTimeout s) else s)"

definition start_daemon ::
  "('s, 'cert, 'pool, 'l) daemon_os \<Rightarrow> flags \<Rightarrow> ('s, ('s, 'cert, 'pool, 'l) daemon_parts) remote" where
  "start_daemon os fl = (\<lambda>s. case start_body os fl s of
     (s', Ok parts) \<Rightarrow> (s', Ok parts)
   | (s', Diverge) \<Rightarrow> (s', Diverge)
   | (s', r) \<Rightarrow> (stop_spdk_tgt os (fSpdkEnabled fl) s', r))"

section \<open>What it is put together to\<close>

lemma lift_go_bind_Ok:
  "r_bind (lift_go r) f s = (s', Ok y) \<longleftrightarrow> (\<exists>x. r = Ok x \<and> f x s = (s', Ok y))"
  by (cases r) (auto simp: r_bind_def)

lemma r_map_Ok_iff: "r_map f m s = (s', Ok y) \<longleftrightarrow> (\<exists>x. m s = (s', Ok x) \<and> y = f x)"
  by (auto simp: r_map_apply go_bind_Ok_iff split: prod.splits)

lemma NewServer_Ok: "NewServer net ep tls s = (s', Ok g) \<Longrightarrow> fst g = tls"
  by (auto simp: NewServer_def r_bind_Ok_iff split: go_result.splits if_splits sum.splits)

lemma grpc_of_tls: "grpc_of os name ep tls s = (s', Ok g) \<Longrightarrow> fst g = tls"
  using NewServer_Ok[of "os_net os" ep tls s s' g] by (auto simp: grpc_of_def r_map_err_apply prod_eq_iff)

lemmas setup_defs = setupDiskGRPCServer_def setupInstanceGRPCServer_def setupProxyGRPCServer_def
  setupProcessManagerGRPCServer_def setupSPDKGRPCServer_def

lemma start_servers_Ok:
  assumes "start_servers os fl addresses stls ctls s = (s', Ok parts)"
  shows "map fst (dpServers parts) = [DiskGrpcService, InstanceGrpcService, ProxyGRPCService, ProcessManagerGrpcService]
      @ (if fSpdkEnabled fl then [SpdkGrpcService] else [])"
    and "\<forall>(name, g) \<in> set (dpServers parts). fst g = stls"
    and "dpAddresses parts = addresses" "dpClientTLS parts = ctls"
    and "v1ProcessManagerServiceAddress (srvV1 (dpInstance parts)) = toClientAddress (address_of addresses ProcessManagerGrpcService)"
    and "pxAddress (dpProxy parts) = toClientAddress (address_of addresses SpdkGrpcService)"
    and "NewManager (os_subscribed os) (fPortRange fl) (fLogsDir fl) = Ok (dpManager parts)"
  using assms
  by (auto simp: start_servers_def Let_def r_bind_Ok_iff setup_defs lift_go_bind_Ok r_map_Ok_iff NewProxy_def
      instance_NewServer_def split: if_splits dest!: grpc_of_tls)


text \<open>A daemon on all interfaces, on a machine where everything works, without SPDK and without TLS.\<close>

definition w_os :: "unit Proxy \<Rightarrow> unit pm_stub \<Rightarrow> unit spdk_client \<Rightarrow> unit disk_client \<Rightarrow> unit proxy_spdk
    \<Rightarrow> (unit, unit, unit, string) daemon_os" where
  "w_os engines pm spdk dc pc = \<lparr>os_getwd = Ok ''/'', os_MkdirAll = (\<lambda>_. r_ok ()), os_OpenFile = (\<lambda>_ s. (s, None)),
     os_mounts = r_ok [], os_UnfreezeFilesystem = (\<lambda>_. r_ok False), os_files = w_tls_files,
     os_net = \<lparr>no_Remove = (\<lambda>_. r_ok (Inr True)), no_Listen = (\<lambda>proto addr. r_ok addr)\<rparr>,
     os_IsSPDKTgtReady = r_ok False, os_disk_client = (\<lambda>_ _. r_ok dc), os_proxy_client = (\<lambda>_ _. r_ok pc), os_engines = engines,
     os_pm = pm, os_spdk = spdk, os_subscribed = None, os_spdk_NewServer = (\<lambda>_ _ _. r_ok ()),
     os_StopSPDKTgtDaemon = (\<lambda>_. r_ok ())\<rparr>"

definition w_flags :: flags where
  "w_flags = StartCmd_defaults\<lparr>fListen := net_JoinHostPort ''0.0.0.0'' (strconv_Itoa 8500), fPortRange := ''10-20''\<rparr>"

lemma w_NewManager: "\<exists>pm. NewManager None ''10-20'' dir = Ok pm"
  by (simp add: NewManager_def ParsePortRange_def NewBitmap_def wrap32_def strconv_Atoi_def
     strings_TrimSpace_def is_space_def digit_val_def is_int64_def)

lemma Itoa_no_slash: "CHR ''/'' \<notin> set (strconv_Itoa n)"
  by (auto simp: strconv_Itoa_def nat_digits_no_char)

lemma w_listens:
  assumes "CHR ''/'' \<notin> set ep"
  shows "grpc_of (w_os engines pm spdk dc pc) name ep tls s = (s, Ok (tls, ep))"
proof -
  have "\<not> (\<exists>a b. ep = a @ ''://'' @ b)" using assms by auto
  from parseEndpoint_plain[OF this] show ?thesis
    by (simp add: grpc_of_def w_os_def NewServer_def r_map_err_apply r_bind_apply)
qed

lemma w_daemon_addresses:
  assumes "getServiceAddresses (net_JoinHostPort ''0.0.0.0'' (strconv_Itoa 8500)) = Ok addresses" "(name, k) \<in> set service_ports"
  shows "CHR ''/'' \<notin> set (address_of addresses name)"
proof -
  have "plain_addr ''0.0.0.0''" by (simp add: plain_addr_def)
  from service_addresses[OF this, of 8500] have "address_of addresses name = net_JoinHostPort ''0.0.0.0'' (strconv_Itoa (8500 + k))"
    using assms by auto
  then show ?thesis using Itoa_no_slash by (simp add: net_JoinHostPort_def)
qed

lemma w_daemon_starts: "\<exists>parts. start_daemon (w_os engines pm spdk dc pc) w_flags () = ((), Ok parts)"
proof -
  have "plain_addr ''0.0.0.0''" by (simp add: plain_addr_def)
  from service_addresses[OF this, of 8500] obtain addresses where
    a: "getServiceAddresses (net_JoinHostPort ''0.0.0.0'' (strconv_Itoa 8500)) = Ok addresses" by auto
  have no: "CHR ''/'' \<notin> set (address_of addresses name)"
    if "name \<in> {ProcessManagerGrpcService, ProxyGRPCService, DiskGrpcService, InstanceGrpcService}" for name
    using w_daemon_addresses[OF a, of name] that by (auto simp: service_ports_def)
  obtain m where m: "NewManager None ''10-20'' ''/var/log/instances'' = Ok m" using w_NewManager by blast
  let ?os = "w_os engines pm spdk dc pc"
  have "\<exists>parts. start_servers ?os w_flags addresses None None () = ((), Ok parts)"
    using m by (simp add: start_servers_def Let_def setup_defs r_bind_def r_map_apply new_disk_server_def NewProxy_def
        r_map_err_apply w_listens no) (simp add: w_os_def w_flags_def StartCmd_defaults_def disk_NewServer_def r_map_apply r_map_err_apply)
  then show ?thesis
    by (simp add: start_daemon_def start_body_def w_flags_def StartCmd_defaults_def a start_tls_def)
      (auto simp: w_os_def SetUpLogger_def filepath_Abs_def r_bind_def unfreezeFilesystems_def r_map_err_apply has_prefix_def)
qed


end
