(* ===== verification/Daemon_Group.thy ===== *)
theory Daemon_Group
  imports Daemon
begin

text \<open>
  The second half of \<^verbatim>\<open>start\<close> in \<^verbatim>\<open>app/cmd/start.go\<close>: one goroutine per gRPC server and one that waits for a signal
  and then stops all servers, in an errgroup. A server that ends, for whatever reason, sends the signal itself; the
  channel of signals has room for one. The server of the process manager runs \<^verbatim>\<open>cleanup\<close> (theory \<open>Shutdown\<close>, which
  shows that it returns) before that.
\<close>

section \<open>Goroutines\<close>

text \<open>
  A server goroutine before \<^verbatim>\<open>Serve\<close>, in it, in \<^verbatim>\<open>cleanup\<close>, in its deferred function and at its end, with the result
  of \<^verbatim>\<open>Serve\<close>; the handler of signals waiting, with the servers it still has to stop, and at its end.
\<close>

datatype serve = Starting | Serving | CleaningUp "go_error option" | Signalling "go_error option" | ServerEnded

datatype handler = AwaitSignal | StoppingServers "string list" | HandlerEnded

record daemon =
  dgServers :: "(string \<times> serve) list"
  dgStopped :: "string list"
  dgSignal :: bool
  dgHandler :: handler
  dgErr :: "go_error option"
  dgCleaned :: bool
  dgReturned :: bool

definition daemon_start :: "string list \<Rightarrow> daemon" where
  "daemon_start names = \<lparr>dgServers = map (\<lambda>n. (n, Starting)) names, dgStopped = [], dgSignal = False,
     dgHandler = AwaitSignal, dgErr = None, dgCleaned = False, dgReturned = False\<rparr>"

abbreviation server_names :: "daemon \<Rightarrow> string list" where
  "server_names d \<equiv> map fst (dgServers d)"

text \<open>
  \<open>OsSignal\<close> is a signal of the operating system (one that finds the channel full is lost and no step), \<open>ServeFails\<close> a
  listener that breaks. \<^verbatim>\<open>Serve\<close> returns nil only when the server was stopped, and an error when it was stopped before.
\<close>

datatype daemon_event =
    OsSignal
  | BeginServe nat
  | ServeFails nat go_error
  | ServeStops nat
  | CleanupReturns nat
  | SendTerm nat
  | Receive "string list"
  | StopNext
  | HandlerReturns
  | GroupWait

definition ErrServerStopped :: go_error where
  "ErrServerStopped = PlainError ''grpc: the server has been stopped''"

definition server_at :: "daemon \<Rightarrow> nat \<Rightarrow> (string \<times> serve) option" where
  "server_at d i = (if i < length (dgServers d) then Some (dgServers d ! i) else None)"

definition set_server :: "nat \<Rightarrow> serve \<Rightarrow> daemon \<Rightarrow> daemon" where
  "set_server i st d = d\<lparr>dgServers := (dgServers d)[i := (fst (dgServers d ! i), st)]\<rparr>"

definition after_serve :: "string \<Rightarrow> go_error option \<Rightarrow> serve" where
  "after_serve name err = (if name = ProcessManagerGrpcService then CleaningUp err else Signalling err)"

fun daemon_do :: "daemon_event \<Rightarrow> daemon \<Rightarrow> daemon option" where
  "daemon_do OsSignal d = (if dgSignal d \<or> dgReturned d then None else Some (d\<lparr>dgSignal := True\<rparr>))"
| "daemon_do (BeginServe i) d = (case server_at d i of
     Some (name, Starting) \<Rightarrow> Some (set_server i
       (if name \<in> set (dgStopped d) then after_serve name (Some ErrServerStopped) else Serving) d)
   | _ \<Rightarrow> None)"
| "daemon_do (ServeFails i e) d = (case server_at d i of
     Some (name, Serving) \<Rightarrow> Some (set_server i (after_serve name (Some e)) d) | _ \<Rightarrow> None)"
| "daemon_do (ServeStops i) d = (case server_at d i of
     Some (name, Serving) \<Rightarrow>
       if name \<in> set (dgStopped d) then Some (set_server i (after_serve name None) d) else None
   | _ \<Rightarrow> None)"
| "daemon_do (CleanupReturns i) d = (case server_at d i of
     Some (name, CleaningUp err) \<Rightarrow> Some ((set_server i (Signalling err) d)\<lparr>dgCleaned := True\<rparr>) | _ \<Rightarrow> None)"
| "daemon_do (SendTerm i) d = (case server_at d i of
     Some (name, Signalling err) \<Rightarrow> Some ((set_server i ServerEnded d)\<lparr>dgSignal := True,
       dgErr := (if dgErr d = None then err else dgErr d)\<rparr>)
   | _ \<Rightarrow> None)"
| "daemon_do (Receive names) d =
     (if dgHandler d = AwaitSignal \<and> dgSignal d \<and> distinct names \<and> set names = set (server_names d)
      then Some (d\<lparr>dgSignal := False, dgHandler := StoppingServers names\<rparr>) else None)"
| "daemon_do StopNext d = (case dgHandler d of
     StoppingServers (n # names) \<Rightarrow> Some (d\<lparr>dgStopped := n # dgStopped d, dgHandler := StoppingServers names\<rparr>) | _ \<Rightarrow> None)"
| "daemon_do HandlerReturns d = (case dgHandler d of
     StoppingServers [] \<Rightarrow> Some (d\<lparr>dgHandler := HandlerEnded\<rparr>) | _ \<Rightarrow> None)"
| "daemon_do GroupWait d =
     (if dgHandler d = HandlerEnded \<and> list_all (\<lambda>(n, st). st = ServerEnded) (dgServers d) \<and> \<not> dgReturned d
      then Some (d\<lparr>dgReturned := True\<rparr>) else None)"

text \<open>What comes from outside.\<close>

fun external :: "daemon_event \<Rightarrow> bool" where
  "external OsSignal = True"
| "external (ServeFails i e) = True"
| "external _ = False"

inductive daemon_step :: "daemon \<Rightarrow> daemon \<Rightarrow> bool" where
  daemon_step_do: "daemon_do ev d = Some d' \<Longrightarrow> daemon_step d d'"

inductive_cases daemon_stepE [elim!]: "daemon_step d d'"

definition daemon_run :: "string list \<Rightarrow> daemon \<Rightarrow> bool" where
  "daemon_run names d \<longleftrightarrow> daemon_step\<^sup>*\<^sup>* (daemon_start names) d"

section \<open>The invariant\<close>

definition handler_ok :: "daemon \<Rightarrow> bool" where
  "handler_ok d = (case dgHandler d of
     AwaitSignal \<Rightarrow> dgStopped d = [] \<and> (\<forall>(n, st) \<in> set (dgServers d). st = ServerEnded \<longrightarrow> dgSignal d)
   | StoppingServers names \<Rightarrow> set (server_names d) \<subseteq> set (dgStopped d) \<union> set names \<and> length names \<le> length (dgServers d)
   | HandlerEnded \<Rightarrow> set (server_names d) \<subseteq> set (dgStopped d))"

definition cleaned_ok :: "daemon \<Rightarrow> bool" where
  "cleaned_ok d = (\<forall>(n, st) \<in> set (dgServers d). n = ProcessManagerGrpcService \<longrightarrow>
     (st = ServerEnded \<or> (\<exists>e. st = Signalling e)) \<longrightarrow> dgCleaned d)"

definition daemon_ok :: "string list \<Rightarrow> daemon \<Rightarrow> bool" where
  "daemon_ok names d \<longleftrightarrow> server_names d = names \<and> handler_ok d \<and> cleaned_ok d
     \<and> (dgReturned d \<longrightarrow> dgHandler d = HandlerEnded \<and> list_all (\<lambda>(n, st). st = ServerEnded) (dgServers d))"

lemma daemon_ok_start: "daemon_ok names (daemon_start names)"
  by (auto simp: daemon_ok_def daemon_start_def handler_ok_def cleaned_ok_def comp_def)

lemma server_at_Some: "server_at d i = Some x \<longleftrightarrow> i < length (dgServers d) \<and> dgServers d ! i = x"
  by (simp add: server_at_def)

lemma set_server_names [simp]: "map fst (dgServers (set_server i st d)) = server_names d"
proof (cases "i < length (dgServers d)")
  case True
  then have "(map fst (dgServers d))[i := fst (dgServers d ! i)] = map fst (dgServers d)"
    by (metis list_update_id nth_map)
  then show ?thesis by (simp add: set_server_def map_update)
qed (simp add: set_server_def list_update_beyond)

lemma set_server_simps [simp]:
  "dgStopped (set_server i st d) = dgStopped d" "dgSignal (set_server i st d) = dgSignal d"
  "dgHandler (set_server i st d) = dgHandler d" "dgCleaned (set_server i st d) = dgCleaned d"
  "dgReturned (set_server i st d) = dgReturned d" "length (dgServers (set_server i st d)) = length (dgServers d)"
  by (simp_all add: set_server_def)

lemma set_server_mem:
  assumes "x \<in> set (dgServers (set_server i st d))"
  shows "x \<in> set (dgServers d) \<or> x = (fst (dgServers d ! i), st)"
  using assms by (auto simp: set_server_def dest: set_update_subset_insert[THEN subsetD])

text \<open>A goroutine that has not ended keeps the group from returning.\<close>

lemma not_returned:
  "daemon_ok names d \<Longrightarrow> server_at d i = Some (n, st) \<Longrightarrow> st \<noteq> ServerEnded \<Longrightarrow> \<not> dgReturned d"
  by (auto simp: daemon_ok_def server_at_Some list_all_length)

text \<open>The move of one server goroutine, with what it changes besides.\<close>

lemma daemon_ok_server:
  assumes ok: "daemon_ok names d" and at: "server_at d i = Some (n, st)" "st \<noteq> ServerEnded"
    and clean: "n = ProcessManagerGrpcService \<Longrightarrow> st' = ServerEnded \<or> (\<exists>e. st' = Signalling e) \<Longrightarrow> c"
    and sig: "st' = ServerEnded \<Longrightarrow> s"
    and d': "d' = (set_server i st' d)\<lparr>dgSignal := dgSignal d \<or> s, dgCleaned := dgCleaned d \<or> c, dgErr := e\<rparr>"
  shows "daemon_ok names d'"
proof -
  have n: "fst (dgServers d ! i) = n" using at by (simp add: server_at_Some)
  have mem: "x \<in> set (dgServers d) \<or> x = (n, st')" if "x \<in> set (dgServers d')" for x
    using set_server_mem[of x i st' d] that n by (simp add: d')
  have nm: "server_names d' = server_names d" by (simp add: d')
  have h: "handler_ok d" "dgHandler d' = dgHandler d" "length (dgServers d') = length (dgServers d)" "dgStopped d' = dgStopped d"
    using ok by (simp_all add: daemon_ok_def d')
  have "handler_ok d'"
  proof (cases "dgHandler d")
    case AwaitSignal
    then have e: "\<forall>(n, st) \<in> set (dgServers d). st = ServerEnded \<longrightarrow> dgSignal d" "dgStopped d = []"
      using h(1) by (simp_all add: handler_ok_def)
    have "\<forall>(n, st) \<in> set (dgServers d'). st = ServerEnded \<longrightarrow> dgSignal d'" using e(1) mem sig by (fastforce simp: d')
    then show ?thesis using AwaitSignal h(2,4) e(2) by (simp add: handler_ok_def)
  qed (use h nm in \<open>simp_all add: handler_ok_def del: list.set_map\<close>)
  moreover have "cleaned_ok d'" using ok mem clean unfolding daemon_ok_def cleaned_ok_def by (fastforce simp: d')
  ultimately show ?thesis using ok nm not_returned[OF ok at] by (simp add: daemon_ok_def d')
qed

lemma daemon_ok_serve:
  assumes "daemon_ok names d" "server_at d i = Some (n, st)" "st \<noteq> ServerEnded" "st' = Serving \<or> st' = after_serve n err"
  shows "daemon_ok names (set_server i st' d)"
  by (rule daemon_ok_server[OF assms(1-3), where st' = st' and c = False and s = False and e = "dgErr d"])
    (use assms(4) in \<open>auto simp: after_serve_def set_server_def split: if_splits\<close>)

text \<open>A move of the handler, or a signal.\<close>

lemma daemon_ok_handler:
  assumes "daemon_ok names d" "dgServers d' = dgServers d" "dgCleaned d' = dgCleaned d" "dgReturned d' = dgReturned d"
    and "\<not> dgReturned d" "handler_ok d'"
  shows "daemon_ok names d'"
  using assms by (simp add: daemon_ok_def cleaned_ok_def)

fun of_handler :: "daemon_event \<Rightarrow> bool" where
  "of_handler OsSignal = True"
| "of_handler (Receive order) = True"
| "of_handler StopNext = True"
| "of_handler HandlerReturns = True"
| "of_handler GroupWait = True"
| "of_handler _ = False"

lemma daemon_ok_server_event:
  assumes ok: "daemon_ok names d" and st: "daemon_do ev d = Some d'" and "\<not> of_handler ev"
  shows "daemon_ok names d'"
proof (cases ev)
  case (BeginServe i)
  then obtain n where at: "server_at d i = Some (n, Starting)" using st by (auto split: option.splits serve.splits)
  then show ?thesis using st BeginServe daemon_ok_serve[OF ok at, of _ "Some ErrServerStopped"] by auto
next
  case (ServeFails i e)
  then obtain n where at: "server_at d i = Some (n, Serving)" using st by (auto split: option.splits serve.splits)
  then show ?thesis using st ServeFails daemon_ok_serve[OF ok at, of _ "Some e"] by auto
next
  case (ServeStops i)
  then obtain n where at: "server_at d i = Some (n, Serving)" using st by (auto split: option.splits serve.splits)
  then show ?thesis using st ServeStops daemon_ok_serve[OF ok at, of _ None] by (auto split: if_splits)
next
  case (CleanupReturns i)
  then obtain n e where at: "server_at d i = Some (n, CleaningUp e)" using st by (auto split: option.splits serve.splits)
  show ?thesis
    by (rule daemon_ok_server[OF ok at, where st' = "Signalling e" and c = True and s = False and e = "dgErr d"])
      (use st CleanupReturns at in \<open>auto simp: set_server_def\<close>)
next
  case (SendTerm i)
  then obtain n e where at: "server_at d i = Some (n, Signalling e)" using st by (auto split: option.splits serve.splits)
  then have "n = ProcessManagerGrpcService \<Longrightarrow> dgCleaned d"
    using ok nth_mem[of i "dgServers d"] unfolding daemon_ok_def cleaned_ok_def by (fastforce simp: server_at_Some)
  then show ?thesis
    by (intro daemon_ok_server[OF ok at, where st' = ServerEnded and c = "dgCleaned d" and s = True and e = "dgErr d'"])
      (use st SendTerm at in \<open>auto simp: set_server_def\<close>)
qed (use assms(3) in simp_all)

lemma daemon_ok_handler_event:
  assumes ok: "daemon_ok names d" and st: "daemon_do ev d = Some d'" and "of_handler ev"
  shows "daemon_ok names d'"
proof -
  have handler: "handler_ok d" using ok by (simp add: daemon_ok_def)
  show ?thesis
  proof (cases ev)
    case OsSignal
    then have "d' = d\<lparr>dgSignal := True\<rparr>" "\<not> dgReturned d" using st by (auto split: if_splits)
    moreover have "handler_ok (d\<lparr>dgSignal := True\<rparr>)"
      using handler by (cases "dgHandler d") (simp_all add: handler_ok_def)
    ultimately show ?thesis by (intro daemon_ok_handler[OF ok]) simp_all
  next
    case (Receive order)
    then have r: "d' = d\<lparr>dgSignal := False, dgHandler := StoppingServers order\<rparr>" "set order = set (server_names d)"
      "distinct order" "dgHandler d = AwaitSignal" using st by (auto split: if_splits)
    have "length order \<le> length (dgServers d)"
      using distinct_card[OF r(3)] card_length[of "server_names d"] r(2) by simp
    then show ?thesis using ok r by (intro daemon_ok_handler[OF ok]) (auto simp: daemon_ok_def handler_ok_def)
  next
    case StopNext
    then obtain n ns where "d' = d\<lparr>dgStopped := n # dgStopped d, dgHandler := StoppingServers ns\<rparr>"
      "dgHandler d = StoppingServers (n # ns)" using st by (auto split: handler.splits list.splits)
    then show ?thesis using ok handler by (intro daemon_ok_handler[OF ok]) (simp_all add: daemon_ok_def handler_ok_def)
  next
    case HandlerReturns
    then have "d' = d\<lparr>dgHandler := HandlerEnded\<rparr>" "dgHandler d = StoppingServers []"
      using st by (auto split: handler.splits list.splits)
    then show ?thesis using ok by (intro daemon_ok_handler[OF ok]) (auto simp: daemon_ok_def handler_ok_def)
  next
    case GroupWait
    then have "d' = d\<lparr>dgReturned := True\<rparr>" "dgHandler d = HandlerEnded" "list_all (\<lambda>(n, st). st = ServerEnded) (dgServers d)"
      using st by (auto split: if_splits)
    moreover from this have "handler_ok d'" using handler by (simp add: handler_ok_def)
    moreover from calculation(1) have "cleaned_ok d'" using ok by (simp add: cleaned_ok_def daemon_ok_def)
    ultimately show ?thesis using ok by (simp add: daemon_ok_def)
  qed (use assms(3) in simp_all)
qed

lemma daemon_ok_do: "daemon_ok names d \<Longrightarrow> daemon_do ev d = Some d' \<Longrightarrow> daemon_ok names d'"
  using daemon_ok_server_event daemon_ok_handler_event by blast

lemma daemon_run_ok: "daemon_run names d \<Longrightarrow> daemon_ok names d"
  unfolding daemon_run_def by (induction rule: rtranclp_induct) (auto intro: daemon_ok_start daemon_ok_do)

section \<open>Stopping\<close>

fun serve_work :: "serve \<Rightarrow> nat" where
  "serve_work Starting = 4"
| "serve_work Serving = 3"
| "serve_work (CleaningUp err) = 2"
| "serve_work (Signalling err) = 1"
| "serve_work ServerEnded = 0"

fun handler_work :: "nat \<Rightarrow> handler \<Rightarrow> nat" where
  "handler_work n AwaitSignal = n + 3"
| "handler_work n (StoppingServers names) = length names + 1"
| "handler_work n HandlerEnded = 0"

definition daemon_work :: "daemon \<Rightarrow> nat" where
  "daemon_work d = sum_list (map (serve_work \<circ> snd) (dgServers d)) + handler_work (length (dgServers d)) (dgHandler d)
     + (if dgSignal d then 0 else 1) + (if dgReturned d then 0 else 1)"

lemma sum_work_update:
  "i < length xs \<Longrightarrow> sum_list (map (serve_work \<circ> snd) (xs[i := (n, st)])) + serve_work (snd (xs ! i))
     = sum_list (map (serve_work \<circ> snd) xs) + serve_work st"
proof (induction xs arbitrary: i)
  case (Cons x xs)
  then show ?case by (cases i) auto
qed simp

lemma daemon_work_server:
  assumes "server_at d i = Some (n, st)"
  shows "daemon_work (set_server i st' d) + serve_work st = daemon_work d + serve_work st'"
  using assms sum_work_update[of i "dgServers d" "fst (dgServers d ! i)" st']
  by (auto simp: daemon_work_def set_server_def server_at_Some)

lemma after_serve_work: "serve_work (after_serve name err) \<le> 2"
  by (simp add: after_serve_def)

lemma daemon_work_do:
  assumes "distinct (server_names d)" "daemon_do ev d = Some d'"
  shows "daemon_work d' < daemon_work d"
proof (cases ev)
  case (BeginServe i)
  then obtain n where at: "server_at d i = Some (n, Starting)" using assms(2) by (auto split: option.splits serve.splits)
  then show ?thesis using assms(2) BeginServe after_serve_work[of n "Some ErrServerStopped"]
      daemon_work_server[OF at, of Serving] daemon_work_server[OF at, of "after_serve n (Some ErrServerStopped)"]
    by (auto split: if_splits)
next
  case (ServeFails i e)
  then obtain n where at: "server_at d i = Some (n, Serving)" using assms(2) by (auto split: option.splits serve.splits)
  then show ?thesis
    using assms(2) ServeFails daemon_work_server[OF at, of "after_serve n (Some e)"] after_serve_work[of n "Some e"] by simp
next
  case (ServeStops i)
  then obtain n where at: "server_at d i = Some (n, Serving)" using assms(2) by (auto split: option.splits serve.splits)
  then show ?thesis using assms(2) ServeStops daemon_work_server[OF at, of "after_serve n None"] after_serve_work[of n None]
    by (auto split: if_splits)
next
  case (CleanupReturns i)
  then obtain n e where at: "server_at d i = Some (n, CleaningUp e)" using assms(2) by (auto split: option.splits serve.splits)
  then show ?thesis using assms(2) CleanupReturns daemon_work_server[OF at, of "Signalling e"] by (auto simp: daemon_work_def)
next
  case (SendTerm i)
  then obtain n e where at: "server_at d i = Some (n, Signalling e)" using assms(2) by (auto split: option.splits serve.splits)
  then show ?thesis using assms(2) SendTerm daemon_work_server[OF at, of ServerEnded] by (auto simp: daemon_work_def)
next
  case (Receive names)
  then have "length names = length (dgServers d)"
    using assms distinct_card[of names] distinct_card[of "server_names d"] by (auto split: if_splits)
  then show ?thesis using assms(2) Receive by (auto simp: daemon_work_def split: if_splits)
qed (use assms(2) in \<open>auto simp: daemon_work_def split: if_splits handler.splits list.splits\<close>)

lemma daemon_work_bound:
  assumes "daemon_ok names d"
  shows "daemon_work d \<le> 5 * length names + 5"
proof -
  have "serve_work st \<le> 4" for st by (cases st) simp_all
  then have "sum_list (map (serve_work \<circ> snd) xs) \<le> 4 * length xs" for xs
    by (induction xs) (simp_all add: add_mono)
  then have "sum_list (map (serve_work \<circ> snd) (dgServers d)) \<le> 4 * length (dgServers d)" .
  moreover have "handler_work (length (dgServers d)) (dgHandler d) \<le> length (dgServers d) + 3"
    using assms by (cases "dgHandler d") (simp_all add: daemon_ok_def handler_ok_def)
  moreover have "length (dgServers d) = length names" using assms by (auto simp: daemon_ok_def)
  ultimately show ?thesis by (simp add: daemon_work_def)
qed

lemma daemon_steps_work:
  "(daemon_step ^^ k) d d' \<Longrightarrow> daemon_ok names d \<Longrightarrow> distinct names \<Longrightarrow> k + daemon_work d' \<le> daemon_work d \<and> daemon_ok names d'"
proof (induction k arbitrary: d)
  case (Suc k)
  then obtain e where e: "daemon_step d e" "(daemon_step ^^ k) e d'" by (metis relpowp_Suc_D2)
  from e(1) obtain ev where ev: "daemon_do ev d = Some e" by (rule daemon_stepE)
  have "daemon_ok names e" by (rule daemon_ok_do[OF Suc.prems(2) ev])
  moreover have "daemon_work e < daemon_work d"
    using Suc.prems(2,3) by (intro daemon_work_do[OF _ ev]) (simp add: daemon_ok_def)
  ultimately show ?case using Suc.IH[OF e(2) _ Suc.prems(3)] by simp
qed simp

text \<open>The daemon is on its way out: a signal waits or was taken, or a server has left \<^verbatim>\<open>Serve\<close>.\<close>

definition stopping :: "daemon \<Rightarrow> bool" where
  "stopping d \<longleftrightarrow> dgSignal d \<or> dgHandler d \<noteq> AwaitSignal \<or> (\<exists>(n, st) \<in> set (dgServers d). st \<noteq> Starting \<and> st \<noteq> Serving)"

text \<open>Once it is, and nothing can move without help from outside, it has returned.\<close>

lemma quiet_servers:
  assumes "\<And>ev. \<not> external ev \<Longrightarrow> daemon_do ev d = None" "(n, st) \<in> set (dgServers d)"
  shows "st = ServerEnded \<or> st = Serving \<and> n \<notin> set (dgStopped d)"
proof -
  obtain i where i: "server_at d i = Some (n, st)" using assms(2) by (metis in_set_conv_nth server_at_Some)
  have "daemon_do (BeginServe i) d = None" "daemon_do (ServeStops i) d = None" "daemon_do (CleanupReturns i) d = None"
    "daemon_do (SendTerm i) d = None" by (rule assms(1), simp)+
  then show ?thesis using i by (cases st) (simp_all split: if_splits)
qed

lemma quiet_handler:
  assumes "\<And>ev. \<not> external ev \<Longrightarrow> daemon_do ev d = None" "distinct (server_names d)"
  shows "dgHandler d = HandlerEnded \<or> dgHandler d = AwaitSignal \<and> \<not> dgSignal d"
proof (cases "dgHandler d")
  case AwaitSignal
  then show ?thesis using assms(1)[of "Receive (server_names d)"] assms(2) by (auto split: if_splits)
next
  case (StoppingServers names)
  then show ?thesis using assms(1)[of StopNext] assms(1)[of HandlerReturns] by (cases names) auto
qed simp

lemma quiet_returned:
  assumes ok: "daemon_ok names d" "distinct names" and quiet: "\<And>ev. \<not> external ev \<Longrightarrow> daemon_do ev d = None" and "stopping d"
  shows "dgReturned d"
proof -
  have d: "distinct (server_names d)" using ok by (simp add: daemon_ok_def)
  note servers = quiet_servers[OF quiet]
  have "dgHandler d = HandlerEnded"
  proof (rule ccontr)
    assume "dgHandler d \<noteq> HandlerEnded"
    then have h: "dgHandler d = AwaitSignal" "\<not> dgSignal d" using quiet_handler[OF quiet d] by auto
    then obtain n st where "(n, st) \<in> set (dgServers d)" "st \<noteq> Starting" "st \<noteq> Serving" using assms(4) by (auto simp: stopping_def)
    then show False using servers[of n st] ok(1) h by (auto simp: daemon_ok_def handler_ok_def)
  qed
  moreover from this have "list_all (\<lambda>(n, st). st = ServerEnded) (dgServers d)"
    using servers ok(1) by (fastforce simp: daemon_ok_def handler_ok_def list_all_iff)
  ultimately show ?thesis using quiet[of GroupWait] by (auto split: if_splits)
qed

lemma stopping_server:
  assumes "stopping d" "server_at d i = Some (n, st)" "st = Starting \<or> st' \<noteq> Starting \<and> st' \<noteq> Serving"
  shows "stopping (set_server i st' d)"
proof (cases "st' \<noteq> Starting \<and> st' \<noteq> Serving")
  case True
  have "(fst (dgServers d ! i), st') \<in> set (dgServers (set_server i st' d))"
    using assms(2) by (simp add: set_server_def server_at_Some set_update_memI)
  then show ?thesis using True unfolding stopping_def by blast
next
  case False
  have "x \<in> set (dgServers (set_server i st' d))" if mem: "x \<in> set (dgServers d)" and ne: "x \<noteq> dgServers d ! i" for x
  proof -
    obtain j where "j < length (dgServers d)" "dgServers d ! j = x" using mem by (auto simp: in_set_conv_nth)
    moreover from this have "j \<noteq> i" using ne by auto
    ultimately show ?thesis by (auto simp: set_server_def in_set_conv_nth intro!: exI[of _ j])
  qed
  then show ?thesis using False assms unfolding stopping_def by (auto simp: server_at_Some)
qed

lemma stopping_step:
  assumes "stopping d" "daemon_do ev d = Some d'"
  shows "stopping d'"
proof (cases ev)
  case (BeginServe i)
  then show ?thesis using assms stopping_server[of d i] by (auto split: option.splits serve.splits if_splits)
next
  case (ServeFails i e)
  then show ?thesis using assms stopping_server[of d i] by (auto simp: after_serve_def split: option.splits serve.splits)
next
  case (ServeStops i)
  then show ?thesis using assms stopping_server[of d i]
    by (auto simp: after_serve_def split: option.splits serve.splits if_splits)
next
  case (CleanupReturns i)
  then obtain n e where at: "server_at d i = Some (n, CleaningUp e)" using assms(2) by (auto split: option.splits serve.splits)
  then have "stopping (set_server i (Signalling e) d)" using assms(1) by (intro stopping_server) auto
  moreover have "d' = (set_server i (Signalling e) d)\<lparr>dgCleaned := True\<rparr>" using assms(2) CleanupReturns at by simp
  ultimately show ?thesis by (simp add: stopping_def)
qed (use assms in \<open>auto simp: stopping_def split: option.splits serve.splits if_splits handler.splits list.splits\<close>)

text \<open>
  C13: The daemon stops as a whole. From the moment a signal arrives, or a server ends for whatever reason, its
  goroutines take at most \<open>5 n + 5\<close> steps more for \<open>n\<close> servers, however they interleave and whatever signals and
  failures follow; and where nothing can move any more without one, \<^verbatim>\<open>start\<close> has returned, after every server has
  stopped and the process manager has cleaned up.
\<close>

theorem daemon_stops:
  assumes "daemon_run names d" "distinct names" "stopping d" "(daemon_step ^^ k) d d'"
  shows "k \<le> 5 * length names + 5
    \<and> ((\<forall>ev. \<not> external ev \<longrightarrow> daemon_do ev d' = None) \<longrightarrow>
         dgReturned d' \<and> (\<forall>(n, st) \<in> set (dgServers d'). st = ServerEnded)
         \<and> (ProcessManagerGrpcService \<in> set names \<longrightarrow> dgCleaned d'))"
proof -
  have ok: "daemon_ok names d" by (rule daemon_run_ok[OF assms(1)])
  from daemon_steps_work[OF assms(4) ok assms(2)] daemon_work_bound[OF ok]
  have ok': "daemon_ok names d'" and k: "k \<le> 5 * length names + 5" by simp_all
  have st: "stopping d'" using assms(4,3)
  proof (induction k arbitrary: d)
    case (Suc k)
    then show ?case by (metis relpowp_Suc_D2 daemon_step.cases stopping_step)
  qed simp
  have "dgReturned d' \<and> (\<forall>(n, st) \<in> set (dgServers d'). st = ServerEnded) \<and> (ProcessManagerGrpcService \<in> set names \<longrightarrow> dgCleaned d')"
    if "\<forall>ev. \<not> external ev \<longrightarrow> daemon_do ev d' = None"
  proof -
    have r: "dgReturned d'" using quiet_returned[OF ok' assms(2) _ st] that by blast
    then have e: "\<forall>(n, st) \<in> set (dgServers d'). st = ServerEnded" using ok' by (simp add: daemon_ok_def list_all_iff)
    moreover have "dgCleaned d'" if "ProcessManagerGrpcService \<in> set names"
      using that ok' e unfolding daemon_ok_def cleaned_ok_def by fastforce
    ultimately show ?thesis using r by blast
  qed
  then show ?thesis using k by blast
qed

text \<open>Without a signal and without a failure the daemon goes on serving.\<close>

lemma daemon_keeps_serving:
  assumes ok: "daemon_ok names d" and "\<not> stopping d" "\<not> external ev" "daemon_do ev d = Some d'"
  shows "\<exists>i. ev = BeginServe i \<and> d' = set_server i Serving d"
proof -
  have q: "\<not> dgSignal d" "dgHandler d = AwaitSignal" using assms(2) by (auto simp: stopping_def)
  have st: "st = Starting \<or> st = Serving" if "server_at d i = Some (n, st)" for i n st
    using assms(2) that nth_mem[of i "dgServers d"] by (auto simp: stopping_def server_at_Some)
  have "dgStopped d = []" using ok q(2) by (simp add: daemon_ok_def handler_ok_def)
  then show ?thesis using assms(3,4) q st by (cases ev) (fastforce split: option.splits serve.splits if_splits)+
qed

section \<open>A run\<close>

text \<open>The servers of a daemon that has started have different names, the process manager's among them.\<close>

lemma daemon_names:
  assumes "start_daemon os fl s = (s', Ok parts)"
  shows "distinct (map fst (dpServers parts)) \<and> ProcessManagerGrpcService \<in> set (map fst (dpServers parts))"
proof -
  have "start_body os fl s = (s', Ok parts)"
    using assms by (auto simp: start_daemon_def split: prod.splits go_result.splits)
  then obtain addresses stls ctls s1 where "start_servers os fl addresses stls ctls s1 = (s', Ok parts)"
    by (auto simp: start_body_def r_bind_Ok_iff lift_go_bind_Ok)
  from start_servers_Ok(1)[OF this] show ?thesis by (auto simp: service_name_defs)
qed

fun daemon_exec :: "daemon_event list \<Rightarrow> daemon \<Rightarrow> daemon option" where
  "daemon_exec [] d = Some d"
| "daemon_exec (ev # evs) d = (case daemon_do ev d of None \<Rightarrow> None | Some d' \<Rightarrow> daemon_exec evs d')"

lemma daemon_exec_steps: "daemon_exec evs d = Some d' \<Longrightarrow> (daemon_step ^^ length evs) d d'"
proof (induction evs arbitrary: d)
  case (Cons ev evs)
  then obtain e where "daemon_do ev d = Some e" "daemon_exec evs e = Some d'" by (auto split: option.splits)
  from relpowp_Suc_I2[OF daemon_step_do[OF this(1)] Cons.IH[OF this(2)]] show ?case by (simp only: length_Cons)
qed simp

text \<open>The disk server fails while it and the process manager serve.\<close>

definition w_names :: "string list" where "w_names = [DiskGrpcService, ProcessManagerGrpcService]"

definition w_serving :: daemon where
  "w_serving = the (daemon_exec [BeginServe 0, BeginServe 1, ServeFails 0 (PlainError ''accept'')] (daemon_start w_names))"

definition w_exit :: "daemon_event list" where
  "w_exit = [SendTerm 0, Receive w_names, StopNext, StopNext, HandlerReturns, ServeStops 1, CleanupReturns 1, SendTerm 1, GroupWait]"

definition w_exited :: daemon where "w_exited = the (daemon_exec w_exit w_serving)"

lemmas w_daemon_defs = w_serving_def w_exited_def w_exit_def w_names_def daemon_start_def server_at_def set_server_def
  after_serve_def service_name_defs

lemma w_serving_exec: "daemon_exec [BeginServe 0, BeginServe 1, ServeFails 0 (PlainError ''accept'')] (daemon_start w_names) = Some w_serving"
  by (simp add: w_daemon_defs)

lemma w_exited_exec: "daemon_exec w_exit w_serving = Some w_exited"
  by (simp add: w_daemon_defs)

theorem daemon_stops_witness: "length w_exit \<le> 5 * length w_names + 5 \<and> dgReturned w_exited \<and> dgCleaned w_exited"
proof -
  have run: "daemon_run w_names w_serving"
    unfolding daemon_run_def using daemon_exec_steps[OF w_serving_exec] by (rule relpowp_imp_rtranclp)
  have "stopping w_serving" by (simp add: stopping_def w_daemon_defs)
  moreover have "distinct w_names" "ProcessManagerGrpcService \<in> set w_names" by (simp_all add: w_daemon_defs)
  moreover have "daemon_do ev w_exited = None" if "\<not> external ev" for ev
    using that by (cases ev) (auto simp: w_daemon_defs nth_Cons')
  ultimately show ?thesis using daemon_stops[OF run _ _ daemon_exec_steps[OF w_exited_exec]] by blast
qed

end
