(* ===== verification/Process_Command.thy ===== *)
theory Process_Command
  imports Log_File Instance_Client_Log Process_Manager
begin

text \<open>
  The command line: \<^verbatim>\<open>app/cmd/process.go\<close> and \<^verbatim>\<open>app/cmd/version.go\<close>. A command connects to the process manager, with
  TLS when a directory of certificates is given, makes one call and prints the answer. The flags are the fields of
  a record; \<open>marshal\<close> is \<^verbatim>\<open>json.MarshalIndent\<close> on the answer, and what is printed is the result of the command.
\<close>

section \<open>Connecting\<close>

record cli_flags =
  cfUrl :: string
  cfTlsDir :: string

definition main_defaults :: cli_flags where
  "main_defaults = \<lparr>cfUrl = ''tcp://localhost:8500'', cfTlsDir = ''''\<rparr>"

text \<open>The connection is the client's stub; a failure with TLS, of loading or of connecting, is logged and the
  client connects without.\<close>

definition getProcessManagerClient ::
  "('cert, 'pool) tls_files \<Rightarrow> ('s, 'cert, 'pool, 's pm_stub) connector \<Rightarrow> cli_flags \<Rightarrow> ('s, 's pm_stub) remote" where
  "getProcessManagerClient f connect c = (\<lambda>s.
     if cfTlsDir c \<noteq> '''' then
       (case NewProcessManagerClientWithTLS f connect (cfUrl c) (filepath_Join (cfTlsDir c) TLSCAFile)
           (filepath_Join (cfTlsDir c) TLSCertFile) (filepath_Join (cfTlsDir c) TLSKeyFile) TLSPeerName s of
          (s', Ok stub) \<Rightarrow> (s', Ok stub)
        | (s', Err _) \<Rightarrow> tls_NewProcessManagerClient connect (cfUrl c) None s'
        | (s', Panic) \<Rightarrow> (s', Panic)
        | (s', Diverge) \<Rightarrow> (s', Diverge))
     else tls_NewProcessManagerClient connect (cfUrl c) None s)"

definition with_client ::
  "('s, 's pm_stub) remote \<Rightarrow> ('s pm_stub \<Rightarrow> ('s, 'a) remote) \<Rightarrow> ('s, 'a) remote" where
  "with_client get call = r_bind (r_map_err (WrapError ''failed to initialize ProcessManager client'') get) call"

definition PrintJSON :: "('a \<Rightarrow> go_error + string) \<Rightarrow> 'a \<Rightarrow> ('s, string) remote" where
  "PrintJSON marshal val = (case marshal val of Inl e \<Rightarrow> r_err e | Inr output \<Rightarrow> r_ok (output @ [CHR 0x0A]))"

section \<open>The commands on processes\<close>

text \<open>The values of the flags; the arguments after the flags are those of the program.\<close>

record process_flags =
  pfName :: string
  pfBinary :: string
  pfPortCount :: int
  pfPortArgs :: "string list"
  pfArgs :: "string list"
  pfUuid :: string
  pfTerminateSignal :: string

definition process_defaults :: process_flags where
  "process_defaults = \<lparr>pfName = '''', pfBinary = '''', pfPortCount = 0, pfPortArgs = [], pfArgs = [], pfUuid = '''',
     pfTerminateSignal = ''SIGHUP''\<rparr>"

definition createProcess ::
  "('s, 's pm_stub) remote \<Rightarrow> (ProcessResponse \<Rightarrow> go_error + string) \<Rightarrow> process_flags \<Rightarrow> ('s, string) remote" where
  "createProcess get marshal c = with_client get (\<lambda>cli.
     r_bind (r_map_err (WrapError ''failed to create process'')
       (pmc_ProcessCreate cli (pfName c) (pfBinary c) (pfPortCount c) (pfArgs c) (pfPortArgs c))) (PrintJSON marshal))"

definition deleteProcess ::
  "('s, 's pm_stub) remote \<Rightarrow> (ProcessResponse \<Rightarrow> go_error + string) \<Rightarrow> process_flags \<Rightarrow> ('s, string) remote" where
  "deleteProcess get marshal c = with_client get (\<lambda>cli.
     r_bind (r_map_err (WrapError ''failed to delete process'') (pmc_ProcessDelete cli (pfName c) (pfUuid c))) (PrintJSON marshal))"

definition getProcess ::
  "('s, 's pm_stub) remote \<Rightarrow> (ProcessResponse \<Rightarrow> go_error + string) \<Rightarrow> process_flags \<Rightarrow> ('s, string) remote" where
  "getProcess get marshal c = with_client get (\<lambda>cli.
     r_bind (r_map_err (WrapError ''failed to delete process'') (pmc_ProcessGet cli (pfName c))) (PrintJSON marshal))"

definition listProcess ::
  "('s, 's pm_stub) remote \<Rightarrow> ((string \<times> ProcessResponse) list \<Rightarrow> go_error + string) \<Rightarrow> ('s, string) remote" where
  "listProcess get marshal = with_client get (\<lambda>cli.
     r_bind (r_map_err (WrapError ''failed to list processes'') (pmc_ProcessList cli)) (PrintJSON marshal))"

definition replaceProcess ::
  "('s, 's pm_stub) remote \<Rightarrow> (ProcessResponse \<Rightarrow> go_error + string) \<Rightarrow> process_flags \<Rightarrow> ('s, string) remote" where
  "replaceProcess get marshal c = with_client get (\<lambda>cli.
     r_bind (r_map_err (WrapError ''failed to replace processes'')
       (pmc_ProcessReplace cli (pfName c) (pfBinary c) (pfPortCount c) (pfArgs c) (pfPortArgs c) (pfTerminateSignal c)))
     (PrintJSON marshal))"

section \<open>The version command\<close>

record cmd_VersionOutput =
  cvClientVersion :: VersionOutput
  cvServerVersion :: "VersionOutput option"

definition version ::
  "build_vars \<Rightarrow> ('s, 's pm_stub) remote \<Rightarrow> ('s pm_stub \<Rightarrow> ('s, VersionOutput) remote)
     \<Rightarrow> (cmd_VersionOutput \<Rightarrow> go_error + string) \<Rightarrow> bool \<Rightarrow> ('s, string) remote" where
  "version bv get service marshal clientOnly =
     r_bind (if clientOnly then r_ok None
             else r_bind (r_map_err (WrapError ''failed to initialize ProcessManagerClient'') get) (\<lambda>cli.
                  r_map Some (pmc_VersionGet (service cli)))) (\<lambda>server.
     PrintJSON marshal \<lparr>cvClientVersion = GetVersion bv, cvServerVersion = server\<rparr>)"

section \<open>What the commands do\<close>

lemma with_client_connected: "get s = (s1, Ok cli) \<Longrightarrow> with_client get call s = call cli s1"
  by (simp add: with_client_def r_bind_def r_map_err_apply)

lemma with_client_failed: "get s = (s1, Err e) \<Longrightarrow> with_client get call s = (s1, Err (WrapError ''failed to initialize ProcessManager client'' e))"
  by (simp add: with_client_def r_bind_def r_map_err_apply)

text \<open>
  With certificates that cannot be loaded the client does not fail: it connects in the clear, to the same address.
\<close>

lemma client_falls_back:
  assumes "cfTlsDir c \<noteq> ''''"
    and "LoadClientTLS f (filepath_Join (cfTlsDir c) TLSCAFile) (filepath_Join (cfTlsDir c) TLSCertFile)
      (filepath_Join (cfTlsDir c) TLSKeyFile) TLSPeerName = Err e"
  shows "getProcessManagerClient f connect c s = connect_to ''ProcessManagerService'' connect (cfUrl c) None s"
  using assms by (simp add: getProcessManagerClient_def NewProcessManagerClientWithTLS_def with_files_def tls_NewProcessManagerClient_def)

text \<open>A name is required before anything is sent.\<close>

lemma commands_need_a_name:
  assumes "get s = (s1, Ok cli)" "pfName c = ''''"
  shows "\<exists>e. getProcess get m c s = (s1, Err e)" "\<exists>e. deleteProcess get m c s = (s1, Err e)"
    "\<exists>e. createProcess get m c s = (s1, Err e)" "\<exists>e. replaceProcess get m c s = (s1, Err e)"
  using assms by (simp_all add: getProcess_def deleteProcess_def createProcess_def replaceProcess_def with_client_connected
    pmc_ProcessGet_def pmc_ProcessDelete_def pmc_ProcessCreate_def pmc_ProcessReplace_def r_bind_def r_map_err_apply)

text \<open>
  What the command line shows is what the process manager has. Connected to a process manager, \<^verbatim>\<open>process get\<close> of a
  registered process prints exactly the answer for it, and for any other name it fails with the status NotFound;
  the processes are as before. (The failure claims to be one of deleting.)
\<close>

theorem process_get_command:
  assumes "get pm = (pm, Ok cli)" "stub_ProcessGet cli = (\<lambda>name. over_wire (\<lambda>pm. (pm, ProcessGet pm name)))"
    and "pfName c \<noteq> ''''" "\<And>r. \<exists>out. marshal r = Inr out"
  shows "case findProcess pm (pfName c) of
      Some q \<Rightarrow> (\<exists>out. marshal (RPCResponse (obj pm q)) = Inr out \<and> getProcess get marshal c pm = (pm, Ok (out @ [CHR 0x0A])))
    | None \<Rightarrow> (\<exists>e. getProcess get marshal c pm = (pm, Err (WrapError ''failed to delete process'' e)) \<and> status_code e = NotFound)"
proof -
  obtain render where r: "\<And>x. marshal x = Inr (render x)" using assms(4) by metis
  show ?thesis using assms(1-3)
    by (simp add: getProcess_def with_client_connected pmc_ProcessGet_def over_wire_def r_map_err_apply r_bind_def
        ProcessGet_def PrintJSON_def r split: option.splits)
qed

definition w_pm :: Manager where
  "w_pm = \<lparr>portRangeMin = 10, portRangeMax = 20, processes = [(''p'', 0)],
     availablePorts = \<lparr>base = 10, bsize = 11, start = 0, data = {0..<11}\<rparr>, logsDir = ''/log'',
     heap = [new_process ''u'' \<lparr>psName = ''p'', psBinary = ''/bin/p'', psArgs = [], psPortCount = 0, psPortArgs = []\<rparr>]\<rparr>"

theorem process_get_command_witness:
  "\<forall>stub. (let cli = stub\<lparr>stub_ProcessGet := (\<lambda>name. over_wire (\<lambda>pm. (pm, ProcessGet pm name)))\<rparr>;
      marshal = (\<lambda>r. Inr (psBinary (prSpec r))) in
    getProcess (r_ok cli) marshal (process_defaults\<lparr>pfName := ''p''\<rparr>) w_pm = (w_pm, Ok (''/bin/p'' @ [CHR 0x0A])))"
proof
  fix stub :: "Manager pm_stub"
  let ?cli = "stub\<lparr>stub_ProcessGet := (\<lambda>name. over_wire (\<lambda>pm. (pm, ProcessGet pm name)))\<rparr>"
    and ?m = "\<lambda>r :: ProcessResponse. Inr (psBinary (prSpec r)) :: go_error + string"
  have q: "findProcess w_pm ''p'' = Some 0" "psBinary (prSpec (RPCResponse (obj w_pm 0))) = ''/bin/p''"
    by (simp_all add: w_pm_def findProcess_def new_process_def RPCResponse_def)
  from process_get_command[of "r_ok ?cli" w_pm ?cli "process_defaults\<lparr>pfName := ''p''\<rparr>" ?m]
  show "let cli = ?cli; marshal = ?m in
    getProcess (r_ok cli) marshal (process_defaults\<lparr>pfName := ''p''\<rparr>) w_pm = (w_pm, Ok (''/bin/p'' @ [CHR 0x0A]))"
    by (simp add: q Let_def)
qed

end
