(* ===== verification/Command_Line.thy ===== *)
theory Command_Line
  imports Process_Command Daemon
begin

text \<open>
  The command line of the program: the tables of commands and flags of \<^verbatim>\<open>main.go\<close> and \<^verbatim>\<open>app/cmd\<close>, and what
  \<^verbatim>\<open>urfave/cli\<close> makes of them and of the arguments (\<^verbatim>\<open>vendor/github.com/urfave/cli/v3\<close>). Only what the program uses of
  the library is here: no completion, no default command, no grouped short options, no required flags, and no list in
  the serialised form that only the library writes. The names of flags have no comma or space. A letter after a dash is an ASCII letter. The text of a help page
  is left out.
\<close>

section \<open>Values of flags\<close>

datatype flag_value = StringValue string | BoolValue bool | IntValue int | SliceValue "string list"

definition strconv_ParseBool :: "string \<Rightarrow> bool option" where
  "strconv_ParseBool s =
     (if s \<in> set [''1'', ''t'', ''T'', ''TRUE'', ''true'', ''True''] then Some True
      else if s \<in> set [''0'', ''f'', ''F'', ''FALSE'', ''false'', ''False''] then Some False else None)"

text \<open>\<^verbatim>\<open>strconv.ParseInt(s, 0, 64)\<close>: the base is that of the prefix, and underscores may separate digits.\<close>

definition alnum_val :: "char \<Rightarrow> nat option" where
  "alnum_val c = (case digit_val c of Some d \<Rightarrow> Some d
     | None \<Rightarrow> let n = of_char (to_lower c) in if 97 \<le> n \<and> n \<le> 122 then Some (n - 87) else None)"

datatype parse_error = InvalidSyntax | ValueOutOfRange

fun parse_uint :: "int \<Rightarrow> string \<Rightarrow> int \<Rightarrow> parse_error + int" where
  "parse_uint b [] n = Inr n"
| "parse_uint b (c # cs) n =
     (if c = CHR ''_'' then parse_uint b cs n
      else case alnum_val c of
        None \<Rightarrow> Inl InvalidSyntax
      | Some d \<Rightarrow> if int d \<ge> b then Inl InvalidSyntax
          else if n * b + int d > 18446744073709551615 then Inl ValueOutOfRange else parse_uint b cs (n * b + int d))"

definition base_of :: "string \<Rightarrow> int \<times> string" where
  "base_of s = (case s of
     [] \<Rightarrow> (10, s)
   | c # cs \<Rightarrow> if c \<noteq> CHR ''0'' then (10, s)
       else if length s \<ge> 3 \<and> to_lower (hd cs) = CHR ''b'' then (2, tl cs)
       else if length s \<ge> 3 \<and> to_lower (hd cs) = CHR ''o'' then (8, tl cs)
       else if length s \<ge> 3 \<and> to_lower (hd cs) = CHR ''x'' then (16, tl cs)
       else (8, cs))"

fun underscore_scan :: "bool \<Rightarrow> char \<Rightarrow> string \<Rightarrow> bool" where
  "underscore_scan hex i [] = (i \<noteq> CHR ''_'')"
| "underscore_scan hex i (c # cs) =
     (if digit_val c \<noteq> None \<or> hex \<and> to_lower c \<in> set ''abcdef'' then underscore_scan hex (CHR ''0'') cs
      else if c = CHR ''_'' then i = CHR ''0'' \<and> underscore_scan hex (CHR ''_'') cs
      else i \<noteq> CHR ''_'' \<and> underscore_scan hex (CHR ''!'') cs)"

definition underscoreOK :: "string \<Rightarrow> bool" where
  "underscoreOK s =
     (if length s \<ge> 2 \<and> hd s = CHR ''0'' \<and> to_lower (s ! 1) \<in> set ''box''
      then underscore_scan (to_lower (s ! 1) = CHR ''x'') (CHR ''0'') (drop 2 s)
      else underscore_scan False (CHR ''^'') s)"

definition parse_error_string :: "parse_error \<Rightarrow> string" where
  "parse_error_string e = (case e of InvalidSyntax \<Rightarrow> ''invalid syntax'' | ValueOutOfRange \<Rightarrow> ''value out of range'')"

definition ParseUint :: "string \<Rightarrow> parse_error + int" where
  "ParseUint s = (if s = '''' then Inl InvalidSyntax
     else case base_of s of (b, ds) \<Rightarrow>
       (case parse_uint b ds 0 of
          Inl e \<Rightarrow> Inl e
        | Inr n \<Rightarrow> if CHR ''_'' \<in> set ds \<and> \<not> underscoreOK s then Inl InvalidSyntax else Inr n))"

definition strconv_ParseInt :: "string \<Rightarrow> go_error + int" where
  "strconv_ParseInt s =
     (let (neg, s0) = (case s of [] \<Rightarrow> (False, [])
            | c # cs \<Rightarrow> if c = CHR ''-'' then (True, cs) else if c = CHR ''+'' then (False, cs) else (False, s));
          fail = (\<lambda>e. Inl (PlainError (''strconv.ParseInt: parsing '' @ quoted s @ '': '' @ parse_error_string e)))
      in case ParseUint s0 of
           Inl e \<Rightarrow> fail e
         | Inr n \<Rightarrow> (let v = (if neg then - n else n) in if is_int64 v then Inr v else fail ValueOutOfRange))"

section \<open>Commands and flags\<close>

record cli_flag =
  flName :: string
  flAliases :: "string list"
  flValue :: flag_value
  flLocal :: bool
  flSources :: "string list"

definition StringFlag :: "string \<Rightarrow> string \<Rightarrow> cli_flag" where
  "StringFlag name val = \<lparr>flName = name, flAliases = [], flValue = StringValue val, flLocal = False, flSources = []\<rparr>"

definition BoolFlag :: "string \<Rightarrow> cli_flag" where
  "BoolFlag name = \<lparr>flName = name, flAliases = [], flValue = BoolValue False, flLocal = False, flSources = []\<rparr>"

definition IntFlag :: "string \<Rightarrow> cli_flag" where
  "IntFlag name = \<lparr>flName = name, flAliases = [], flValue = IntValue 0, flLocal = False, flSources = []\<rparr>"

definition StringSliceFlag :: "string \<Rightarrow> cli_flag" where
  "StringSliceFlag name = \<lparr>flName = name, flAliases = [], flValue = SliceValue [], flLocal = False, flSources = []\<rparr>"

definition HelpFlag :: cli_flag where
  "HelpFlag = (BoolFlag ''help'')\<lparr>flAliases := [''h''], flLocal := True\<rparr>"

definition VersionFlag :: cli_flag where
  "VersionFlag = (BoolFlag ''version'')\<lparr>flAliases := [''v''], flLocal := True\<rparr>"

datatype cli_action = StartAction | CreateAction | DeleteAction | GetAction | ListAction | ReplaceAction
  | VersionAction | HelpAction

datatype cli_command = CliCommand (cmName: string) (cmAliases: "string list") (cmFlags: "cli_flag list")
  (cmCommands: "cli_command list") (cmAction: cli_action)

definition HasName :: "string \<Rightarrow> cli_command \<Rightarrow> bool" where
  "HasName name c \<longleftrightarrow> name \<in> set (cmName c # cmAliases c)"

definition ProcessCreateCmd :: cli_command where
  "ProcessCreateCmd = CliCommand ''create'' []
     [StringFlag ''name'' '''', StringFlag ''binary'' '''', IntFlag ''port-count'', StringSliceFlag ''port-args''] [] CreateAction"

definition ProcessDeleteCmd :: cli_command where
  "ProcessDeleteCmd = CliCommand ''delete'' [] [StringFlag ''name'' '''', StringFlag ''uuid'' ''''] [] DeleteAction"

definition ProcessGetCmd :: cli_command where
  "ProcessGetCmd = CliCommand ''get'' [] [StringFlag ''name'' ''''] [] GetAction"

definition ProcessListCmd :: cli_command where
  "ProcessListCmd = CliCommand ''list'' [''ls''] [] [] ListAction"

definition ProcessReplaceCmd :: cli_command where
  "ProcessReplaceCmd = CliCommand ''replace'' []
     [StringFlag ''name'' '''', StringFlag ''binary'' '''', IntFlag ''port-count'', StringSliceFlag ''port-args'',
      StringFlag ''terminate-signal'' ''SIGHUP''] [] ReplaceAction"

definition ProcessCmd :: cli_command where
  "ProcessCmd = CliCommand ''process'' [] []
     [ProcessCreateCmd, ProcessDeleteCmd, ProcessGetCmd, ProcessListCmd, ProcessReplaceCmd] HelpAction"

definition VersionCmd :: cli_command where
  "VersionCmd = CliCommand ''version'' [] [BoolFlag ''client-only''] [] VersionAction"

definition StartCmd :: cli_command where
  "StartCmd = CliCommand ''daemon'' []
     [StringFlag ''listen'' ''localhost:8500'', StringFlag ''logs-dir'' ''/var/log/instances'',
      StringFlag ''port-range'' ''10000-20000'', StringFlag ''spdk-port-range'' ''20001-30000'', BoolFlag ''spdk-enabled'']
     [] StartAction"

definition main_cmd :: cli_command where
  "main_cmd = CliCommand '''' []
     [(StringFlag ''url'' ''tcp://localhost:8500'')\<lparr>flLocal := True\<rparr>, (BoolFlag ''debug'')\<lparr>flLocal := True\<rparr>,
      (StringFlag ''tls-dir'' '''')\<lparr>flLocal := True, flSources := [''TLS_DIR'']\<rparr>]
     [StartCmd, ProcessCmd, VersionCmd] HelpAction"

lemmas cli_tables = ProcessCreateCmd_def ProcessDeleteCmd_def ProcessGetCmd_def ProcessListCmd_def ProcessReplaceCmd_def
  ProcessCmd_def VersionCmd_def StartCmd_def main_cmd_def StringFlag_def BoolFlag_def IntFlag_def StringSliceFlag_def
  HelpFlag_def VersionFlag_def

text \<open>Every command gets a help command and a help flag, the program a version flag when it has a version.\<close>

definition help_command :: cli_command where
  "help_command = CliCommand ''help'' [''h''] [] [] HelpAction"

definition add_flag :: "cli_flag \<Rightarrow> cli_flag list \<Rightarrow> cli_flag list" where
  "add_flag f fs =
     (let taken = concat (map (\<lambda>g. flName g # flAliases g) fs);
          f' = f\<lparr>flAliases := filter (\<lambda>a. a = flName f \<or> a \<notin> set taken) (flAliases f)\<rparr>
      in if list_ex (\<lambda>n. n \<in> set taken) (flName f' # flAliases f') then fs else fs @ [f'])"

fun ensureHelp :: "cli_command \<Rightarrow> cli_command" where
  "ensureHelp (CliCommand n al fs cs act) =
     CliCommand n al (add_flag HelpFlag fs)
       (map ensureHelp cs @ (if list_ex (HasName ''help'') cs then [] else [help_command])) act"

definition setup_command :: "string \<Rightarrow> cli_command \<Rightarrow> cli_command" where
  "setup_command ver c = (case ensureHelp c of CliCommand n al fs cs act \<Rightarrow>
     CliCommand n al (if ver = '''' then fs else add_flag VersionFlag fs) cs act)"

text \<open>The check of the library that no command has two flags of one name, which it makes before anything else.\<close>

fun checkDuplicateFlagNames :: "cli_command \<Rightarrow> bool" where
  "checkDuplicateFlagNames (CliCommand n al fs cs act) =
     (distinct (concat (map (\<lambda>f. flName f # flAliases f) fs)) \<and> list_all checkDuplicateFlagNames cs)"

section \<open>Parsing\<close>

record flag_state =
  fsFlag :: cli_flag
  fsCur :: flag_value
  fsSet :: bool
  fsFromSource :: bool

definition PreParse :: "cli_flag \<Rightarrow> flag_state" where
  "PreParse f = \<lparr>fsFlag = f, fsCur = flValue f, fsSet = False, fsFromSource = False\<rparr>"

abbreviation fs_name :: "flag_state \<Rightarrow> string" where "fs_name f \<equiv> flName (fsFlag f)"

definition fs_names :: "flag_state \<Rightarrow> string list" where
  "fs_names f = flName (fsFlag f) # flAliases (fsFlag f)"

text \<open>The value of a list is split at commas; a value from the environment is replaced, not extended.\<close>

definition value_Set :: "bool \<Rightarrow> flag_value \<Rightarrow> string \<Rightarrow> go_error + flag_value" where
  "value_Set been old val = (case old of
     StringValue _ \<Rightarrow> Inr (StringValue val)
   | BoolValue _ \<Rightarrow> (case strconv_ParseBool val of None \<Rightarrow> Inl (PlainError ''parse error'') | Some b \<Rightarrow> Inr (BoolValue b))
   | IntValue _ \<Rightarrow> (case strconv_ParseInt val of Inl e \<Rightarrow> Inl e | Inr i \<Rightarrow> Inr (IntValue i))
   | SliceValue xs \<Rightarrow> Inr (SliceValue ((if been then xs else []) @ strings_Split (CHR '','') val)))"

definition flag_Set :: "flag_state \<Rightarrow> string \<Rightarrow> go_error + flag_state" where
  "flag_Set f val =
     (let old = (if fsFromSource f then flValue (fsFlag f) else fsCur f) in
      case value_Set (fsSet f \<and> \<not> fsFromSource f) old val of
        Inl e \<Rightarrow> Inl e
      | Inr v \<Rightarrow> Inr (f\<lparr>fsCur := v, fsSet := True, fsFromSource := False\<rparr>))"

text \<open>
  The flags of a command and of its ancestors, innermost first. An ancestor's flag can be given to a command only when
  it is not local and the command has no flag of that name.
\<close>

definition lFlag :: "flag_state list \<Rightarrow> string \<Rightarrow> flag_state option" where
  "lFlag own name = find (\<lambda>f. name \<in> set (fs_names f)) own"

fun lookupFlag :: "flag_state list list \<Rightarrow> string \<Rightarrow> flag_state option" where
  "lookupFlag [] name = None"
| "lookupFlag (own # parents) name = (case lFlag own name of Some f \<Rightarrow> Some f | None \<Rightarrow> lookupFlag parents name)"

fun persistent_flags :: "flag_state list \<Rightarrow> nat \<Rightarrow> flag_state list list \<Rightarrow> (nat \<times> flag_state) list" where
  "persistent_flags own i [] = []"
| "persistent_flags own i (l # ls) =
     map (Pair i) (filter (\<lambda>f. \<not> flLocal (fsFlag f) \<and> list_all (\<lambda>n. Option.is_none (lFlag own n)) (fs_names f)) l)
     @ persistent_flags own (Suc i) ls"

definition appliedFlags :: "flag_state list list \<Rightarrow> (nat \<times> flag_state) list" where
  "appliedFlags L = (case L of [] \<Rightarrow> [] | own # parents \<Rightarrow> map (Pair 0) own @ persistent_flags own 1 parents)"

definition lookupAppliedFlag :: "flag_state list list \<Rightarrow> string \<Rightarrow> (nat \<times> flag_state) option" where
  "lookupAppliedFlag L name = find (\<lambda>(i, f). name \<in> set (fs_names f)) (appliedFlags L)"

definition cmd_set :: "flag_state list list \<Rightarrow> nat \<Rightarrow> flag_state \<Rightarrow> string \<Rightarrow> string \<Rightarrow> go_error + flag_state list list" where
  "cmd_set L i f name val = (case flag_Set f val of
     Inl e \<Rightarrow> Inl (PlainError (''invalid value '' @ quoted val @ '' for flag -'' @ name @ '': '' @ error_string e))
   | Inr f' \<Rightarrow> Inr (L[i := map (\<lambda>g. if fs_name g = fs_name f then f' else g) (L ! i)]))"

text \<open>What an argument is, by its text without the white space around it.\<close>

datatype token = Blank | DoubleDash | Word string | NotFlag | FlagToken string "string option"

definition is_letter :: "char \<Rightarrow> bool" where
  "is_letter c = (let n = of_char (to_lower c) :: nat in 97 \<le> n \<and> n \<le> 122)"

definition flag_token :: "string \<Rightarrow> string \<Rightarrow> token" where
  "flag_token arg flagName = (case strings_Cut flagName CHR ''='' of
     (n, _, True) \<Rightarrow> FlagToken n (Some (fst (snd (strings_Cut arg CHR ''=''))))
   | (_, _, False) \<Rightarrow> FlagToken flagName None)"

definition token_of :: "string \<Rightarrow> token" where
  "token_of arg = (let firstArg = strings_TrimSpace arg in
     if firstArg = '''' then Blank
     else if firstArg = ''--'' then DoubleDash
     else if hd firstArg \<noteq> CHR ''-'' then Word firstArg
     else if firstArg = ''-'' then Blank
     else if firstArg ! 1 = CHR ''-'' then flag_token arg (drop 2 firstArg)
     else if is_letter (firstArg ! 1) then flag_token arg (drop 1 firstArg)
     else NotFlag)"

definition is_bool_flag :: "flag_state \<Rightarrow> bool" where
  "is_bool_flag f = (case fsCur f of BoolValue _ \<Rightarrow> True | _ \<Rightarrow> False)"

text \<open>A flag in the arguments: the state after it, and the arguments after it and its value.\<close>

definition parse_flag :: "flag_state list list \<Rightarrow> string \<Rightarrow> string \<Rightarrow> string option \<Rightarrow> string list
    \<Rightarrow> go_error + flag_state list list \<times> string list" where
  "parse_flag L arg name val rest =
     (case lookupAppliedFlag L name of
        None \<Rightarrow> Inl (PlainError (''flag provided but not defined: -'' @ name))
      | Some (i, f) \<Rightarrow>
          (case (if is_bool_flag f then Some (if val = None \<or> val = Some '''' then ''true'' else the val, rest)
                 else case (val, rest) of
                   (Some v, _) \<Rightarrow> Some (v, rest)
                 | (None, v # rest') \<Rightarrow> Some (v, rest')
                 | (None, []) \<Rightarrow> None) of
             None \<Rightarrow> Inl (PlainError (''flag needs an argument: '' @ strings_TrimSpace arg))
           | Some (v, rest') \<Rightarrow> (case cmd_set L i f name v of Inl e \<Rightarrow> Inl e | Inr L' \<Rightarrow> Inr (L', rest'))))"

lemma parse_flag_shorter: "parse_flag L arg name val rest = Inr (L', rest') \<Longrightarrow> length rest' \<le> length rest"
  by (auto simp: parse_flag_def split: option.splits prod.splits if_splits list.splits sum.splits)

function parseFlags :: "cli_command list \<Rightarrow> flag_state list list \<Rightarrow> string list \<Rightarrow> string list
    \<Rightarrow> flag_state list list \<times> string list \<times> go_error option" where
  "parseFlags cs L [] pos = (L, pos, None)"
| "parseFlags cs L (arg # rest) pos = (case token_of arg of
     Blank \<Rightarrow> parseFlags cs L rest (pos @ [arg])
   | DoubleDash \<Rightarrow> (L, pos @ rest, None)
   | Word w \<Rightarrow> (if list_ex (HasName w) cs then (L, pos @ arg # rest, None) else parseFlags cs L rest (pos @ [arg]))
   | NotFlag \<Rightarrow> (L, pos @ arg # rest, None)
   | FlagToken name val \<Rightarrow>
       (case parse_flag L arg name val rest of
          Inl e \<Rightarrow> (L, pos, Some e)
        | Inr (L', rest') \<Rightarrow> parseFlags cs L' rest' pos))"
  by pat_completeness auto
termination
  by (relation "measure (\<lambda>(cs, L, args, pos). length args)") (auto dest!: sym[of "Inr _"] parse_flag_shorter)

section \<open>Running a command\<close>

text \<open>Flags that were not given take their values from the environment, where they have a variable there.\<close>

definition type_name :: "flag_value \<Rightarrow> string" where
  "type_name v = (case v of StringValue _ \<Rightarrow> ''string'' | BoolValue _ \<Rightarrow> ''bool'' | IntValue _ \<Rightarrow> ''int'' | SliceValue _ \<Rightarrow> ''[]string'')"

definition sourced :: "string \<Rightarrow> string \<Rightarrow> flag_state \<Rightarrow> string \<Rightarrow> go_error + flag_state" where
  "sourced key val f parsed = (case flag_Set f parsed of
     Inr f' \<Rightarrow> Inr (f'\<lparr>fsFromSource := True\<rparr>)
   | Inl e \<Rightarrow> Inl (PlainError (''could not parse '' @ quoted val @ '' as '' @ type_name (flValue (fsFlag f))
       @ '' value from environment variable '' @ quoted key @ '' for flag '' @ fs_name f @ '': '' @ error_string e)))"

fun from_sources :: "(string \<Rightarrow> string option) \<Rightarrow> string list \<Rightarrow> flag_state \<Rightarrow> go_error + flag_state" where
  "from_sources env [] f = Inr f"
| "from_sources env (key # keys) f =
     (case env (strings_TrimSpace key) of
        None \<Rightarrow> from_sources env keys f
      | Some val \<Rightarrow>
          (case fsCur f of
             StringValue _ \<Rightarrow> sourced key val f val
           | BoolValue _ \<Rightarrow> sourced key val f (if val = '''' then ''false'' else val)
           | _ \<Rightarrow> if val = '''' then from_sources env keys f else sourced key val f val))"

definition PostParse :: "(string \<Rightarrow> string option) \<Rightarrow> flag_state \<Rightarrow> go_error + flag_state" where
  "PostParse env f = (if fsSet f then Inr f else from_sources env (flSources (fsFlag f)) f)"

fun post_parse :: "(string \<Rightarrow> string option) \<Rightarrow> flag_state list \<Rightarrow> go_error + flag_state list" where
  "post_parse env [] = Inr []"
| "post_parse env (f # fs) = (case PostParse env f of
     Inl e \<Rightarrow> Inl e
   | Inr f' \<Rightarrow> (case post_parse env fs of Inl e \<Rightarrow> Inl e | Inr fs' \<Rightarrow> Inr (f' # fs')))"

definition checkHelp :: "flag_state list \<Rightarrow> bool" where
  "checkHelp own = (case lFlag own ''help'' of Some f \<Rightarrow> fsCur f = BoolValue True | None \<Rightarrow> False)"

definition checkVersion :: "flag_state list \<Rightarrow> bool" where
  "checkVersion own = (case lFlag own ''version'' of Some f \<Rightarrow> fsSet f | None \<Rightarrow> False)"

text \<open>
  What a command line comes to: the action of a command with the flags of its lineage and the arguments that are left,
  a page of help or the version, or an error with which nothing is run.
\<close>

datatype cli_outcome = RunAction cli_action "flag_state list list" "string list" | ShowHelp | ShowVersion | CliError go_error

lemma find_size: "find P cs = Some (c :: cli_command) \<Longrightarrow> size c < Suc (size_list size cs)"
  by (metis find_Some_iff less_Suc_eq_le nth_mem order_refl size_list_estimation')

function cmd_run :: "(string \<Rightarrow> string option) \<Rightarrow> cli_command \<Rightarrow> flag_state list list \<Rightarrow> string list \<Rightarrow> cli_outcome" where
  "cmd_run env (CliCommand n al fs cs act) parents args =
     (case parseFlags cs (map PreParse fs # parents) args [] of
        (L, _, Some e) \<Rightarrow> (if checkHelp (hd L) then ShowHelp else CliError e)
      | (L, pos, None) \<Rightarrow>
         (if checkHelp (hd L) then ShowHelp
          else if parents = [] \<and> checkVersion (hd L) then ShowVersion
          else (case post_parse env (hd L) of
            Inl e \<Rightarrow> CliError e
          | Inr own \<Rightarrow>
              (case pos of
                 [] \<Rightarrow> RunAction act (own # tl L) []
               | a # as \<Rightarrow>
                   (case find (HasName a) cs of
                      Some sub \<Rightarrow> cmd_run env sub (own # tl L) as
                    | None \<Rightarrow> RunAction act (own # tl L) pos)))))"
  by pat_completeness auto
termination
  by (relation "measure (\<lambda>(env, c, p, args). size c)") (auto simp: find_size)

definition main_app :: "string \<Rightarrow> cli_command" where
  "main_app ver = setup_command ver main_cmd"

definition main_run :: "string \<Rightarrow> (string \<Rightarrow> string option) \<Rightarrow> string list \<Rightarrow> cli_outcome" where
  "main_run ver env osArgs = cmd_run env (main_app ver) [] (tl osArgs)"

lemma main_app_no_duplicates: "checkDuplicateFlagNames (main_app ver)"
  by (simp add: main_app_def setup_command_def cli_tables add_flag_def help_command_def HasName_def)

section \<open>What the actions read\<close>

definition cli_String :: "flag_state list list \<Rightarrow> string \<Rightarrow> string" where
  "cli_String L name = (case map_option fsCur (lookupFlag L name) of Some (StringValue s) \<Rightarrow> s | _ \<Rightarrow> '''')"

definition cli_Bool :: "flag_state list list \<Rightarrow> string \<Rightarrow> bool" where
  "cli_Bool L name = (case map_option fsCur (lookupFlag L name) of Some (BoolValue b) \<Rightarrow> b | _ \<Rightarrow> False)"

definition cli_Int :: "flag_state list list \<Rightarrow> string \<Rightarrow> int" where
  "cli_Int L name = (case map_option fsCur (lookupFlag L name) of Some (IntValue i) \<Rightarrow> i | _ \<Rightarrow> 0)"

definition cli_StringSlice :: "flag_state list list \<Rightarrow> string \<Rightarrow> string list" where
  "cli_StringSlice L name = (case map_option fsCur (lookupFlag L name) of Some (SliceValue xs) \<Rightarrow> xs | _ \<Rightarrow> [])"

lemmas cli_readers = cli_String_def cli_Bool_def cli_Int_def cli_StringSlice_def

definition client_flags :: "flag_state list list \<Rightarrow> cli_flags" where
  "client_flags L = \<lparr>cfUrl = cli_String L ''url'', cfTlsDir = cli_String L ''tls-dir''\<rparr>"

definition read_process_flags :: "flag_state list list \<Rightarrow> string list \<Rightarrow> process_flags" where
  "read_process_flags L args = \<lparr>pfName = cli_String L ''name'', pfBinary = cli_String L ''binary'',
     pfPortCount = cli_Int L ''port-count'', pfPortArgs = cli_StringSlice L ''port-args'', pfArgs = args,
     pfUuid = cli_String L ''uuid'', pfTerminateSignal = cli_String L ''terminate-signal''\<rparr>"

definition start_flags :: "flag_state list list \<Rightarrow> flags" where
  "start_flags L = \<lparr>fListen = cli_String L ''listen'', fLogsDir = cli_String L ''logs-dir'',
     fPortRange = cli_String L ''port-range'', fSpdkPortRange = cli_String L ''spdk-port-range'',
     fSpdkEnabled = cli_Bool L ''spdk-enabled'', fTlsDir = cli_String L ''tls-dir''\<rparr>"

text \<open>\<^verbatim>\<open>Before\<close> of the program: whether the level of the log is raised.\<close>

definition main_Before :: "flag_state list list \<Rightarrow> bool" where
  "main_Before L = cli_Bool [last L] ''debug''"

text \<open>The actions that talk to a process manager, with the connection they make from the flags of the program.\<close>

definition process_action ::
  "('cert, 'pool) tls_files \<Rightarrow> ('s, 'cert, 'pool, 's pm_stub) connector \<Rightarrow> (ProcessResponse \<Rightarrow> go_error + string)
    \<Rightarrow> ((string \<times> ProcessResponse) list \<Rightarrow> go_error + string) \<Rightarrow> cli_action \<Rightarrow> flag_state list list \<Rightarrow> string list
    \<Rightarrow> ('s, string) remote option" where
  "process_action tf connect marshal marshals act L args =
     (let get = getProcessManagerClient tf connect (client_flags L); c = read_process_flags L args in
      case act of
        CreateAction \<Rightarrow> Some (createProcess get marshal c)
      | DeleteAction \<Rightarrow> Some (deleteProcess get marshal c)
      | GetAction \<Rightarrow> Some (getProcess get marshal c)
      | ListAction \<Rightarrow> Some (listProcess get marshals)
      | ReplaceAction \<Rightarrow> Some (replaceProcess get marshal c)
      | _ \<Rightarrow> None)"

section \<open>Lists are split on the command line\<close>

definition split_done :: "flag_value \<Rightarrow> bool" where
  "split_done v = (case v of SliceValue xs \<Rightarrow> list_all (\<lambda>x. CHR '','' \<notin> set x) xs | _ \<Rightarrow> True)"

definition flag_split :: "flag_state \<Rightarrow> bool" where
  "flag_split f \<longleftrightarrow> split_done (fsCur f) \<and> split_done (flValue (fsFlag f))"

abbreviation levels_split :: "flag_state list list \<Rightarrow> bool" where
  "levels_split L \<equiv> list_all (list_all flag_split) L"

fun command_split :: "cli_command \<Rightarrow> bool" where
  "command_split (CliCommand n al fs cs act) = (list_all (\<lambda>f. split_done (flValue f)) fs \<and> list_all command_split cs)"

lemma value_Set_split: "value_Set been old val = Inr v \<Longrightarrow> split_done old \<Longrightarrow> split_done v"
  by (auto simp: value_Set_def split_done_def list_all_iff dest: strings_Split_no_sep
      split: flag_value.splits option.splits sum.splits if_splits)

lemma flag_Set_split: "flag_Set f val = Inr f' \<Longrightarrow> flag_split f \<Longrightarrow> flag_split f'"
  by (auto simp: flag_Set_def flag_split_def Let_def dest: value_Set_split split: sum.splits if_splits)

lemma persistent_flags_in: "(i, f) \<in> set (persistent_flags own j L) \<Longrightarrow> j \<le> i \<and> i - j < length L \<and> f \<in> set (L ! (i - j))"
proof (induction L arbitrary: j)
  case (Cons l ls)
  from Cons.prems consider "i = j" "f \<in> set l" | "(i, f) \<in> set (persistent_flags own (Suc j) ls)" by auto
  then show ?case
  proof cases
    case 2
    from Cons.IH[OF this] have "Suc j \<le> i" "i - Suc j < length ls" "f \<in> set (ls ! (i - Suc j))" by auto
    moreover from this have "i - j = Suc (i - Suc j)" by simp
    ultimately show ?thesis by simp
  qed simp
qed simp

lemma lookupAppliedFlag_in:
  assumes "lookupAppliedFlag L name = Some (i, f)"
  shows "i < length L \<and> f \<in> set (L ! i)"
proof -
  have "(i, f) \<in> set (appliedFlags L)" using assms by (auto simp: lookupAppliedFlag_def find_Some_iff dest: nth_mem)
  then show ?thesis using persistent_flags_in[of i f _ 1] by (fastforce simp: appliedFlags_def nth_Cons' split: list.splits)
qed

lemma list_all_update: "list_all P xs \<Longrightarrow> P x \<Longrightarrow> list_all P (xs[i := x])"
  by (auto simp: list_all_iff dest: set_update_subset_insert[THEN subsetD])

lemma cmd_set_split:
  assumes "lookupAppliedFlag L name = Some (i, f)" "cmd_set L i f n val = Inr L'" "levels_split L"
  shows "levels_split L' \<and> length L' = length L"
proof -
  have f: "i < length L" "flag_split f" using lookupAppliedFlag_in[OF assms(1)] assms(3) by (auto simp: list_all_iff)
  obtain f' where f': "flag_Set f val = Inr f'" "L' = L[i := map (\<lambda>g. if fs_name g = fs_name f then f' else g) (L ! i)]"
    using assms(2) by (auto simp: cmd_set_def split: sum.splits)
  have "list_all flag_split (map (\<lambda>g. if fs_name g = fs_name f then f' else g) (L ! i))"
    using assms(3) f flag_Set_split[OF f'(1) f(2)] by (auto simp: list_all_iff)
  then show ?thesis using assms(3) f'(2) by (simp add: list_all_update)
qed

lemma parse_flag_split:
  "parse_flag L arg name val rest = Inr (L', rest') \<Longrightarrow> levels_split L \<Longrightarrow> levels_split L' \<and> length L' = length L"
  using cmd_set_split by (fastforce simp: parse_flag_def split: option.splits prod.splits if_splits list.splits sum.splits)

lemma parseFlags_split:
  "parseFlags cs L args pos = (L', pos', e) \<Longrightarrow> levels_split L \<Longrightarrow> levels_split L' \<and> length L' = length L"
proof (induction cs L args pos rule: parseFlags.induct)
  case (2 cs L arg rest pos)
  show ?case
  proof (cases "token_of arg")
    case (FlagToken name val)
    show ?thesis
    proof (cases "parse_flag L arg name val rest")
      case (Inl er)
      then show ?thesis using 2(4,5) FlagToken by simp
    next
      case (Inr r)
      obtain L1 rest1 where r: "r = (L1, rest1)" by fastforce
      with Inr FlagToken 2(3)[OF FlagToken Inr r[symmetric]] 2(4,5) parse_flag_split[of L arg name val rest L1 rest1]
      show ?thesis by simp
    qed
  qed (use 2 in \<open>simp_all split: if_splits\<close>)
qed simp

lemma PostParse_split:
  assumes "PostParse env f = Inr f'" "flag_split f"
  shows "flag_split f'"
proof -
  have s: "flag_split g" if "sourced key val f v = Inr g" for key val v g
    using that flag_Set_split[OF _ assms(2)] by (auto simp: sourced_def flag_split_def split: sum.splits)
  have "from_sources env keys f = Inr g \<Longrightarrow> flag_split g" for keys g
    using assms(2) by (induction keys) (auto dest: s split: option.splits flag_value.splits if_splits)
  then show ?thesis using assms by (auto simp: PostParse_def split: if_splits)
qed

lemma post_parse_split: "post_parse env own = Inr own' \<Longrightarrow> list_all flag_split own \<Longrightarrow> list_all flag_split own'"
  by (induction own arbitrary: own') (auto dest: PostParse_split split: sum.splits)

lemma cmd_run_split:
  "cmd_run env c parents args = RunAction act L pos \<Longrightarrow> levels_split parents \<Longrightarrow> command_split c \<Longrightarrow> levels_split L"
proof (induction env c parents args rule: cmd_run.induct)
  case (1 env n al fs cs act' parents args)
  obtain L' pos' e where p: "parseFlags cs (map PreParse fs # parents) args [] = (L', pos', e)" by (metis prod_cases3)
  have "levels_split (map PreParse fs # parents)"
    using 1(3,4) by (auto simp: list_all_iff PreParse_def flag_split_def)
  from parseFlags_split[OF p this] have L': "list_all flag_split (hd L')" "levels_split (tl L')"
    by (cases L'; simp)+
  have e: "e = None" "\<not> checkHelp (hd L')" "\<not> (parents = [] \<and> checkVersion (hd L'))"
    using 1(2) p by (auto split: option.splits if_splits)
  obtain own where own: "post_parse env (hd L') = Inr own"
    using 1(2) p e by (auto split: sum.splits if_splits)
  then have L: "levels_split (own # tl L')" using post_parse_split[OF own L'(1)] L'(2) by simp
  have run: "(case pos' of [] \<Rightarrow> RunAction act' (own # tl L') []
      | a # as \<Rightarrow> (case find (HasName a) cs of Some sub \<Rightarrow> cmd_run env sub (own # tl L') as
                   | None \<Rightarrow> RunAction act' (own # tl L') pos')) = RunAction act L pos"
    using 1(2) p e own by (auto split: if_splits)
  show ?case
  proof (cases "pos' = [] \<or> find (HasName (hd pos')) cs = None")
    case True
    then show ?thesis using run L by (auto split: list.splits)
  next
    case False
    then obtain a as sub where f: "pos' = a # as" "find (HasName a) cs = Some sub" by (cases pos') auto
    then have "command_split sub" using 1(4) by (auto simp: list_all_iff find_Some_iff dest: nth_mem)
    then show ?thesis using 1(1) p e own f run L by simp
  qed
qed

lemma main_app_split: "command_split (main_app ver)"
  by (simp add: main_app_def setup_command_def cli_tables add_flag_def split_done_def help_command_def HasName_def)

lemma lookupFlag_in: "lookupFlag L name = Some f \<Longrightarrow> \<exists>l \<in> set L. f \<in> set l"
  by (induction L) (auto simp: lFlag_def find_Some_iff split: option.splits dest: nth_mem)

lemma cli_StringSlice_in:
  assumes "a \<in> set (cli_StringSlice L name)"
  shows "\<exists>f xs. lookupFlag L name = Some f \<and> fsCur f = SliceValue xs \<and> a \<in> set xs"
proof (cases "lookupFlag L name")
  case (Some f)
  with assms show ?thesis by (cases "fsCur f") (simp_all add: cli_StringSlice_def)
qed (use assms in \<open>simp add: cli_StringSlice_def\<close>)

text \<open>
  C35: No command line passes a port argument with a comma to the process manager. The process manager splits a port
  argument at commas, after it has appended a port, which is how one port argument becomes several arguments of the
  program; the usage of \<^verbatim>\<open>--port-args\<close> says so. But the command line has split the value at its commas already, each
  part is a port argument of its own, and the process manager appends a port to each of them and splits none.
\<close>

theorem port_args_split_early:
  assumes "main_run ver env osArgs = RunAction act L args" "a \<in> set (pfPortArgs (read_process_flags L args))"
  shows "CHR '','' \<notin> set a \<and> strings_Split (CHR '','') (a @ strconv_Itoa port) = [a @ strconv_Itoa port]"
proof -
  have L: "levels_split L" using cmd_run_split[OF assms(1)[unfolded main_run_def]] main_app_split by simp
  obtain f xs where f: "lookupFlag L ''port-args'' = Some f" "fsCur f = SliceValue xs" and xs: "a \<in> set xs"
    using cli_StringSlice_in[of a L "''port-args''"] assms(2) by (auto simp: read_process_flags_def)
  from lookupFlag_in[OF f(1)] L have "flag_split f" by (auto simp: list_all_iff)
  then have a: "CHR '','' \<notin> set a" using f(2) xs by (auto simp: flag_split_def split_done_def list_all_iff)
  moreover have "CHR '','' \<notin> set (strconv_Itoa port)" by (auto simp: strconv_Itoa_def nat_digits_not_sign)
  ultimately show ?thesis by simp
qed

definition w_listen :: "string list" where
  "w_listen = [''instance-manager'', ''process'', ''create'', ''--name'', ''p'', ''--binary'', ''b'', ''--port-count'', ''1'',
     ''--port-args'', ''--listen,localhost:'']"

fun outcome_state :: "cli_outcome \<Rightarrow> (cli_action \<times> flag_state list list \<times> string list) option" where
  "outcome_state (RunAction act L args) = Some (act, L, args)"
| "outcome_state _ = None"

lemma outcome_state_Some: "outcome_state r = Some (act, L, args) \<longleftrightarrow> r = RunAction act L args"
  by (cases r) auto

theorem port_args_split_early_witness:
  "\<exists>L. main_run '''' (\<lambda>_. None) w_listen = RunAction CreateAction L []
     \<and> pfPortArgs (read_process_flags L []) = [''--listen'', ''localhost:'']
     \<and> strings_Split (CHR '','') (''localhost:'' @ strconv_Itoa 10001) = [''localhost:'' @ strconv_Itoa 10001]"
proof -
  define r where "r = main_run '''' (\<lambda>_. None) w_listen"
  have e: "map_option (\<lambda>(act, L, args). (act, pfPortArgs (read_process_flags L []), args)) (outcome_state r)
      = Some (CreateAction, [''--listen'', ''localhost:''], [])"
    unfolding r_def by code_simp
  then obtain L where L: "main_run '''' (\<lambda>_. None) w_listen = RunAction CreateAction L []"
      "pfPortArgs (read_process_flags L []) = [''--listen'', ''localhost:'']"
    by (auto simp: outcome_state_Some r_def)
  with port_args_split_early[OF L(1), of "''localhost:''" 10001] show ?thesis by simp
qed

section \<open>A command line says what it is given\<close>

text \<open>Without flags the actions get the default values the other theories start from.\<close>

lemma command_defaults:
  "map_option (\<lambda>(act, L, args). (act, start_flags L, main_Before L)) (outcome_state (main_run '''' (\<lambda>_. None) [''im'', ''daemon'']))
     = Some (StartAction, StartCmd_defaults, False)"
  "map_option (\<lambda>(act, L, args). (act, read_process_flags L args, client_flags L))
       (outcome_state (main_run '''' (\<lambda>_. None) [''im'', ''process'', ''replace'']))
     = Some (ReplaceAction, process_defaults, main_defaults)"
  by code_simp+

text \<open>The flags of the program are its own: after a command they are unknown.\<close>

lemma url_after_command: "main_run '''' (\<lambda>_. None) [''im'', ''process'', ''ls'', ''--url'', ''host:8500'']
    = CliError (PlainError ''flag provided but not defined: -url'')"
  by code_simp

lemma TrimSpace_prefix:
  assumes "p \<noteq> []" "\<not> is_space (hd p)" "\<not> is_space (last p)"
  shows "\<exists>v'. strings_TrimSpace (p @ v) = p @ v'"
proof -
  obtain q where q: "rev p = last p # q" using assms(1) by (metis append_butlast_last_id rev_eq_Cons_iff rev_rev_ident)
  have "dropWhile is_space (p @ v) = p @ v" using assms by (cases p) simp_all
  moreover have "\<exists>w. dropWhile is_space (rev v @ rev p) = w @ rev p"
    using assms(3) by (induction "rev v") (simp_all add: q dropWhile_append)
  ultimately show ?thesis by (auto simp: strings_TrimSpace_def)
qed

lemma token_of_flag:
  assumes "CHR ''='' \<notin> set n"
  shows "token_of (''--'' @ n @ CHR ''='' # v) = FlagToken n (Some v)"
proof -
  obtain v' where v': "strings_TrimSpace ((''--'' @ n @ ''='') @ v) = (''--'' @ n @ ''='') @ v'"
    using TrimSpace_prefix[of "''--'' @ n @ ''=''" v] by (auto simp: is_space_def)
  have "strings_Cut (''--'' @ n @ CHR ''='' # v) CHR ''='' = (''--'' @ n, v, True)"
    using assms strings_Cut_found[of "CHR ''=''" "''--'' @ n" v] by simp
  then show ?thesis using v' assms strings_Cut_found[of "CHR ''=''" n v'] by (simp add: token_of_def flag_token_def Let_def)
qed

lemma parse_uint_append:
  "parse_uint b (xs @ ys) n = (case parse_uint b xs n of Inl e \<Rightarrow> Inl e | Inr m \<Rightarrow> parse_uint b ys m)"
  by (induction xs arbitrary: n) (auto split: option.splits)

lemma digit_char_facts: "d < 10 \<Longrightarrow> alnum_val (digit_char d) = Some d" "d < 10 \<Longrightarrow> digit_char d \<noteq> CHR ''_''"
  using digit_char_code[of d] by (auto simp: alnum_val_def)

lemma parse_uint_digits: "n \<le> 9223372036854775808 \<Longrightarrow> parse_uint 10 (nat_digits n) 0 = Inr (int n)"
proof (induction n rule: nat_digits.induct)
  case (1 n)
  have "int (n div 10) * 10 + int (n mod 10) = int n" by presburger
  with 1 show ?case
    by (cases "n < 10") (simp_all add: nat_digits.simps[of n] parse_uint_append digit_char_facts)
qed

lemma nat_digits_hd_nonzero: "0 < n \<Longrightarrow> hd (nat_digits n) \<noteq> CHR ''0''"
proof (induction n rule: nat_digits.induct)
  case (1 n)
  show ?case
  proof (cases "n < 10")
    case True
    then show ?thesis using 1(2) digit_char_code[of n] by (auto simp: nat_digits.simps[of n])
  next
    case False
    then show ?thesis using 1 by (simp add: nat_digits.simps[of n])
  qed
qed

lemma base_of_digits: "0 < n \<Longrightarrow> base_of (nat_digits n) = (10, nat_digits n)"
  using nat_digits_hd_nonzero[of n] by (cases "nat_digits n") (simp_all add: base_of_def)

lemma ParseUint_digits: "n \<le> 9223372036854775808 \<Longrightarrow> ParseUint (nat_digits n) = Inr (int n)"
proof (cases "n = 0")
  case True
  have "digit_char 0 = CHR ''0''" by code_simp
  with True show ?thesis by (simp add: nat_digits.simps[of 0] ParseUint_def base_of_def)
next
  case False
  assume n: "n \<le> 9223372036854775808"
  have "CHR ''_'' \<notin> set (nat_digits n)" by (rule nat_digits_no_char) simp
  then show ?thesis using False parse_uint_digits[OF n] base_of_digits[of n] by (simp add: ParseUint_def)
qed

lemma ParseInt_Itoa: "is_int64 i \<Longrightarrow> strconv_ParseInt (strconv_Itoa i) = Inr i"
proof -
  assume i: "is_int64 i"
  show ?thesis
  proof (cases "i < 0")
    case True
    then have "nat (- i) \<le> 9223372036854775808" using i by (simp add: is_int64_def)
    with ParseUint_digits[of "nat (- i)"] True i show ?thesis by (simp add: strconv_ParseInt_def strconv_Itoa_def)
  next
    case False
    have "nat i \<le> 9223372036854775808" using i by (simp add: is_int64_def nat_le_iff)
    moreover obtain c cs where d: "nat_digits (nat i) = c # cs" using nat_digits_nonempty by (meson list.exhaust)
    ultimately show ?thesis using ParseUint_digits[of "nat i"] nat_digits_hd[OF d] False i
      by (simp add: strconv_ParseInt_def strconv_Itoa_def)
  qed
qed

text \<open>The flags of \<^verbatim>\<open>process create\<close> while it reads its arguments.\<close>

definition slice_state :: "string list \<Rightarrow> flag_state" where
  "slice_state xs = \<lparr>fsFlag = StringSliceFlag ''port-args'', fsCur = SliceValue xs, fsSet = (xs \<noteq> []), fsFromSource = False\<rparr>"

definition given :: "cli_flag \<Rightarrow> flag_value \<Rightarrow> flag_state" where
  "given f v = \<lparr>fsFlag = f, fsCur = v, fsSet = True, fsFromSource = False\<rparr>"

definition create_level :: "string \<Rightarrow> string \<Rightarrow> int \<Rightarrow> string list \<Rightarrow> flag_state list" where
  "create_level name binary n pas =
     [given (StringFlag ''name'' '''') (StringValue name), given (StringFlag ''binary'' '''') (StringValue binary),
      given (IntFlag ''port-count'') (IntValue n), slice_state pas, PreParse HelpFlag]"

lemmas parse_simps = parse_flag_def lookupAppliedFlag_def appliedFlags_def fs_names_def is_bool_flag_def cmd_set_def
  flag_Set_def value_Set_def Let_def PreParse_def cli_tables given_def slice_state_def

lemma create_port_args:
  assumes "\<forall>a \<in> set pas. CHR '','' \<notin> set a"
  shows "parseFlags cs (create_level name binary n xs # ps) (map (\<lambda>a. ''--port-args='' @ a) pas @ ''--'' # args) []
    = (create_level name binary n (xs @ pas) # ps, args, None)"
  using assms
proof (induction pas arbitrary: xs)
  case Nil
  then show ?case by (simp add: token_of_def strings_TrimSpace_def is_space_def)
next
  case (Cons a pas)
  have "parse_flag (create_level name binary n xs # ps) arg ''port-args'' (Some a) rest
      = Inr (create_level name binary n (xs @ [a]) # ps, rest)" for arg rest
    using Cons.prems by (simp add: create_level_def parse_simps)
  then show ?case using Cons token_of_flag[of "''port-args''" a] by (simp del: strings_Split.simps)
qed

definition create_args :: "string \<Rightarrow> string \<Rightarrow> int \<Rightarrow> string list \<Rightarrow> string list \<Rightarrow> string list" where
  "create_args name binary n pas args = [''--name='' @ name, ''--binary='' @ binary, ''--port-count='' @ strconv_Itoa n]
     @ map (\<lambda>a. ''--port-args='' @ a) pas @ ''--'' # args"

lemma create_args_parsed:
  assumes "is_int64 n" "\<forall>a \<in> set pas. CHR '','' \<notin> set a"
  shows "parseFlags cs (map PreParse (add_flag HelpFlag (cmFlags ProcessCreateCmd)) # ps) (create_args name binary n pas args) []
    = (create_level name binary n pas # ps, args, None)"
proof -
  have "parseFlags cs (map PreParse (add_flag HelpFlag (cmFlags ProcessCreateCmd)) # ps) (create_args name binary n pas args) []
      = parseFlags cs (create_level name binary n [] # ps) (map (\<lambda>a. ''--port-args='' @ a) pas @ ''--'' # args) []"
    using token_of_flag[of "''name''" name] token_of_flag[of "''binary''" binary] token_of_flag[of "''port-count''" "strconv_Itoa n"]
      ParseInt_Itoa[OF assms(1)] by (simp add: create_args_def parse_simps add_flag_def create_level_def)
  then show ?thesis using create_port_args[OF assms(2)] by simp
qed

lemma create_run:
  assumes "is_int64 n" "\<forall>a \<in> set pas. CHR '','' \<notin> set a" "ps \<noteq> []"
  shows "cmd_run env (ensureHelp ProcessCreateCmd) ps (create_args name binary n pas args)
    = (if args \<noteq> [] \<and> HasName (hd args) help_command
       then cmd_run env help_command (create_level name binary n pas # ps) (tl args)
       else RunAction CreateAction (create_level name binary n pas # ps) args)"
proof -
  have c: "ensureHelp ProcessCreateCmd = CliCommand ''create'' [] (add_flag HelpFlag (cmFlags ProcessCreateCmd)) [help_command] CreateAction"
    by (simp add: ProcessCreateCmd_def)
  have h: "checkHelp (create_level name binary n pas) = False"
    and p: "post_parse env (create_level name binary n pas) = Inr (create_level name binary n pas)"
    by (simp_all add: create_level_def checkHelp_def lFlag_def parse_simps PostParse_def)
  show ?thesis
    unfolding c cmd_run.simps create_args_parsed[OF assms(1,2)] using assms(3)
    by (simp add: h p split: list.splits)
qed

text \<open>The flags of the program, and of a command without flags, around it.\<close>

definition root_level :: "string \<Rightarrow> (string \<Rightarrow> string option) \<Rightarrow> string \<Rightarrow> flag_state list" where
  "root_level ver env url =
     [given ((StringFlag ''url'' ''tcp://localhost:8500'')\<lparr>flLocal := True\<rparr>) (StringValue url),
      PreParse ((BoolFlag ''debug'')\<lparr>flLocal := True\<rparr>),
      (let f = (StringFlag ''tls-dir'' '''')\<lparr>flLocal := True, flSources := [''TLS_DIR'']\<rparr> in
       case env ''TLS_DIR'' of None \<Rightarrow> PreParse f | Some dir \<Rightarrow> (given f (StringValue dir))\<lparr>fsFromSource := True\<rparr>),
      PreParse HelpFlag] @ (if ver = '''' then [] else [PreParse VersionFlag])"

lemma process_run:
  assumes "ps \<noteq> []"
  shows "cmd_run env (ensureHelp ProcessCmd) ps (''create'' # rest)
    = cmd_run env (ensureHelp ProcessCreateCmd) ([PreParse HelpFlag] # ps) rest"
proof -
  have "token_of ''create'' = Word ''create''" by code_simp
  then show ?thesis using assms
    by (simp add: ProcessCmd_def ProcessCreateCmd_def add_flag_def HasName_def checkHelp_def lFlag_def fs_names_def
        PreParse_def HelpFlag_def BoolFlag_def PostParse_def)
qed

lemma HasName_ensureHelp [simp]: "HasName n (ensureHelp c) = HasName n c"
  by (cases c) (simp add: HasName_def)

definition root_flags :: "string \<Rightarrow> cli_flag list" where
  "root_flags ver = cmFlags main_cmd @ [HelpFlag] @ (if ver = '''' then [] else [VersionFlag])"

lemma main_app_shape:
  "main_app ver = CliCommand '''' [] (root_flags ver) [ensureHelp StartCmd, ensureHelp ProcessCmd, ensureHelp VersionCmd, help_command]
     HelpAction"
proof -
  have "add_flag HelpFlag (cmFlags main_cmd) = cmFlags main_cmd @ [HelpFlag]"
    "add_flag VersionFlag (cmFlags main_cmd @ [HelpFlag]) = cmFlags main_cmd @ [HelpFlag, VersionFlag]"
    by (simp_all add: add_flag_def cli_tables)
  moreover have "\<not> list_ex (HasName ''help'') [StartCmd, ProcessCmd, VersionCmd]"
    by (simp add: HasName_def StartCmd_def ProcessCmd_def VersionCmd_def)
  ultimately show ?thesis
    by (simp add: main_app_def setup_command_def root_flags_def main_cmd_def)
qed

lemma root_parsed:
  "parseFlags [ensureHelp StartCmd, ensureHelp ProcessCmd, ensureHelp VersionCmd, help_command] [map PreParse (root_flags ver)]
     ((''--url='' @ url) # ''process'' # rest) []
   = ([root_level ver (\<lambda>_. None) url], ''process'' # rest, None)"
proof -
  have w: "token_of ''process'' = Word ''process''" by code_simp
  have "parse_flag [map PreParse (root_flags ver)] arg ''url'' (Some url) r = Inr ([root_level ver (\<lambda>_. None) url], r)" for arg r
    by (simp add: root_flags_def main_cmd_def parse_simps root_level_def)
  then show ?thesis using token_of_flag[of "''url''" url] w by (simp add: HasName_def ProcessCmd_def)
qed

lemma root_run:
  "main_run ver env (prog # (''--url='' @ url) # ''process'' # rest)
    = cmd_run env (ensureHelp ProcessCmd) [root_level ver env url] rest"
proof -
  have w: "strings_TrimSpace ''TLS_DIR'' = ''TLS_DIR''" by code_simp
  have p: "post_parse env (root_level ver (\<lambda>_. None) url) = Inr (root_level ver env url)"
    by (simp add: root_level_def PostParse_def sourced_def parse_simps w split: option.splits)
  have c: "checkHelp (root_level ver (\<lambda>_. None) url) = False" "checkVersion (root_level ver (\<lambda>_. None) url) = False"
    by (simp_all add: root_level_def checkHelp_def checkVersion_def lFlag_def parse_simps)
  have f: "find (HasName ''process'') [ensureHelp StartCmd, ensureHelp ProcessCmd, ensureHelp VersionCmd, help_command] = Some (ensureHelp ProcessCmd)"
    by (simp add: HasName_def ProcessCmd_def StartCmd_def)
  show ?thesis
    unfolding main_run_def list.sel main_app_shape cmd_run.simps root_parsed
    by (simp add: p c f del: find.simps)
qed



end
