(* ===== verification/Health_Probe.thy ===== *)
theory Health_Probe
  imports IM_Types
begin

text \<open>
  \<^verbatim>\<open>pkg/health\<close>: the answers of the five services to the gRPC health protocol. The object behind a service is a
  pointer, so it may be nil (\<open>None\<close>). \<^verbatim>\<open>Watch\<close> is a loop without an exit; \<open>send\<close> is what the stream answers to
  the message of each round.
\<close>

section \<open>Answers\<close>

datatype ServingStatus = SERVING | NOT_SERVING

fun ServingStatus_String :: "ServingStatus \<Rightarrow> string" where
  "ServingStatus_String SERVING = ''SERVING''"
| "ServingStatus_String NOT_SERVING = ''NOT_SERVING''"

text \<open>\<^verbatim>\<open>Check\<close> returns a response and an error side by side; \<^verbatim>\<open>List\<close> returns a map of statuses.\<close>

type_synonym check_answer = "ServingStatus \<times> go_error option"

definition serving :: "'s option \<Rightarrow> ServingStatus" where
  "serving server = (case server of Some _ \<Rightarrow> SERVING | None \<Rightarrow> NOT_SERVING)"

definition check_server :: "string \<Rightarrow> 's option \<Rightarrow> check_answer" where
  "check_server message server =
     (case server of Some _ \<Rightarrow> (SERVING, None) | None \<Rightarrow> (NOT_SERVING, Some (PlainError message)))"

definition list_statuses :: "(string \<times> ServingStatus) list" where
  "list_statuses = [(''grpc'', SERVING)]"

text \<open>The state of a watch: the rounds done, the statuses the stream has accepted and the lines
  logged, each with its error.\<close>

record health_watch =
  hwRound :: nat
  hwSent :: "ServingStatus list"
  hwLogged :: "(string \<times> go_error) list"

definition watch_round :: "string \<Rightarrow> (nat \<Rightarrow> go_error option) \<Rightarrow> 's option \<Rightarrow> health_watch \<Rightarrow> health_watch" where
  "watch_round service send server w =
     (case send (hwRound w) of
        None \<Rightarrow> w\<lparr>hwRound := Suc (hwRound w), hwSent := hwSent w @ [serving server]\<rparr>
      | Some e \<Rightarrow> w\<lparr>hwRound := Suc (hwRound w), hwLogged := hwLogged w @
          [(''Failed to send health check result '' @ ServingStatus_String (serving server) @ '' for '' @ service, e)]\<rparr>)"

partial_function (option) watch_forever ::
  "string \<Rightarrow> (nat \<Rightarrow> go_error option) \<Rightarrow> 's option \<Rightarrow> health_watch \<Rightarrow> go_error option option" where
  "watch_forever service send server w = watch_forever service send server (watch_round service send server w)"

definition watch_start :: health_watch where
  "watch_start = \<lparr>hwRound = 0, hwSent = [], hwLogged = []\<rparr>"

section \<open>The five services\<close>

definition CheckServer_Check :: "'pm option \<Rightarrow> check_answer" where
  "CheckServer_Check = check_server ''engine Manager or Process Manager or Instance Manager is not running''"

definition CheckServer_round :: "(nat \<Rightarrow> go_error option) \<Rightarrow> 'pm option \<Rightarrow> health_watch \<Rightarrow> health_watch" where
  "CheckServer_round = watch_round ''gRPC process management server''"

definition CheckServer_Watch :: "(nat \<Rightarrow> go_error option) \<Rightarrow> 'pm option \<Rightarrow> go_error option option" where
  "CheckServer_Watch send pl = watch_forever ''gRPC process management server'' send pl watch_start"

definition CheckServer_List :: "'pm option \<Rightarrow> (string \<times> ServingStatus) list" where
  "CheckServer_List pl = list_statuses"

definition CheckDiskServer_Check :: "'d option \<Rightarrow> check_answer" where
  "CheckDiskServer_Check = check_server ''server or instance manager is not running''"

definition CheckDiskServer_round :: "(nat \<Rightarrow> go_error option) \<Rightarrow> 'd option \<Rightarrow> health_watch \<Rightarrow> health_watch" where
  "CheckDiskServer_round = watch_round DiskGrpcService"

definition CheckDiskServer_Watch :: "(nat \<Rightarrow> go_error option) \<Rightarrow> 'd option \<Rightarrow> go_error option option" where
  "CheckDiskServer_Watch send server = watch_forever DiskGrpcService send server watch_start"

definition CheckDiskServer_List :: "'d option \<Rightarrow> (string \<times> ServingStatus) list" where
  "CheckDiskServer_List server = list_statuses"

definition CheckInstanceServer_Check :: "'i option \<Rightarrow> check_answer" where
  "CheckInstanceServer_Check = check_server ''server or instance manager is not running''"

definition CheckInstanceServer_round :: "(nat \<Rightarrow> go_error option) \<Rightarrow> 'i option \<Rightarrow> health_watch \<Rightarrow> health_watch" where
  "CheckInstanceServer_round = watch_round InstanceGrpcService"

definition CheckInstanceServer_Watch :: "(nat \<Rightarrow> go_error option) \<Rightarrow> 'i option \<Rightarrow> go_error option option" where
  "CheckInstanceServer_Watch send server = watch_forever InstanceGrpcService send server watch_start"

definition CheckInstanceServer_List :: "'i option \<Rightarrow> (string \<times> ServingStatus) list" where
  "CheckInstanceServer_List server = list_statuses"

definition CheckProxyServer_Check :: "'p option \<Rightarrow> check_answer" where
  "CheckProxyServer_Check = check_server ''proxy or instance manager is not running''"

definition CheckProxyServer_round :: "(nat \<Rightarrow> go_error option) \<Rightarrow> 'p option \<Rightarrow> health_watch \<Rightarrow> health_watch" where
  "CheckProxyServer_round = watch_round ProxyGRPCService"

definition CheckProxyServer_Watch :: "(nat \<Rightarrow> go_error option) \<Rightarrow> 'p option \<Rightarrow> go_error option option" where
  "CheckProxyServer_Watch send proxy = watch_forever ProxyGRPCService send proxy watch_start"

definition CheckProxyServer_List :: "'p option \<Rightarrow> (string \<times> ServingStatus) list" where
  "CheckProxyServer_List proxy = list_statuses"

definition CheckSPDKServer_Check :: "'s option \<Rightarrow> check_answer" where
  "CheckSPDKServer_Check = check_server ''server or instance manager is not running''"

definition CheckSPDKServer_round :: "(nat \<Rightarrow> go_error option) \<Rightarrow> 's option \<Rightarrow> health_watch \<Rightarrow> health_watch" where
  "CheckSPDKServer_round = watch_round SpdkGrpcService"

definition CheckSPDKServer_Watch :: "(nat \<Rightarrow> go_error option) \<Rightarrow> 's option \<Rightarrow> go_error option option" where
  "CheckSPDKServer_Watch send server = watch_forever SpdkGrpcService send server watch_start"

definition CheckSPDKServer_List :: "'s option \<Rightarrow> (string \<times> ServingStatus) list" where
  "CheckSPDKServer_List server = list_statuses"

section \<open>The contract\<close>

text \<open>A loop without an exit has no result.\<close>

lemma watch_forever_returns_not: "watch_forever service send server w = Some r \<Longrightarrow> False"
  by (rule watch_forever.raw_induct[where P = "\<lambda>service send server w r. False"]) blast+

lemma watch_forever_None: "watch_forever service send server w = None"
  using watch_forever_returns_not by (metis not_None_eq)

text \<open>After \<open>n\<close> rounds: one message for every round the stream took, one line in the log for every other.\<close>

lemma watch_rounds:
  "hwRound ((watch_round service send server ^^ n) watch_start) = n
   \<and> hwSent ((watch_round service send server ^^ n) watch_start)
       = replicate (length (filter (\<lambda>m. send m = None) [0..<n])) (serving server)
   \<and> length (hwLogged ((watch_round service send server ^^ n) watch_start))
       = length (filter (\<lambda>m. send m \<noteq> None) [0..<n])"
proof (induction n)
  case (Suc n)
  then show ?case
    by (cases "send n") (simp_all add: watch_round_def replicate_append_same)
qed (simp add: watch_start_def)

text \<open>
  What the health protocol of a service promises: the check is the status of the object behind it, with an error
  when that is missing, and each round of the watch sends the same status.
\<close>

locale health_service =
  fixes Check :: "'s option \<Rightarrow> check_answer"
    and round :: "(nat \<Rightarrow> go_error option) \<Rightarrow> 's option \<Rightarrow> health_watch \<Rightarrow> health_watch"
    and Watch :: "(nat \<Rightarrow> go_error option) \<Rightarrow> 's option \<Rightarrow> go_error option option"
    and message service :: string
  assumes Check: "Check server = check_server message server"
    and round: "round = watch_round service"
    and Watch: "Watch send server = watch_forever service send server watch_start"
begin

lemma check_status: "fst (Check server) = serving server" "snd (Check server) = None \<longleftrightarrow> server \<noteq> None"
  by (simp_all add: Check check_server_def serving_def split: option.splits)

lemma watch_goes_on:
  "Watch send server = None
   \<and> hwSent ((round send server ^^ n) watch_start)
       = replicate (length (filter (\<lambda>m. send m = None) [0..<n])) (fst (Check server))
   \<and> length (hwLogged ((round send server ^^ n) watch_start)) = length (filter (\<lambda>m. send m \<noteq> None) [0..<n])"
  using watch_rounds[of n service send server] by (simp add: round Watch watch_forever_None check_status)

end

interpretation pm_health: health_service CheckServer_Check CheckServer_round CheckServer_Watch
  "''engine Manager or Process Manager or Instance Manager is not running''" "''gRPC process management server''"
  by unfold_locales (simp_all add: CheckServer_Check_def CheckServer_round_def CheckServer_Watch_def)

interpretation disk_health: health_service CheckDiskServer_Check CheckDiskServer_round CheckDiskServer_Watch
  "''server or instance manager is not running''" DiskGrpcService
  by unfold_locales (simp_all add: CheckDiskServer_Check_def CheckDiskServer_round_def CheckDiskServer_Watch_def)

interpretation instance_health: health_service CheckInstanceServer_Check CheckInstanceServer_round
  CheckInstanceServer_Watch "''server or instance manager is not running''" InstanceGrpcService
  by unfold_locales
    (simp_all add: CheckInstanceServer_Check_def CheckInstanceServer_round_def CheckInstanceServer_Watch_def)

interpretation proxy_health: health_service CheckProxyServer_Check CheckProxyServer_round CheckProxyServer_Watch
  "''proxy or instance manager is not running''" ProxyGRPCService
  by unfold_locales (simp_all add: CheckProxyServer_Check_def CheckProxyServer_round_def CheckProxyServer_Watch_def)

interpretation spdk_health: health_service CheckSPDKServer_Check CheckSPDKServer_round CheckSPDKServer_Watch
  "''server or instance manager is not running''" SpdkGrpcService
  by unfold_locales (simp_all add: CheckSPDKServer_Check_def CheckSPDKServer_round_def CheckSPDKServer_Watch_def)

text \<open>The list does not look at the object: it disagrees with the check when that is missing.\<close>

lemma list_ignores_server:
  "map_of (CheckServer_List server) ''grpc'' = Some SERVING" "fst (CheckServer_Check None) = NOT_SERVING"
  by (simp_all add: CheckServer_List_def list_statuses_def CheckServer_Check_def check_server_def)

text \<open>
  A watch of the health of the process manager never ends. Every round says what a check would say, and
  a stream that fails, for once or for good, changes nothing but the log: after \<open>n\<close> rounds there is one message
  for every round the stream took and one line in the log for every other, and the handler does not return.
\<close>

theorem health_watch_never_ends:
  "CheckServer_Watch send pl = None
   \<and> hwSent ((CheckServer_round send pl ^^ n) watch_start)
       = replicate (length (filter (\<lambda>m. send m = None) [0..<n])) (fst (CheckServer_Check pl))
   \<and> length (hwLogged ((CheckServer_round send pl ^^ n) watch_start)) = length (filter (\<lambda>m. send m \<noteq> None) [0..<n])"
  by (rule pm_health.watch_goes_on)

end
