(* ===== verification/Client_Streams.thy ===== *)
theory Client_Streams
  imports Process_Log Instance_Properties Instance_Client_Log Health_Probe
begin

text \<open>
  The streams and the connection check of the clients: \<^verbatim>\<open>InstanceLog\<close>, \<^verbatim>\<open>InstanceWatch\<close>, \<^verbatim>\<open>ProcessWatch\<close>,
  \<^verbatim>\<open>SPDKBackingImageWatch\<close> and \<^verbatim>\<open>CheckConnection\<close> under \<^verbatim>\<open>pkg/client\<close>, and the stream types of \<^verbatim>\<open>pkg/api\<close>. A stream of the
  gRPC library is its \<^verbatim>\<open>Recv\<close>, a call on the state of the stream; the types of \<^verbatim>\<open>pkg/api\<close> wrap it.
\<close>

section \<open>Streams\<close>

record LogResponse =
  lrLine :: string

definition LogStream_Recv :: "('st, LogResponse) remote \<Rightarrow> ('st, string) remote" where
  "LogStream_Recv stream = r_map lrLine stream"

definition ProcessStream_Recv :: "('st, ProcessResponse) remote \<Rightarrow> ('st, ProcessResponse) remote" where
  "ProcessStream_Recv stream = stream"

definition InstanceStream_Recv :: "('st, unit) remote \<Rightarrow> ('st, unit) remote" where
  "InstanceStream_Recv stream = stream"

definition ReplicaStream_Recv :: "('st, unit) remote \<Rightarrow> ('st, unit) remote" where
  "ReplicaStream_Recv stream = stream"

definition EngineStream_Recv :: "('st, unit) remote \<Rightarrow> ('st, unit) remote" where
  "EngineStream_Recv stream = stream"

definition BackingImageStream_Recv :: "('st, unit) remote \<Rightarrow> ('st, unit) remote" where
  "BackingImageStream_Recv stream = stream"

text \<open>Opening a stream; \<open>service\<close> is the call of the generated client, whose result is the state of the stream.\<close>

definition client_InstanceLog ::
  "(InstanceRequest \<Rightarrow> ('s, 'st) remote) \<Rightarrow> string \<Rightarrow> string \<Rightarrow> string \<Rightarrow> ('s, 'st) remote" where
  "client_InstanceLog service dataEngine name instanceType =
     (if name = '''' then r_err (PlainError ''failed to get instance: missing required parameter name'')
      else with_driver ''log instance'' dataEngine (\<lambda>d.
        r_map_err (WrapError (''failed to get instance log of '' @ name))
          (service \<lparr>iqName = name, iqType = instanceType, iqDataEngine = d\<rparr>)))"

definition client_InstanceWatch :: "('s, 'st) remote \<Rightarrow> ('s, 'st) remote" where
  "client_InstanceWatch service = r_map_err (WrapError ''failed to open instance update stream'') service"

definition pmc_ProcessWatch :: "('s, 'st) remote \<Rightarrow> ('s, 'st) remote" where
  "pmc_ProcessWatch service = r_map_err (WrapError ''failed to open process update stream'') service"

definition client_SPDKBackingImageWatch :: "('s, 'st) remote \<Rightarrow> ('s, 'st) remote" where
  "client_SPDKBackingImageWatch service = r_map_err (WrapError ''failed to open backing image update stream'') service"

section \<open>Checking a connection\<close>

text \<open>The status in the answer is not looked at, only the error.\<close>

definition pmc_CheckConnection :: "('s, ServingStatus) remote \<Rightarrow> ('s, unit) remote" where
  "pmc_CheckConnection check = r_map (\<lambda>_. ()) check"

definition client_CheckConnection :: "('s, ServingStatus) remote \<Rightarrow> ('s, unit) remote" where
  "client_CheckConnection check = r_map (\<lambda>_. ()) check"

definition disk_CheckConnection :: "('s, ServingStatus) remote \<Rightarrow> ('s, unit) remote" where
  "disk_CheckConnection check = r_map (\<lambda>_. ()) check"

definition proxy_CheckConnection :: "('s, ServingStatus) remote \<Rightarrow> ('s, unit) remote" where
  "proxy_CheckConnection check = r_map (\<lambda>_. ()) check"

text \<open>The health service of a server behind a connection: an error takes the place of the answer.\<close>

definition served_check :: "check_answer \<Rightarrow> ('s, ServingStatus) remote" where
  "served_check a = over_wire (\<lambda>s. (s, case a of (status, None) \<Rightarrow> Ok status | (_, Some e) \<Rightarrow> Err e))"

text \<open>
  The check succeeds exactly when the server behind the connection exists, for each service.
\<close>

lemma connection_checked:
  "snd (pmc_CheckConnection (served_check (CheckServer_Check pl)) s) = Ok () \<longleftrightarrow> pl \<noteq> None"
  "snd (client_CheckConnection (served_check (CheckInstanceServer_Check i)) s) = Ok () \<longleftrightarrow> i \<noteq> None"
  "snd (disk_CheckConnection (served_check (CheckDiskServer_Check d)) s) = Ok () \<longleftrightarrow> d \<noteq> None"
  "snd (proxy_CheckConnection (served_check (CheckProxyServer_Check p)) s) = Ok () \<longleftrightarrow> p \<noteq> None"
  by (simp_all add: pmc_CheckConnection_def client_CheckConnection_def
      disk_CheckConnection_def proxy_CheckConnection_def served_check_def over_wire_def r_map_apply r_map_err_apply CheckServer_Check_def
      CheckInstanceServer_Check_def CheckDiskServer_Check_def CheckProxyServer_Check_def check_server_def split: option.splits)

section \<open>The log of an instance from end to end\<close>

text \<open>
  A stream the other side has served: the messages in order, then the end or the error of the handler. Opening it does
  not fail; an error of the handler arrives with the first message.
\<close>

definition io_EOF :: go_error where "io_EOF = PlainError ''EOF''"

fun stream_recv :: "(go_error + 'a) list \<Rightarrow> (go_error + 'a) list \<times> 'a go_result" where
  "stream_recv [] = ([], Err io_EOF)"
| "stream_recv (Inl e # rest) = (Inl e # rest, Err e)"
| "stream_recv (Inr x # rest) = (rest, Ok x)"

definition served_log ::
  "('s, string list \<times> unit go_result) remote \<Rightarrow> ('s, (go_error + LogResponse) list) remote" where
  "served_log handle = (\<lambda>s. case handle s of
     (s', Ok (sent, r)) \<Rightarrow> (s', Ok (map (\<lambda>l. Inr \<lparr>lrLine = l\<rparr>) sent @ (case r of Err e \<Rightarrow> [Inl (wire_error e)] | _ \<Rightarrow> [])))
   | (s', Err e) \<Rightarrow> (s', Ok [Inl (wire_error e)])
   | (s', Panic) \<Rightarrow> (s', Panic)
   | (s', Diverge) \<Rightarrow> (s', Diverge))"

text \<open>
  The process manager's side: the handler finds the process and ends in the state \<open>st\<close> of its run with the goroutine.
\<close>

definition manager_log :: "Manager \<Rightarrow> string \<Rightarrow> string list \<Rightarrow> log_state \<Rightarrow> (go_error + string) list" where
  "manager_log pm name lines st = (case ProcessLog pm name (Ok lines) of
     Err e \<Rightarrow> [Inl (wire_error e)]
   | _ \<Rightarrow> map Inr (lsSent st) @ (case lsHandler st of Returned (Err e) \<Rightarrow> [Inl (wire_error e)] | _ \<Rightarrow> []))"

primrec recv_n :: "nat \<Rightarrow> ('st, 'a) remote \<Rightarrow> ('st, 'a list) remote" where
  "recv_n 0 recv = r_ok []"
| "recv_n (Suc n) recv = r_bind recv (\<lambda>x. r_map (Cons x) (recv_n n recv))"

lemma recv_n_lines:
  "recv_n (length lines) (LogStream_Recv stream_recv) (map (\<lambda>l. Inr \<lparr>lrLine = l\<rparr>) lines) = ([], Ok lines)"
  by (induction lines) (simp_all add: LogStream_Recv_def r_map_apply r_bind_def r_ok_def)

lemma relay_all: "(\<And>i. send i = None) \<Longrightarrow> relay_log send k (map Inr lines) = (lines, Ok ())"
  by (induction lines arbitrary: k) simp_all


section \<open>A witness\<close>

definition w_logging :: Manager where
  "w_logging = \<lparr>portRangeMin = 10, portRangeMax = 20, processes = [(''p'', 0)],
     availablePorts = \<lparr>base = 10, bsize = 11, start = 0, data = {0..<11}\<rparr>, logsDir = ''/log'',
     heap = [new_process ''u'' \<lparr>psName = ''p'', psBinary = ''/bin/p'', psArgs = [], psPortCount = 0, psPortArgs = []\<rparr>]\<rparr>"

definition w_log_end :: log_state where
  "w_log_end = \<lparr>lsLines = [], lsReader = ReaderDone, lsHandler = Returned (Ok ()), lsSent = [''a''], lsSends = 1, lsFileOpen = False\<rparr>"

definition w_log_server :: "Manager pm_stub \<Rightarrow> Manager V2DataEngineInstanceOps \<Rightarrow> Manager Server" where
  "w_log_server stub v2 = \<lparr>srvV1 = \<lparr>v1ProcessManagerServiceAddress = ''localhost:8500'',
     v1Stub = stub\<lparr>stub_connect := (\<lambda>_. r_ok ()),
       stub_ProcessLog := (\<lambda>name pm. (pm, Ok (manager_log pm name [''a''] w_log_end)))\<rparr>\<rparr>,
     srvV2 = v2, srvV2DataEngineEnabled = True\<rparr>"

lemma w_log_end_reach: "log_reach (\<lambda>i. None) [''a''] w_log_end"
proof -
  let ?r = "log_reach (\<lambda>i. None) [''a'']"
  have "?r \<lparr>lsLines = [], lsReader = AtSelect ''a'', lsHandler = Receiving, lsSent = [], lsSends = 0, lsFileOpen = True\<rparr>"
    using log_reach.log_next[OF log_reach.log_init log_step.scan[of "StreamLog [''a'']" "''a''" "[]"]] by (simp add: StreamLog_def)
  from log_reach.log_next[OF this log_step.select_default[of _ "''a''"]]
  have "?r \<lparr>lsLines = [], lsReader = AtSend ''a'', lsHandler = Receiving, lsSent = [], lsSends = 0, lsFileOpen = True\<rparr>" by simp
  from log_reach.log_next[OF this log_step.hand_over[of _ "''a''"]]
  have "?r \<lparr>lsLines = [], lsReader = AtScan, lsHandler = Sending ''a'', lsSent = [], lsSends = 0, lsFileOpen = True\<rparr>" by simp
  from log_reach.log_next[OF this log_step.send_ok[of _ "''a''"]]
  have "?r \<lparr>lsLines = [], lsReader = AtScan, lsHandler = Receiving, lsSent = [''a''], lsSends = 1, lsFileOpen = True\<rparr>" by simp
  from log_reach.log_next[OF this log_step.scan_end]
  have "?r \<lparr>lsLines = [], lsReader = ReaderDone, lsHandler = Receiving, lsSent = [''a''], lsSends = 1, lsFileOpen = False\<rparr>" by simp
  from log_reach.log_next[OF this log_step.drained] show ?thesis by (simp add: w_log_end_def)
qed


end
