(* ===== verification/Spec2Isabelle.thy ===== *)
theory Spec2Isabelle
  imports Manager_Witnesses Instance_Witnesses Instance_Client_Log Watch_Group Process_Log Disk_Client Proxy_Witnesses
    Shutdown_Witnesses Daemon_Group Command_Line Client_Streams
begin

text \<open>
  \<^bold>\<open>Longhorn instance manager.\<close> The instance manager runs on every node of a Longhorn cluster. It starts
  and stops the engine and replica programs of the V1 data engine, talks to the SPDK service for the V2 data
  engine, and serves both to the cluster over gRPC. Its parts under \<^verbatim>\<open>src/\<close>, and the theories that model them:

  \<^item> \<^verbatim>\<open>pkg/process\<close>, the process manager: a map of named processes, each a command with ports from a
    shared range, a log and two or three goroutines. \<open>Port_Bitmap\<close> is the allocator of port ranges
    (\<^verbatim>\<open>go-common-libs/bitmap\<close>, 32-bit arithmetic), \<open>Command\<close> the command, \<open>Process\<close> one process,
    \<open>Process_Manager\<close> the state and its critical sections, \<open>Manager_Steps\<close> the handlers and goroutines as
    threads that interleave, \<open>Registry\<close> what all of this promises, as an abstract system, and \<open>Manager_Refinement\<close>
    that the threads keep to it; \<open>Process_Log\<close> is the log stream and the watch, \<open>Health_Checker\<close> the polling of
    a started process.
  \<^item> \<^verbatim>\<open>pkg/instance\<close>, the instance service: one interface for the processes of the V1 engine and the
    replicas, engines, frontends, shards and shard groups of the V2 engine. \<open>Instance_Types\<close> has the
    messages and the client of the process manager, \<open>Instance\<close> the handlers, \<open>Instance_Watch\<close> the watch
    loops, \<open>Watch_Group\<close> the goroutines of \<^verbatim>\<open>InstanceWatch\<close> (and of \<^verbatim>\<open>SPDKBackingImageWatch\<close>) as steps that
    interleave, \<open>Instance_Client\<close> and \<open>Instance_Client_Log\<close> the client (\<^verbatim>\<open>pkg/client/instance.go\<close>,
    \<^verbatim>\<open>pkg/api/instance.go\<close>).
  \<^item> \<^verbatim>\<open>pkg/disk\<close>, the disk service over SPDK: \<open>Disk\<close>, and \<open>Disk_Client\<close> for \<^verbatim>\<open>pkg/client/disk.go\<close>.
  \<^item> \<^verbatim>\<open>pkg/proxy\<close>, the proxy for operations on volumes: \<open>Proxy_Env\<close> (the environment a caller may set),
    \<open>Proxy_Types\<close> (messages, clients and dispatch), \<open>Proxy_Backup\<close>, \<open>Proxy_Volume\<close> (volumes, metrics and
    replicas), \<open>Proxy_Snapshot\<close> and \<open>Backing_Image\<close>. \<open>Proxy_Client\<close> and \<open>Proxy_Client_Calls\<close> are its client
    (\<^verbatim>\<open>pkg/client/proxy*.go\<close>), and \<open>Proxy_End_To_End\<close> connects the two.
  \<^item> \<^verbatim>\<open>app/cmd\<close>, the program: \<open>Daemon\<close> is \<^verbatim>\<open>start\<close> up to the point where it serves (flags, addresses, TLS, the
    five servers and how they are connected), \<open>Daemon_Group\<close> the goroutines that serve until a signal and stop together,
    \<open>Shutdown\<close> the \<^verbatim>\<open>cleanup\<close> of the process manager beside the threads of \<open>Manager_Steps\<close>, \<open>Process_Command\<close> the
    commands for processes and versions, \<open>Command_Line\<close> the tables of commands and flags (\<^verbatim>\<open>main.go\<close> too) and how
    the vendored \<^verbatim>\<open>urfave/cli\<close> reads the arguments by them.
  \<^item> \<^verbatim>\<open>pkg/health\<close>, the answers to the gRPC health protocol: \<open>Health_Probe\<close>.
  \<^item> \<^verbatim>\<open>pkg/client\<close>, what the clients share: \<open>Connection\<close> has endpoints, TLS configurations (\<^verbatim>\<open>pkg/util/grpcutil.go\<close>),
    constructors and closing, \<open>Client_Streams\<close> the streams (\<^verbatim>\<open>pkg/api\<close>) and the check of a connection.
  \<^item> \<^verbatim>\<open>pkg/util\<close>, \<^verbatim>\<open>pkg/types\<close>, \<^verbatim>\<open>pkg/meta\<close>: \<open>IM_Util\<close>, \<open>IM_Types\<close>, \<open>Broadcaster\<close>, and \<open>Log_File\<close> for the place
    of a log.

  \<open>IM_Prelude\<close> has Go's results (a value, an error, a panic, no return), its error values with the gRPC
  status they carry, and the wrap-around of 32 and 64 bits; \<open>Go_Strings\<close> the functions of Go's string
  packages; \<open>Remote\<close> calls to a service whose state is a type variable.

  \<^bold>\<open>Correspondence.\<close> A Go struct is a record, a pointer to a process an index into the heap of the
  manager, a mutex-protected block one step. A handler that calls services is a function from the state of
  the services to that state and a result; several services are fields of a client record, so that every
  theorem holds for whatever they answer. A map whose order of iteration Go leaves open is an association
  list in the order of that walk, and a theorem about it holds for every order. Log output and the closing of
  connections whose error is only logged are left out (\<open>ask_replica\<close> of \<open>Proxy_Snapshot\<close> keeps the one
  whose error is used).

  \<^bold>\<open>Interfaces.\<close> \<open>Port_Allocator\<close> states what the manager needs of its allocator as a locale, proves the
  accounting of owned ranges there once, and shows that the bitmap keeps the laws. \<open>refinement_mapping\<close> of \<open>Registry\<close>
  is a detailed system over an abstract one, here the threads of the process manager over the registry. \<open>engine_server\<close> of
  \<open>Remote\<close> is what the handlers share that dispatch on the data engine, \<open>watcher\<close> of \<open>Instance_Watch\<close> the
  contract of the watch loops, \<open>health_service\<close> of \<open>Health_Probe\<close> the one of the five health services, \<open>disk_handler\<close> of \<open>Disk\<close> the one of the seven disk handlers, and \<open>proxy_method\<close>
  of \<open>Proxy_Client_Calls\<close> the one of the methods of the proxy's client; each is interpreted on the definitions
  of the model.

  \<^bold>\<open>What the lemmas show.\<close>
  \<^item> Ports: in every run no two processes share a port and none is lost (\<open>Manager_Properties\<close>); the
    allocator returns a free range or reports an error for a reason (\<open>Port_Bitmap\<close>).
  \<^item> Requests of the process manager: what create, delete and replace do on every branch, that a failure
    leaves no trace, that a deletion never removes a replacement, that the state stays well formed, that runs end and
    never deadlock, and that every interleaving is a run of the abstract registry (\<open>Manager_Refinement\<close>).
  \<^item> The command line: what \<^verbatim>\<open>process create\<close> is given is what it asks for, whatever characters that has, and what
    becomes of a comma in a port argument (\<open>Command_Line\<close>).
  \<^item> The daemon: its parts dial each other where they listen, TLS is on for all or for none and keeps strangers out
    (\<open>Daemon\<close>, \<open>Connection\<close>); when one server ends all do, and the shutdown ends and frees every port (\<open>Daemon_Group\<close>,
    \<open>Shutdown\<close>); a log stays in its directory (\<open>Log_File\<close>).
  \<^item> Streams: what a subscriber of the broadcaster receives, that log lines arrive complete and in order,
    that a group of watch goroutines winds down once it is cancelled, and when it does not.
  \<^item> Instance, disk: client and server together call the right service once with the fields of the
    request, and what the service knows arrives at the client, logs included; wrong requests are refused before any call.
  \<^item> Proxy: no request changes an environment variable outside the allowlist; the status of a backup
    and of a clone are found independently of the order of the replicas; an unreachable frontend does not hide
    a volume; the errors of a restore and the backing images of a node arrive at the client; the client never
    reverts a volume to its head.
  \<^item> Runs and inputs on which the code does something its comments or messages deny are theorems as well
    (\<open>running_after_failure\<close>, \<open>orphan_on_free_ports\<close>, \<open>allocate_misses_run\<close>, \<open>slow_subscriber_gap\<close>,
    \<open>log_send_error_hangs\<close>, \<open>watch_counts_all_failures\<close>, \<open>disk_replicas_any_disk\<close>, \<open>env_partially_set\<close>,
    \<open>frontend_name_not_asked\<close>, \<open>watch_group_hangs\<close>, \<open>health_watch_never_ends\<close>, \<open>listen_protocol_refused\<close>,
    \<open>port_args_split_early\<close>, the second part of \<open>log_path_contained\<close>).

  \<^bold>\<open>Bounds.\<close> The waiting loops carry the number of rounds of the code (\<^verbatim>\<open>WaitCount\<close> 600, 30 for a
  replacement); no fuel is used. A cancelled group of \<open>n\<close> watch loops has at most \<open>4 n + 1028\<close> steps left: 1024 is
  the room of its channel. A shutdown of \<open>n\<close> processes takes at most \<open>8 n + 602\<close> steps of its own, the goroutines of
  \<open>n\<close> servers at most \<open>5 n + 5\<close> after a signal. The search of the bitmap is a recursion that ends because its iterator
  shrinks. Loops that may not end (a log that cannot be sent) are transition systems, and that they end
  or do not is a theorem.

  \<^bold>\<open>Not modelled.\<close> What the program does not use of the command line library (completion, default commands,
  grouped short options, required flags) and its help pages, the text of JSON (a parameter), the server of the profiler,
  dialing, deadlines and handshakes (the gRPC and TLS libraries), goroutines that only log the end of their context, the
  setting of the format of log lines, declarations of interfaces that only list methods, and files that only import drivers.
\<close>

section \<open>From the client to the process manager\<close>

text \<open>The process manager behind the connection of the instance service.\<close>

definition manager_get :: "string \<Rightarrow> (Manager, ProcessResponse) remote" where
  "manager_get name = over_wire (\<lambda>pm. (pm, ProcessGet pm name))"

definition w_registered :: Manager where
  "w_registered = w_mgr\<lparr>processes := [(''p'', 0)], heap := [new_process ''u'' (w_spec ''p'' ''/bin/p'' 0)]\<rparr>"

definition w_front :: "Manager pm_stub \<Rightarrow> Manager V2DataEngineInstanceOps \<Rightarrow> Manager Server" where
  "w_front stub v2 = \<lparr>srvV1 = \<lparr>v1ProcessManagerServiceAddress = ''localhost:8500'',
     v1Stub = stub\<lparr>stub_connect := (\<lambda>_. r_ok ()), stub_ProcessGet := manager_get\<rparr>\<rparr>, srvV2 = v2, srvV2DataEngineEnabled = True\<rparr>"

text \<open>
  C23: A client that asks for a V1 instance reads the process manager's map and changes nothing: for a
  registered process it gets its name, state, error, conditions, UUID, ports, binary and arguments as they are at
  that moment (and the ports once more as target ports for an engine), and for any other name an error with the
  status NotFound, which survives both connections.
\<close>

theorem instance_get_end_to_end:
  fixes srv :: "Manager Server"
  assumes "name \<noteq> ''''" "\<not> has_suffix (strings_ToLower engine) ''v2''"
    and "stub_connect (v1Stub (srvV1 srv)) (''tcp://'' @ v1ProcessManagerServiceAddress (srvV1 srv)) pm = (pm, Ok ())"
    and "stub_ProcessGet (v1Stub (srvV1 srv)) = manager_get"
  shows "case findProcess pm name of
      None \<Rightarrow> (\<exists>e. client_InstanceGet (server_stub srv) engine name t pm = (pm, Err e) \<and> status_code e = NotFound)
    | Some q \<Rightarrow> (\<exists>i. client_InstanceGet (server_stub srv) engine name t pm = (pm, Ok i)
        \<and> aiName i = pName (obj pm q) \<and> aiType i = t
        \<and> aisState (aiInstanceStatus i) = State_string (pState (obj pm q))
        \<and> aisErrorMsg (aiInstanceStatus i) = pErrorMsg (obj pm q) \<and> aisUUID (aiInstanceStatus i) = pUUID (obj pm q)
        \<and> aisConditions (aiInstanceStatus i) = pConditions (obj pm q)
        \<and> (aisPortStart (aiInstanceStatus i), aisPortEnd (aiInstanceStatus i)) = (pPortStart (obj pm q), pPortEnd (obj pm q))
        \<and> (aisTargetPortStart (aiInstanceStatus i), aisTargetPortEnd (aiInstanceStatus i))
            = (if t = InstanceTypeEngine then (pPortStart (obj pm q), pPortEnd (obj pm q)) else (0, 0))
        \<and> aiInstanceProccessSpec i = Some \<lparr>aipBinary = pBinary (obj pm q), aipArgs = pArgs (obj pm q)\<rparr>)"
proof -
  have "client_InstanceGet (server_stub srv) engine name t pm =
    (case ProcessGet pm name of
       Ok p \<Rightarrow> (pm, Ok (RPCToInstance (processResponseToInstanceResponse p t)))
     | Err e \<Rightarrow> (pm, Err (WrapError (''failed to get instance '' @ name) (wire_error (wire_error e))))
     | Panic \<Rightarrow> (pm, Panic) | Diverge \<Rightarrow> (pm, Diverge))"
    using assms by (simp add: client_InstanceGet_def with_driver_def DataEngine_value_getDataEngine server_stub_def
      over_wire_def InstanceGet_def V1_InstanceGet_def v1_client_connected pmc_ProcessGet_def manager_get_def
      r_map_apply r_map_err_apply split: go_result.splits)
  then show ?thesis
    by (cases "t = InstanceTypeEngine") (simp_all add: ProcessGet_def RPCToInstance_def RPCToInstanceStatus_def
      processResponseToInstanceResponse_def RPCResponse_def zero_spec_def zero_status_def Let_def split: option.splits)
qed

lemma w_registered_find: "findProcess w_registered ''p'' = Some 0" "pName (obj w_registered 0) = ''p''"
  by (simp_all add: w_registered_def findProcess_def new_process_def w_spec_def)

theorem instance_get_end_to_end_witness:
  "\<forall>stub v2. \<exists>i. client_InstanceGet (server_stub (w_front stub v2)) ''v1'' ''p'' ''replica'' w_registered = (w_registered, Ok i)
     \<and> aiName i = ''p''"
proof (intro allI)
  fix stub v2
  have "\<not> has_suffix (strings_ToLower ''v1'') ''v2''" by code_simp
  then show "\<exists>i. client_InstanceGet (server_stub (w_front stub v2)) ''v1'' ''p'' ''replica'' w_registered = (w_registered, Ok i)
     \<and> aiName i = ''p''"
    using instance_get_end_to_end[of "''p''" "''v1''" "w_front stub v2" w_registered "''replica''"]
    by (auto simp: w_registered_find w_front_def)
qed

end
